(* ===== verification/Vswarm_Prelude.thy ===== *)
theory Vswarm_Prelude
  imports Main "HOL-Library.Sublist"
begin

text \<open>
  The parts of Python the sources of vSwarm-u use everywhere: strings (the \<open>in\<close> operator,
  \<open>split\<close>, \<open>join\<close>, \<open>replace\<close>, \<open>strip\<close>, decimal formatting), lists (\<open>enumerate\<close>, indexing
  that raises), the exceptions a script can end with, and truth values of the mixed results
  (\<open>True\<close>, \<open>False\<close>, \<open>None\<close>, a number) that the handlers return. The lemmas below are the
  ones the component theories share; they sit in the collections \<open>py_simps\<close> and \<open>py_intros\<close>.
\<close>

named_theorems py_simps "evaluation rules for the Python primitives"
named_theorems py_intros "introduction rules for the Python primitives"

subsection \<open>Exceptions and results\<close>

datatype py_error =
    IndexError
  | KeyError string
  | AttributeError string
  | NotImplementedError
  | ValueError string
  | TypeError string
  | FileNotFoundError string
  | RuntimeError string
  | NameError string
  | PyException string
  | SystemExit int
  | KeyboardInterrupt
  | Fatal string

type_synonym 'a result = "py_error + 'a"

text \<open>A statement that may raise, followed by the rest of the block.\<close>

definition bind_res :: "'a result \<Rightarrow> ('a \<Rightarrow> 'b result) \<Rightarrow> 'b result" where
  "bind_res r f = (case r of Inl e \<Rightarrow> Inl e | Inr x \<Rightarrow> f x)"

text \<open>Indexing with a non-negative index; an index past the end raises.\<close>

definition py_index :: "'a list \<Rightarrow> nat \<Rightarrow> 'a result" where
  "py_index xs i = (if i < length xs then Inr (xs ! i) else Inl IndexError)"

subsection \<open>Truth values\<close>

datatype py_value = PyNone | PyBool bool | PyInt int

fun truthy :: "py_value \<Rightarrow> bool" where
  "truthy PyNone = False"
| "truthy (PyBool b) = b"
| "truthy (PyInt i) = (i \<noteq> 0)"

subsection \<open>Strings\<close>

text \<open>\<open>pat in s\<close>: contiguous occurrence.\<close>

fun py_in :: "string \<Rightarrow> string \<Rightarrow> bool" where
  "py_in p [] = (p = [])"
| "py_in p (c # s) = (prefix p (c # s) \<or> py_in p s)"

text \<open>\<open>s.split(sep)\<close> for a one-character separator.\<close>

fun py_split :: "char \<Rightarrow> string \<Rightarrow> string list" where
  "py_split sep [] = [[]]"
| "py_split sep (c # cs) =
     (if c = sep then [] # py_split sep cs
      else (case py_split sep cs of [] \<Rightarrow> [[c]] | w # ws \<Rightarrow> (c # w) # ws))"

text \<open>\<open>sep.join(xs)\<close>.\<close>

fun py_join :: "string \<Rightarrow> string list \<Rightarrow> string" where
  "py_join sep [] = []"
| "py_join sep [x] = x"
| "py_join sep (x # y # ys) = x @ sep @ py_join sep (y # ys)"

text \<open>\<open>s.replace(pat, rep)\<close> for a non-empty pattern: leftmost, non-overlapping.\<close>

function py_replace :: "string \<Rightarrow> string \<Rightarrow> string \<Rightarrow> string" where
  "py_replace p r s =
     (if s = [] then []
      else if p \<noteq> [] \<and> prefix p s then r @ py_replace p r (drop (length p) s)
      else hd s # py_replace p r (tl s))"
  by pat_completeness auto
termination
  by (relation "measure (\<lambda>(p, r, s). length s)") (auto simp: prefix_def)

declare py_replace.simps [simp del]

definition py_space :: "char \<Rightarrow> bool" where
  "py_space c \<longleftrightarrow> c \<in> {CHR '' '', CHR 0x09, CHR 0x0A, CHR 0x0B, CHR 0x0C, CHR 0x0D}"

text \<open>\<open>s.strip()\<close>.\<close>

definition py_strip :: "string \<Rightarrow> string" where
  "py_strip s = rev (dropWhile py_space (rev (dropWhile py_space s)))"

abbreviation nl :: string where
  "nl \<equiv> [CHR 0x0A]"

text \<open>\<open>str(i)\<close> and the \<open>{i}\<close> of an f-string.\<close>

fun show_nat :: "nat \<Rightarrow> string" where
  "show_nat n =
     (if n < 10 then [''0123456789'' ! n]
      else show_nat (n div 10) @ [''0123456789'' ! (n mod 10)])"

declare show_nat.simps [simp del]

definition show_int :: "int \<Rightarrow> string" where
  "show_int i = (if i < 0 then CHR ''-'' # show_nat (nat (- i)) else show_nat (nat i))"

text \<open>\<open>int(s)\<close> on the decimal digits that \<open>str\<close> produces.\<close>

definition digit_val :: "char \<Rightarrow> nat" where
  "digit_val c = of_char c - 48"

definition parse_nat :: "string \<Rightarrow> nat" where
  "parse_nat s = foldl (\<lambda>n c. 10 * n + digit_val c) 0 s"

definition parse_int :: "string \<Rightarrow> int" where
  "parse_int s =
     (case s of CHR ''-'' # ds \<Rightarrow> - int (parse_nat ds) | _ \<Rightarrow> int (parse_nat s))"

text \<open>\<open>int(s)\<close> on any text: optional blanks and sign, digits with single underscores between them.\<close>

definition is_digit :: "char \<Rightarrow> bool" where
  "is_digit c \<longleftrightarrow> c \<in> set ''0123456789''"

definition py_int_str :: "string \<Rightarrow> int result" where
  "py_int_str s =
     (let t = py_strip s;
          (neg, u) = (case t of [] \<Rightarrow> (False, []) | c # cs \<Rightarrow>
             if c = CHR ''-'' then (True, cs) else if c = CHR ''+'' then (False, cs) else (False, t));
          parts = py_split (CHR ''_'') u
      in if list_all (\<lambda>p. p \<noteq> [] \<and> list_all is_digit p) parts
         then Inr ((if neg then - 1 else 1) * int (parse_nat (concat parts)))
         else Inl (ValueError s))"

subsection \<open>Lemmas on results and truth values\<close>

lemma bind_res_simps [simp]:
  "bind_res (Inl e) f = Inl e"
  "bind_res (Inr x) f = f x"
  by (simp_all add: bind_res_def)

lemma bind_res_Inr_iff [py_simps]:
  "bind_res r f = Inr y \<longleftrightarrow> (\<exists>x. r = Inr x \<and> f x = Inr y)"
  by (cases r) auto

lemma py_index_hd [py_simps]: "py_index (x # xs) 0 = Inr x"
  by (simp add: py_index_def)

lemma map_filter_append [simp]:
  "List.map_filter f (xs @ ys) = List.map_filter f xs @ List.map_filter f ys"
  by (simp add: List.map_filter_def)

lemma map_filter_map_Some:
  "(\<And>x. f (g x) = Some (h x)) \<Longrightarrow> List.map_filter f (map g xs) = map h xs"
  by (induction xs) (simp_all add: List.map_filter_simps)

lemma map_filter_none: "(\<And>x. x \<in> set xs \<Longrightarrow> f x = None) \<Longrightarrow> List.map_filter f xs = []"
  by (induction xs) (simp_all add: List.map_filter_simps)

subsection \<open>Lemmas on strings\<close>

lemma py_in_iff_sublist: "py_in p s \<longleftrightarrow> sublist p s"
  by (induction s) (auto simp: sublist_Cons_right)

lemma py_in_append [py_intros]: "py_in p s \<Longrightarrow> py_in p (a @ s @ b)"
  by (metis py_in_iff_sublist sublist_appendI sublist_order.order_trans)

lemma py_in_self [simp]: "py_in p p"
  by (simp add: py_in_iff_sublist)

lemma py_in_Nil [simp]: "py_in [] s"
  by (simp add: py_in_iff_sublist)

text \<open>A pattern with a character the text lacks does not occur in it.\<close>

lemma py_in_set: "py_in p s \<Longrightarrow> set p \<subseteq> set s"
  by (auto simp: py_in_iff_sublist sublist_def)

lemma not_py_in_char [py_intros]: "c \<in> set p \<Longrightarrow> c \<notin> set s \<Longrightarrow> \<not> py_in p s"
  by (auto dest: py_in_set)

lemma py_split_not_Nil [simp]: "py_split sep s \<noteq> []"
  by (induction s) (auto split: list.splits)

lemma py_split_no_sep [py_simps]: "sep \<notin> set s \<Longrightarrow> py_split sep s = [s]"
  by (induction s) auto

lemma py_join_Cons_ne: "xs \<noteq> [] \<Longrightarrow> py_join sep (x # xs) = x @ sep @ py_join sep xs"
  by (cases xs) auto

lemma py_join_split: "py_join [sep] (py_split sep s) = s"
proof (induction s)
  case Nil
  then show ?case by simp
next
  case (Cons c s)
  then show ?case
    by (cases "py_split sep s"; cases "tl (py_split sep s)") (auto simp: py_join_Cons_ne)
qed

lemma py_split_append_sep:
  "py_split sep (a @ sep # b) = py_split sep a @ py_split sep b"
proof (induction a)
  case Nil
  then show ?case by simp
next
  case (Cons c a)
  obtain w ws where "py_split sep a = w # ws"
    by (cases "py_split sep a") auto
  with Cons show ?case by simp
qed

text \<open>The last component of a path is what follows its last separator.\<close>

lemma last_py_split_append [py_simps]:
  "sep \<notin> set b \<Longrightarrow> last (py_split sep (a @ sep # b)) = b"
  by (simp add: py_split_append_sep py_split_no_sep)

lemma py_replace_Nil [simp]: "py_replace p r [] = []"
  by (simp add: py_replace.simps)

lemma py_replace_hit:
  "p \<noteq> [] \<Longrightarrow> py_replace p r (p @ s) = r @ py_replace p r s"
  by (simp add: py_replace.simps [of p r "p @ s"])

lemma py_replace_miss:
  "\<not> prefix p (c # s) \<Longrightarrow> py_replace p r (c # s) = c # py_replace p r s"
  by (simp add: py_replace.simps [of p r "c # s"])

text \<open>Text in which the first character of the pattern does not occur is kept as it is.\<close>

lemma py_replace_append_skip [py_simps]:
  "p = c # q \<Longrightarrow> c \<notin> set a \<Longrightarrow> py_replace p r (a @ s) = a @ py_replace p r s"
  by (induction a) (auto simp: py_replace_miss)

lemma py_replace_absent [py_simps]:
  "p = c # q \<Longrightarrow> c \<notin> set a \<Longrightarrow> py_replace p r a = a"
  using py_replace_append_skip [of p c q a r "[]"] by simp

subsection \<open>Decimal numbers\<close>

lemma digit_less_10: "(d::nat) < 10 \<Longrightarrow> d \<in> {0, 1, 2, 3, 4, 5, 6, 7, 8, 9}"
  by auto

lemma digit_char_val: "d < 10 \<Longrightarrow> digit_val (''0123456789'' ! d) = d"
  by (drule digit_less_10) (auto simp: digit_val_def)

lemma digit_char_not_minus: "d < 10 \<Longrightarrow> ''0123456789'' ! d \<noteq> CHR ''-''"
  by (drule digit_less_10) auto

lemma show_nat_ne [simp]: "show_nat n \<noteq> []"
  by (subst show_nat.simps) simp

lemma parse_show_nat [simp]: "parse_nat (show_nat n) = n"
proof (induction n rule: show_nat.induct)
  case (1 n)
  show ?case
  proof (cases "n < 10")
    case True
    then show ?thesis
      by (subst show_nat.simps) (simp add: parse_nat_def digit_char_val)
  next
    case False
    with 1 have "parse_nat (show_nat (n div 10)) = n div 10" by simp
    with False show ?thesis
      by (subst show_nat.simps) (simp add: parse_nat_def digit_char_val)
  qed
qed

lemma show_nat_digits: "c \<in> set (show_nat n) \<Longrightarrow> c \<in> set ''0123456789''"
proof (induction n rule: show_nat.induct)
  case (1 n)
  have d: "''0123456789'' ! (n mod 10) \<in> set ''0123456789''"
    by (rule nth_mem) simp
  show ?case
  proof (cases "n < 10")
    case True
    then have "n mod 10 = n" by simp
    with True d 1 show ?thesis by (auto simp: show_nat.simps [of n])
  next
    case False
    with 1 d show ?thesis by (auto simp: show_nat.simps [of n])
  qed
qed

lemma hd_show_nat_not_minus: "hd (show_nat n) \<noteq> CHR ''-''"
proof -
  have "hd (show_nat n) \<in> set ''0123456789''"
    by (intro show_nat_digits [of _ n] hd_in_set) simp
  then show ?thesis by auto
qed

lemma parse_show_int [simp]: "parse_int (show_int i) = i"
proof (cases "i < 0")
  case True
  then show ?thesis by (simp add: show_int_def parse_int_def)
next
  case False
  obtain d ds where s: "show_nat (nat i) = d # ds"
    by (cases "show_nat (nat i)") auto
  then have "d \<noteq> CHR ''-''" using hd_show_nat_not_minus [of "nat i"] by simp
  then have "parse_int (show_nat (nat i)) = int (parse_nat (show_nat (nat i)))"
    by (auto simp: parse_int_def s split: list.splits char.splits bool.splits)
  with False show ?thesis by (simp add: show_int_def)
qed

lemma show_int_inj: "show_int i = show_int j \<Longrightarrow> i = j"
  by (metis parse_show_int)

lemma show_int_chars: "c \<in> set (show_int i) \<Longrightarrow> c \<in> set ''-0123456789''"
  by (auto simp: show_int_def dest: show_nat_digits split: if_splits)

lemma py_strip_no_space:
  assumes "\<And>c. c \<in> set s \<Longrightarrow> \<not> py_space c"
  shows "py_strip s = s"
proof -
  have "dropWhile py_space s = s" "dropWhile py_space (rev s) = rev s"
    using assms by (metis dropWhile_eq_self_iff hd_in_set set_rev)+
  then show ?thesis by (simp add: py_strip_def)
qed

lemma py_int_str_show [simp]: "py_int_str (show_int i) = Inr i"
proof -
  have digits: "list_all is_digit (show_nat n)" for n
    using show_nat_digits by (auto simp: list_all_iff is_digit_def)
  have u: "py_split (CHR ''_'') (show_nat n) = [show_nat n]" for n
    using show_nat_digits [of "CHR ''_''" n] by (intro py_split_no_sep) auto
  obtain c s where cs: "show_nat (nat i) = c # s" by (cases "show_nat (nat i)") auto
  have "c \<in> set ''0123456789''" using show_nat_digits [of c "nat i"] by (simp add: cs)
  then have c: "c \<noteq> CHR ''-''" "c \<noteq> CHR ''+''" by auto
  have sp: "py_strip (show_int i) = show_int i"
    using show_int_chars [of _ i] by (intro py_strip_no_space) (fastforce simp: py_space_def)
  show ?thesis
  proof (cases "i < 0")
    case True
    with sp show ?thesis by (simp add: py_int_str_def show_int_def Let_def u digits)
  next
    case False
    with sp c digits [of "nat i"] u [of "nat i"] parse_show_nat [of "nat i"] show ?thesis
      by (simp add: py_int_str_def show_int_def Let_def cs)
  qed
qed

end
