(* ===== verification/Skylake_Core.thy ===== *)
theory Skylake_Core
  imports Vswarm_Prelude
begin

text \<open>
  The out-of-order core models of \<open>gem5utils/systems/skylake/core.py\<close>: the eight execution
  ports, the branch predictor tables and the three CPU classes. An instance of a gem5
  object has its own copy of the object-valued parameters of its class, so the assignments
  a CPU class makes to its \<open>fuPool\<close> change that pool only; an assignment through list
  positions raises when a position does not exist. A parameter the class leaves alone is
  \<open>None\<close>.
\<close>

subsection \<open>Execution ports\<close>

datatype op_desc = OpDesc (opClass: string) (opLat: "nat option") (pipelined: "bool option")

record fu_desc =
  opList :: "op_desc list"
  fu_count :: nat

definition port0 :: fu_desc where
  "port0 =
     \<lparr>opList =
       [OpDesc ''IntAlu'' (Some 1) None,
        OpDesc ''IntDiv'' (Some 1) (Some True),
        OpDesc ''FloatDiv'' (Some 12) (Some True),
        OpDesc ''FloatSqrt'' (Some 24) (Some True),
        OpDesc ''FloatAdd'' (Some 4) (Some True),
        OpDesc ''FloatCmp'' (Some 4) (Some True),
        OpDesc ''FloatCvt'' (Some 4) (Some True),
        OpDesc ''FloatMult'' (Some 4) (Some True),
        OpDesc ''FloatMultAcc'' (Some 5) (Some True),
        OpDesc ''SimdAdd'' (Some 1) None,
        OpDesc ''SimdAddAcc'' (Some 1) None,
        OpDesc ''SimdAlu'' (Some 1) None,
        OpDesc ''SimdCmp'' (Some 1) None,
        OpDesc ''SimdShift'' (Some 1) None,
        OpDesc ''SimdShiftAcc'' (Some 1) None,
        OpDesc ''SimdReduceAdd'' (Some 1) None,
        OpDesc ''SimdReduceAlu'' (Some 1) None,
        OpDesc ''SimdReduceCmp'' (Some 1) None,
        OpDesc ''SimdCvt'' (Some 3) (Some True),
        OpDesc ''SimdMisc'' None None,
        OpDesc ''SimdMult'' (Some 4) (Some True),
        OpDesc ''SimdMultAcc'' (Some 4) (Some True),
        OpDesc ''SimdFloatAdd'' (Some 4) (Some True),
        OpDesc ''SimdFloatAlu'' (Some 4) (Some True),
        OpDesc ''SimdFloatCmp'' (Some 4) (Some True),
        OpDesc ''SimdFloatReduceAdd'' (Some 4) (Some True),
        OpDesc ''SimdFloatReduceCmp'' (Some 4) (Some True),
        OpDesc ''SimdFloatCvt'' (Some 4) (Some True),
        OpDesc ''SimdFloatMult'' (Some 4) (Some True),
        OpDesc ''SimdFloatMultAcc'' (Some 4) (Some True),
        OpDesc ''SimdFloatDiv'' (Some 12) (Some True),
        OpDesc ''SimdFloatSqrt'' (Some 20) (Some True)],
      fu_count = 1\<rparr>"

definition port1 :: fu_desc where
  "port1 =
     \<lparr>opList =
       [OpDesc ''IntAlu'' (Some 1) None,
        OpDesc ''IntMult'' (Some 3) (Some True),
        OpDesc ''FloatAdd'' (Some 4) (Some True),
        OpDesc ''FloatCmp'' (Some 4) (Some True),
        OpDesc ''FloatCvt'' (Some 4) (Some True),
        OpDesc ''FloatMult'' (Some 4) (Some True),
        OpDesc ''FloatMultAcc'' (Some 5) (Some True),
        OpDesc ''SimdAdd'' (Some 1) None,
        OpDesc ''SimdAddAcc'' (Some 1) None,
        OpDesc ''SimdAlu'' (Some 1) None,
        OpDesc ''SimdCmp'' (Some 1) None,
        OpDesc ''SimdShift'' (Some 1) None,
        OpDesc ''SimdShiftAcc'' (Some 1) None,
        OpDesc ''SimdReduceAdd'' (Some 1) None,
        OpDesc ''SimdReduceAlu'' (Some 1) None,
        OpDesc ''SimdReduceCmp'' (Some 1) None,
        OpDesc ''SimdCvt'' (Some 3) (Some True),
        OpDesc ''SimdMisc'' None None,
        OpDesc ''SimdMult'' (Some 4) (Some True),
        OpDesc ''SimdMultAcc'' (Some 4) (Some True),
        OpDesc ''SimdFloatAdd'' (Some 4) (Some True),
        OpDesc ''SimdFloatAlu'' (Some 4) (Some True),
        OpDesc ''SimdFloatCmp'' (Some 4) (Some True),
        OpDesc ''SimdFloatReduceAdd'' (Some 4) (Some True),
        OpDesc ''SimdFloatReduceCmp'' (Some 4) (Some True),
        OpDesc ''SimdFloatCvt'' (Some 4) (Some True),
        OpDesc ''SimdFloatMult'' (Some 4) (Some True),
        OpDesc ''SimdFloatMultAcc'' (Some 4) (Some True)],
      fu_count = 1\<rparr>"

definition port2 :: fu_desc where
  "port2 =
     \<lparr>opList =
       [OpDesc ''MemRead'' (Some 1) (Some True),
        OpDesc ''FloatMemRead'' (Some 1) (Some True)],
      fu_count = 1\<rparr>"

definition port3 :: fu_desc where
  "port3 =
     \<lparr>opList =
       [OpDesc ''MemRead'' (Some 1) (Some True),
        OpDesc ''FloatMemRead'' (Some 1) (Some True)],
      fu_count = 1\<rparr>"

definition port4 :: fu_desc where
  "port4 =
     \<lparr>opList =
       [OpDesc ''MemWrite'' (Some 1) (Some True),
        OpDesc ''FloatMemWrite'' (Some 1) (Some True)],
      fu_count = 1\<rparr>"

definition port5 :: fu_desc where
  "port5 =
     \<lparr>opList =
       [OpDesc ''IntAlu'' (Some 1) None,
        OpDesc ''SimdAdd'' (Some 1) None,
        OpDesc ''SimdAddAcc'' (Some 1) None,
        OpDesc ''SimdAlu'' (Some 1) None,
        OpDesc ''SimdCmp'' (Some 1) None,
        OpDesc ''SimdShift'' (Some 1) None,
        OpDesc ''SimdMisc'' None None,
        OpDesc ''SimdShiftAcc'' (Some 1) None,
        OpDesc ''SimdReduceAdd'' (Some 1) None,
        OpDesc ''SimdReduceAlu'' (Some 1) None,
        OpDesc ''SimdReduceCmp'' (Some 1) None,
        OpDesc ''SimdFloatAdd'' (Some 4) (Some True),
        OpDesc ''SimdFloatAlu'' (Some 4) (Some True),
        OpDesc ''SimdFloatCmp'' (Some 4) (Some True),
        OpDesc ''SimdFloatReduceAdd'' (Some 4) (Some True),
        OpDesc ''SimdFloatReduceCmp'' (Some 4) (Some True)],
      fu_count = 1\<rparr>"

definition port6 :: fu_desc where
  "port6 =
     \<lparr>opList =
       [OpDesc ''IntAlu'' (Some 1) None,
        OpDesc ''SimdAdd'' (Some 1) None,
        OpDesc ''SimdAddAcc'' (Some 1) None,
        OpDesc ''SimdAlu'' (Some 1) None,
        OpDesc ''SimdCmp'' (Some 1) None,
        OpDesc ''SimdShift'' (Some 1) None,
        OpDesc ''SimdShiftAcc'' (Some 1) None],
      fu_count = 1\<rparr>"

definition port7 :: fu_desc where
  "port7 =
     \<lparr>opList =
       [OpDesc ''MemWrite'' (Some 1) (Some True),
        OpDesc ''FloatMemWrite'' (Some 1) (Some True)],
      fu_count = 1\<rparr>"


definition ExecUnits :: "fu_desc list" where
  "ExecUnits = [port0, port1, port2, port3, port4, port5, port6, port7]"

text \<open>\<open>fuPool.FUList[i].count = v\<close> and \<open>fuPool.FUList[i].opList[j].opLat = v\<close>.\<close>

definition set_count :: "nat \<Rightarrow> nat \<Rightarrow> fu_desc list \<Rightarrow> fu_desc list result" where
  "set_count i v pool =
     bind_res (py_index pool i) (\<lambda>p. Inr (pool[i := p\<lparr>fu_count := v\<rparr>]))"

definition set_opLat :: "nat \<Rightarrow> nat \<Rightarrow> nat \<Rightarrow> fu_desc list \<Rightarrow> fu_desc list result" where
  "set_opLat i j v pool =
     bind_res (py_index pool i) (\<lambda>p.
       bind_res (py_index (opList p) j) (\<lambda>d.
         Inr (pool[i := p\<lparr>opList := (opList p)[j := OpDesc (opClass d) (Some v) (pipelined d)]\<rparr>])))"

text \<open>A block of such assignments.\<close>

fun assign_all :: "(fu_desc list \<Rightarrow> fu_desc list result) list \<Rightarrow> fu_desc list \<Rightarrow> fu_desc list result" where
  "assign_all [] pool = Inr pool"
| "assign_all (f # fs) pool = bind_res (f pool) (assign_all fs)"

definition tuned_pool :: "fu_desc list result" where
  "tuned_pool = assign_all
     [set_opLat 0 1 2, set_opLat 1 1 2, set_count 2 12, set_count 4 12, set_count 6 3] ExecUnits"

definition unconstrained_pool :: "fu_desc list result" where
  "unconstrained_pool = assign_all
     [set_count 0 4, set_count 1 4, set_count 2 4, set_count 3 4, set_count 4 4, set_count 5 4,
      set_count 6 4, set_count 7 4, set_opLat 0 1 2, set_opLat 1 1 2] ExecUnits"

subsection \<open>Branch prediction\<close>

record indirect_pred =
  indirectSets :: nat
  indirectWays :: nat
  indirectTagSize :: nat
  indirectPathLength :: nat
  indirectGHRBits :: nat

definition IndirectPred :: indirect_pred where
  "IndirectPred = \<lparr>indirectSets = 128, indirectWays = 4, indirectTagSize = 16,
     indirectPathLength = 7, indirectGHRBits = 16\<rparr>"

record ltage =
  nHistoryTables :: nat
  minHist :: nat
  maxHist :: nat
  tagTableTagWidths :: "nat list"
  logTagTableSizes :: "nat list"
  logUResetPeriod :: nat

definition LTAGE_BP :: ltage where
  "LTAGE_BP = \<lparr>nHistoryTables = 12, minHist = 4, maxHist = 34,
     tagTableTagWidths = [0, 7, 7, 8, 8, 9, 10, 11, 12, 12, 13, 14, 15],
     logTagTableSizes = [14, 10, 10, 11, 11, 11, 11, 10, 10, 10, 10, 9, 9],
     logUResetPeriod = 19\<rparr>"

record branch_pred =
  indirectBranchPred :: indirect_pred
  tage :: ltage

definition BranchPred :: branch_pred where
  "BranchPred = \<lparr>indirectBranchPred = IndirectPred, tage = LTAGE_BP\<rparr>"

subsection \<open>The CPU classes\<close>

record o3_cpu =
  branchPred :: branch_pred
  fetchToDecodeDelay :: nat
  decodeToRenameDelay :: nat
  renameToIEWDelay :: nat
  issueToExecuteDelay :: "nat option"
  iewToCommitDelay :: nat
  forwardComSize :: nat
  backComSize :: nat
  fuPool :: "fu_desc list"
  fetchWidth :: nat
  decodeWidth :: nat
  renameWidth :: nat
  dispatchWidth :: nat
  issueWidth :: nat
  wbWidth :: nat
  commitWidth :: nat
  squashWidth :: nat
  fetchBufferSize :: nat
  fetchQueueSize :: nat
  numROBEntries :: nat
  numIQEntries :: nat
  LQEntries :: nat
  SQEntries :: nat
  numPhysIntRegs :: nat
  numPhysFloatRegs :: nat

definition SklVerbatimCPU :: o3_cpu where
  "SklVerbatimCPU =
     (let depth = 3; w = 4
      in \<lparr>branchPred = BranchPred, fetchToDecodeDelay = depth, decodeToRenameDelay = 1,
          renameToIEWDelay = 3 * depth, issueToExecuteDelay = None, iewToCommitDelay = 2 * depth,
          forwardComSize = 19, backComSize = 19, fuPool = ExecUnits,
          fetchWidth = w, decodeWidth = w, renameWidth = 2 * w, dispatchWidth = 2 * w,
          issueWidth = 2 * w, wbWidth = 2 * w, commitWidth = 2 * w, squashWidth = 2 * w,
          fetchBufferSize = 16, fetchQueueSize = 50, numROBEntries = 224, numIQEntries = 97,
          LQEntries = 72, SQEntries = 56, numPhysIntRegs = 180, numPhysFloatRegs = 168\<rparr>)"

definition SklTunedCPU :: "o3_cpu result" where
  "SklTunedCPU =
     bind_res tuned_pool (\<lambda>pool.
       let depth = 3; w = 4
       in Inr \<lparr>branchPred = BranchPred, fetchToDecodeDelay = depth, decodeToRenameDelay = 1,
          renameToIEWDelay = 3 * depth, issueToExecuteDelay = Some 1, iewToCommitDelay = 2 * depth,
          forwardComSize = 19, backComSize = 19, fuPool = pool,
          fetchWidth = w * 2, decodeWidth = w * 2, renameWidth = 3 * w, dispatchWidth = 2 * w,
          issueWidth = 2 * w, wbWidth = 2 * w, commitWidth = 2 * w, squashWidth = 3 * w,
          fetchBufferSize = 16, fetchQueueSize = 64, numROBEntries = 336, numIQEntries = 146,
          LQEntries = 72 * 2, SQEntries = 56 * 2, numPhysIntRegs = 270, numPhysFloatRegs = 252\<rparr>)"

definition UnconstrainedCPU :: "o3_cpu result" where
  "UnconstrainedCPU =
     bind_res unconstrained_pool (\<lambda>pool.
       let depth = 3; w = 32
       in Inr \<lparr>branchPred = BranchPred, fetchToDecodeDelay = depth, decodeToRenameDelay = 2,
          renameToIEWDelay = 3 * depth, issueToExecuteDelay = Some 1, iewToCommitDelay = 2 * depth,
          forwardComSize = 12, backComSize = 12, fuPool = pool,
          fetchWidth = w, decodeWidth = w, renameWidth = w, dispatchWidth = w,
          issueWidth = w, wbWidth = w, commitWidth = w, squashWidth = w,
          fetchBufferSize = 64, fetchQueueSize = 128, numROBEntries = 1024, numIQEntries = 512,
          LQEntries = 256, SQEntries = 224, numPhysIntRegs = 336, numPhysFloatRegs = 256\<rparr>)"

subsection \<open>Reading a pool\<close>

definition runs :: "string \<Rightarrow> fu_desc \<Rightarrow> bool" where
  "runs c p \<longleftrightarrow> list_ex (\<lambda>d. opClass d = c) (opList p)"

text \<open>How many units can execute a class, and with which latencies.\<close>

definition units_for :: "fu_desc list \<Rightarrow> string \<Rightarrow> nat" where
  "units_for pool c = sum_list (map fu_count (filter (runs c) pool))"

definition latencies :: "fu_desc list \<Rightarrow> string \<Rightarrow> nat option list" where
  "latencies pool c =
     remdups (concat (map (\<lambda>p. map opLat (filter (\<lambda>d. opClass d = c) (opList p))) pool))"

definition pool_classes :: "fu_desc list \<Rightarrow> string list" where
  "pool_classes pool = concat (map (\<lambda>p. map opClass (opList p)) pool)"

definition core_sizes :: "o3_cpu \<Rightarrow> nat list" where
  "core_sizes c = [fetchWidth c, decodeWidth c, renameWidth c, dispatchWidth c, issueWidth c, wbWidth c,
     commitWidth c, squashWidth c, fetchBufferSize c, fetchQueueSize c, numROBEntries c,
     numIQEntries c, LQEntries c, SQEntries c, numPhysIntRegs c, numPhysFloatRegs c]"

lemma tuned_pool_value:
  "tuned_pool = Inr [port0\<lparr>opList := (opList port0)[1 := OpDesc ''IntDiv'' (Some 2) (Some True)]\<rparr>,
     port1\<lparr>opList := (opList port1)[1 := OpDesc ''IntMult'' (Some 2) (Some True)]\<rparr>,
     port2\<lparr>fu_count := 12\<rparr>, port3, port4\<lparr>fu_count := 12\<rparr>, port5, port6\<lparr>fu_count := 3\<rparr>, port7]"
  by (simp add: tuned_pool_def ExecUnits_def set_opLat_def set_count_def py_index_def)
    (simp add: port0_def port1_def)

lemma unconstrained_pool_value:
  "unconstrained_pool = Inr
     [port0\<lparr>fu_count := 4, opList := (opList port0)[1 := OpDesc ''IntDiv'' (Some 2) (Some True)]\<rparr>,
      port1\<lparr>fu_count := 4, opList := (opList port1)[1 := OpDesc ''IntMult'' (Some 2) (Some True)]\<rparr>,
      port2\<lparr>fu_count := 4\<rparr>, port3\<lparr>fu_count := 4\<rparr>, port4\<lparr>fu_count := 4\<rparr>, port5\<lparr>fu_count := 4\<rparr>,
      port6\<lparr>fu_count := 4\<rparr>, port7\<lparr>fu_count := 4\<rparr>]"
  by (simp add: unconstrained_pool_def ExecUnits_def set_opLat_def set_count_def py_index_def)
    (simp add: port0_def port1_def)

text \<open>Replacing an operation leaves every other class alone.\<close>

definition latencies_in :: "op_desc list \<Rightarrow> string \<Rightarrow> nat option list" where
  "latencies_in ds c = map opLat (filter (\<lambda>d. opClass d = c) ds)"

lemma latencies_alt: "latencies pool c = remdups (concat (map (\<lambda>p. latencies_in (opList p) c) pool))"
  by (simp add: latencies_def latencies_in_def)

lemma latencies_in_update:
  assumes "opClass (ds ! i) \<noteq> c" and "opClass d \<noteq> c"
  shows "latencies_in (ds[i := d]) c = latencies_in ds c"
  unfolding latencies_in_def using assms
proof (induction ds arbitrary: i)
  case (Cons x ds)
  then show ?case by (cases i) auto
qed simp

lemma replaced_ops: "opClass (opList port0 ! 1) = ''IntDiv''" "opClass (opList port1 ! 1) = ''IntMult''"
  by (simp_all add: port0_def port1_def)

lemma tuned_other_latencies:
  assumes "tuned_pool = Inr pool" and "c \<noteq> ''IntDiv''" and "c \<noteq> ''IntMult''"
  shows "latencies pool c = latencies ExecUnits c"
proof -
  have "latencies_in ((opList port0)[1 := OpDesc ''IntDiv'' (Some 2) (Some True)]) c = latencies_in (opList port0) c"
    "latencies_in ((opList port1)[1 := OpDesc ''IntMult'' (Some 2) (Some True)]) c = latencies_in (opList port1) c"
    using assms(2,3) by (auto intro!: latencies_in_update simp only: replaced_ops op_desc.sel)
  with assms(1) show ?thesis
    by (auto simp: tuned_pool_value latencies_alt ExecUnits_def simp del: One_nat_def)
qed

definition pool_of :: "fu_desc list result \<Rightarrow> fu_desc list" where
  "pool_of r = (case r of Inl _ \<Rightarrow> [] | Inr pool \<Rightarrow> pool)"

abbreviation sample_classes :: "string list" where
  "sample_classes \<equiv> [''IntAlu'', ''IntMult'', ''IntDiv'', ''FloatAdd'', ''SimdAdd'', ''MemRead'', ''MemWrite'']"

lemma units_values:
  "map (units_for ExecUnits) sample_classes = [4, 1, 1, 2, 4, 2, 2]"
  "map (units_for (pool_of tuned_pool)) sample_classes = [6, 1, 1, 2, 6, 13, 13]"
  "map (units_for (pool_of unconstrained_pool)) sample_classes = [16, 4, 4, 8, 16, 8, 8]"
  by code_simp+

lemma latency_values:
  "latencies (pool_of tuned_pool) ''IntDiv'' = [Some 2]" "latencies (pool_of tuned_pool) ''IntMult'' = [Some 2]"
  "latencies ExecUnits ''IntDiv'' = [Some 1]" "latencies ExecUnits ''IntMult'' = [Some 3]"
  by code_simp+

lemma tuned_classes:
  "map (\<lambda>p. map opClass (opList p)) (pool_of tuned_pool) = map (\<lambda>p. map opClass (opList p)) ExecUnits"
  by code_simp

subsection \<open>Properties\<close>

text \<open>
  The tuned core differs from the documented one as its comments say: the assignments
  through list positions succeed, the classes on every port stay the same, integer division
  and multiplication get latency 2, no other class changes its latency, and the units per
  class are those of the documented core except for 13 instead of 2 load and store units
  and two more units on port 6.
\<close>

theorem tuned_pool_changes:
  "\<exists>pool. tuned_pool = Inr pool \<and>
    map (\<lambda>p. map opClass (opList p)) pool = map (\<lambda>p. map opClass (opList p)) ExecUnits \<and>
    latencies pool ''IntDiv'' = [Some 2] \<and> latencies pool ''IntMult'' = [Some 2] \<and>
    latencies ExecUnits ''IntDiv'' = [Some 1] \<and> latencies ExecUnits ''IntMult'' = [Some 3] \<and>
    (\<forall>c. c \<noteq> ''IntDiv'' \<and> c \<noteq> ''IntMult'' \<longrightarrow> latencies pool c = latencies ExecUnits c) \<and>
    map (units_for ExecUnits) sample_classes = [4, 1, 1, 2, 4, 2, 2] \<and>
    map (units_for pool) sample_classes = [6, 1, 1, 2, 6, 13, 13]"
proof -
  obtain pool where p: "tuned_pool = Inr pool" using tuned_pool_value by blast
  have "pool_of tuned_pool = pool" unfolding pool_of_def p by simp
  with p units_values(1,2) latency_values tuned_classes tuned_other_latencies [OF p] show ?thesis
    by (intro exI [of _ pool] conjI allI impI) (simp_all only: simp_thms)
qed

theorem tuned_pool_changes_witness:
  "\<exists>pool. tuned_pool = Inr pool \<and> latencies pool ''FloatDiv'' = latencies ExecUnits ''FloatDiv''"
proof -
  from tuned_pool_changes obtain pool where p: "tuned_pool = Inr pool"
    and l: "\<forall>c. c \<noteq> ''IntDiv'' \<and> c \<noteq> ''IntMult'' \<longrightarrow> latencies pool c = latencies ExecUnits c"
    by (elim exE conjE) (rule that)
  have "latencies pool ''FloatDiv'' = latencies ExecUnits ''FloatDiv''"
    by (rule l [rule_format]) simp
  with p show ?thesis by (intro exI [of _ pool] conjI)
qed

text \<open>
  Branch predictor tables: the tag widths and table sizes have one entry for each
  history table and one for the base predictor, the history lengths are ordered, the tag
  widths never decrease from table to table, and every CPU class uses these tables.
\<close>

theorem ltage_tables_consistent:
  "length (tagTableTagWidths LTAGE_BP) = nHistoryTables LTAGE_BP + 1 \<and>
   length (logTagTableSizes LTAGE_BP) = nHistoryTables LTAGE_BP + 1 \<and>
   minHist LTAGE_BP < maxHist LTAGE_BP \<and> sorted (tagTableTagWidths LTAGE_BP) \<and>
   tage (branchPred SklVerbatimCPU) = LTAGE_BP \<and>
   (\<exists>t u. SklTunedCPU = Inr t \<and> UnconstrainedCPU = Inr u \<and>
      tage (branchPred t) = LTAGE_BP \<and> tage (branchPred u) = LTAGE_BP)"
proof -
  have "\<exists>t u. SklTunedCPU = Inr t \<and> UnconstrainedCPU = Inr u \<and>
      tage (branchPred t) = LTAGE_BP \<and> tage (branchPred u) = LTAGE_BP"
    by (simp add: SklTunedCPU_def UnconstrainedCPU_def BranchPred_def tuned_pool_value
        unconstrained_pool_value Let_def)
  then show ?thesis by (simp add: LTAGE_BP_def BranchPred_def SklVerbatimCPU_def Let_def)
qed

text \<open>
  Core sizing: in every stage width, queue, buffer and register file the tuned core is at
  least as large as the documented one and the unconstrained core at least as large as the
  tuned one; only in load and store units the unconstrained core is smaller, 8 against 13.
\<close>

theorem core_sizes_ordered:
  "\<exists>t u. SklTunedCPU = Inr t \<and> UnconstrainedCPU = Inr u \<and>
    list_all2 (\<le>) (core_sizes SklVerbatimCPU) (core_sizes t) \<and>
    list_all2 (\<le>) (core_sizes t) (core_sizes u) \<and>
    map (units_for (fuPool t)) [''MemRead'', ''MemWrite''] = [13, 13] \<and>
    map (units_for (fuPool u)) [''MemRead'', ''MemWrite''] = [8, 8]"
proof -
  obtain p q where p: "tuned_pool = Inr p" and q: "unconstrained_pool = Inr q"
    using tuned_pool_value unconstrained_pool_value by blast
  have "pool_of tuned_pool = p" "pool_of unconstrained_pool = q" unfolding pool_of_def p q by simp_all
  with units_values(2,3) show ?thesis
    by (simp add: SklVerbatimCPU_def SklTunedCPU_def UnconstrainedCPU_def core_sizes_def p q Let_def)
qed

end
