(* ===== verification/Argparse.thy ===== *)
theory Argparse
  imports Vswarm_Prelude
begin

text \<open>
  The part of Python's \<open>argparse\<close> that the command lines of the sources rely on: options that
  store one string or integer, flags, one required positional argument, \<open>choices\<close>, the
  automatic \<open>-h\<close>/\<open>--help\<close>, the forms \<open>--opt value\<close>, \<open>--opt=value\<close>, \<open>-o value\<close>, \<open>-ovalue\<close>
  and joined short flags, unambiguous abbreviations of long options, \<open>--\<close>, and values that look
  like negative numbers (the rules of CPython 3.8 to 3.11). A usage error is \<open>SystemExit 2\<close>,
  the help text is \<open>SystemExit 0\<close>. The locale \<open>arg_parser\<close> holds what every well-formed parser
  of the repository guarantees; \<open>Command_Lines\<close> interprets it for each of them.
\<close>

subsection \<open>Arguments of a parser\<close>

datatype arg_value = ANone | AStr string | AInt int | ABool bool

datatype arg_type = TStr | TInt

datatype arg_action = Store | Store_true | Show_help

record arg_spec =
  option_strings :: "string list"
  arg_dest :: string
  arg_act :: arg_action
  arg_typ :: arg_type
  arg_default :: arg_value
  arg_choices :: "string list option"

type_synonym parser = "arg_spec list"

text \<open>The attribute of an option: its first long option string, \<open>-\<close> as \<open>_\<close>.\<close>

definition dest_of :: "string list \<Rightarrow> string" where
  "dest_of os =
     (let opt = (case filter (prefix ''--'') os of [] \<Rightarrow> hd os | l # _ \<Rightarrow> l)
      in map (\<lambda>c. if c = CHR ''-'' then CHR ''_'' else c) (dropWhile (\<lambda>c. c = CHR ''-'') opt))"

definition str_option :: "string list \<Rightarrow> arg_value \<Rightarrow> string list option \<Rightarrow> arg_spec" where
  "str_option os d ch = \<lparr>option_strings = os, arg_dest = dest_of os, arg_act = Store, arg_typ = TStr,
     arg_default = d, arg_choices = ch\<rparr>"

definition int_option :: "string list \<Rightarrow> int \<Rightarrow> arg_spec" where
  "int_option os d = \<lparr>option_strings = os, arg_dest = dest_of os, arg_act = Store, arg_typ = TInt,
     arg_default = AInt d, arg_choices = None\<rparr>"

definition flag_option :: "string list \<Rightarrow> arg_spec" where
  "flag_option os = \<lparr>option_strings = os, arg_dest = dest_of os, arg_act = Store_true, arg_typ = TStr,
     arg_default = ABool False, arg_choices = None\<rparr>"

definition str_positional :: "string \<Rightarrow> arg_spec" where
  "str_positional d = \<lparr>option_strings = [], arg_dest = d, arg_act = Store, arg_typ = TStr,
     arg_default = ANone, arg_choices = None\<rparr>"

definition help_option :: arg_spec where
  "help_option = \<lparr>option_strings = [''-h'', ''--help''], arg_dest = ''help'', arg_act = Show_help,
     arg_typ = TStr, arg_default = ANone, arg_choices = None\<rparr>"

definition find_option :: "parser \<Rightarrow> string \<Rightarrow> arg_spec option" where
  "find_option p s = List.find (\<lambda>a. s \<in> set (option_strings a)) p"

subsection \<open>Which tokens are options\<close>

datatype arg_class = Arg string | Dashes | Opt "arg_spec option" string "string option"

definition split_eq :: "string \<Rightarrow> string \<times> string option" where
  "split_eq s =
     (case dropWhile (\<lambda>c. c \<noteq> CHR ''='') s of
        [] \<Rightarrow> (s, None) | _ # v \<Rightarrow> (takeWhile (\<lambda>c. c \<noteq> CHR ''='') s, Some v))"

text \<open>The options an abbreviation or a short option with its value can stand for.\<close>

definition option_tuples :: "parser \<Rightarrow> string \<Rightarrow> (arg_spec \<times> string \<times> string option) list" where
  "option_tuples p s =
     (if prefix ''--'' s
      then (let (q, v) = split_eq s
            in concat (map (\<lambda>a. map (\<lambda>f. (a, f, v)) (filter (prefix q) (option_strings a))) p))
      else concat (map (\<lambda>a. concat (map (\<lambda>f.
              if f = take 2 s then [(a, f, Some (drop 2 s))]
              else if prefix s f then [(a, f, None)] else []) (option_strings a))) p))"

text \<open>The pattern \<open>^-\d+$|^-\d*\.\d+$\<close>; the \<open>$\<close> also matches before a final newline.\<close>

definition negative_number :: "string \<Rightarrow> bool" where
  "negative_number s =
     (let t = (if s \<noteq> [] \<and> last s = CHR 0x0A then butlast s else s); u = tl t;
          frac = dropWhile is_digit u
      in t \<noteq> [] \<and> hd t = CHR ''-'' \<and>
         (u \<noteq> [] \<and> frac = [] \<or>
          frac \<noteq> [] \<and> hd frac = CHR ''.'' \<and> tl frac \<noteq> [] \<and> list_all is_digit (tl frac)))"

definition abbreviated :: "parser \<Rightarrow> string \<Rightarrow> arg_class result" where
  "abbreviated p s =
     (case option_tuples p s of
        [(a, f, v)] \<Rightarrow> Inr (Opt (Some a) f v)
      | _ # _ # _ \<Rightarrow> Inl (SystemExit 2)
      | [] \<Rightarrow> if negative_number s \<or> CHR '' '' \<in> set s then Inr (Arg s) else Inr (Opt None s None))"

definition parse_optional :: "parser \<Rightarrow> string \<Rightarrow> arg_class result" where
  "parse_optional p s =
     (if s = [] \<or> hd s \<noteq> CHR ''-'' then Inr (Arg s)
      else (case find_option p s of
          Some a \<Rightarrow> Inr (Opt (Some a) s None)
        | None \<Rightarrow>
            (if length s = 1 then Inr (Arg s)
             else (case split_eq s of
                 (q, Some v) \<Rightarrow>
                   (case find_option p q of
                      Some a \<Rightarrow> Inr (Opt (Some a) q (Some v))
                    | None \<Rightarrow> abbreviated p s)
               | (q, None) \<Rightarrow> abbreviated p s))))"

fun classify :: "parser \<Rightarrow> string list \<Rightarrow> arg_class list result" where
  "classify p [] = Inr []"
| "classify p (s # ss) =
     (if s = ''--'' then Inr (Dashes # map Arg ss)
      else bind_res (parse_optional p s) (\<lambda>c. bind_res (classify p ss) (\<lambda>cs. Inr (c # cs))))"

subsection \<open>Taking the tokens in order\<close>

type_synonym namespace = "string \<rightharpoonup> arg_value"

definition get_value :: "arg_spec \<Rightarrow> string \<Rightarrow> arg_value result" where
  "get_value a v =
     (case arg_typ a of
        TInt \<Rightarrow> (case py_int_str v of Inl _ \<Rightarrow> Inl (SystemExit 2) | Inr i \<Rightarrow> Inr (AInt i))
      | TStr \<Rightarrow> (case arg_choices a of
                   None \<Rightarrow> Inr (AStr v)
                 | Some ch \<Rightarrow> if v \<in> set ch then Inr (AStr v) else Inl (SystemExit 2)))"

definition store_value :: "arg_spec \<Rightarrow> string \<Rightarrow> namespace \<Rightarrow> namespace result" where
  "store_value a v ns = bind_res (get_value a v) (\<lambda>x. Inr (ns(arg_dest a \<mapsto> x)))"

definition take_flag :: "arg_spec \<Rightarrow> namespace \<Rightarrow> namespace result" where
  "take_flag a ns =
     (case arg_act a of Show_help \<Rightarrow> Inl (SystemExit 0) | _ \<Rightarrow> Inr (ns(arg_dest a \<mapsto> ABool True)))"

fun take_flags :: "arg_spec list \<Rightarrow> namespace \<Rightarrow> namespace result" where
  "take_flags [] ns = Inr ns"
| "take_flags (a # as) ns = bind_res (take_flag a ns) (take_flags as)"

text \<open>
  A flag given with a value: for a short flag the letters of the value are further short
  options, the last of which may take the rest as its own value.
\<close>

fun flag_chain :: "parser \<Rightarrow> arg_spec \<Rightarrow> string \<Rightarrow> (arg_spec list \<times> arg_spec \<times> string option) result" where
  "flag_chain p a [] = Inl (SystemExit 2)"
| "flag_chain p a (c # cs) =
     (case find_option p [CHR ''-'', c] of
        None \<Rightarrow> Inl (SystemExit 2)
      | Some b \<Rightarrow>
          if cs = [] then Inr ([a], b, None)
          else if arg_act b = Store then Inr ([a], b, Some cs)
          else bind_res (flag_chain p b cs) (\<lambda>(fs, l, v). Inr (a # fs, l, v)))"

definition option_group :: "parser \<Rightarrow> arg_spec \<Rightarrow> string \<Rightarrow> string option
    \<Rightarrow> (arg_spec list \<times> arg_spec \<times> string option) result" where
  "option_group p a f v =
     (case v of
        None \<Rightarrow> Inr ([], a, None)
      | Some w \<Rightarrow>
          if arg_act a = Store then Inr ([], a, Some w)
          else if prefix ''--'' f then Inl (SystemExit 2)
          else flag_chain p a w)"

text \<open>The last option of a group takes its own value or, if it needs one, the next token.\<close>

definition last_option :: "arg_spec \<Rightarrow> string option \<Rightarrow> arg_class list
    \<Rightarrow> ((namespace \<Rightarrow> namespace result) \<times> bool) result" where
  "last_option a v cs =
     (if arg_act a = Store
      then (case (v, cs) of
              (Some w, _) \<Rightarrow> Inr (store_value a w, False)
            | (None, Arg w # _) \<Rightarrow> Inr (store_value a w, True)
            | _ \<Rightarrow> Inl (SystemExit 2))
      else Inr (take_flag a, False))"

function consume :: "parser \<Rightarrow> arg_class list \<Rightarrow> arg_spec list \<Rightarrow> bool \<Rightarrow> namespace \<Rightarrow> namespace result" where
  "consume p [] pos extras ns = (if pos \<noteq> [] \<or> extras then Inl (SystemExit 2) else Inr ns)"
| "consume p (Dashes # cs) pos extras ns =
     consume p cs pos (extras \<or> filter (\<lambda>a. option_strings a = []) p = []) ns"
| "consume p (Arg s # cs) pos extras ns =
     (case pos of
        [] \<Rightarrow> consume p cs [] True ns
      | a # pos \<Rightarrow> bind_res (store_value a s ns) (consume p cs pos extras))"
| "consume p (Opt None s v # cs) pos extras ns = consume p cs pos True ns"
| "consume p (Opt (Some a) s v # cs) pos extras ns =
     bind_res (option_group p a s v) (\<lambda>(fs, l, w).
     bind_res (last_option l w cs) (\<lambda>(act, next).
     bind_res (take_flags fs ns) (\<lambda>ns.
     bind_res (act ns) (consume p (if next then tl cs else cs) pos extras))))"
  by pat_completeness auto
termination
  by (relation "measure (\<lambda>(p, cs, pos, extras, ns). length cs)") auto

definition default_namespace :: "parser \<Rightarrow> namespace" where
  "default_namespace p =
     map_of (map (\<lambda>a. (arg_dest a, arg_default a)) (filter (\<lambda>a. arg_act a \<noteq> Show_help) p))"

definition parse_args :: "parser \<Rightarrow> string list \<Rightarrow> namespace result" where
  "parse_args p argv =
     bind_res (classify p argv) (\<lambda>cs.
       consume p cs (filter (\<lambda>a. option_strings a = []) p) False (default_namespace p))"

subsection \<open>Settings and the tokens that spell them\<close>

text \<open>
  What a command line says, one setting at a time: an option with its value in the same token,
  with its value in the next one, or a flag.
\<close>

datatype setting = Joined arg_spec string string | Spaced arg_spec string string | Flag arg_spec string

fun setting_tokens :: "setting \<Rightarrow> string list" where
  "setting_tokens (Joined a f v) = [f @ ''='' @ v]"
| "setting_tokens (Spaced a f v) = [f, v]"
| "setting_tokens (Flag a f) = [f]"

fun setting_value :: "setting \<Rightarrow> arg_value result" where
  "setting_value (Joined a f v) = get_value a v"
| "setting_value (Spaced a f v) = get_value a v"
| "setting_value (Flag a f) = Inr (ABool True)"

fun setting_dest :: "setting \<Rightarrow> string" where
  "setting_dest (Joined a f v) = arg_dest a"
| "setting_dest (Spaced a f v) = arg_dest a"
| "setting_dest (Flag a f) = arg_dest a"

definition apply_setting :: "setting \<Rightarrow> namespace \<Rightarrow> namespace" where
  "apply_setting s ns =
     (case setting_value s of Inr x \<Rightarrow> ns(setting_dest s \<mapsto> x) | Inl _ \<Rightarrow> ns)"

text \<open>The token names the option, in full or abbreviated, and the value is one the option takes.\<close>

definition names_option :: "parser \<Rightarrow> string \<Rightarrow> arg_spec \<Rightarrow> string option \<Rightarrow> bool" where
  "names_option p s a v \<longleftrightarrow>
     s \<noteq> ''--'' \<and>
     (case parse_optional p s of Inr (Opt (Some b) f w) \<Rightarrow> b = a \<and> w = v | _ \<Rightarrow> False)"

definition is_arg :: "parser \<Rightarrow> string \<Rightarrow> bool" where
  "is_arg p s \<longleftrightarrow> s \<noteq> ''--'' \<and> parse_optional p s = Inr (Arg s)"

fun setting_ok :: "parser \<Rightarrow> setting \<Rightarrow> bool" where
  "setting_ok p (Joined a f v) \<longleftrightarrow>
     arg_act a = Store \<and> names_option p (f @ ''='' @ v) a (Some v) \<and> \<not> isl (get_value a v)"
| "setting_ok p (Spaced a f v) \<longleftrightarrow>
     arg_act a = Store \<and> names_option p f a None \<and> is_arg p v \<and> \<not> isl (get_value a v)"
| "setting_ok p (Flag a f) \<longleftrightarrow> arg_act a = Store_true \<and> names_option p f a None"

lemma setting_classified:
  assumes "setting_ok p s"
  shows "\<exists>cs. (\<forall>ss. classify p (setting_tokens s @ ss) =
        bind_res (classify p ss) (\<lambda>cs'. Inr (cs @ cs'))) \<and>
    (\<forall>cs' pos extras ns. consume p (cs @ cs') pos extras ns = consume p cs' pos extras (apply_setting s ns))"
proof (cases s)
  case (Joined a f v)
  with assms obtain g where g: "parse_optional p (f @ ''='' @ v) = Inr (Opt (Some a) g (Some v))"
    "f @ ''='' @ v \<noteq> ''--''" by (auto simp: names_option_def split: sum.splits arg_class.splits option.splits)
  from assms Joined obtain x where x: "get_value a v = Inr x" "arg_act a = Store"
    by (auto simp: isl_def split: sum.splits) (metis isl_def obj_sumE)
  show ?thesis unfolding Joined
    by (rule exI [of _ "[Opt (Some a) g (Some v)]"])
      (use g x in \<open>simp add: option_group_def last_option_def store_value_def apply_setting_def\<close>)
next
  case (Spaced a f v)
  with assms obtain g where g: "parse_optional p f = Inr (Opt (Some a) g None)" "f \<noteq> ''--''"
    by (auto simp: names_option_def split: sum.splits arg_class.splits option.splits)
  from assms Spaced obtain x where x: "get_value a v = Inr x" "arg_act a = Store"
    by (auto) (metis isl_def obj_sumE)
  have "classify p (f # v # ss) = bind_res (classify p ss) (\<lambda>cs'. Inr ([Opt (Some a) g None, Arg v] @ cs'))" for ss
    using g assms Spaced by (cases "classify p ss") (simp_all add: is_arg_def)
  with x show ?thesis unfolding Spaced
    by (intro exI [of _ "[Opt (Some a) g None, Arg v]"])
      (simp add: option_group_def last_option_def store_value_def apply_setting_def)
next
  case (Flag a f)
  with assms obtain g where g: "parse_optional p f = Inr (Opt (Some a) g None)" "f \<noteq> ''--''"
    by (auto simp: names_option_def split: sum.splits arg_class.splits option.splits)
  show ?thesis unfolding Flag
    by (rule exI [of _ "[Opt (Some a) g None]"])
      (use g assms Flag in \<open>simp add: option_group_def last_option_def take_flag_def apply_setting_def\<close>)
qed

lemma settings_classified:
  assumes "list_all (setting_ok p) ss"
  shows "\<exists>cs. classify p (concat (map setting_tokens ss)) = Inr cs \<and>
    (\<forall>pos extras ns. consume p cs pos extras ns = consume p [] pos extras (fold apply_setting ss ns))"
  using assms
proof (induction ss)
  case Nil
  then show ?case by simp
next
  case (Cons s ss)
  then obtain cs where cs: "classify p (concat (map setting_tokens ss)) = Inr cs"
    "\<And>pos extras ns. consume p cs pos extras ns = consume p [] pos extras (fold apply_setting ss ns)"
    by auto
  from Cons.prems setting_classified [of p s] obtain ds where
    "classify p (setting_tokens s @ ss) = bind_res (classify p ss) (\<lambda>cs'. Inr (ds @ cs'))"
    "consume p (ds @ cs') pos extras ns = consume p cs' pos extras (apply_setting s ns)"
    for ss cs' pos extras ns by auto
  with cs show ?case by (intro exI [of _ "ds @ cs"]) simp
qed

text \<open>A command line spelt as settings is read back as these settings, in order.\<close>

lemma parse_settings:
  assumes "list_all (setting_ok p) ss" and "filter (\<lambda>a. option_strings a = []) p = []"
  shows "parse_args p (concat (map setting_tokens ss)) = Inr (fold apply_setting ss (default_namespace p))"
  using settings_classified [OF assms(1)] assms(2) by (auto simp: parse_args_def)

lemma apply_settings_at:
  "fold apply_setting ss ns d =
     (case List.find (\<lambda>s. setting_dest s = d \<and> \<not> isl (setting_value s)) (rev ss) of
        None \<Rightarrow> ns d | Some s \<Rightarrow> Some (projr (setting_value s)))"
  by (induction ss rule: rev_induct) (auto simp: apply_setting_def split: sum.splits)

lemma parse_plain: "s = [] \<or> hd s \<noteq> CHR ''-'' \<Longrightarrow> is_arg p s"
  by (auto simp: is_arg_def parse_optional_def)

subsection \<open>What a well-formed parser guarantees\<close>

text \<open>The values an argument can have after parsing: its default, or one of its type and choices.\<close>

definition typed :: "arg_spec \<Rightarrow> arg_value \<Rightarrow> bool" where
  "typed a v \<longleftrightarrow>
     (case arg_act a of
        Store_true \<Rightarrow> (case v of ABool b \<Rightarrow> True | _ \<Rightarrow> False)
      | _ \<Rightarrow>
        (case (arg_typ a, arg_choices a, v) of
           (TInt, _, AInt i) \<Rightarrow> True
         | (TStr, None, AStr s) \<Rightarrow> True
         | (TStr, None, ANone) \<Rightarrow> True
         | (TStr, Some ch, AStr s) \<Rightarrow> s \<in> set ch
         | _ \<Rightarrow> False))"

definition option_name_ok :: "string \<Rightarrow> bool" where
  "option_name_ok s \<longleftrightarrow> 2 \<le> length s \<and> hd s = CHR ''-'' \<and> CHR ''='' \<notin> set s \<and> s \<noteq> ''--''"

lemma get_value_typed: "arg_act a = Store \<Longrightarrow> get_value a s = Inr v \<Longrightarrow> typed a v"
  by (auto simp: get_value_def typed_def split: arg_type.splits sum.splits option.splits if_splits)

definition all_typed :: "parser \<Rightarrow> namespace \<Rightarrow> bool" where
  "all_typed p ns \<longleftrightarrow>
     list_all (\<lambda>a. arg_act a \<noteq> Show_help \<longrightarrow>
       (case ns (arg_dest a) of None \<Rightarrow> False | Some v \<Rightarrow> typed a v)) p"

definition exit_only :: "'a result \<Rightarrow> bool" where
  "exit_only r \<longleftrightarrow> (case r of Inr _ \<Rightarrow> True | Inl e \<Rightarrow> e = SystemExit 0 \<or> e = SystemExit 2)"

lemma exit_only_simps [simp]: "exit_only (Inr x)" "exit_only (Inl (SystemExit 0))" "exit_only (Inl (SystemExit 2))"
  by (simp_all add: exit_only_def)

lemma exit_only_bind: "exit_only r \<Longrightarrow> (\<And>x. r = Inr x \<Longrightarrow> exit_only (f x)) \<Longrightarrow> exit_only (bind_res r f)"
  by (cases r) (auto simp: exit_only_def)

lemma exit_only_values: "exit_only (get_value a v)" "exit_only (store_value a v ns)" "exit_only (take_flag a ns)"
  by (auto simp: get_value_def take_flag_def store_value_def intro!: exit_only_bind
      split: arg_type.splits sum.splits option.splits arg_action.splits)

lemma exit_only_flags: "exit_only (take_flags fs ns)"
  by (induction fs arbitrary: ns) (auto intro!: exit_only_bind exit_only_values)

lemma exit_only_chain: "exit_only (flag_chain p a w)"
  by (induction p a w rule: flag_chain.induct)
    (auto intro!: exit_only_bind split: option.splits)

lemma exit_only_group: "exit_only (option_group p a f v)"
  by (auto simp: option_group_def exit_only_chain split: option.splits)

lemma exit_only_last: "exit_only (last_option a v cs)"
  by (auto simp: last_option_def split: option.splits list.splits arg_class.splits)

lemma exit_only_last_act: "last_option a v cs = Inr (act, nxt) \<Longrightarrow> exit_only (act ns)"
  by (auto simp: last_option_def exit_only_values split: if_splits option.splits list.splits arg_class.splits)

lemma exit_only_consume: "exit_only (consume p cs pos extras ns)"
proof (induction p cs pos extras ns rule: consume.induct)
  case (3 p s cs pos extras ns)
  then show ?case by (auto intro!: exit_only_bind exit_only_values split: list.splits)
next
  case (5 p a s v cs pos extras ns)
  have "exit_only (act ns)" if "last_option l w cs = Inr (act, nxt)" for l w act nxt ns
    using that by (rule exit_only_last_act)
  with 5 show ?case
    by (auto intro!: exit_only_bind [OF exit_only_group] exit_only_bind [OF exit_only_last]
        exit_only_bind [OF exit_only_flags] exit_only_bind)
qed auto

lemma exit_only_optional: "exit_only (parse_optional p s)"
  by (auto simp: parse_optional_def abbreviated_def split: option.splits list.splits prod.splits)

lemma exit_only_classify: "exit_only (classify p ss)"
  by (induction p ss rule: classify.induct) (auto intro!: exit_only_bind exit_only_optional)

text \<open>A command line that is not accepted ends the script with status 0 (help) or 2.\<close>

lemma exit_only_parse: "exit_only (parse_args p argv)"
  unfolding parse_args_def by (intro exit_only_bind exit_only_classify exit_only_consume)

lemma find_option_mem: "find_option p s = Some a \<Longrightarrow> a \<in> set p \<and> s \<in> set (option_strings a)"
  by (auto simp: find_option_def find_Some_iff)

lemma split_eq_joined:
  assumes "CHR ''='' \<notin> set f"
  shows "split_eq (f @ ''='' @ v) = (f, Some v)"
proof -
  have "\<And>c. c \<in> set f \<Longrightarrow> c \<noteq> CHR ''=''" using assms by auto
  then show ?thesis by (simp add: split_eq_def takeWhile_append2 dropWhile_append2)
qed

lemma chain_mem:
  "flag_chain p a w = Inr (fs, l, v) \<Longrightarrow> a \<in> set p \<Longrightarrow> arg_act a \<noteq> Store \<Longrightarrow>
    l \<in> set p \<and> (\<forall>b\<in>set fs. b \<in> set p \<and> arg_act b \<noteq> Store)"
  by (induction p a w arbitrary: fs l v rule: flag_chain.induct)
    (auto simp: bind_res_Inr_iff dest!: find_option_mem split: option.splits if_splits)

lemma group_mem:
  "option_group p a f v = Inr (fs, l, w) \<Longrightarrow> a \<in> set p \<Longrightarrow>
    l \<in> set p \<and> (\<forall>b\<in>set fs. b \<in> set p \<and> arg_act b \<noteq> Store)"
  by (auto simp: option_group_def dest: chain_mem split: option.splits if_splits)

definition known :: "parser \<Rightarrow> arg_class \<Rightarrow> bool" where
  "known p c \<longleftrightarrow> (case c of Opt (Some a) f v \<Rightarrow> a \<in> set p | _ \<Rightarrow> True)"

lemma option_tuples_mem: "(a, f, v) \<in> set (option_tuples p s) \<Longrightarrow> a \<in> set p"
  by (auto simp: option_tuples_def split: if_splits prod.splits)

lemma parse_optional_known: "parse_optional p s = Inr c \<Longrightarrow> known p c"
  using option_tuples_mem [of _ _ _ p s]
  by (auto simp: parse_optional_def abbreviated_def known_def dest: find_option_mem
      split: if_splits option.splits prod.splits list.splits)

lemma classify_known: "classify p ss = Inr cs \<Longrightarrow> list_all (known p) cs"
  by (induction p ss arbitrary: cs rule: classify.induct)
    (auto simp: bind_res_Inr_iff list_all_iff dest: parse_optional_known split: if_splits,
     simp_all add: known_def)

lemma last_keeps:
  assumes "last_option a v cs = Inr (act, nxt)" and "act ns = Inr ns'"
  shows "(arg_act a = Store \<longrightarrow> (\<exists>w. store_value a w ns = Inr ns')) \<and>
    (arg_act a \<noteq> Store \<longrightarrow> take_flag a ns = Inr ns')"
  using assms
  by (auto simp: last_option_def split: if_splits option.splits list.splits arg_class.splits)

lemma flags_keep:
  assumes "\<And>a ns ns'. P ns \<Longrightarrow> a \<in> set p \<Longrightarrow> arg_act a \<noteq> Store \<Longrightarrow> take_flag a ns = Inr ns' \<Longrightarrow> P ns'"
  shows "P ns \<Longrightarrow> \<forall>b\<in>set fs. b \<in> set p \<and> arg_act b \<noteq> Store \<Longrightarrow> take_flags fs ns = Inr ns' \<Longrightarrow> P ns'"
  by (induction fs arbitrary: ns) (auto simp: bind_res_Inr_iff intro: assms)

text \<open>What storing a value and taking a flag keep, the whole pass over the tokens keeps.\<close>

lemma consume_keeps:
  assumes "consume p cs pos extras ns = Inr ns'" and "list_all (known p) cs" and "P ns"
    and "list_all (\<lambda>a. a \<in> set p \<and> arg_act a = Store) pos"
    and store: "\<And>a v ns ns'. P ns \<Longrightarrow> a \<in> set p \<Longrightarrow> arg_act a = Store \<Longrightarrow> store_value a v ns = Inr ns' \<Longrightarrow> P ns'"
    and flag: "\<And>a ns ns'. P ns \<Longrightarrow> a \<in> set p \<Longrightarrow> arg_act a \<noteq> Store \<Longrightarrow> take_flag a ns = Inr ns' \<Longrightarrow> P ns'"
  shows "P ns'"
  using assms
proof (induction p cs pos extras ns rule: consume.induct)
  case (3 q s cs pos extras ns)
  show ?case
  proof (cases pos)
    case Nil
    with "3.prems"(1,2) show ?thesis
      by (intro "3.IH"(1) [OF Nil _ _ "3.prems"(3) _ "3.prems"(5,6)]) auto
  next
    case (Cons a as)
    with "3.prems"(1) obtain ns1 where "store_value a s ns = Inr ns1" "consume q cs as extras ns1 = Inr ns'"
      by (auto simp: bind_res_Inr_iff)
    note s = this
    have p1: "P ns1" using "3.prems"(4) Cons "3.prems"(5) [OF "3.prems"(3), of a s ns1] s(1) by simp
    show ?thesis
      using "3.prems"(2,4) Cons by (intro "3.IH"(2) [OF Cons s(2) _ p1 _ "3.prems"(5,6)]) simp_all
  qed
next
  case (5 q a s v cs pos extras ns)
  from "5.prems"(1) obtain fs l w act nxt ns1 ns2 where
    g: "option_group q a s v = Inr (fs, l, w)" "last_option l w cs = Inr (act, nxt)"
      "take_flags fs ns = Inr ns1" "act ns1 = Inr ns2"
      "consume q (if nxt then tl cs else cs) pos extras ns2 = Inr ns'"
    by (auto simp: bind_res_Inr_iff)
  from "5.prems"(2) have m: "l \<in> set q" "\<forall>b\<in>set fs. b \<in> set q \<and> arg_act b \<noteq> Store"
    using group_mem [OF g(1)] by (simp_all add: known_def)
  have "P ns1" by (rule flags_keep [where P = P, OF "5.prems"(6) "5.prems"(3) m(2) g(3)])
  then have p2: "P ns2"
    using last_keeps [OF g(2,4)] "5.prems"(5) [of ns1 l _ ns2] "5.prems"(6) [of ns1 l ns2] m(1) by blast
  have "list_all (known q) (if nxt then tl cs else cs)"
    using "5.prems"(2) by (cases cs) auto
  then show ?case by (rule "5.IH" [OF g(5) _ p2 "5.prems"(4,5,6)])
next
  case (1 p pos extras ns)
  show ?case using "1.prems"(1,3) by (simp split: if_splits)
next
  case (2 p cs pos extras ns)
  show ?case using "2.prems"(1,2) by (simp add: "2.IH" [OF _ _ "2.prems"(3-6)])
next
  case (4 p s v cs pos extras ns)
  show ?case using "4.prems"(1,2) by (simp add: "4.IH" [OF _ _ "4.prems"(3-6)])
qed

locale arg_parser =
  fixes p :: parser
  assumes option_names: "list_all (\<lambda>a. list_all option_name_ok (option_strings a)) p"
    and distinct_options: "distinct (concat (map option_strings p))"
    and distinct_dests: "distinct (map arg_dest p)"
    and defaults_typed: "list_all (\<lambda>a. arg_act a \<noteq> Show_help \<longrightarrow> typed a (arg_default a)) p"
    and positional_stored: "list_all (\<lambda>a. option_strings a = [] \<longrightarrow> arg_act a = Store) p"
begin

lemma find_option_unique:
  assumes "a \<in> set p" and "s \<in> set (option_strings a)"
  shows "find_option p s = Some a"
proof -
  have "a = b" if "b \<in> set p" "s \<in> set (option_strings b)" for b
    using assms that distinct_options
    by (induction p) (auto simp: disjoint_iff)
  moreover have "find_option p s \<noteq> None" using assms by (auto simp: find_option_def find_None_iff)
  ultimately show ?thesis using find_option_mem by (metis not_None_eq)
qed

lemma option_name_mem: "find_option p s = Some a \<Longrightarrow> option_name_ok s"
  using find_option_mem option_names by (fastforce simp: list_all_iff)

text \<open>Both spellings of a full option name are recognised, whatever the value.\<close>

lemma names_full:
  assumes "a \<in> set p" and "f \<in> set (option_strings a)"
  shows "names_option p f a None" and "names_option p (f @ ''='' @ v) a (Some v)"
proof -
  have f: "find_option p f = Some a" by (rule find_option_unique [OF assms])
  have ok: "option_name_ok f" by (rule option_name_mem [OF f])
  then have ne: "f \<noteq> []" "hd f = CHR ''-''" by (auto simp: option_name_ok_def)
  then show "names_option p f a None"
    using f ok by (simp add: names_option_def parse_optional_def option_name_ok_def)
  have "find_option p (f @ ''='' @ v) = None"
    using option_name_mem [of "f @ ''='' @ v"] by (cases "find_option p (f @ ''='' @ v)") (auto simp: option_name_ok_def)
  moreover have "split_eq (f @ ''='' @ v) = (f, Some v)"
    using ok by (intro split_eq_joined) (simp add: option_name_ok_def)
  moreover have "length (f @ ''='' @ v) \<noteq> 1" "f @ ''='' @ v \<noteq> ''--''" "hd (f @ ''='' @ v) = CHR ''-''"
    using ne by (auto simp: append_eq_Cons_conv)
  ultimately show "names_option p (f @ ''='' @ v) a (Some v)"
    using f ne by (simp add: names_option_def parse_optional_def)
qed

lemma joined_ok:
  "a \<in> set p \<Longrightarrow> f \<in> set (option_strings a) \<Longrightarrow> arg_act a = Store \<Longrightarrow> get_value a v = Inr x \<Longrightarrow>
    setting_ok p (Joined a f v)"
  using names_full by simp

lemma spaced_ok:
  "a \<in> set p \<Longrightarrow> f \<in> set (option_strings a) \<Longrightarrow> arg_act a = Store \<Longrightarrow> get_value a v = Inr x \<Longrightarrow>
    is_arg p v \<Longrightarrow> setting_ok p (Spaced a f v)"
  using names_full by simp

lemma flag_ok:
  "a \<in> set p \<Longrightarrow> f \<in> set (option_strings a) \<Longrightarrow> arg_act a = Store_true \<Longrightarrow> setting_ok p (Flag a f)"
  using names_full by simp

text \<open>Every value of the result is the default or has been checked.\<close>

lemma default_at: "a \<in> set p \<Longrightarrow> arg_act a \<noteq> Show_help \<Longrightarrow> default_namespace p (arg_dest a) = Some (arg_default a)"
  unfolding default_namespace_def using distinct_dests
  by (intro map_of_is_SomeI) (auto simp: distinct_map inj_on_def comp_def)

lemma default_typed: "all_typed p (default_namespace p)"
  using defaults_typed by (simp add: all_typed_def list_all_iff default_at)

lemma update_typed:
  assumes "all_typed p ns" and "a \<in> set p" and "typed a v"
  shows "all_typed p (ns(arg_dest a \<mapsto> v))"
  using assms distinct_dests by (auto simp: all_typed_def list_all_iff distinct_map inj_on_def)

lemma store_typed:
  "all_typed p ns \<Longrightarrow> a \<in> set p \<Longrightarrow> arg_act a = Store \<Longrightarrow> store_value a v ns = Inr ns' \<Longrightarrow> all_typed p ns'"
  by (auto simp: store_value_def bind_res_Inr_iff intro: update_typed get_value_typed)

lemma flag_typed:
  "all_typed p ns \<Longrightarrow> a \<in> set p \<Longrightarrow> arg_act a \<noteq> Store \<Longrightarrow> take_flag a ns = Inr ns' \<Longrightarrow> all_typed p ns'"
  by (auto simp: take_flag_def typed_def intro!: update_typed split: arg_action.splits)

lemma parse_typed:
  assumes "parse_args p argv = Inr ns"
  shows "all_typed p ns"
proof -
  obtain cs where cs: "classify p argv = Inr cs"
    "consume p cs (filter (\<lambda>a. option_strings a = []) p) False (default_namespace p) = Inr ns"
    using assms by (auto simp: parse_args_def bind_res_Inr_iff)
  have "list_all (\<lambda>a. a \<in> set p \<and> arg_act a = Store) (filter (\<lambda>a. option_strings a = []) p)"
    using positional_stored by (auto simp: list_all_iff)
  then show ?thesis
    by (rule consume_keeps [where P = "all_typed p", OF cs(2) classify_known [OF cs(1)] default_typed])
      (erule store_typed flag_typed; assumption)+
qed

lemma parsed_value:
  assumes "parse_args p argv = Inr ns" and "a \<in> set p" and "arg_act a \<noteq> Show_help"
  obtains v where "ns (arg_dest a) = Some v" and "typed a v"
  using parse_typed [OF assms(1)] assms(2,3) by (auto simp: all_typed_def list_all_iff split: option.splits)

end

end
