(* ===== verification/M5_Objects.thy ===== *)
theory M5_Objects
  imports Vswarm_Prelude
begin

text \<open>
  The gem5 objects the configuration scripts build, as far as the scripts assign to them.
  A system is one record whose fields are the attributes the classes \<open>SimpleSystem\<close>,
  \<open>SklSystem\<close> and \<open>DriveSystem\<close> and the function \<open>initFS\<close> set. An assignment between two
  ports (\<open>self.system_port = self.membus.cpu_side_ports\<close>) is an entry of the list
  \<open>binds\<close>, in program order. An attribute that a script leaves alone keeps gem5's default
  and is \<open>None\<close>.

  What gem5 itself computes (the size of an address range, the meaning of a size string,
  the subclass relation of its CPU classes, \<open>Addr.max\<close>) is the parameter record \<open>m5_env\<close>;
  \<open>m5_sizes_ok\<close> and \<open>m5_cpu_classes_ok\<close> state the documented behaviour some properties
  rely on.
\<close>

subsection \<open>Address ranges and the gem5 parameters\<close>

datatype addr_range =
    SizeRange string
  | StartEnd int int
  | Interleaved (intlv_start: int) (intlv_end: int) (intlvHighBit: int) (xorHighBit: int)
      (intlvBits: int) (intlvMatch: int)

record m5_env =
  range_size :: "addr_range \<Rightarrow> int"
  range_start :: "addr_range \<Rightarrow> int"
  range_end :: "addr_range \<Rightarrow> int"
  addr_max :: int
  to_bytes :: "string \<Rightarrow> int"
  issubclass :: "string \<Rightarrow> string \<Rightarrow> bool"

text \<open>
  gem5's memory sizes: \<open>B\<close>, \<open>kB\<close>, \<open>MB\<close> and \<open>GB\<close> with binary prefixes, and a range given
  by a size string spans that many bytes.
\<close>

definition m5_sizes_ok :: "m5_env \<Rightarrow> bool" where
  "m5_sizes_ok env \<longleftrightarrow>
     (\<forall>n. to_bytes env (show_int n @ ''B'') = n) \<and>
     (\<forall>n. to_bytes env (show_int n @ ''kB'') = n * 1024) \<and>
     (\<forall>n. to_bytes env (show_int n @ ''MB'') = n * 1024 ^ 2) \<and>
     (\<forall>n. to_bytes env (show_int n @ ''GB'') = n * 1024 ^ 3) \<and>
     (\<forall>s. range_size env (SizeRange s) = to_bytes env s)"

text \<open>
  The part of gem5's class hierarchy that \<open>createCPU\<close> asks about: the KVM CPU is a
  \<open>BaseKvmCPU\<close>, the atomic CPUs are \<open>BaseAtomicSimpleCPU\<close>s, the timing and
  out-of-order CPUs are neither, and no class is both.
\<close>

definition m5_cpu_classes_ok :: "m5_env \<Rightarrow> bool" where
  "m5_cpu_classes_ok env \<longleftrightarrow>
     issubclass env ''X86KvmCPU'' ''BaseKvmCPU'' \<and>
     (\<forall>c \<in> {''X86AtomicSimpleCPU'', ''AtomicSimpleCPU''}.
        issubclass env c ''BaseAtomicSimpleCPU'' \<and> \<not> issubclass env c ''BaseKvmCPU'') \<and>
     (\<forall>c \<in> {''TimingSimpleCPU'', ''SklTunedCPU''}.
        \<not> issubclass env c ''BaseAtomicSimpleCPU'' \<and> \<not> issubclass env c ''BaseKvmCPU'')"

subsection \<open>Objects and ports\<close>

datatype sim_obj =
    System_obj | BadAddr_obj | Membus | Iobus | Bridge_obj | Apicbridge | Iocache
  | Pc_obj | Ethernet_obj
  | Llcbus | Llc | Llc_bus | Llc_cache | L3bus | L3cache
  | Cpu nat | Icache nat | Dcache nat | Mmucache nat | Mmubus nat | L2bus nat | L2cache nat
  | Itb_walker nat | Dtb_walker nat | Interrupts nat
  | Mem_cntrl | Mem_cntrls nat

datatype sim_port = Port (port_obj: sim_obj) (port_name: string)

type_synonym bind = "sim_port \<times> sim_port"

subsection \<open>Caches, crossbars and CPUs\<close>

record cache =
  cache_class :: string
  cache_size :: string
  assoc :: nat
  tag_latency :: nat
  data_latency :: nat
  response_latency :: nat
  mshrs :: nat
  tgts_per_mshr :: nat
  write_buffers :: "nat option"
  demand_mshr_reserve :: "nat option"
  is_read_only :: "bool option"
  cache_addr_ranges :: "addr_range list option"
  prefetcher :: "(string \<times> nat \<times> nat \<times> bool) option"
  replacement_policy :: "string option"
  write_allocator :: "(nat \<times> nat \<times> nat) option"

record xbar =
  xbar_class :: string
  width :: "nat option"
  snoop_filter :: "string option"

record cpu =
  cpu_class :: string
  cpu_id :: nat
  switched_out :: "bool option"
  max_insts_any_thread :: "nat option"
  threads :: bool
  interrupts :: bool
  eventq_index :: "nat option"
  descendants_eventq :: "nat option"
  icache :: "cache option"
  dcache :: "cache option"
  mmucache :: "cache option"
  l2bus :: "xbar option"
  l2cache :: "cache option"

definition new_cpu :: "string \<Rightarrow> nat \<Rightarrow> bool option \<Rightarrow> cpu" where
  "new_cpu cls i so =
     \<lparr>cpu_class = cls, cpu_id = i, switched_out = so, max_insts_any_thread = None,
      threads = False, interrupts = False, eventq_index = None, descendants_eventq = None,
      icache = None, dcache = None, mmucache = None, l2bus = None, l2cache = None\<rparr>"

definition createThreads :: "cpu \<Rightarrow> cpu" where
  "createThreads c = c\<lparr>threads := True\<rparr>"

definition createInterruptController :: "cpu \<Rightarrow> cpu" where
  "createInterruptController c = c\<lparr>interrupts := True\<rparr>"

subsection \<open>Disks, memory controllers, network\<close>

record cow_disk =
  driveID :: string
  image_read_only :: bool
  child_read_only :: bool
  child_image_file :: string

record mem_ctrl =
  mem_class :: string
  mem_range :: addr_range

record ethernet =
  pci_bus :: int
  pci_dev :: int
  pci_func :: int
  InterruptLine :: int
  InterruptPin :: int

subsection \<open>Firmware tables\<close>

datatype mp_entry =
    X86IntelMPProcessor (local_apic_id: int) (local_apic_version: int) (mp_enable: bool)
      (bootstrap: bool)
  | X86IntelMPIOAPIC (ioapic_id: int) (ioapic_version: int) (ioapic_enable: bool)
      (ioapic_address: int)
  | X86IntelMPBus (mp_bus_id: int) (bus_type: string)
  | X86IntelMPBusHierarchy (hier_bus_id: int) (subtractive_decode: bool) (parent_bus: int)
  | X86IntelMPIOIntAssignment (interrupt_type: string) (polarity: string) (trigger: string)
      (source_bus_id: int) (source_bus_irq: int) (dest_io_apic_id: int)
      (dest_io_apic_intin: int)

datatype madt_record =
    X86ACPIMadtLAPIC (acpi_processor_id: int) (madt_apic_id: int) (lapic_flags: int)
  | X86ACPIMadtIOAPIC (madt_ioapic_id: int) (madt_address: int) (int_base: int)
  | X86ACPIMadtIntSourceOverride (bus_source: int) (irq_source: int) (sys_int: int)
      (override_flags: int)

record madt =
  local_apic_address :: int
  madt_records :: "madt_record list"
  madt_oem_id :: string

record e820_entry =
  e820_addr :: int
  e820_size :: string
  range_type :: int

record workload =
  object_file :: string
  command_line :: string
  smbios_structures :: "string list"
  mp_base_entries :: "mp_entry list"
  mp_ext_entries :: "mp_entry list"
  rsdt_entries :: "madt list"
  xsdt_entries :: "madt list"
  rsdp_oem_id :: string
  rsdt_oem_id :: string
  xsdt_oem_id :: string
  e820_entries :: "e820_entry list"

subsection \<open>The system\<close>

record system =
  host_parallel :: bool
  clock :: string
  mem_ranges :: "addr_range list"
  binds :: "bind list"
  xbars :: "(sim_obj \<times> xbar) list"
  caches :: "(sim_obj \<times> cache) list"
  tracked_caches :: "sim_obj list"
  bridge_delay :: string
  bridge_ranges :: "addr_range list"
  apicbridge_delay :: string
  apicbridge_ranges :: "addr_range list"
  pc_io_bus :: "sim_obj option"
  io_apic_id :: int
  pc_ethernet :: "ethernet option"
  ide_disks :: "cow_disk list"
  sys_workload :: workload
  m5ops_base :: int
  sys_cpu :: "cpu list"
  atomic_cpu :: "cpu list"
  kvm_vm :: bool
  mem_mode :: string
  mem_ctrls :: "mem_ctrl list"
  exit_on_work_items :: bool
  readfile :: string

definition empty_workload :: workload where
  "empty_workload =
     \<lparr>object_file = '''', command_line = '''', smbios_structures = [], mp_base_entries = [],
      mp_ext_entries = [], rsdt_entries = [], xsdt_entries = [], rsdp_oem_id = '''',
      rsdt_oem_id = '''', xsdt_oem_id = '''', e820_entries = []\<rparr>"

definition empty_system :: system where
  "empty_system =
     \<lparr>host_parallel = False, clock = '''', mem_ranges = [], binds = [], xbars = [],
      caches = [], tracked_caches = [], bridge_delay = '''', bridge_ranges = [],
      apicbridge_delay = '''', apicbridge_ranges = [], pc_io_bus = None, io_apic_id = 0,
      pc_ethernet = None, ide_disks = [], sys_workload = empty_workload, m5ops_base = 0,
      sys_cpu = [], atomic_cpu = [], kvm_vm = False, mem_mode = '''', mem_ctrls = [],
      exit_on_work_items = False, readfile = ''''\<rparr>"

definition bind :: "sim_port \<Rightarrow> sim_port \<Rightarrow> system \<Rightarrow> system" where
  "bind p q s = s\<lparr>binds := binds s @ [(p, q)]\<rparr>"

definition add_xbar :: "sim_obj \<Rightarrow> xbar \<Rightarrow> system \<Rightarrow> system" where
  "add_xbar n x s = s\<lparr>xbars := xbars s @ [(n, x)]\<rparr>"

definition add_cache :: "sim_obj \<Rightarrow> cache \<Rightarrow> system \<Rightarrow> system" where
  "add_cache n c s = s\<lparr>caches := caches s @ [(n, c)]\<rparr>"

definition upd_workload :: "(workload \<Rightarrow> workload) \<Rightarrow> system \<Rightarrow> system" where
  "upd_workload f s = s\<lparr>sys_workload := f (sys_workload s)\<rparr>"

subsection \<open>Roles of ports\<close>

text \<open>
  Every port of the sources belongs to one side of a connection: a requestor sends memory
  requests, a responder answers them. The name tells which, except for \<open>port\<close>, which is
  the requestor of a page-table walker and the responder of a memory controller.
\<close>

definition requestor_names :: "string list" where
  "requestor_names =
     [''icache_port'', ''dcache_port'', ''port'', ''mem_side'', ''mem_side_ports'',
      ''mem_side_port'', ''int_requestor'', ''system_port'', ''default'', ''dma'']"

definition responder_names :: "string list" where
  "responder_names =
     [''cpu_side'', ''cpu_side_ports'', ''cpu_side_port'', ''pio'', ''int_responder'']"

fun is_memory :: "sim_obj \<Rightarrow> bool" where
  "is_memory Mem_cntrl = True"
| "is_memory (Mem_cntrls i) = True"
| "is_memory _ = False"

definition is_requestor :: "sim_port \<Rightarrow> bool" where
  "is_requestor p \<longleftrightarrow> port_name p \<in> set requestor_names \<and> \<not> is_memory (port_obj p)"

definition is_responder :: "sim_port \<Rightarrow> bool" where
  "is_responder p \<longleftrightarrow>
     port_name p \<in> set responder_names \<or> (port_name p = ''port'' \<and> is_memory (port_obj p))"

definition bind_ok :: "bind \<Rightarrow> bool" where
  "bind_ok b \<longleftrightarrow>
     (is_requestor (fst b) \<and> is_responder (snd b)) \<or>
     (is_responder (fst b) \<and> is_requestor (snd b))"

text \<open>The direction in which a binding carries requests.\<close>

definition carries :: "bind \<Rightarrow> sim_obj \<Rightarrow> sim_obj \<Rightarrow> bool" where
  "carries b x y \<longleftrightarrow>
     (is_requestor (fst b) \<and> is_responder (snd b) \<and>
      port_obj (fst b) = x \<and> port_obj (snd b) = y) \<or>
     (is_responder (fst b) \<and> is_requestor (snd b) \<and>
      port_obj (snd b) = x \<and> port_obj (fst b) = y)"

text \<open>Requests of one object reach another along a chain of bindings.\<close>

inductive routes :: "bind list \<Rightarrow> sim_obj \<Rightarrow> sim_obj \<Rightarrow> bool" for bs where
  here: "routes bs x x"
| hop: "b \<in> set bs \<Longrightarrow> carries b x y \<Longrightarrow> routes bs y z \<Longrightarrow> routes bs x z"

text \<open>A requestor port is bound, and what answers it leads to the given object.\<close>

definition port_routes :: "bind list \<Rightarrow> sim_port \<Rightarrow> sim_obj \<Rightarrow> bool" where
  "port_routes bs p y \<longleftrightarrow>
     (\<exists>q. ((p, q) \<in> set bs \<or> (q, p) \<in> set bs) \<and> is_responder q \<and> routes bs (port_obj q) y)"

subsection \<open>Lemmas shared by the system builders\<close>

lemma binds_bind [simp]: "binds (bind p q s) = binds s @ [(p, q)]"
  by (simp add: bind_def)

lemma routes_mono:
  assumes "routes bs x y" and "set bs \<subseteq> set cs"
  shows "routes cs x y"
  using assms by (induction rule: routes.induct) (auto intro: routes.intros)

lemma routes_trans:
  assumes "routes bs x y" and "routes bs y z"
  shows "routes bs x z"
  using assms by (induction rule: routes.induct) (auto intro: routes.intros)

lemma port_routes_mono: "port_routes bs p y \<Longrightarrow> set bs \<subseteq> set cs \<Longrightarrow> port_routes cs p y"
  unfolding port_routes_def by (meson routes_mono subsetD)

lemma port_routes_trans: "port_routes bs p y \<Longrightarrow> routes bs y z \<Longrightarrow> port_routes bs p z"
  unfolding port_routes_def by (meson routes_trans)

lemmas port_role_defs = is_requestor_def is_responder_def requestor_names_def responder_names_def

lemma routes_bind:
  assumes "(p, q) \<in> set bs" and "is_requestor p" and "is_responder q"
  shows "routes bs (port_obj p) (port_obj q)"
  using assms by (auto intro!: routes.hop [of _ bs _ "port_obj q"] routes.here
      simp: carries_def)

lemma routes_bind_rev:
  assumes "(q, p) \<in> set bs" and "is_requestor p" and "is_responder q"
  shows "routes bs (port_obj p) (port_obj q)"
  using assms by (auto intro!: routes.hop [of _ bs _ "port_obj q"] routes.here
      simp: carries_def)

lemma bind_ok_intros [py_intros]:
  "is_requestor p \<Longrightarrow> is_responder q \<Longrightarrow> bind_ok (p, q)"
  "is_responder p \<Longrightarrow> is_requestor q \<Longrightarrow> bind_ok (p, q)"
  by (simp_all add: bind_ok_def)

text \<open>A loop whose body adds bindings of its own to those already there.\<close>

lemma fold_binds:
  assumes "\<And>i s. i \<in> set is \<Longrightarrow> binds (f i s) = binds s @ g i"
  shows "binds (fold f is s) = binds s @ concat (map g is)"
  using assms by (induction "is" arbitrary: s) auto

lemma m5_size_rules:
  assumes "m5_sizes_ok env"
  shows "to_bytes env (show_int n @ ''B'') = n" "to_bytes env (show_int n @ ''kB'') = n * 1024"
    "to_bytes env (show_int n @ ''MB'') = n * 1024 ^ 2"
    "to_bytes env (show_int n @ ''GB'') = n * 1024 ^ 3"
    "range_size env (SizeRange s) = to_bytes env s"
  using assms by (simp_all add: m5_sizes_ok_def)

lemmas show_literal = show_int_def show_nat.simps

subsection \<open>An instance of the gem5 parameters\<close>

text \<open>
  A concrete record that satisfies the documented behaviour, so that the hypotheses on
  \<open>m5_env\<close> can be discharged at concrete inputs.
\<close>

definition ref_bytes :: "string \<Rightarrow> int" where
  "ref_bytes s =
     (let n = parse_int (take (length s - 2) s)
      in if drop (length s - 2) s = ''kB'' then n * 1024
         else if drop (length s - 2) s = ''MB'' then n * 1024 ^ 2
         else if drop (length s - 2) s = ''GB'' then n * 1024 ^ 3
         else parse_int (take (length s - 1) s))"

definition ref_env :: m5_env where
  "ref_env =
     \<lparr>range_size = (\<lambda>r. case r of SizeRange s \<Rightarrow> ref_bytes s | StartEnd a b \<Rightarrow> b - a
                      | Interleaved a b _ _ _ _ \<Rightarrow> b - a),
      range_start = (\<lambda>r. case r of SizeRange s \<Rightarrow> 0 | StartEnd a b \<Rightarrow> a
                      | Interleaved a b _ _ _ _ \<Rightarrow> a),
      range_end = (\<lambda>r. case r of SizeRange s \<Rightarrow> ref_bytes s | StartEnd a b \<Rightarrow> b
                      | Interleaved a b _ _ _ _ \<Rightarrow> b),
      addr_max = 0xFFFFFFFFFFFFFFFF,
      to_bytes = ref_bytes,
      issubclass = (\<lambda>c b. (c, b) \<in> {(''X86KvmCPU'', ''BaseKvmCPU''),
        (''X86AtomicSimpleCPU'', ''BaseAtomicSimpleCPU''),
        (''AtomicSimpleCPU'', ''BaseAtomicSimpleCPU'')})\<rparr>"

lemma last_show_int_digit: "last (show_int n) \<in> set ''0123456789''"
proof -
  have "last (show_nat m) \<in> set ''0123456789''" for m
    by (intro show_nat_digits [of _ m] last_in_set) simp
  then show ?thesis by (simp add: show_int_def last_ConsR)
qed

lemma ref_bytes_B: "ref_bytes (show_int n @ ''B'') = n"
proof -
  have ne: "show_int n \<noteq> []" by (simp add: show_int_def)
  then have "show_int n = butlast (show_int n) @ [last (show_int n)]" by simp
  then obtain ds d where s: "show_int n = ds @ [d]" and d: "d = last (show_int n)" by blast
  have "d \<in> set ''0123456789''" unfolding d by (rule last_show_int_digit)
  then have "d \<notin> {CHR ''k'', CHR ''M'', CHR ''G''}" by auto
  then have "ref_bytes (ds @ [d] @ ''B'') = parse_int (ds @ [d])"
    by (simp add: ref_bytes_def Let_def)
  then show ?thesis using parse_show_int [of n] by (simp add: s del: parse_show_int)
qed

lemma ref_sizes_ok: "m5_sizes_ok ref_env"
  by (simp add: m5_sizes_ok_def ref_env_def ref_bytes_B) (simp add: ref_bytes_def)

lemma ref_cpu_classes_ok: "m5_cpu_classes_ok ref_env"
  by (simp add: m5_cpu_classes_ok_def ref_env_def)

lemma ref_size_2GB: "range_size ref_env (SizeRange ''2GB'') = 0x80000000"
  by (simp add: ref_env_def ref_bytes_def parse_int_def parse_nat_def digit_val_def)

end
