(* ===== verification/X86_Fs.thy ===== *)
theory X86_Fs
  imports M5_Objects
begin

text \<open>
  The function \<open>initFS\<close> of \<open>gem5utils/systems/simple/x86.py\<close>, \<open>skylake/x86.py\<close> and
  \<open>drive/x86.py\<close> (the last two are the same text): the north bridge and its address
  ranges, the Intel MP table and the ACPI MADT, and the E820 memory map. The three files
  share most of their statements, so the shared blocks are definitions of their own;
  \<open>simple_initFS\<close>, \<open>skl_initFS\<close> and \<open>drive_initFS\<close> compose them as each file does.
\<close>

subsection \<open>Constants and the north bridge\<close>

definition IO_address_space_base :: int where
  "IO_address_space_base = 0x8000000000000000"

definition pci_config_address_space_base :: int where
  "pci_config_address_space_base = 0xc000000000000000"

definition interrupts_address_space_base :: int where
  "interrupts_address_space_base = 0xa000000000000000"

definition APIC_range_size :: int where
  "APIC_range_size = 2 ^ 12"

definition fs_bridge_ranges :: "m5_env \<Rightarrow> addr_range list" where
  "fs_bridge_ranges env =
     [StartEnd 0xC0000000 0xFFFF0000,
      StartEnd IO_address_space_base (interrupts_address_space_base - 1),
      StartEnd pci_config_address_space_base (addr_max env)]"

definition fs_apic_ranges :: "nat \<Rightarrow> addr_range list" where
  "fs_apic_ranges cpus =
     [StartEnd interrupts_address_space_base
        (interrupts_address_space_base + int cpus * APIC_range_size - 1)]"

definition fs_iocache :: "addr_range list \<Rightarrow> cache" where
  "fs_iocache ranges =
     \<lparr>cache_class = ''Cache'', cache_size = ''1kB'', assoc = 8, tag_latency = 50,
      data_latency = 50, response_latency = 50, mshrs = 20, tgts_per_mshr = 12,
      write_buffers = None, demand_mshr_reserve = None, is_read_only = None,
      cache_addr_ranges = Some ranges, prefetcher = None, replacement_policy = None,
      write_allocator = None\<rparr>"

definition fs_north_bridge :: "m5_env \<Rightarrow> nat \<Rightarrow> system \<Rightarrow> system" where
  "fs_north_bridge env cpus s =
     (let s = add_xbar Iobus \<lparr>xbar_class = ''IOXBar'', width = None, snoop_filter = None\<rparr> s;
          s = s\<lparr>bridge_delay := ''50ns''\<rparr>;
          s = bind (Port Bridge_obj ''mem_side_port'') (Port Iobus ''cpu_side_ports'') s;
          s = bind (Port Bridge_obj ''cpu_side_port'') (Port Membus ''mem_side_ports'') s;
          s = s\<lparr>bridge_ranges := fs_bridge_ranges env\<rparr>;
          s = s\<lparr>apicbridge_delay := ''50ns''\<rparr>;
          s = bind (Port Apicbridge ''cpu_side_port'') (Port Iobus ''mem_side_ports'') s;
          s = bind (Port Apicbridge ''mem_side_port'') (Port Membus ''cpu_side_ports'') s;
          s = s\<lparr>apicbridge_ranges := fs_apic_ranges cpus\<rparr>;
          s = s\<lparr>pc_io_bus := Some Iobus\<rparr>;
          s = s\<lparr>sys_workload := empty_workload\<rparr>;
          s = add_cache Iocache (fs_iocache (mem_ranges s)) s;
          s = bind (Port Iocache ''cpu_side'') (Port Iobus ''mem_side_ports'') s;
          s = bind (Port Iocache ''mem_side'') (Port Membus ''cpu_side_ports'') s
      in s)"

subsection \<open>The interrupt tables\<close>

type_synonym int_tables = "mp_entry list \<times> madt_record list"

definition add_base :: "mp_entry \<Rightarrow> int_tables \<Rightarrow> int_tables" where
  "add_base e t = (fst t @ [e], snd t)"

definition add_madt :: "madt_record \<Rightarrow> int_tables \<Rightarrow> int_tables" where
  "add_madt r t = (fst t, snd t @ [r])"

definition add_processor :: "nat \<Rightarrow> int_tables \<Rightarrow> int_tables" where
  "add_processor i t =
     add_madt (X86ACPIMadtLAPIC (int i) (int i) 1)
       (add_base (X86IntelMPProcessor (int i) 0x14 True (i = 0)) t)"

definition add_processors :: "nat \<Rightarrow> int_tables \<Rightarrow> int_tables" where
  "add_processors cpus t = fold add_processor [0..<cpus] t"

definition add_io_apic :: "int \<Rightarrow> int_tables \<Rightarrow> int_tables" where
  "add_io_apic io t =
     add_madt (X86ACPIMadtIOAPIC io 0xfec00000 0)
       (add_base (X86IntelMPIOAPIC io 0x11 True 0xfec00000) t)"

definition add_buses :: "int_tables \<Rightarrow> int_tables" where
  "add_buses t = add_base (X86IntelMPBus 1 ''ISA   '') (add_base (X86IntelMPBus 0 ''PCI   '') t)"

definition bus_hierarchy :: "mp_entry list" where
  "bus_hierarchy = [X86IntelMPBusHierarchy 1 True 0]"

definition pci_inta :: "int \<Rightarrow> int \<Rightarrow> int \<Rightarrow> mp_entry" where
  "pci_inta io dev pin =
     X86IntelMPIOIntAssignment ''INT'' ''ConformPolarity'' ''ConformTrigger'' 0
       (0 + dev * 2 ^ 2) io pin"

definition add_pci_dev4 :: "int \<Rightarrow> int_tables \<Rightarrow> int_tables" where
  "add_pci_dev4 io t =
     (let e = pci_inta io 4 16
      in add_madt (X86ACPIMadtIntSourceOverride (source_bus_id e) (source_bus_irq e)
                     (dest_io_apic_intin e) 0)
           (add_base e t))"

definition add_pci_dev2 :: "int \<Rightarrow> int_tables \<Rightarrow> int_tables" where
  "add_pci_dev2 io t = add_base (pci_inta io 2 11) t"

definition assignISAInt :: "int \<Rightarrow> int \<Rightarrow> int \<Rightarrow> int_tables \<Rightarrow> int_tables" where
  "assignISAInt io irq apicPin t =
     add_madt (X86ACPIMadtIntSourceOverride 1 irq apicPin 0)
       (add_base (X86IntelMPIOIntAssignment ''INT'' ''ConformPolarity'' ''ConformTrigger''
                    1 irq io apicPin)
         (add_base (X86IntelMPIOIntAssignment ''ExtInt'' ''ConformPolarity'' ''ConformTrigger''
                      1 irq io 0) t))"

definition assignISAInts :: "int \<Rightarrow> nat \<Rightarrow> int_tables \<Rightarrow> int_tables" where
  "assignISAInts io first t =
     fold (\<lambda>i. assignISAInt io (int i) (int i)) [first..<15]
       (assignISAInt io 1 1 (assignISAInt io 0 2 t))"

definition simple_int_tables :: "nat \<Rightarrow> int_tables" where
  "simple_int_tables cpus =
     (let io = int cpus
      in assignISAInts io 3
           (add_pci_dev4 io (add_buses (add_io_apic io (add_processors cpus ([], []))))))"

definition skl_int_tables :: "nat \<Rightarrow> int_tables" where
  "skl_int_tables cpus =
     (let io = int cpus
      in assignISAInts io 4
           (add_pci_dev2 io
             (add_pci_dev4 io (add_buses (add_io_apic io (add_processors cpus ([], [])))))))"

definition fs_store_tables :: "int_tables \<Rightarrow> workload \<Rightarrow> workload" where
  "fs_store_tables t w =
     (let m = \<lparr>local_apic_address = 0, madt_records = snd t, madt_oem_id = ''madt''\<rparr>
      in w\<lparr>mp_base_entries := fst t, mp_ext_entries := bus_hierarchy,
           rsdt_entries := rsdt_entries w @ [m], xsdt_entries := xsdt_entries w @ [m],
           rsdp_oem_id := ''gem5'', rsdt_oem_id := ''gem5'', xsdt_oem_id := ''gem5''\<rparr>)"

definition fs_ethernet :: "system \<Rightarrow> system" where
  "fs_ethernet s =
     (let s = s\<lparr>pc_ethernet :=
                  Some \<lparr>pci_bus = 0, pci_dev = 2, pci_func = 0,
                        InterruptLine = 11, InterruptPin = 1\<rparr>\<rparr>;
          s = bind (Port Ethernet_obj ''pio'') (Port Iobus ''mem_side_ports'') s;
          s = bind (Port Ethernet_obj ''dma'') (Port Iobus ''cpu_side_ports'') s
      in s)"

subsection \<open>The E820 map\<close>

definition e820_low :: "int \<Rightarrow> e820_entry list" where
  "e820_low sz =
     [\<lparr>e820_addr = 0, e820_size = ''639kB'', range_type = 1\<rparr>,
      \<lparr>e820_addr = 0x9fc00, e820_size = ''385kB'', range_type = 2\<rparr>,
      \<lparr>e820_addr = 0x100000, e820_size = show_int (sz - 0x100000) @ ''B'', range_type = 1\<rparr>]"

definition e820_hole :: "int \<Rightarrow> e820_entry" where
  "e820_hole sz =
     \<lparr>e820_addr = sz, e820_size = show_int (0xC0000000 - sz) @ ''B'', range_type = 2\<rparr>"

definition e820_m5ops :: e820_entry where
  "e820_m5ops = \<lparr>e820_addr = 0xFFFF0000, e820_size = ''64kB'', range_type = 2\<rparr>"

definition simple_e820 :: "m5_env \<Rightarrow> addr_range list \<Rightarrow> e820_entry list result" where
  "simple_e820 env ranges =
     bind_res (py_index ranges 0) (\<lambda>r0.
       Inr (e820_low (range_size env r0) @ [e820_hole (range_size env r0)] @ [e820_m5ops]))"

definition skl_e820 :: "m5_env \<Rightarrow> addr_range list \<Rightarrow> e820_entry list result" where
  "skl_e820 env ranges =
     bind_res (py_index ranges 0) (\<lambda>r0.
       Inr (e820_low (range_size env r0)
            @ (if length ranges = 1 then [e820_hole (range_size env r0)] else [])
            @ [e820_m5ops]
            @ (if length ranges = 2
               then [\<lparr>e820_addr = 0x100000000,
                      e820_size = show_int (range_size env (ranges ! 1)) @ ''B'',
                      range_type = 1\<rparr>]
               else [])))"

subsection \<open>The three initFS functions\<close>

definition fs_smbios :: "system \<Rightarrow> system" where
  "fs_smbios = upd_workload (\<lambda>w. w\<lparr>smbios_structures := [''X86SMBiosBiosInformation'']\<rparr>)"

definition simple_initFS :: "m5_env \<Rightarrow> nat \<Rightarrow> system \<Rightarrow> system result" where
  "simple_initFS env cpus s =
     (let s = fs_smbios (fs_north_bridge env cpus s);
          s = s\<lparr>io_apic_id := int cpus\<rparr>;
          s = upd_workload (fs_store_tables (simple_int_tables cpus)) s
      in bind_res (simple_e820 env (mem_ranges s)) (\<lambda>es.
           Inr (upd_workload (\<lambda>w. w\<lparr>e820_entries := es\<rparr>) s)))"

definition skl_initFS :: "m5_env \<Rightarrow> nat \<Rightarrow> system \<Rightarrow> system result" where
  "skl_initFS env cpus s =
     (let s = fs_smbios (fs_north_bridge env cpus s);
          s = s\<lparr>io_apic_id := int cpus\<rparr>;
          s = fs_ethernet s;
          s = upd_workload (fs_store_tables (skl_int_tables cpus)) s
      in bind_res (skl_e820 env (mem_ranges s)) (\<lambda>es.
           Inr (upd_workload (\<lambda>w. w\<lparr>e820_entries := es\<rparr>) s)))"

text \<open>\<open>drive/x86.py\<close> is \<open>skylake/x86.py\<close>, line by line; its parts, and that they agree.\<close>

definition drive_int_tables :: "nat \<Rightarrow> int_tables" where
  "drive_int_tables cpus =
     (let io = int cpus
      in assignISAInts io 4
           (add_pci_dev2 io
             (add_pci_dev4 io (add_buses (add_io_apic io (add_processors cpus ([], [])))))))"

definition drive_e820 :: "m5_env \<Rightarrow> addr_range list \<Rightarrow> e820_entry list result" where
  "drive_e820 env ranges =
     bind_res (py_index ranges 0) (\<lambda>r0.
       Inr (e820_low (range_size env r0)
            @ (if length ranges = 1 then [e820_hole (range_size env r0)] else [])
            @ [e820_m5ops]
            @ (if length ranges = 2
               then [\<lparr>e820_addr = 0x100000000,
                      e820_size = show_int (range_size env (ranges ! 1)) @ ''B'',
                      range_type = 1\<rparr>]
               else [])))"

definition drive_initFS :: "m5_env \<Rightarrow> nat \<Rightarrow> system \<Rightarrow> system result" where
  "drive_initFS env cpus s =
     (let s = fs_smbios (fs_north_bridge env cpus s);
          s = s\<lparr>io_apic_id := int cpus\<rparr>;
          s = fs_ethernet s;
          s = upd_workload (fs_store_tables (drive_int_tables cpus)) s
      in bind_res (drive_e820 env (mem_ranges s)) (\<lambda>es.
           Inr (upd_workload (\<lambda>w. w\<lparr>e820_entries := es\<rparr>) s)))"

lemma drive_initFS_eq: "drive_initFS = skl_initFS"
proof -
  have "drive_int_tables = skl_int_tables" by (rule ext) (simp add: drive_int_tables_def skl_int_tables_def)
  moreover have "drive_e820 = skl_e820" by (rule ext)+ (simp add: drive_e820_def skl_e820_def)
  ultimately show ?thesis by (intro ext) (simp add: drive_initFS_def skl_initFS_def)
qed

subsection \<open>What the tables say\<close>

text \<open>
  Reading functions for the specification: the interrupt sources a table routes to the
  I/O APIC (bus, irq, pin) in \<open>INT\<close> mode, the overrides a MADT declares, the APIC ids,
  and the addresses an E820 entry spans.
\<close>

fun int_route :: "mp_entry \<Rightarrow> (int \<times> int \<times> int) option" where
  "int_route (X86IntelMPIOIntAssignment ty pol trg bus irq io pin) =
     (if ty = ''INT'' then Some (bus, irq, pin) else None)"
| "int_route _ = None"

definition int_routes :: "mp_entry list \<Rightarrow> (int \<times> int \<times> int) list" where
  "int_routes es = List.map_filter int_route es"

fun override :: "madt_record \<Rightarrow> (int \<times> int \<times> int) option" where
  "override (X86ACPIMadtIntSourceOverride bus irq si fl) = Some (bus, irq, si)"
| "override _ = None"

definition overrides :: "madt_record list \<Rightarrow> (int \<times> int \<times> int) list" where
  "overrides rs = List.map_filter override rs"

fun mp_apic_id :: "mp_entry \<Rightarrow> int option" where
  "mp_apic_id (X86IntelMPProcessor i v en b) = Some i"
| "mp_apic_id (X86IntelMPIOAPIC i v en a) = Some i"
| "mp_apic_id _ = None"

definition mp_apic_ids :: "mp_entry list \<Rightarrow> int list" where
  "mp_apic_ids es = List.map_filter mp_apic_id es"

fun is_bootstrap :: "mp_entry \<Rightarrow> bool" where
  "is_bootstrap (X86IntelMPProcessor i v en b) = b"
| "is_bootstrap _ = False"

fun dest_apic :: "mp_entry \<Rightarrow> int option" where
  "dest_apic (X86IntelMPIOIntAssignment ty pol trg bus irq io pin) = Some io"
| "dest_apic _ = None"

definition e820_span :: "m5_env \<Rightarrow> e820_entry \<Rightarrow> int set" where
  "e820_span env e = {e820_addr e ..< e820_addr e + to_bytes env (e820_size e)}"

definition e820_ordered :: "m5_env \<Rightarrow> e820_entry list \<Rightarrow> bool" where
  "e820_ordered env es \<longleftrightarrow>
     sorted_wrt (\<lambda>e f. e820_addr e + to_bytes env (e820_size e) \<le> e820_addr f) es"

definition e820_cover :: "m5_env \<Rightarrow> e820_entry list \<Rightarrow> int set" where
  "e820_cover env es = (\<Union>e \<in> set es. e820_span env e)"

definition e820_ram :: "m5_env \<Rightarrow> e820_entry list \<Rightarrow> int set" where
  "e820_ram env es = e820_cover env (filter (\<lambda>e. range_type e = 1) es)"

subsection \<open>Closed forms of the table loops\<close>

definition proc_base :: "nat \<Rightarrow> mp_entry list" where
  "proc_base cpus = map (\<lambda>i. X86IntelMPProcessor (int i) 0x14 True (i = 0)) [0..<cpus]"

definition proc_madt :: "nat \<Rightarrow> madt_record list" where
  "proc_madt cpus = map (\<lambda>i. X86ACPIMadtLAPIC (int i) (int i) 1) [0..<cpus]"

definition platform_base :: "int \<Rightarrow> mp_entry list" where
  "platform_base io =
     [X86IntelMPIOAPIC io 0x11 True 0xfec00000, X86IntelMPBus 0 ''PCI   '',
      X86IntelMPBus 1 ''ISA   '', pci_inta io 4 16]"

definition platform_madt :: "int \<Rightarrow> madt_record list" where
  "platform_madt io =
     [X86ACPIMadtIOAPIC io 0xfec00000 0, X86ACPIMadtIntSourceOverride 0 16 16 0]"

definition isa_pairs :: "nat \<Rightarrow> (int \<times> int) list" where
  "isa_pairs first = (0, 2) # (1, 1) # map (\<lambda>i. (int i, int i)) [first..<15]"

definition isa_base :: "int \<Rightarrow> (int \<times> int) list \<Rightarrow> mp_entry list" where
  "isa_base io ps = concat (map (\<lambda>(irq, pin).
     [X86IntelMPIOIntAssignment ''ExtInt'' ''ConformPolarity'' ''ConformTrigger'' 1 irq io 0,
      X86IntelMPIOIntAssignment ''INT'' ''ConformPolarity'' ''ConformTrigger'' 1 irq io pin]) ps)"

definition isa_madt :: "(int \<times> int) list \<Rightarrow> madt_record list" where
  "isa_madt ps = map (\<lambda>(irq, pin). X86ACPIMadtIntSourceOverride 1 irq pin 0) ps"

lemmas table_step_defs = add_base_def add_madt_def add_processor_def add_io_apic_def
  add_buses_def add_pci_dev4_def add_pci_dev2_def pci_inta_def assignISAInt_def

lemmas closed_form_defs = proc_base_def proc_madt_def platform_base_def platform_madt_def
  pci_inta_def

lemma add_processors_closed:
  "add_processors cpus t = (fst t @ proc_base cpus, snd t @ proc_madt cpus)"
  by (induction cpus)
    (auto simp: add_processors_def proc_base_def proc_madt_def table_step_defs)

lemma fold_assignISAInt_closed:
  "fold (\<lambda>i. assignISAInt io (int i) (int i)) is t =
     (fst t @ isa_base io (map (\<lambda>i. (int i, int i)) is),
      snd t @ isa_madt (map (\<lambda>i. (int i, int i)) is))"
  by (induction "is" arbitrary: t)
    (auto simp: isa_base_def isa_madt_def table_step_defs)

lemma assignISAInts_closed:
  "assignISAInts io first t =
     (fst t @ isa_base io (isa_pairs first), snd t @ isa_madt (isa_pairs first))"
  by (simp add: assignISAInts_def fold_assignISAInt_closed isa_pairs_def)
    (simp add: isa_base_def isa_madt_def table_step_defs)

subsection \<open>The contract of an interrupt-table builder\<close>

text \<open>
  The two builders differ in the extra PCI assignments they insert and in the first ISA
  line of the loop. Everything else the tables promise follows from their common shape.
\<close>

locale fs_tables =
  fixes tables :: "nat \<Rightarrow> int_tables"
    and extra :: "int \<Rightarrow> mp_entry list"
    and first :: nat
  assumes base_shape: "fst (tables cpus) =
      proc_base cpus @ platform_base (int cpus) @ extra (int cpus)
      @ isa_base (int cpus) (isa_pairs first)"
    and madt_shape: "snd (tables cpus) =
      proc_madt cpus @ platform_madt (int cpus) @ isa_madt (isa_pairs first)"
    and extra_assignment: "e \<in> set (extra io) \<Longrightarrow> dest_apic e = Some io"
begin

lemma extra_no_apic: "e \<in> set (extra io) \<Longrightarrow> mp_apic_id e = None \<and> \<not> is_bootstrap e"
  using extra_assignment [of e io] by (cases e) auto

lemma extra_filters:
  "List.map_filter mp_apic_id (extra io) = []" "filter is_bootstrap (extra io) = []"
  using extra_no_apic by (auto simp: filter_empty_conv intro: map_filter_none)

lemma isa_filters:
  "List.map_filter mp_apic_id (isa_base io ps) = []" "filter is_bootstrap (isa_base io ps) = []"
  by (auto simp: isa_base_def filter_empty_conv intro!: map_filter_none)

lemma apic_ids: "mp_apic_ids (fst (tables cpus)) = map int [0..<Suc cpus]"
  by (simp add: mp_apic_ids_def base_shape extra_filters isa_filters closed_form_defs
      map_filter_simps map_filter_map_Some [where h = int])

lemma bootstrap_first:
  "0 < cpus \<Longrightarrow> filter is_bootstrap (fst (tables cpus)) = [X86IntelMPProcessor 0 0x14 True True]"
  by (cases cpus)
    (simp_all add: base_shape extra_filters isa_filters closed_form_defs filter_map o_def
      upt_conv_Cons filter_empty_conv del: upt_Suc)

lemma assignments_to_io_apic:
  "e \<in> set (fst (tables cpus)) \<Longrightarrow> dest_apic e = Some io \<Longrightarrow> io = int cpus"
  by (auto simp: base_shape closed_form_defs isa_base_def dest: extra_assignment)

lemma routed:
  "int_routes (fst (tables cpus)) =
     (0, 16, 16) # int_routes (extra (int cpus)) @ map (\<lambda>(irq, pin). (1, irq, pin)) (isa_pairs first)"
proof -
  have "List.map_filter int_route (isa_base io ps) = map (\<lambda>(irq, pin). (1, irq, pin)) ps" for io ps
    by (induction ps) (auto simp: isa_base_def List.map_filter_def)
  then show ?thesis
    by (simp add: int_routes_def base_shape closed_form_defs List.map_filter_def
        filter_empty_conv o_def)
qed

lemma overridden:
  "overrides (snd (tables cpus)) =
     (0, 16, 16) # map (\<lambda>(irq, pin). (1, irq, pin)) (isa_pairs first)"
proof -
  have "List.map_filter override (isa_madt ps) = map (\<lambda>(irq, pin). (1, irq, pin)) ps" for ps
    by (induction ps) (auto simp: isa_madt_def List.map_filter_def)
  then show ?thesis
    by (simp add: overrides_def madt_shape closed_form_defs List.map_filter_def
        filter_empty_conv o_def)
qed

end

interpretation simple_tab: fs_tables simple_int_tables "\<lambda>io. []" 3
  by unfold_locales
    (auto simp: simple_int_tables_def assignISAInts_closed add_processors_closed Let_def
      table_step_defs platform_base_def platform_madt_def)

interpretation skl_tab: fs_tables skl_int_tables "\<lambda>io. [pci_inta io 2 11]" 4
  by unfold_locales
    (auto simp: skl_int_tables_def assignISAInts_closed add_processors_closed Let_def
      table_step_defs platform_base_def platform_madt_def)

subsection \<open>Lemmas on the E820 map\<close>

lemma e820_bytes:
  assumes "m5_sizes_ok env"
  shows "to_bytes env ''639kB'' = 0x9fc00" "to_bytes env ''385kB'' = 0x60400"
    "to_bytes env ''64kB'' = 0x10000" "to_bytes env (show_int n @ ''B'') = n"
  using m5_size_rules(2) [OF assms, of 639] m5_size_rules(2) [OF assms, of 385]
    m5_size_rules(2) [OF assms, of 64] m5_size_rules(1) [OF assms, of n]
  by (simp_all add: show_literal(2) show_int_def [of 639] show_int_def [of 385]
      show_int_def [of 64])

lemmas e820_defs = e820_low_def e820_hole_def e820_m5ops_def e820_ordered_def e820_ram_def
  e820_cover_def e820_span_def

lemma simple_e820_single:
  "simple_e820 env [r] = Inr (e820_low (range_size env r) @ [e820_hole (range_size env r), e820_m5ops])"
  by (simp add: simple_e820_def py_simps)

lemma skl_e820_single: "skl_e820 env [r] = simple_e820 env [r]"
  by (simp add: skl_e820_def simple_e820_def py_simps)

lemma e820_single_layout:
  assumes "m5_sizes_ok env" and "0x100000 \<le> sz" and "sz \<le> 0xC0000000"
  defines "es \<equiv> e820_low sz @ [e820_hole sz, e820_m5ops]"
  shows "e820_ordered env es"
    and "e820_cover env es = {0 ..< 0xC0000000} \<union> {0xFFFF0000 ..< 0x100000000}"
    and "e820_ram env es = {0 ..< 0x9fc00} \<union> {0x100000 ..< sz}"
  using assms(2,3) by (auto simp: es_def e820_defs e820_bytes [OF assms(1)])

lemma skl_e820_two:
  "skl_e820 env [r0, r1] =
     Inr (e820_low (range_size env r0) @
       [e820_m5ops, \<lparr>e820_addr = 0x100000000,
          e820_size = show_int (range_size env r1) @ ''B'', range_type = 1\<rparr>])"
  by (simp add: skl_e820_def py_simps)

lemma e820_split_layout:
  assumes "m5_sizes_ok env" and "0x100000 \<le> sz" and "sz \<le> 0xFFFF0000" and "0 \<le> sz'"
  defines "es \<equiv> e820_low sz @ [e820_m5ops, \<lparr>e820_addr = 0x100000000,
          e820_size = show_int sz' @ ''B'', range_type = 1\<rparr>]"
  shows "e820_ordered env es"
    and "e820_ram env es = {0 ..< 0x9fc00} \<union> {0x100000 ..< sz}
      \<union> {0x100000000 ..< 0x100000000 + sz'}"
  using assms(2,3,4) by (auto simp: es_def e820_defs e820_bytes [OF assms(1)])

lemma isa_pairs_3: "isa_pairs 3 = [(0, 2), (1, 1), (3, 3), (4, 4), (5, 5), (6, 6), (7, 7), (8, 8),
    (9, 9), (10, 10), (11, 11), (12, 12), (13, 13), (14, 14)]"
  by (simp add: isa_pairs_def upt_rec)

lemma isa_pairs_4: "isa_pairs 4 = [(0, 2), (1, 1), (4, 4), (5, 5), (6, 6), (7, 7), (8, 8),
    (9, 9), (10, 10), (11, 11), (12, 12), (13, 13), (14, 14)]"
  by (simp add: isa_pairs_def upt_rec)

lemma int_routes_extra:
  "int_routes [] = []" "int_routes [pci_inta io dev pin] = [(0, dev * 4, pin)]"
  by (simp_all add: int_routes_def pci_inta_def map_filter_simps)

subsection \<open>Properties\<close>



text \<open>
  E820 map, memory split at the I/O hole: with two ranges \<open>skylake/x86.py\<close> emits no
  filler entry, keeps the entries ordered and disjoint, and marks as usable the low
  memory, the first range above 1 MiB and the whole second range, which it places at
  4 GiB.
\<close>

theorem skl_e820_split_layout:
  assumes "m5_sizes_ok env" and "0x100000 \<le> range_size env r0"
    and "range_size env r0 \<le> 0xFFFF0000" and "0 \<le> range_size env r1"
  shows "\<exists>es. skl_e820 env [r0, r1] = Inr es \<and> e820_ordered env es \<and>
    e820_ram env es = {0 ..< 0x9fc00} \<union> {0x100000 ..< range_size env r0}
      \<union> {0x100000000 ..< 0x100000000 + range_size env r1}"
  using e820_split_layout [OF assms] by (simp add: skl_e820_two)

theorem skl_e820_split_layout_witness:
  "\<exists>es. skl_e820 ref_env [SizeRange ''2GB'', SizeRange ''2GB''] = Inr es \<and>
    e820_ordered ref_env es \<and>
    e820_ram ref_env es = {0 ..< 0x9fc00} \<union> {0x100000 ..< 0x80000000}
      \<union> {0x100000000 ..< 0x100000000 + 0x80000000}"
  using skl_e820_split_layout [of ref_env "SizeRange ''2GB''" "SizeRange ''2GB''",
      unfolded ref_size_2GB, OF ref_sizes_ok] by simp

text \<open>
  Bootstrap processor and APIC ids: for every number of processors the APIC ids of the
  MP table are 0, 1, ..., cpus, each once, the last being the I/O APIC, and processor 0 is
  the only entry with the bootstrap flag.
\<close>

theorem simple_apic_ids:
  assumes "0 < cpus"
  shows "mp_apic_ids (fst (simple_int_tables cpus)) = map int [0..<Suc cpus] \<and>
    filter is_bootstrap (fst (simple_int_tables cpus)) = [X86IntelMPProcessor 0 0x14 True True]"
  using simple_tab.apic_ids simple_tab.bootstrap_first [OF assms] by blast

theorem simple_apic_ids_witness:
  "0 < (2::nat) \<and> mp_apic_ids (fst (simple_int_tables 2)) = map int [0..<3] \<and>
    filter is_bootstrap (fst (simple_int_tables 2)) = [X86IntelMPProcessor 0 0x14 True True]"
  using simple_apic_ids [of 2] by (simp add: numeral_3_eq_3 numeral_2_eq_2)


text \<open>
  Interrupt routing of the Skylake and drive systems: the ethernet controller (PCI
  source 8) is routed to pin 11, which the ISA line 11 also uses, and it is the only
  routed source the MADT has no override for.
\<close>

theorem skl_ethernet_routing:
  "filter (\<lambda>r. r \<notin> set (overrides (snd (skl_int_tables cpus))))
     (int_routes (fst (skl_int_tables cpus))) = [(0, 8, 11)] \<and>
   filter (\<lambda>(bus, irq, pin). pin = 11) (int_routes (fst (skl_int_tables cpus)))
     = [(0, 8, 11), (1, 11, 11)]"
  by (simp add: skl_tab.overridden skl_tab.routed int_routes_extra isa_pairs_4)

end
