(* ===== verification/Caches.thy ===== *)
theory Caches
  imports M5_Objects
begin

text \<open>
  The cache classes of \<open>gem5utils/systems/simple/caches.py\<close> and
  \<open>gem5utils/systems/skylake/caches.py\<close>: each class is the record of parameters an
  instance has after inheritance, each \<open>connect...\<close> method the bindings it adds. The base
  class method \<open>L1Cache.connectCPU\<close> raises \<open>NotImplementedError\<close>; the subclasses
  override it.
\<close>

subsection \<open>The simple system's caches\<close>

definition simple_L1Cache :: cache where
  "simple_L1Cache =
     \<lparr>cache_class = ''L1Cache'', cache_size = '''', assoc = 8, tag_latency = 1,
      data_latency = 1, response_latency = 2, mshrs = 4, tgts_per_mshr = 16,
      write_buffers = Some 32, demand_mshr_reserve = None, is_read_only = None,
      cache_addr_ranges = None, prefetcher = None, replacement_policy = None,
      write_allocator = None\<rparr>"

definition simple_L1ICache :: cache where
  "simple_L1ICache =
     simple_L1Cache\<lparr>cache_class := ''L1ICache'', cache_size := ''16kB'',
       is_read_only := Some True\<rparr>"

definition simple_L1DCache :: cache where
  "simple_L1DCache = simple_L1Cache\<lparr>cache_class := ''L1DCache'', cache_size := ''16kB''\<rparr>"

definition simple_LLCCache :: cache where
  "simple_LLCCache =
     \<lparr>cache_class = ''LLCCache'', cache_size = ''128kB'', assoc = 8, tag_latency = 12,
      data_latency = 12, response_latency = 12, mshrs = 20, tgts_per_mshr = 12,
      write_buffers = Some 56, demand_mshr_reserve = None, is_read_only = None,
      cache_addr_ranges = None, prefetcher = None, replacement_policy = None,
      write_allocator = None\<rparr>"

subsection \<open>The Skylake system's caches\<close>

definition NextLinePrefetcher :: "bool \<Rightarrow> string \<times> nat \<times> nat \<times> bool" where
  "NextLinePrefetcher on_inst = (''NextLinePrefetcher'', 1, 2, on_inst)"

definition PrefetchCache :: "cache \<Rightarrow> cache" where
  "PrefetchCache c =
     c\<lparr>prefetcher := Some (NextLinePrefetcher True), replacement_policy := Some ''TreePLRURP''\<rparr>"

definition skl_L1Cache :: cache where
  "skl_L1Cache = PrefetchCache
     \<lparr>cache_class = ''L1Cache'', cache_size = '''', assoc = 8, tag_latency = 1,
      data_latency = 1, response_latency = 1, mshrs = 10, tgts_per_mshr = 16,
      write_buffers = Some 32, demand_mshr_reserve = Some 5, is_read_only = None,
      cache_addr_ranges = None, prefetcher = None, replacement_policy = None,
      write_allocator = None\<rparr>"

definition skl_L1ICache :: cache where
  "skl_L1ICache =
     skl_L1Cache\<lparr>cache_class := ''L1ICache'', cache_size := ''32kB'', assoc := 8,
       tag_latency := 1, data_latency := 1, is_read_only := Some True\<rparr>"

definition skl_L1DCache :: cache where
  "skl_L1DCache =
     skl_L1Cache\<lparr>cache_class := ''L1DCache'', cache_size := ''32kB'', assoc := 8,
       write_buffers := Some 12, write_allocator := Some (2, 8, 8)\<rparr>"

definition skl_MMUCache :: cache where
  "skl_MMUCache = PrefetchCache
     \<lparr>cache_class = ''MMUCache'', cache_size = ''8kB'', assoc = 4, tag_latency = 1,
      data_latency = 1, response_latency = 1, mshrs = 32, tgts_per_mshr = 1,
      write_buffers = Some 32, demand_mshr_reserve = None, is_read_only = None,
      cache_addr_ranges = None, prefetcher = None, replacement_policy = None,
      write_allocator = None\<rparr>"

definition skl_L2Cache :: cache where
  "skl_L2Cache =
     \<lparr>cache_class = ''L2Cache'', cache_size = ''1MB'', assoc = 8, tag_latency = 12,
      data_latency = 12, response_latency = 6, mshrs = 32, tgts_per_mshr = 1,
      write_buffers = Some 56, demand_mshr_reserve = None, is_read_only = None,
      cache_addr_ranges = None, prefetcher = None, replacement_policy = None,
      write_allocator = None\<rparr>"

definition skl_L3Cache :: cache where
  "skl_L3Cache =
     \<lparr>cache_class = ''L3Cache'', cache_size = ''8MB'', assoc = 16, tag_latency = 36,
      data_latency = 36, response_latency = 1, mshrs = 32, tgts_per_mshr = 2,
      write_buffers = Some 64, demand_mshr_reserve = None, is_read_only = None,
      cache_addr_ranges = None, prefetcher = None, replacement_policy = None,
      write_allocator = None\<rparr>"

text \<open>The parameters of the small cache that \<open>connectCPUDirectly\<close> creates.\<close>

definition direct_cache :: "nat \<Rightarrow> string \<Rightarrow> cache" where
  "direct_cache lat sz =
     \<lparr>cache_class = ''Cache'', cache_size = sz, assoc = 8, tag_latency = lat,
      data_latency = lat, response_latency = lat, mshrs = 20, tgts_per_mshr = 12,
      write_buffers = None, demand_mshr_reserve = None, is_read_only = None,
      cache_addr_ranges = None, prefetcher = None, replacement_policy = None,
      write_allocator = None\<rparr>"

subsection \<open>Connections\<close>

definition L1Cache_connectCPU :: "sim_obj \<Rightarrow> nat \<Rightarrow> system \<Rightarrow> system result" where
  "L1Cache_connectCPU self i s = Inl NotImplementedError"

definition L1ICache_connectCPU :: "nat \<Rightarrow> system \<Rightarrow> system" where
  "L1ICache_connectCPU i = bind (Port (Icache i) ''cpu_side'') (Port (Cpu i) ''icache_port'')"

definition L1DCache_connectCPU :: "nat \<Rightarrow> system \<Rightarrow> system" where
  "L1DCache_connectCPU i = bind (Port (Dcache i) ''cpu_side'') (Port (Cpu i) ''dcache_port'')"

definition MMUCache_connectCPU :: "nat \<Rightarrow> system \<Rightarrow> system" where
  "MMUCache_connectCPU i s =
     (let s = add_xbar (Mmubus i) \<lparr>xbar_class = ''L2XBar'', width = None, snoop_filter = None\<rparr> s;
          s = bind (Port (Mmucache i) ''cpu_side'') (Port (Mmubus i) ''mem_side_ports'') s
      in fold (\<lambda>tlb. bind (Port (Mmubus i) ''cpu_side_ports'') (Port tlb ''port''))
           [Itb_walker i, Dtb_walker i] s)"

definition connectBus :: "sim_obj \<Rightarrow> sim_obj \<Rightarrow> system \<Rightarrow> system" where
  "connectBus self bus = bind (Port self ''mem_side'') (Port bus ''cpu_side_ports'')"

definition connectCPUSideBus :: "sim_obj \<Rightarrow> sim_obj \<Rightarrow> system \<Rightarrow> system" where
  "connectCPUSideBus self bus = bind (Port self ''cpu_side'') (Port bus ''mem_side_ports'')"

definition connectMemSideBus :: "sim_obj \<Rightarrow> sim_obj \<Rightarrow> system \<Rightarrow> system" where
  "connectMemSideBus self bus = bind (Port self ''mem_side'') (Port bus ''cpu_side_ports'')"

text \<open>The same methods of the Skylake classes.\<close>

definition skl_L1Cache_connectCPU :: "sim_obj \<Rightarrow> nat \<Rightarrow> system \<Rightarrow> system result" where
  "skl_L1Cache_connectCPU self i s = Inl NotImplementedError"

definition skl_L1ICache_connectCPU :: "nat \<Rightarrow> system \<Rightarrow> system" where
  "skl_L1ICache_connectCPU i = bind (Port (Icache i) ''cpu_side'') (Port (Cpu i) ''icache_port'')"

definition skl_L1DCache_connectCPU :: "nat \<Rightarrow> system \<Rightarrow> system" where
  "skl_L1DCache_connectCPU i = bind (Port (Dcache i) ''cpu_side'') (Port (Cpu i) ''dcache_port'')"

definition skl_L1Cache_connectBus :: "sim_obj \<Rightarrow> sim_obj \<Rightarrow> system \<Rightarrow> system" where
  "skl_L1Cache_connectBus self bus = bind (Port self ''mem_side'') (Port bus ''cpu_side_ports'')"

definition MMUCache_connectBus :: "nat \<Rightarrow> sim_obj \<Rightarrow> system \<Rightarrow> system" where
  "MMUCache_connectBus i bus = bind (Port (Mmucache i) ''mem_side'') (Port bus ''cpu_side_ports'')"

definition L2Cache_connectCPUSideBus :: "nat \<Rightarrow> sim_obj \<Rightarrow> system \<Rightarrow> system" where
  "L2Cache_connectCPUSideBus i bus = bind (Port (L2cache i) ''cpu_side'') (Port bus ''mem_side_ports'')"

definition L2Cache_connectMemSideBus :: "nat \<Rightarrow> sim_obj \<Rightarrow> system \<Rightarrow> system" where
  "L2Cache_connectMemSideBus i bus = bind (Port (L2cache i) ''mem_side'') (Port bus ''cpu_side_ports'')"

definition L3Cache_connectCPUSideBus :: "sim_obj \<Rightarrow> system \<Rightarrow> system" where
  "L3Cache_connectCPUSideBus bus = bind (Port L3cache ''cpu_side'') (Port bus ''mem_side_ports'')"

definition L3Cache_connectMemSideBus :: "sim_obj \<Rightarrow> system \<Rightarrow> system" where
  "L3Cache_connectMemSideBus bus = bind (Port L3cache ''mem_side'') (Port bus ''cpu_side_ports'')"

lemmas cache_connect_defs = L1ICache_connectCPU_def L1DCache_connectCPU_def
  MMUCache_connectCPU_def connectBus_def connectCPUSideBus_def connectMemSideBus_def
  skl_L1ICache_connectCPU_def skl_L1DCache_connectCPU_def skl_L1Cache_connectBus_def
  MMUCache_connectBus_def L2Cache_connectCPUSideBus_def L2Cache_connectMemSideBus_def
  L3Cache_connectCPUSideBus_def L3Cache_connectMemSideBus_def

lemmas cache_param_defs = simple_L1Cache_def simple_L1ICache_def simple_L1DCache_def
  simple_LLCCache_def PrefetchCache_def skl_L1Cache_def skl_L1ICache_def skl_L1DCache_def
  skl_MMUCache_def skl_L2Cache_def skl_L3Cache_def direct_cache_def

subsection \<open>Geometry\<close>

text \<open>
  A set-associative cache of 64-byte lines has \<open>size / (64 * assoc)\<close> sets; gem5 indexes
  them with address bits, so the number of sets is a power of two.
\<close>

definition cache_sets :: "m5_env \<Rightarrow> cache \<Rightarrow> int" where
  "cache_sets env c = to_bytes env (cache_size c) div (64 * int (assoc c))"

lemma cache_bytes:
  assumes "m5_sizes_ok env"
  shows "to_bytes env ''1kB'' = 1024" "to_bytes env ''8kB'' = 8192"
    "to_bytes env ''16kB'' = 16384" "to_bytes env ''32kB'' = 32768"
    "to_bytes env ''128kB'' = 131072" "to_bytes env ''1MB'' = 1048576"
    "to_bytes env ''4MB'' = 4194304" "to_bytes env ''8MB'' = 8388608"
  using m5_size_rules(2) [OF assms, of 1] m5_size_rules(2) [OF assms, of 8]
    m5_size_rules(2) [OF assms, of 16] m5_size_rules(2) [OF assms, of 32]
    m5_size_rules(2) [OF assms, of 128] m5_size_rules(3) [OF assms, of 1]
    m5_size_rules(3) [OF assms, of 4] m5_size_rules(3) [OF assms, of 8]
  by (simp_all add: show_literal)

text \<open>
  Cache geometry: with gem5's binary size prefixes every cache the systems
  instantiate has a whole power-of-two number of 64-byte sets: 2 for the I/O and KVM
  caches, 32 and 256 for the simple system's L1 and LLC, 64, 32, 2048 and 8192 for
  Skylake's L1, MMU, L2 and L3 caches, and 8192 for the drive system's cache.
\<close>

theorem cache_geometry:
  assumes "m5_sizes_ok env"
  shows "map (cache_sets env)
      [direct_cache 50 ''1kB'', simple_L1ICache, simple_L1DCache, simple_LLCCache,
       skl_L1ICache, skl_L1DCache, skl_MMUCache, skl_L2Cache, skl_L3Cache,
       direct_cache 5 ''4MB'']
    = map ((^) 2) [1, 5, 5, 8, 6, 6, 5, 11, 13, 13]"
  by (simp add: cache_sets_def cache_param_defs cache_bytes [OF assms])

theorem cache_geometry_witness:
  "m5_sizes_ok ref_env \<and> map (cache_sets ref_env)
      [direct_cache 50 ''1kB'', simple_L1ICache, simple_L1DCache, simple_LLCCache,
       skl_L1ICache, skl_L1DCache, skl_MMUCache, skl_L2Cache, skl_L3Cache,
       direct_cache 5 ''4MB'']
    = map ((^) 2) [1, 5, 5, 8, 6, 6, 5, 11, 13, 13]"
  using cache_geometry [OF ref_sizes_ok] ref_sizes_ok by blast

end
