(* ===== verification/Systems.thy ===== *)
theory Systems
  imports X86_Fs Caches
begin

text \<open>
  The classes \<open>SimpleSystem\<close>, \<open>SklSystem\<close> and \<open>DriveSystem\<close> of
  \<open>gem5utils/systems/*/system.py\<close>: their constructors, the creation and wiring of CPUs,
  caches, interrupt and memory controllers, the CPU switches and the cache flush. A method
  that the classes have in common is one definition, with what differs as an argument.
  Console output of the constructors is left out. The lemmas give the bindings of every
  wiring method in closed form; the locale \<open>cpu_wiring\<close> states what a wiring method
  promises and is interpreted on each of them.
\<close>

subsection \<open>Disks and CPUs\<close>

definition CowDisk :: "string \<Rightarrow> cow_disk" where
  "CowDisk filename =
     \<lparr>driveID = ''device0'', image_read_only = False, child_read_only = True,
      child_image_file = filename\<rparr>"

definition setDiskImage :: "string \<Rightarrow> system \<Rightarrow> system" where
  "setDiskImage img_path s = s\<lparr>ide_disks := [CowDisk img_path]\<rparr>"

definition drive_CowDisk :: "string \<Rightarrow> cow_disk" where
  "drive_CowDisk filename =
     \<lparr>driveID = ''device0'', image_read_only = False, child_read_only = True,
      child_image_file = filename\<rparr>"

definition setDiskImages :: "string \<Rightarrow> string \<Rightarrow> system \<Rightarrow> system" where
  "setDiskImages img_path_1 img_path_2 s =
     (let disk0 = drive_CowDisk img_path_1; disk2 = drive_CowDisk img_path_2
      in s\<lparr>ide_disks := [disk0]\<rparr>)"

text \<open>The copies of these in \<open>skylake/system.py\<close> and \<open>drive/system.py\<close>.\<close>

definition skl_CowDisk :: "string \<Rightarrow> cow_disk" where
  "skl_CowDisk filename =
     \<lparr>driveID = ''device0'', image_read_only = False, child_read_only = True,
      child_image_file = filename\<rparr>"

definition skl_setDiskImage :: "string \<Rightarrow> system \<Rightarrow> system" where
  "skl_setDiskImage img_path s = s\<lparr>ide_disks := [skl_CowDisk img_path]\<rparr>"

lemma skl_disk_eq [simp]: "skl_setDiskImage = setDiskImage"
  by (rule ext)+ (simp add: skl_setDiskImage_def setDiskImage_def skl_CowDisk_def CowDisk_def)

definition set_mem_mode :: "m5_env \<Rightarrow> string \<Rightarrow> system \<Rightarrow> system" where
  "set_mem_mode env CPUModel s =
     (if issubclass env CPUModel ''BaseKvmCPU''
      then s\<lparr>kvm_vm := True, mem_mode := ''atomic_noncaching''\<rparr>
      else if issubclass env CPUModel ''BaseAtomicSimpleCPU''
      then s\<lparr>mem_mode := ''atomic''\<rparr>
      else s\<lparr>mem_mode := ''timing''\<rparr>)"

definition create_cpus :: "m5_env \<Rightarrow> string \<Rightarrow> nat \<Rightarrow> string \<Rightarrow> system \<Rightarrow> system" where
  "create_cpus env atomic_class num_cpus CPUModel s =
     (let s = s\<lparr>sys_cpu := map (\<lambda>i. new_cpu CPUModel i None) [0..<num_cpus],
                atomic_cpu := map (\<lambda>i. new_cpu atomic_class i (Some True)) [0..<num_cpus]\<rparr>;
          s = s\<lparr>sys_cpu := map createThreads (sys_cpu s),
                atomic_cpu := map createThreads (atomic_cpu s)\<rparr>
      in set_mem_mode env CPUModel s)"

definition simple_createCPU :: "m5_env \<Rightarrow> nat \<Rightarrow> string \<Rightarrow> system \<Rightarrow> system" where
  "simple_createCPU env = create_cpus env ''X86AtomicSimpleCPU''"

definition skl_createCPU :: "m5_env \<Rightarrow> nat \<Rightarrow> string \<Rightarrow> system \<Rightarrow> system" where
  "skl_createCPU env = create_cpus env ''AtomicSimpleCPU''"

definition drive_createCPU :: "m5_env \<Rightarrow> string \<Rightarrow> system \<Rightarrow> system" where
  "drive_createCPU env = create_cpus env ''AtomicSimpleCPU'' 1"

datatype cpu_ref = MainCpu nat | AtomicCpu nat

definition main_refs :: "system \<Rightarrow> cpu_ref list" where
  "main_refs s = map MainCpu [0..<length (sys_cpu s)]"

definition atomic_refs :: "system \<Rightarrow> cpu_ref list" where
  "atomic_refs s = map AtomicCpu [0..<length (atomic_cpu s)]"

text \<open>The pairs (old, new) handed to \<open>m5.switchCpus\<close>.\<close>

definition switchToAtomicCpu :: "system \<Rightarrow> (cpu_ref \<times> cpu_ref) list" where
  "switchToAtomicCpu s = zip (main_refs s) (atomic_refs s)"

definition switchToMainCpu :: "system \<Rightarrow> (cpu_ref \<times> cpu_ref) list" where
  "switchToMainCpu s = zip (atomic_refs s) (main_refs s)"

definition skl_switchToAtomicCpu :: "system \<Rightarrow> (cpu_ref \<times> cpu_ref) list" where
  "skl_switchToAtomicCpu s = zip (main_refs s) (atomic_refs s)"

definition skl_switchToMainCpu :: "system \<Rightarrow> (cpu_ref \<times> cpu_ref) list" where
  "skl_switchToMainCpu s = zip (atomic_refs s) (main_refs s)"

definition drive_switchToAtomicCpu :: "system \<Rightarrow> (cpu_ref \<times> cpu_ref) list" where
  "drive_switchToAtomicCpu s = zip (main_refs s) (atomic_refs s)"

definition drive_switchToMainCpu :: "system \<Rightarrow> (cpu_ref \<times> cpu_ref) list" where
  "drive_switchToMainCpu s = zip (atomic_refs s) (main_refs s)"

lemma switch_copies [simp]:
  "skl_switchToAtomicCpu = switchToAtomicCpu" "skl_switchToMainCpu = switchToMainCpu"
  "drive_switchToAtomicCpu = switchToAtomicCpu" "drive_switchToMainCpu = switchToMainCpu"
  by (rule ext, simp add: skl_switchToAtomicCpu_def skl_switchToMainCpu_def drive_switchToAtomicCpu_def
      drive_switchToMainCpu_def switchToAtomicCpu_def switchToMainCpu_def)+

text \<open>
  The helpers of \<open>DriveSystem\<close> that no script calls. The number of instructions a CPU has
  executed and whether it is switched out are questions to the running simulator.
\<close>

definition drive_totalInsts :: "(cpu \<Rightarrow> int) \<Rightarrow> system \<Rightarrow> int" where
  "drive_totalInsts insts s = sum_list (map insts (sys_cpu s))"

definition drive_createCPUThreads :: "cpu list \<Rightarrow> cpu list" where
  "drive_createCPUThreads cs = map createThreads cs"

definition drive_switchCpus :: "(cpu_ref \<Rightarrow> bool) \<Rightarrow> cpu_ref list \<Rightarrow> cpu_ref list
    \<Rightarrow> (cpu_ref \<times> cpu_ref) list result" where
  "drive_switchCpus switchedOut old new =
     bind_res (py_index new 0) (\<lambda>c.
       if switchedOut c then Inr (zip old new) else Inl (PyException ''AssertionError''))"

definition getHostParallel :: "system \<Rightarrow> bool" where
  "getHostParallel s = host_parallel s"

definition skl_getHostParallel :: "system \<Rightarrow> bool" where
  "skl_getHostParallel s = host_parallel s"

definition drive_getHostParallel :: "system \<Rightarrow> bool" where
  "drive_getHostParallel s = host_parallel s"

lemma getHostParallel_eq [simp]:
  "getHostParallel s = host_parallel s" "skl_getHostParallel s = host_parallel s"
  "drive_getHostParallel s = host_parallel s"
  by (simp_all add: getHostParallel_def skl_getHostParallel_def drive_getHostParallel_def)

definition upd_cpu :: "nat \<Rightarrow> (cpu \<Rightarrow> cpu) \<Rightarrow> system \<Rightarrow> system" where
  "upd_cpu i f s = s\<lparr>sys_cpu := (sys_cpu s)[i := f (sys_cpu s ! i)]\<rparr>"

subsection \<open>Wiring the CPUs\<close>

definition direct_cpu :: "nat \<Rightarrow> system \<Rightarrow> system" where
  "direct_cpu i s =
     (let s = fold (\<lambda>p. bind (Port Llc_bus ''cpu_side_ports'') p)
                [Port (Cpu i) ''icache_port'', Port (Cpu i) ''dcache_port''] s
      in fold (\<lambda>tlb. bind (Port Llc_bus ''cpu_side_ports'') (Port tlb ''port''))
           [Itb_walker i, Dtb_walker i] s)"

definition connect_directly :: "cache \<Rightarrow> system \<Rightarrow> system" where
  "connect_directly c s =
     (let s = add_xbar Llc_bus
                \<lparr>xbar_class = ''L2XBar'', width = Some 64, snoop_filter = Some ''32MB''\<rparr> s;
          s = add_cache Llc_cache c s;
          s = bind (Port Llc_cache ''mem_side'') (Port Membus ''cpu_side_ports'') s;
          s = bind (Port Llc_cache ''cpu_side'') (Port Llc_bus ''mem_side_ports'') s
      in fold direct_cpu [0..<length (sys_cpu s)] s)"

definition simple_connectCPUDirectly :: "system \<Rightarrow> system" where
  "simple_connectCPUDirectly = connect_directly (direct_cache 50 ''1kB'')"

definition skl_connectCPUDirectly :: "system \<Rightarrow> system" where
  "skl_connectCPUDirectly s =
     (connect_directly (direct_cache 50 ''1kB'') s)\<lparr>tracked_caches := [Llc_cache]\<rparr>"

definition drive_connectCPUDirectly :: "system \<Rightarrow> system" where
  "drive_connectCPUDirectly = connect_directly (direct_cache 5 ''4MB'')"

definition simple_hierarchy_cpu :: "nat \<Rightarrow> system \<Rightarrow> system" where
  "simple_hierarchy_cpu i s =
     (let s = upd_cpu i (\<lambda>c. c\<lparr>icache := Some simple_L1ICache, dcache := Some simple_L1DCache\<rparr>) s;
          s = L1ICache_connectCPU i s;
          s = L1DCache_connectCPU i s;
          s = connectBus (Icache i) Llcbus s;
          s = connectBus (Dcache i) Llcbus s;
          s = bind (Port (Itb_walker i) ''port'') (Port Membus ''cpu_side_ports'') s;
          s = bind (Port (Dtb_walker i) ''port'') (Port Membus ''cpu_side_ports'') s
      in s)"

definition simple_createCacheHierarchy :: "system \<Rightarrow> system" where
  "simple_createCacheHierarchy s =
     (let s = add_xbar Llcbus \<lparr>xbar_class = ''L2XBar'', width = Some 64, snoop_filter = None\<rparr> s;
          s = add_cache Llc simple_LLCCache s;
          s = connectCPUSideBus Llc Llcbus s;
          s = connectMemSideBus Llc Membus s
      in fold simple_hierarchy_cpu [0..<length (sys_cpu s)] s)"

definition skl_hierarchy_cpu :: "nat \<Rightarrow> system \<Rightarrow> system" where
  "skl_hierarchy_cpu i s =
     (let s = upd_cpu i (\<lambda>c. c\<lparr>l2bus := Some \<lparr>xbar_class = ''L2XBar'', width = None,
                                               snoop_filter = None\<rparr>\<rparr>) s;
          s = upd_cpu i (\<lambda>c. c\<lparr>icache := Some skl_L1ICache, dcache := Some skl_L1DCache,
                                mmucache := Some skl_MMUCache\<rparr>) s;
          s = s\<lparr>tracked_caches := tracked_caches s @ [Icache i, Dcache i, Mmucache i]\<rparr>;
          s = skl_L1ICache_connectCPU i s;
          s = skl_L1DCache_connectCPU i s;
          s = MMUCache_connectCPU i s;
          s = skl_L1Cache_connectBus (Icache i) (L2bus i) s;
          s = skl_L1Cache_connectBus (Dcache i) (L2bus i) s;
          s = MMUCache_connectBus i (L2bus i) s;
          s = upd_cpu i (\<lambda>c. c\<lparr>l2cache := Some skl_L2Cache\<rparr>) s;
          s = s\<lparr>tracked_caches := tracked_caches s @ [L2cache i]\<rparr>;
          s = L2Cache_connectCPUSideBus i (L2bus i) s;
          s = L2Cache_connectMemSideBus i L3bus s
      in s)"

definition skl_createCacheHierarchy :: "system \<Rightarrow> system" where
  "skl_createCacheHierarchy s =
     (let s = add_xbar L3bus
                \<lparr>xbar_class = ''L2XBar'', width = Some 64, snoop_filter = Some ''32MB''\<rparr> s;
          s = s\<lparr>tracked_caches := []\<rparr>;
          s = fold skl_hierarchy_cpu [0..<length (sys_cpu s)] s;
          s = add_cache L3cache skl_L3Cache s;
          s = s\<lparr>tracked_caches := tracked_caches s @ [L3cache]\<rparr>;
          s = L3Cache_connectCPUSideBus L3bus s;
          s = L3Cache_connectMemSideBus Membus s
      in s)"

datatype cache_op = Drain | MemWriteback sim_obj | MemInvalidate sim_obj

definition flushCaches :: "system \<Rightarrow> cache_op list" where
  "flushCaches s = Drain # concat (map (\<lambda>c. [MemWriteback c, MemInvalidate c]) (tracked_caches s))"

subsection \<open>Interrupt and memory controllers, event queues\<close>

definition interrupts_cpu :: "nat \<Rightarrow> system \<Rightarrow> system" where
  "interrupts_cpu i s =
     (let s = upd_cpu i createInterruptController s;
          s = bind (Port (Interrupts i) ''pio'') (Port Membus ''mem_side_ports'') s;
          s = bind (Port (Interrupts i) ''int_requestor'') (Port Membus ''cpu_side_ports'') s;
          s = bind (Port (Interrupts i) ''int_responder'') (Port Membus ''mem_side_ports'') s
      in s)"

definition setupInterrupts :: "system \<Rightarrow> system" where
  "setupInterrupts s = fold interrupts_cpu [0..<length (sys_cpu s)] s"

definition createSimpleMemoryController :: "system \<Rightarrow> system result" where
  "createSimpleMemoryController s =
     bind_res (py_index (mem_ranges s) 0) (\<lambda>r.
       Inr (bind (Port Mem_cntrl ''port'') (Port Membus ''mem_side_ports'')
              (s\<lparr>mem_ctrls := [\<lparr>mem_class = ''SimpleMemory'', mem_range = r\<rparr>]\<rparr>)))"

text \<open>The copies of these in \<open>skylake/system.py\<close> (the memory controller is not used there) and \<open>drive/system.py\<close>.\<close>

definition skl_setupInterrupts :: "system \<Rightarrow> system" where
  "skl_setupInterrupts s = fold interrupts_cpu [0..<length (sys_cpu s)] s"

definition drive_setupInterrupts :: "system \<Rightarrow> system" where
  "drive_setupInterrupts s = fold interrupts_cpu [0..<length (sys_cpu s)] s"

definition skl_createSimpleMemoryController :: "system \<Rightarrow> system result" where
  "skl_createSimpleMemoryController s =
     bind_res (py_index (mem_ranges s) 0) (\<lambda>r.
       Inr (bind (Port Mem_cntrl ''port'') (Port Membus ''mem_side_ports'')
              (s\<lparr>mem_ctrls := [\<lparr>mem_class = ''SimpleMemory'', mem_range = r\<rparr>]\<rparr>)))"

definition drive_createMemoryControllers :: "system \<Rightarrow> system result" where
  "drive_createMemoryControllers s =
     bind_res (py_index (mem_ranges s) 0) (\<lambda>r.
       Inr (bind (Port Mem_cntrl ''port'') (Port Membus ''mem_side_ports'')
              (s\<lparr>mem_ctrls := [\<lparr>mem_class = ''SimpleMemory'', mem_range = r\<rparr>]\<rparr>)))"

lemma controller_copies [simp]:
  "skl_setupInterrupts = setupInterrupts" "drive_setupInterrupts = setupInterrupts"
  "skl_createSimpleMemoryController = createSimpleMemoryController"
  "drive_createMemoryControllers = createSimpleMemoryController"
  by (rule ext, simp add: skl_setupInterrupts_def drive_setupInterrupts_def setupInterrupts_def
      skl_createSimpleMemoryController_def drive_createMemoryControllers_def createSimpleMemoryController_def)+

text \<open>\<open>int(math.log(num, 2))\<close>; Python raises on a number that is not positive.\<close>

fun ilog2 :: "nat \<Rightarrow> nat" where
  "ilog2 n = (if n < 2 then 0 else Suc (ilog2 (n div 2)))"

declare ilog2.simps [simp del]

definition getInterleaveRanges ::
    "m5_env \<Rightarrow> addr_range \<Rightarrow> nat \<Rightarrow> int \<Rightarrow> int \<Rightarrow> addr_range list result" where
  "getInterleaveRanges env rng num intlv_low_bit xor_low_bit =
     (if num = 0 then Inl (ValueError ''math domain error'')
      else let bits = ilog2 num
           in if 2 ^ bits \<noteq> num
              then Inl (Fatal ''Non-power of two number of memory controllers'')
              else Inr (map (\<lambda>i. Interleaved (range_start env rng) (range_end env rng)
                       (intlv_low_bit + int bits - 1) (xor_low_bit + int bits - 1)
                       (int bits) (int i)) [0..<num]))"

definition createMemoryControllers ::
    "m5_env \<Rightarrow> nat \<Rightarrow> string \<Rightarrow> system \<Rightarrow> system result" where
  "createMemoryControllers env n_dram_cntrl dram_cls s =
     bind_res (py_index (mem_ranges s) 0) (\<lambda>r.
       bind_res (getInterleaveRanges env r n_dram_cntrl 7 20) (\<lambda>ranges.
         Inr (fold (\<lambda>i. bind (Port (Mem_cntrls i) ''port'') (Port Membus ''mem_side_ports''))
                [0..<n_dram_cntrl]
                (s\<lparr>mem_ctrls := map (\<lambda>i. \<lparr>mem_class = dram_cls, mem_range = ranges ! i\<rparr>)
                                  [0..<n_dram_cntrl]\<rparr>))))"

definition createMemoryController :: "m5_env \<Rightarrow> nat \<Rightarrow> system \<Rightarrow> system result" where
  "createMemoryController env n_dram_cntrl =
     createMemoryControllers env n_dram_cntrl ''DDR4_2400_16x4''"

definition assign_eventqs :: "system \<Rightarrow> system" where
  "assign_eventqs s =
     fold (\<lambda>i. upd_cpu i (\<lambda>c. c\<lparr>descendants_eventq := Some 0, eventq_index := Some (i + 1)\<rparr>))
       [0..<length (sys_cpu s)] s"

subsection \<open>Constructors\<close>

definition boot_options :: "string list" where
  "boot_options = [''earlyprintk=ttyS0'', ''console=ttyS0'', ''lpj=7999923'', ''root=/dev/hda2'',
     ''isolcpus=1'', ''cloud-init=disabled'']"

definition drive_boot_options :: "string list" where
  "drive_boot_options =
     [''earlyprintk=ttyS0'', ''console=ttyS0'', ''lpj=7999923'', ''root=/dev/hda2'']"

definition init_board :: "bool \<Rightarrow> string \<Rightarrow> system" where
  "init_board par clk =
     (let s = empty_system\<lparr>host_parallel := par, clock := clk,
                mem_ranges := [SizeRange ''2GB'']\<rparr>;
          s = add_xbar Membus \<lparr>xbar_class = ''SystemXBar'', width = Some 64,
                                snoop_filter = None\<rparr> s;
          s = bind (Port Membus ''default'') (Port BadAddr_obj ''pio'') s
      in bind (Port System_obj ''system_port'') (Port Membus ''cpu_side_ports'') s)"

definition set_kernel :: "string \<Rightarrow> string list \<Rightarrow> system \<Rightarrow> system" where
  "set_kernel krnl opts s =
     (upd_workload (\<lambda>w. w\<lparr>object_file := krnl, command_line := py_join '' '' opts\<rparr>) s)
       \<lparr>m5ops_base := 0xffff0000\<rparr>"

definition SimpleSystem ::
    "m5_env \<Rightarrow> string \<Rightarrow> string \<Rightarrow> nat \<Rightarrow> string \<Rightarrow> bool \<Rightarrow> system result" where
  "SimpleSystem env krnl disk num_cpus CPUModel kvm =
     bind_res (simple_initFS env num_cpus (init_board (kvm \<and> num_cpus > 1) ''2.5GHz'')) (\<lambda>s.
       let s = set_kernel krnl boot_options (setDiskImage disk s);
           s = (if kvm
                then simple_connectCPUDirectly (simple_createCPU env num_cpus ''X86KvmCPU'' s)
                else simple_createCacheHierarchy (simple_createCPU env num_cpus CPUModel s));
           s = setupInterrupts s
       in bind_res (createSimpleMemoryController s) (\<lambda>s.
            Inr (if host_parallel s then assign_eventqs s else s)))"

definition SklSystem ::
    "m5_env \<Rightarrow> string \<Rightarrow> string \<Rightarrow> nat \<Rightarrow> string \<Rightarrow> bool \<Rightarrow> system result" where
  "SklSystem env krnl disk num_cpus CPUModel kvm =
     bind_res (skl_initFS env num_cpus (init_board (kvm \<and> num_cpus > 1) ''2.5GHz'')) (\<lambda>s.
       let s = set_kernel krnl boot_options (skl_setDiskImage disk s);
           s = (if kvm
                then skl_connectCPUDirectly (skl_createCPU env num_cpus ''X86KvmCPU'' s)
                else skl_createCacheHierarchy (skl_createCPU env num_cpus CPUModel s));
           s = skl_setupInterrupts s
       in bind_res (createMemoryController env 1 s) (\<lambda>s.
            Inr (if host_parallel s then assign_eventqs s else s)))"

definition DriveSystem :: "m5_env \<Rightarrow> string \<Rightarrow> string \<Rightarrow> bool \<Rightarrow> system result" where
  "DriveSystem env krnl disk kvm =
     bind_res (drive_initFS env 1 (init_board kvm ''3.5GHz'')) (\<lambda>s.
       let s = set_kernel krnl drive_boot_options (setDiskImages disk disk s);
           s = drive_createCPU env (if kvm then ''X86KvmCPU'' else ''AtomicSimpleCPU'') s;
           s = drive_setupInterrupts (drive_connectCPUDirectly s)
       in drive_createMemoryControllers s)"

subsection \<open>Field frames\<close>

lemma sys_cpu_frames [simp]:
  "sys_cpu (bind p q s) = sys_cpu s" "sys_cpu (add_xbar n x s) = sys_cpu s"
  "sys_cpu (add_cache n c s) = sys_cpu s" "sys_cpu (upd_workload f s) = sys_cpu s"
  "atomic_cpu (bind p q s) = atomic_cpu s" "atomic_cpu (add_xbar n x s) = atomic_cpu s"
  "atomic_cpu (add_cache n c s) = atomic_cpu s" "atomic_cpu (upd_workload f s) = atomic_cpu s"
  "atomic_cpu (upd_cpu i g s) = atomic_cpu s"
  by (simp_all add: bind_def add_xbar_def add_cache_def upd_workload_def upd_cpu_def)

lemma length_upd_cpu [simp]: "length (sys_cpu (upd_cpu i f s)) = length (sys_cpu s)"
  by (simp add: upd_cpu_def)

lemma binds_frames [simp]:
  "binds (add_xbar n x s) = binds s" "binds (add_cache n c s) = binds s"
  "binds (upd_cpu i f s) = binds s" "binds (upd_workload g s) = binds s"
  by (simp_all add: add_xbar_def add_cache_def upd_cpu_def upd_workload_def)

text \<open>The fields no wiring step touches.\<close>

definition board :: "system \<Rightarrow> addr_range list \<times> bool \<times> string \<times> bool \<times> int \<times> cpu list
    \<times> addr_range list \<times> workload \<times> sim_obj option" where
  "board s = (mem_ranges s, host_parallel s, mem_mode s, kvm_vm s, m5ops_base s, atomic_cpu s,
     bridge_ranges s, sys_workload s, pc_io_bus s)"

lemma board_frames [simp]:
  "board (bind p q s) = board s" "board (add_xbar n x s) = board s"
  "board (add_cache n c s) = board s" "board (upd_cpu i f s) = board s"
  "board (s\<lparr>tracked_caches := cs\<rparr>) = board s" "board (s\<lparr>mem_ctrls := ms\<rparr>) = board s"
  by (simp_all add: board_def bind_def add_xbar_def add_cache_def upd_cpu_def)

lemma mem_ranges_frames [simp]:
  "mem_ranges (bind p q s) = mem_ranges s" "mem_ranges (add_xbar n x s) = mem_ranges s"
  "mem_ranges (add_cache n c s) = mem_ranges s" "mem_ranges (upd_workload f s) = mem_ranges s"
  by (simp_all add: bind_def add_xbar_def add_cache_def upd_workload_def)

lemma tracked_frames [simp]:
  "tracked_caches (bind p q s) = tracked_caches s"
  "tracked_caches (add_xbar n x s) = tracked_caches s"
  "tracked_caches (add_cache n c s) = tracked_caches s"
  "tracked_caches (upd_cpu i f s) = tracked_caches s"
  by (simp_all add: bind_def add_xbar_def add_cache_def upd_cpu_def)

text \<open>A loop over indices keeps every field its body keeps.\<close>

lemma fold_keeps:
  assumes "\<And>i s. h (f i s) = h s"
  shows "h (fold f is s) = h s"
  using assms by (induction "is" arbitrary: s) auto

subsection \<open>Closed forms of the bindings\<close>

definition direct_binds :: "nat \<Rightarrow> bind list" where
  "direct_binds i =
     [(Port Llc_bus ''cpu_side_ports'', Port (Cpu i) ''icache_port''),
      (Port Llc_bus ''cpu_side_ports'', Port (Cpu i) ''dcache_port''),
      (Port Llc_bus ''cpu_side_ports'', Port (Itb_walker i) ''port''),
      (Port Llc_bus ''cpu_side_ports'', Port (Dtb_walker i) ''port'')]"

definition simple_hier_binds :: "nat \<Rightarrow> bind list" where
  "simple_hier_binds i =
     [(Port (Icache i) ''cpu_side'', Port (Cpu i) ''icache_port''),
      (Port (Dcache i) ''cpu_side'', Port (Cpu i) ''dcache_port''),
      (Port (Icache i) ''mem_side'', Port Llcbus ''cpu_side_ports''),
      (Port (Dcache i) ''mem_side'', Port Llcbus ''cpu_side_ports''),
      (Port (Itb_walker i) ''port'', Port Membus ''cpu_side_ports''),
      (Port (Dtb_walker i) ''port'', Port Membus ''cpu_side_ports'')]"

definition skl_hier_binds :: "nat \<Rightarrow> bind list" where
  "skl_hier_binds i =
     [(Port (Icache i) ''cpu_side'', Port (Cpu i) ''icache_port''),
      (Port (Dcache i) ''cpu_side'', Port (Cpu i) ''dcache_port''),
      (Port (Mmucache i) ''cpu_side'', Port (Mmubus i) ''mem_side_ports''),
      (Port (Mmubus i) ''cpu_side_ports'', Port (Itb_walker i) ''port''),
      (Port (Mmubus i) ''cpu_side_ports'', Port (Dtb_walker i) ''port''),
      (Port (Icache i) ''mem_side'', Port (L2bus i) ''cpu_side_ports''),
      (Port (Dcache i) ''mem_side'', Port (L2bus i) ''cpu_side_ports''),
      (Port (Mmucache i) ''mem_side'', Port (L2bus i) ''cpu_side_ports''),
      (Port (L2cache i) ''cpu_side'', Port (L2bus i) ''mem_side_ports''),
      (Port (L2cache i) ''mem_side'', Port L3bus ''cpu_side_ports'')]"

definition interrupt_binds :: "nat \<Rightarrow> bind list" where
  "interrupt_binds i =
     [(Port (Interrupts i) ''pio'', Port Membus ''mem_side_ports''),
      (Port (Interrupts i) ''int_requestor'', Port Membus ''cpu_side_ports''),
      (Port (Interrupts i) ''int_responder'', Port Membus ''mem_side_ports'')]"

definition per_cpu :: "(nat \<Rightarrow> bind list) \<Rightarrow> system \<Rightarrow> bind list" where
  "per_cpu g s = concat (map g [0..<length (sys_cpu s)])"

lemma in_per_cpu: "i < length (sys_cpu s) \<Longrightarrow> b \<in> set (g i) \<Longrightarrow> b \<in> set (per_cpu g s)"
  by (auto simp: per_cpu_def)

lemma binds_direct_cpu: "binds (direct_cpu i s) = binds s @ direct_binds i"
  by (simp add: direct_cpu_def direct_binds_def)

lemma binds_simple_hierarchy_cpu:
  "binds (simple_hierarchy_cpu i s) = binds s @ simple_hier_binds i"
  by (simp add: simple_hierarchy_cpu_def simple_hier_binds_def cache_connect_defs)

lemma binds_skl_hierarchy_cpu: "binds (skl_hierarchy_cpu i s) = binds s @ skl_hier_binds i"
  by (simp add: skl_hierarchy_cpu_def skl_hier_binds_def cache_connect_defs)

lemma binds_interrupts_cpu: "binds (interrupts_cpu i s) = binds s @ interrupt_binds i"
  by (simp add: interrupts_cpu_def interrupt_binds_def)

lemma binds_connect_directly:
  "binds (connect_directly c s) = binds s @
     [(Port Llc_cache ''mem_side'', Port Membus ''cpu_side_ports''),
      (Port Llc_cache ''cpu_side'', Port Llc_bus ''mem_side_ports'')] @ per_cpu direct_binds s"
  by (simp add: connect_directly_def Let_def fold_binds [where g = direct_binds]
      binds_direct_cpu per_cpu_def)

lemma binds_simple_hierarchy:
  "binds (simple_createCacheHierarchy s) = binds s @
     [(Port Llc ''cpu_side'', Port Llcbus ''mem_side_ports''),
      (Port Llc ''mem_side'', Port Membus ''cpu_side_ports'')] @ per_cpu simple_hier_binds s"
  by (simp add: simple_createCacheHierarchy_def Let_def cache_connect_defs per_cpu_def
      fold_binds [where g = simple_hier_binds] binds_simple_hierarchy_cpu)

lemma binds_skl_hierarchy:
  "binds (skl_createCacheHierarchy s) = binds s @ per_cpu skl_hier_binds s @
     [(Port L3cache ''cpu_side'', Port L3bus ''mem_side_ports''),
      (Port L3cache ''mem_side'', Port Membus ''cpu_side_ports'')]"
  by (simp add: skl_createCacheHierarchy_def Let_def cache_connect_defs per_cpu_def
      fold_binds [where g = skl_hier_binds] binds_skl_hierarchy_cpu)

lemma binds_setupInterrupts: "binds (setupInterrupts s) = binds s @ per_cpu interrupt_binds s"
  by (simp add: setupInterrupts_def per_cpu_def fold_binds [where g = interrupt_binds]
      binds_interrupts_cpu)

lemma length_cpu_steps:
  "length (sys_cpu (direct_cpu i s)) = length (sys_cpu s)"
  "length (sys_cpu (simple_hierarchy_cpu i s)) = length (sys_cpu s)"
  "length (sys_cpu (skl_hierarchy_cpu i s)) = length (sys_cpu s)"
  "length (sys_cpu (interrupts_cpu i s)) = length (sys_cpu s)"
  by (simp_all add: direct_cpu_def simple_hierarchy_cpu_def skl_hierarchy_cpu_def
      interrupts_cpu_def cache_connect_defs)

lemma length_cpu_wiring:
  "length (sys_cpu (connect_directly c s)) = length (sys_cpu s)"
  "length (sys_cpu (simple_createCacheHierarchy s)) = length (sys_cpu s)"
  "length (sys_cpu (skl_createCacheHierarchy s)) = length (sys_cpu s)"
  "length (sys_cpu (setupInterrupts s)) = length (sys_cpu s)"
  by (simp_all add: connect_directly_def simple_createCacheHierarchy_def
      skl_createCacheHierarchy_def setupInterrupts_def cache_connect_defs Let_def
      fold_keeps [where h = "\<lambda>s. length (sys_cpu s)", OF length_cpu_steps(1)]
      fold_keeps [where h = "\<lambda>s. length (sys_cpu s)", OF length_cpu_steps(2)]
      fold_keeps [where h = "\<lambda>s. length (sys_cpu s)", OF length_cpu_steps(3)]
      fold_keeps [where h = "\<lambda>s. length (sys_cpu s)", OF length_cpu_steps(4)])

subsection \<open>The contract of a wiring method\<close>

definition cpu_ports :: "nat \<Rightarrow> sim_port list" where
  "cpu_ports i =
     [Port (Cpu i) ''icache_port'', Port (Cpu i) ''dcache_port'',
      Port (Itb_walker i) ''port'', Port (Dtb_walker i) ''port'']"

locale cpu_wiring =
  fixes wire :: "system \<Rightarrow> system"
  assumes wire_keeps: "set (binds s) \<subseteq> set (binds (wire s))"
    and wire_cpus: "length (sys_cpu (wire s)) = length (sys_cpu s)"
    and wire_board: "board (wire s) = board s"
    and wire_routes: "i < length (sys_cpu s) \<Longrightarrow> p \<in> set (cpu_ports i) \<Longrightarrow>
      port_routes (binds (wire s)) p Membus"
    and wire_ok: "b \<in> set (binds (wire s)) \<Longrightarrow> b \<in> set (binds s) \<or> bind_ok b"
begin

lemma interrupts_keep:
  "set (binds (wire s)) \<subseteq> set (binds (setupInterrupts (wire s)))"
  by (simp add: binds_setupInterrupts)

lemma interrupts_ok:
  "b \<in> set (binds (setupInterrupts (wire s))) \<Longrightarrow> b \<in> set (binds s) \<or> bind_ok b"
  using wire_ok [of b s]
  by (auto simp: binds_setupInterrupts per_cpu_def interrupt_binds_def bind_ok_def port_role_defs)

lemma reaches_simple_memory:
  assumes "i < length (sys_cpu s)" and "p \<in> set (cpu_ports i)"
    and t: "createSimpleMemoryController (setupInterrupts (wire s)) = Inr t"
  shows "port_routes (binds t) p Mem_cntrl"
proof -
  have bt: "binds t = binds (setupInterrupts (wire s)) @
      [(Port Mem_cntrl ''port'', Port Membus ''mem_side_ports'')]"
    using t by (auto simp: createSimpleMemoryController_def bind_res_Inr_iff)
  then have "routes (binds t) Membus Mem_cntrl"
    using routes_bind_rev [of "Port Mem_cntrl ''port''" "Port Membus ''mem_side_ports''" "binds t"]
    by (simp add: port_role_defs)
  moreover have "port_routes (binds t) p Membus"
    using wire_routes [OF assms(1,2)] interrupts_keep [of s] bt
    by (auto elim!: port_routes_mono)
  ultimately show ?thesis by (rule port_routes_trans [rotated])
qed

lemma reaches_dram:
  assumes "i < length (sys_cpu s)" and "p \<in> set (cpu_ports i)"
    and t: "createMemoryController env 1 (setupInterrupts (wire s)) = Inr t"
  shows "port_routes (binds t) p (Mem_cntrls 0)"
proof -
  have bt: "binds t = binds (setupInterrupts (wire s)) @
      [(Port (Mem_cntrls 0) ''port'', Port Membus ''mem_side_ports'')]"
    using t by (auto simp: createMemoryController_def createMemoryControllers_def
        bind_res_Inr_iff)
  then have "routes (binds t) Membus (Mem_cntrls 0)"
    using routes_bind_rev [of "Port (Mem_cntrls 0) ''port''" "Port Membus ''mem_side_ports''" "binds t"]
    by (simp add: port_role_defs)
  moreover have "port_routes (binds t) p Membus"
    using wire_routes [OF assms(1,2)] interrupts_keep [of s] bt
    by (auto elim!: port_routes_mono)
  ultimately show ?thesis by (rule port_routes_trans [rotated])
qed

end

lemma board_steps:
  "board (direct_cpu i s) = board s"
  "board (simple_hierarchy_cpu i s) = board s"
  "board (skl_hierarchy_cpu i s) = board s"
  "board (interrupts_cpu i s) = board s"
  by (simp_all add: direct_cpu_def simple_hierarchy_cpu_def skl_hierarchy_cpu_def
      interrupts_cpu_def cache_connect_defs)

lemma board_wiring:
  "board (connect_directly c s) = board s"
  "board (simple_createCacheHierarchy s) = board s"
  "board (skl_createCacheHierarchy s) = board s"
  "board (setupInterrupts s) = board s"
  by (simp_all add: connect_directly_def simple_createCacheHierarchy_def
      skl_createCacheHierarchy_def setupInterrupts_def cache_connect_defs Let_def
      fold_keeps [where h = board, OF board_steps(1)]
      fold_keeps [where h = board, OF board_steps(2)]
      fold_keeps [where h = board, OF board_steps(3)]
      fold_keeps [where h = board, OF board_steps(4)])

text \<open>A request port that is bound to a responder, two ways round.\<close>

lemma port_routesI:
  "(q, p) \<in> set bs \<Longrightarrow> is_responder q \<Longrightarrow> routes bs (port_obj q) y \<Longrightarrow> port_routes bs p y"
  "(p, q) \<in> set bs \<Longrightarrow> is_responder q \<Longrightarrow> routes bs (port_obj q) y \<Longrightarrow> port_routes bs p y"
  by (auto simp: port_routes_def)

lemma direct_routes:
  assumes "i < length (sys_cpu s)" and "p \<in> set (cpu_ports i)"
  shows "port_routes (binds (connect_directly c s)) p Membus"
proof -
  let ?bs = "binds (connect_directly c s)"
  have "routes ?bs Llc_bus Llc_cache"
    using routes_bind_rev [of "Port Llc_cache ''cpu_side''" "Port Llc_bus ''mem_side_ports''" ?bs]
    by (simp add: binds_connect_directly port_role_defs)
  moreover have "routes ?bs Llc_cache Membus"
    using routes_bind [of "Port Llc_cache ''mem_side''" "Port Membus ''cpu_side_ports''" ?bs]
    by (simp add: binds_connect_directly port_role_defs)
  ultimately have "routes ?bs Llc_bus Membus" by (rule routes_trans)
  moreover have "(Port Llc_bus ''cpu_side_ports'', p) \<in> set (direct_binds i)"
    using assms(2) by (auto simp: cpu_ports_def direct_binds_def)
  then have "(Port Llc_bus ''cpu_side_ports'', p) \<in> set ?bs"
    using in_per_cpu [OF assms(1)] by (simp add: binds_connect_directly)
  ultimately show ?thesis
    by (intro port_routesI(1) [of "Port Llc_bus ''cpu_side_ports''"]) (auto simp: port_role_defs)
qed

lemma direct_ok:
  "b \<in> set (binds (connect_directly c s)) \<Longrightarrow> b \<in> set (binds s) \<or> bind_ok b"
  by (auto simp: binds_connect_directly per_cpu_def direct_binds_def bind_ok_def port_role_defs)

lemma simple_hier_routes:
  assumes i: "i < length (sys_cpu s)" and p: "p \<in> set (cpu_ports i)"
  shows "port_routes (binds (simple_createCacheHierarchy s)) p Membus"
proof -
  let ?bs = "binds (simple_createCacheHierarchy s)"
  have sub: "set (simple_hier_binds i) \<subseteq> set ?bs"
    using in_per_cpu [OF i, of _ simple_hier_binds] by (auto simp: binds_simple_hierarchy)
  have "routes ?bs Llcbus Llc"
    using routes_bind_rev [of "Port Llc ''cpu_side''" "Port Llcbus ''mem_side_ports''" ?bs]
    by (simp add: binds_simple_hierarchy port_role_defs)
  moreover have "routes ?bs Llc Membus"
    using routes_bind [of "Port Llc ''mem_side''" "Port Membus ''cpu_side_ports''" ?bs]
    by (simp add: binds_simple_hierarchy port_role_defs)
  ultimately have bus: "routes ?bs Llcbus Membus" by (rule routes_trans)
  have l1: "routes ?bs (Icache i) Llcbus" "routes ?bs (Dcache i) Llcbus"
    using sub routes_bind [of "Port (Icache i) ''mem_side''" "Port Llcbus ''cpu_side_ports''" ?bs]
      routes_bind [of "Port (Dcache i) ''mem_side''" "Port Llcbus ''cpu_side_ports''" ?bs]
    by (auto simp: simple_hier_binds_def port_role_defs)
  note paths = l1(1) [THEN routes_trans, OF bus] l1(2) [THEN routes_trans, OF bus]
    routes.here [of ?bs Membus]
  show ?thesis
    using p sub paths
    by (auto simp: cpu_ports_def simple_hier_binds_def port_role_defs
        intro: port_routesI [where q = "Port (Icache i) ''cpu_side''"]
          port_routesI [where q = "Port (Dcache i) ''cpu_side''"]
          port_routesI [where q = "Port Membus ''cpu_side_ports''"])
qed

lemma simple_hier_ok:
  "b \<in> set (binds (simple_createCacheHierarchy s)) \<Longrightarrow> b \<in> set (binds s) \<or> bind_ok b"
  by (auto simp: binds_simple_hierarchy per_cpu_def simple_hier_binds_def bind_ok_def
      port_role_defs)

lemma skl_hier_routes:
  assumes i: "i < length (sys_cpu s)" and p: "p \<in> set (cpu_ports i)"
  shows "port_routes (binds (skl_createCacheHierarchy s)) p Membus"
proof -
  let ?bs = "binds (skl_createCacheHierarchy s)"
  have sub: "set (skl_hier_binds i) \<subseteq> set ?bs"
    using in_per_cpu [OF i, of _ skl_hier_binds] by (auto simp: binds_skl_hierarchy)
  have "routes ?bs L3bus L3cache"
    using routes_bind_rev [of "Port L3cache ''cpu_side''" "Port L3bus ''mem_side_ports''" ?bs]
    by (simp add: binds_skl_hierarchy port_role_defs)
  moreover have "routes ?bs L3cache Membus"
    using routes_bind [of "Port L3cache ''mem_side''" "Port Membus ''cpu_side_ports''" ?bs]
    by (simp add: binds_skl_hierarchy port_role_defs)
  moreover have "routes ?bs (L2cache i) L3bus" "routes ?bs (L2bus i) (L2cache i)"
    using sub routes_bind [of "Port (L2cache i) ''mem_side''" "Port L3bus ''cpu_side_ports''" ?bs]
      routes_bind_rev [of "Port (L2cache i) ''cpu_side''" "Port (L2bus i) ''mem_side_ports''" ?bs]
    by (auto simp: skl_hier_binds_def port_role_defs)
  ultimately have bus: "routes ?bs (L2bus i) Membus" by (meson routes_trans)
  have l1: "routes ?bs (Icache i) (L2bus i)" "routes ?bs (Dcache i) (L2bus i)"
      "routes ?bs (Mmucache i) (L2bus i)"
    using sub routes_bind [of "Port (Icache i) ''mem_side''" "Port (L2bus i) ''cpu_side_ports''" ?bs]
      routes_bind [of "Port (Dcache i) ''mem_side''" "Port (L2bus i) ''cpu_side_ports''" ?bs]
      routes_bind [of "Port (Mmucache i) ''mem_side''" "Port (L2bus i) ''cpu_side_ports''" ?bs]
    by (auto simp: skl_hier_binds_def port_role_defs)
  have "routes ?bs (Mmubus i) (Mmucache i)"
    using sub routes_bind_rev [of "Port (Mmucache i) ''cpu_side''"
        "Port (Mmubus i) ''mem_side_ports''" ?bs]
    by (auto simp: skl_hier_binds_def port_role_defs)
  then have "routes ?bs (Mmubus i) Membus" using l1(3) bus by (meson routes_trans)
  note paths = l1(1) [THEN routes_trans, OF bus] l1(2) [THEN routes_trans, OF bus] this
  show ?thesis
    using p sub paths
    by (auto simp: cpu_ports_def skl_hier_binds_def port_role_defs
        intro: port_routesI [where q = "Port (Icache i) ''cpu_side''"]
          port_routesI [where q = "Port (Dcache i) ''cpu_side''"]
          port_routesI [where q = "Port (Mmubus i) ''cpu_side_ports''"])
qed

lemma skl_hier_ok:
  "b \<in> set (binds (skl_createCacheHierarchy s)) \<Longrightarrow> b \<in> set (binds s) \<or> bind_ok b"
  by (auto simp: binds_skl_hierarchy per_cpu_def skl_hier_binds_def bind_ok_def port_role_defs)

lemma wiring_keeps:
  "set (binds s) \<subseteq> set (binds (connect_directly c s))"
  "set (binds s) \<subseteq> set (binds (simple_createCacheHierarchy s))"
  "set (binds s) \<subseteq> set (binds (skl_createCacheHierarchy s))"
  by (auto simp: binds_connect_directly binds_simple_hierarchy binds_skl_hierarchy)

lemmas wiring_frames = length_cpu_wiring board_wiring wiring_keeps

interpretation simple_direct: cpu_wiring simple_connectCPUDirectly
  unfolding simple_connectCPUDirectly_def
  by unfold_locales (simp_all add: wiring_frames direct_routes direct_ok)

interpretation skl_direct: cpu_wiring skl_connectCPUDirectly
  unfolding skl_connectCPUDirectly_def
  by unfold_locales (simp_all add: wiring_frames direct_routes direct_ok)

interpretation drive_direct: cpu_wiring drive_connectCPUDirectly
  unfolding drive_connectCPUDirectly_def
  by unfold_locales (simp_all add: wiring_frames direct_routes direct_ok)

interpretation simple_hier: cpu_wiring simple_createCacheHierarchy
  by unfold_locales (simp_all add: wiring_frames simple_hier_routes simple_hier_ok)

interpretation skl_hier: cpu_wiring skl_createCacheHierarchy
  by unfold_locales (simp_all add: wiring_frames skl_hier_routes skl_hier_ok)

subsection \<open>The built systems\<close>

lemma binds_ok_initial:
  "b \<in> set (binds (init_board par clk)) \<Longrightarrow> bind_ok b"
  "b \<in> set (binds (fs_north_bridge env n s)) \<Longrightarrow> b \<in> set (binds s) \<or> bind_ok b"
  "b \<in> set (binds (fs_ethernet s)) \<Longrightarrow> b \<in> set (binds s) \<or> bind_ok b"
  by (auto simp: init_board_def fs_north_bridge_def fs_ethernet_def empty_system_def
      bind_ok_def port_role_defs Let_def)

lemma init_board_fields [simp]:
  "mem_ranges (init_board par clk) = [SizeRange ''2GB'']"
  "host_parallel (init_board par clk) = par"
  by (simp_all add: init_board_def empty_system_def bind_def add_xbar_def)

lemma fs_block_fields [simp]:
  "mem_ranges (fs_north_bridge env n s) = mem_ranges s"
  "mem_ranges (fs_ethernet s) = mem_ranges s" "mem_ranges (fs_smbios s) = mem_ranges s"
  "host_parallel (fs_north_bridge env n s) = host_parallel s"
  "host_parallel (fs_ethernet s) = host_parallel s"
  "host_parallel (fs_smbios s) = host_parallel s"
  "host_parallel (upd_workload f s) = host_parallel s"
  "bridge_ranges (fs_north_bridge env n s) = fs_bridge_ranges env"
  "bridge_ranges (fs_ethernet s) = bridge_ranges s"
  "bridge_ranges (fs_smbios s) = bridge_ranges s"
  "bridge_ranges (upd_workload f s) = bridge_ranges s"
  "binds (fs_smbios s) = binds s"
  "pc_io_bus (fs_north_bridge env n s) = Some Iobus" "pc_io_bus (fs_ethernet s) = pc_io_bus s"
  "pc_io_bus (fs_smbios s) = pc_io_bus s" "pc_io_bus (upd_workload f s) = pc_io_bus s"
  by (simp_all add: fs_north_bridge_def fs_ethernet_def fs_smbios_def upd_workload_def
      bind_def add_xbar_def add_cache_def Let_def)

lemma north_bridge_ok:
  "b \<in> set (binds (fs_north_bridge env n (init_board par clk))) \<Longrightarrow> bind_ok b"
  by (blast dest: binds_ok_initial)

lemma ethernet_ok:
  "b \<in> set (binds (fs_ethernet s)) \<Longrightarrow> \<forall>b \<in> set (binds s). bind_ok b \<Longrightarrow> bind_ok b"
  by (blast dest: binds_ok_initial(3))

definition initialised :: "m5_env \<Rightarrow> bool \<Rightarrow> system \<Rightarrow> bool" where
  "initialised env par s \<longleftrightarrow>
     simple_e820 env [SizeRange ''2GB''] = Inr (e820_entries (sys_workload s)) \<and>
     mem_ranges s = [SizeRange ''2GB''] \<and> host_parallel s = par \<and> pc_io_bus s = Some Iobus \<and>
     bridge_ranges s = fs_bridge_ranges env \<and> (\<forall>b \<in> set (binds s). bind_ok b)"

text \<open>\<open>initFS\<close> never fails on the board the constructors prepare, and binds well.\<close>

lemma simple_initFS_board:
  "\<exists>s. simple_initFS env n (init_board par clk) = Inr s \<and> initialised env par s"
  using north_bridge_ok [of _ env n par clk]
  by (simp add: simple_initFS_def Let_def simple_e820_single initialised_def upd_workload_def)

lemma skl_initFS_board:
  "\<exists>s. skl_initFS env n (init_board par clk) = Inr s \<and> initialised env par s"
proof -
  let ?s = "(fs_smbios (fs_north_bridge env n (init_board par clk)))\<lparr>io_apic_id := int n\<rparr>"
  have "b \<in> set (binds (fs_ethernet ?s)) \<Longrightarrow> bind_ok b" for b
    using ethernet_ok [of b ?s] north_bridge_ok [of _ env n par clk] by simp
  then show ?thesis
    by (simp add: skl_initFS_def Let_def skl_e820_single simple_e820_single initialised_def
        upd_workload_def)
qed

definition mode_of :: "m5_env \<Rightarrow> string \<Rightarrow> string" where
  "mode_of env model =
     (if issubclass env model ''BaseKvmCPU'' then ''atomic_noncaching''
      else if issubclass env model ''BaseAtomicSimpleCPU'' then ''atomic'' else ''timing'')"

text \<open>The state in which the CPUs have been created and are still to be wired.\<close>

definition ready :: "m5_env \<Rightarrow> bool \<Rightarrow> nat \<Rightarrow> string \<Rightarrow> system \<Rightarrow> bool" where
  "ready env par n model s \<longleftrightarrow>
     initialised env par s \<and> length (sys_cpu s) = n \<and> length (atomic_cpu s) = n \<and>
     (\<forall>i < n. cpu_id (sys_cpu s ! i) = i \<and> cpu_class (sys_cpu s ! i) = model) \<and>
     m5ops_base s = 0xffff0000 \<and>
     mem_mode s = mode_of env model \<and> (issubclass env model ''BaseKvmCPU'' \<longrightarrow> kvm_vm s)"

lemma create_cpus_ready:
  assumes "initialised env par s" and "m5ops_base s = 0xffff0000"
  shows "ready env par n model (create_cpus env a n model s)"
  using assms
  by (simp add: ready_def initialised_def create_cpus_def set_mem_mode_def Let_def new_cpu_def
      createThreads_def mode_of_def)

lemma set_kernel_initialised:
  assumes "initialised env par s"
  shows "initialised env par (set_kernel k opts (setDiskImage d s))"
    and "initialised env par (set_kernel k opts (setDiskImages d d s))"
  using assms
  by (simp_all add: initialised_def set_kernel_def setDiskImage_def setDiskImages_def
      upd_workload_def)

lemma set_kernel_m5ops: "m5ops_base (set_kernel k opts s) = 0xffff0000"
  by (simp add: set_kernel_def)

text \<open>What the last steps of the constructors add.\<close>

lemma simple_memory_total:
  assumes "mem_ranges s = [r]"
  shows "\<exists>t. createSimpleMemoryController s = Inr t \<and> board t = board s \<and>
    sys_cpu t = sys_cpu s \<and> tracked_caches t = tracked_caches s \<and>
    set (binds t) = insert (Port Mem_cntrl ''port'', Port Membus ''mem_side_ports'') (set (binds s))"
  using assms by (simp add: createSimpleMemoryController_def py_simps)

lemma dram_total:
  assumes "mem_ranges s = [r]"
  shows "\<exists>t. createMemoryController env 1 s = Inr t \<and> board t = board s \<and>
    sys_cpu t = sys_cpu s \<and> tracked_caches t = tracked_caches s \<and>
    set (binds t) = insert (Port (Mem_cntrls 0) ''port'', Port Membus ''mem_side_ports'') (set (binds s))"
  using assms
  by (simp add: createMemoryController_def createMemoryControllers_def getInterleaveRanges_def
      py_simps ilog2.simps)

lemma assign_eventqs_frames:
  "board (assign_eventqs s) = board s" "binds (assign_eventqs s) = binds s"
  "length (sys_cpu (assign_eventqs s)) = length (sys_cpu s)"
  "tracked_caches (assign_eventqs s) = tracked_caches s"
  by (simp_all add: assign_eventqs_def fold_keeps [where h = board] fold_keeps [where h = binds]
      fold_keeps [where h = "\<lambda>s. length (sys_cpu s)"] fold_keeps [where h = tracked_caches])

lemma board_fields:
  "board s = board t \<Longrightarrow> mem_ranges s = mem_ranges t" "board s = board t \<Longrightarrow> host_parallel s = host_parallel t"
  "board s = board t \<Longrightarrow> mem_mode s = mem_mode t" "board s = board t \<Longrightarrow> kvm_vm s = kvm_vm t"
  "board s = board t \<Longrightarrow> m5ops_base s = m5ops_base t"
  "board s = board t \<Longrightarrow> atomic_cpu s = atomic_cpu t"
  "board s = board t \<Longrightarrow> bridge_ranges s = bridge_ranges t"
  "board s = board t \<Longrightarrow> sys_workload s = sys_workload t"
  "board s = board t \<Longrightarrow> pc_io_bus s = pc_io_bus t"
  by (simp_all add: board_def)

definition wired :: "nat \<Rightarrow> sim_obj \<Rightarrow> system \<Rightarrow> bool" where
  "wired n mem t \<longleftrightarrow>
     length (sys_cpu t) = n \<and>
     (\<forall>i < n. \<forall>p \<in> set (cpu_ports i). port_routes (binds t) p mem) \<and>
     (\<forall>b \<in> set (binds t). bind_ok b)"

lemma mem_bind_ok:
  "bind_ok (Port Mem_cntrl ''port'', Port Membus ''mem_side_ports'')"
  "bind_ok (Port (Mem_cntrls i) ''port'', Port Membus ''mem_side_ports'')"
  by (simp_all add: bind_ok_def port_role_defs)

context cpu_wiring
begin

lemma wired_board: "board (setupInterrupts (wire s)) = board s"
  by (simp add: board_wiring wire_board)

lemma built_simple:
  assumes r: "ready env par n model s"
  shows "\<exists>t. createSimpleMemoryController (setupInterrupts (wire s)) = Inr t \<and>
    board t = board s \<and> wired n Mem_cntrl t"
proof -
  have "mem_ranges (setupInterrupts (wire s)) = [SizeRange ''2GB'']"
    using r board_fields(1) [OF wired_board] by (simp add: ready_def initialised_def)
  from simple_memory_total [OF this] obtain t where
    t: "createSimpleMemoryController (setupInterrupts (wire s)) = Inr t"
    and bt: "board t = board (setupInterrupts (wire s))"
    and ct: "sys_cpu t = sys_cpu (setupInterrupts (wire s))"
    and nt: "set (binds t) = insert (Port Mem_cntrl ''port'', Port Membus ''mem_side_ports'')
      (set (binds (setupInterrupts (wire s))))" by blast
  have "\<forall>b \<in> set (binds t). bind_ok b"
    using interrupts_ok r mem_bind_ok(1) unfolding nt ready_def initialised_def by blast
  moreover have "length (sys_cpu t) = n"
    using r by (simp add: ct length_cpu_wiring wire_cpus ready_def)
  ultimately show ?thesis
    using t bt r reaches_simple_memory [OF _ _ t]
    by (auto simp: wired_board wired_def ready_def)
qed

lemma built_dram:
  assumes r: "ready env par n model s"
  shows "\<exists>t. createMemoryController env 1 (setupInterrupts (wire s)) = Inr t \<and>
    board t = board s \<and> wired n (Mem_cntrls 0) t"
proof -
  have "mem_ranges (setupInterrupts (wire s)) = [SizeRange ''2GB'']"
    using r board_fields(1) [OF wired_board] by (simp add: ready_def initialised_def)
  from dram_total [OF this, of env] obtain t where
    t: "createMemoryController env 1 (setupInterrupts (wire s)) = Inr t"
    and bt: "board t = board (setupInterrupts (wire s))"
    and ct: "sys_cpu t = sys_cpu (setupInterrupts (wire s))"
    and nt: "set (binds t) = insert (Port (Mem_cntrls 0) ''port'', Port Membus ''mem_side_ports'')
      (set (binds (setupInterrupts (wire s))))" by blast
  have "\<forall>b \<in> set (binds t). bind_ok b"
    using interrupts_ok r mem_bind_ok(2) unfolding nt ready_def initialised_def by blast
  moreover have "length (sys_cpu t) = n"
    using r by (simp add: ct length_cpu_wiring wire_cpus ready_def)
  ultimately show ?thesis
    using t bt r reaches_dram [OF _ _ t]
    by (auto simp: wired_board wired_def ready_def)
qed

end

lemma wired_eventqs: "wired n mem t \<Longrightarrow> wired n mem (assign_eventqs t)"
  by (simp add: wired_def assign_eventqs_frames)

text \<open>Every constructor call succeeds and ends in a wired system with the board it prepared.\<close>

lemma simple_system_built:
  "\<exists>s0 t. ready env (kvm \<and> 1 < n) n (if kvm then ''X86KvmCPU'' else model) s0 \<and>
     board t = board s0 \<and> wired n Mem_cntrl t \<and>
     SimpleSystem env k d n model kvm = Inr (if kvm \<and> 1 < n then assign_eventqs t else t)"
proof -
  obtain s where s: "simple_initFS env n (init_board (kvm \<and> 1 < n) ''2.5GHz'') = Inr s"
    and i: "initialised env (kvm \<and> 1 < n) s" using simple_initFS_board by blast
  let ?m = "if kvm then ''X86KvmCPU'' else model"
  let ?s0 = "simple_createCPU env n ?m (set_kernel k boot_options (setDiskImage d s))"
  have r: "ready env (kvm \<and> 1 < n) n ?m ?s0"
    unfolding simple_createCPU_def
    by (intro create_cpus_ready set_kernel_initialised set_kernel_m5ops i)
  obtain t where t: "createSimpleMemoryController (setupInterrupts
      ((if kvm then simple_connectCPUDirectly else simple_createCacheHierarchy) ?s0)) = Inr t"
    and bt: "board t = board ?s0" and w: "wired n Mem_cntrl t"
    using simple_direct.built_simple [OF r] simple_hier.built_simple [OF r] by (cases kvm) auto
  have "host_parallel t = (kvm \<and> 1 < n)"
    using board_fields(2) [OF bt] r by (simp add: ready_def initialised_def)
  then have "SimpleSystem env k d n model kvm = Inr (if kvm \<and> 1 < n then assign_eventqs t else t)"
    unfolding SimpleSystem_def s bind_res_simps Let_def using t by (cases kvm) (simp_all)
  with r bt w show ?thesis by blast
qed

lemma skl_system_built:
  "\<exists>s0 t. ready env (kvm \<and> 1 < n) n (if kvm then ''X86KvmCPU'' else model) s0 \<and>
     board t = board s0 \<and> wired n (Mem_cntrls 0) t \<and>
     SklSystem env k d n model kvm = Inr (if kvm \<and> 1 < n then assign_eventqs t else t)"
proof -
  obtain s where s: "skl_initFS env n (init_board (kvm \<and> 1 < n) ''2.5GHz'') = Inr s"
    and i: "initialised env (kvm \<and> 1 < n) s" using skl_initFS_board by blast
  let ?m = "if kvm then ''X86KvmCPU'' else model"
  let ?s0 = "skl_createCPU env n ?m (set_kernel k boot_options (setDiskImage d s))"
  have r: "ready env (kvm \<and> 1 < n) n ?m ?s0"
    unfolding skl_createCPU_def
    by (intro create_cpus_ready set_kernel_initialised set_kernel_m5ops i)
  obtain t where t: "createMemoryController env 1 (setupInterrupts
      ((if kvm then skl_connectCPUDirectly else skl_createCacheHierarchy) ?s0)) = Inr t"
    and bt: "board t = board ?s0" and w: "wired n (Mem_cntrls 0) t"
    using skl_direct.built_dram [OF r] skl_hier.built_dram [OF r]
    by (cases kvm) (auto simp del: One_nat_def)
  have "host_parallel t = (kvm \<and> 1 < n)"
    using board_fields(2) [OF bt] r by (simp add: ready_def initialised_def)
  then have "SklSystem env k d n model kvm = Inr (if kvm \<and> 1 < n then assign_eventqs t else t)"
    unfolding SklSystem_def s bind_res_simps Let_def using t by (cases kvm) (simp_all del: One_nat_def)
  with r bt w show ?thesis by blast
qed

lemma drive_system_built:
  "\<exists>s0 t. ready env kvm 1 (if kvm then ''X86KvmCPU'' else ''AtomicSimpleCPU'') s0 \<and>
     board t = board s0 \<and> wired 1 Mem_cntrl t \<and> DriveSystem env k d kvm = Inr t"
proof -
  obtain s where s: "skl_initFS env 1 (init_board kvm ''3.5GHz'') = Inr s"
    and i: "initialised env kvm s" using skl_initFS_board by blast
  let ?m = "if kvm then ''X86KvmCPU'' else ''AtomicSimpleCPU''"
  let ?s0 = "drive_createCPU env ?m (set_kernel k drive_boot_options (setDiskImages d d s))"
  have r: "ready env kvm 1 ?m ?s0"
    unfolding drive_createCPU_def
    by (intro create_cpus_ready set_kernel_initialised set_kernel_m5ops i)
  from drive_direct.built_simple [OF r] show ?thesis
    unfolding DriveSystem_def drive_initFS_eq controller_copies s bind_res_simps Let_def using r by blast
qed

lemma eventqs_mode:
  "mem_mode (if c then assign_eventqs t else t) = mem_mode t"
  "kvm_vm (if c then assign_eventqs t else t) = kvm_vm t"
  by (simp_all add: board_fields(3,4) [OF assign_eventqs_frames(1)])

lemma ready_mode:
  "ready env par n model s0 \<Longrightarrow> board t = board s0 \<Longrightarrow>
     mem_mode t = mode_of env model \<and> (issubclass env model ''BaseKvmCPU'' \<longrightarrow> kvm_vm t)"
  using board_fields(3,4) [of t s0] by (simp add: ready_def)

lemma simple_system_mode:
  "\<exists>s. SimpleSystem env k d n model kvm = Inr s \<and>
     mem_mode s = mode_of env (if kvm then ''X86KvmCPU'' else model) \<and>
     (issubclass env (if kvm then ''X86KvmCPU'' else model) ''BaseKvmCPU'' \<longrightarrow> kvm_vm s)"
proof -
  from simple_system_built [of env kvm n model k d] obtain s0 t par where
    "ready env par n (if kvm then ''X86KvmCPU'' else model) s0" and "board t = board s0"
    and "SimpleSystem env k d n model kvm = Inr (if kvm \<and> 1 < n then assign_eventqs t else t)" by blast
  then show ?thesis using ready_mode by (simp only: eventqs_mode sum.inject ex_simps simp_thms) blast
qed

lemma skl_system_mode:
  "\<exists>s. SklSystem env k d n model kvm = Inr s \<and>
     mem_mode s = mode_of env (if kvm then ''X86KvmCPU'' else model) \<and>
     (issubclass env (if kvm then ''X86KvmCPU'' else model) ''BaseKvmCPU'' \<longrightarrow> kvm_vm s)"
proof -
  from skl_system_built [of env kvm n model k d] obtain s0 t par where
    "ready env par n (if kvm then ''X86KvmCPU'' else model) s0" and "board t = board s0"
    and "SklSystem env k d n model kvm = Inr (if kvm \<and> 1 < n then assign_eventqs t else t)" by blast
  then show ?thesis using ready_mode by (simp only: eventqs_mode sum.inject ex_simps simp_thms) blast
qed

subsection \<open>Event queues, interleaving, tracked caches\<close>

lemma nth_upd_cpu:
  "i < length (sys_cpu s) \<Longrightarrow>
     sys_cpu (upd_cpu i f s) ! j = (if j = i then f (sys_cpu s ! i) else sys_cpu s ! j)"
  by (simp add: upd_cpu_def)

lemma nth_fold_upd_cpu:
  assumes "m \<le> length (sys_cpu s)" and "j < length (sys_cpu s)"
  shows "sys_cpu (fold (\<lambda>i. upd_cpu i (g i)) [0..<m] s) ! j =
    (if j < m then g j (sys_cpu s ! j) else sys_cpu s ! j)"
  using assms
proof (induction m)
  case (Suc m)
  have "length (sys_cpu (fold (\<lambda>i. upd_cpu i (g i)) [0..<m] s)) = length (sys_cpu s)"
    by (rule fold_keeps [where h = "\<lambda>s. length (sys_cpu s)"]) simp
  with Suc show ?case
    by (auto simp: nth_upd_cpu)
qed simp

lemma assign_eventqs_nth:
  assumes "i < length (sys_cpu s)"
  shows "eventq_index (sys_cpu (assign_eventqs s) ! i) = Some (i + 1)"
    and "descendants_eventq (sys_cpu (assign_eventqs s) ! i) = Some 0"
  using assms by (simp_all add: assign_eventqs_def nth_fold_upd_cpu)

lemma ilog2_power: "ilog2 (2 ^ k) = k"
  by (induction k) (auto simp: ilog2.simps)

lemma ilog2_bounds: "0 < n \<Longrightarrow> 2 ^ ilog2 n \<le> n \<and> n < 2 * 2 ^ ilog2 n"
proof (induction n rule: ilog2.induct)
  case (1 n)
  show ?case
  proof (cases "n < 2")
    case True
    with 1 show ?thesis by (simp add: ilog2.simps [of n])
  next
    case False
    then have "ilog2 n = Suc (ilog2 (n div 2))" by (simp add: ilog2.simps [of n])
    with False 1 show ?thesis by auto
  qed
qed

definition hierarchy_caches :: "nat \<Rightarrow> sim_obj list" where
  "hierarchy_caches n =
     concat (map (\<lambda>i. [Icache i, Dcache i, Mmucache i, L2cache i]) [0..<n]) @ [L3cache]"

lemma fold_tracked:
  assumes "\<And>i s. tracked_caches (f i s) = tracked_caches s @ g i"
  shows "tracked_caches (fold f is s) = tracked_caches s @ concat (map g is)"
  using assms by (induction "is" arbitrary: s) auto

lemma tracked_skl_hierarchy:
  "tracked_caches (skl_createCacheHierarchy s) = hierarchy_caches (length (sys_cpu s))"
proof -
  have "tracked_caches (skl_hierarchy_cpu i s) =
      tracked_caches s @ [Icache i, Dcache i, Mmucache i, L2cache i]" for i s
    by (simp add: skl_hierarchy_cpu_def cache_connect_defs)
  from fold_tracked [of skl_hierarchy_cpu, OF this] show ?thesis
    by (simp add: skl_createCacheHierarchy_def cache_connect_defs hierarchy_caches_def Let_def)
qed

lemma tracked_setupInterrupts: "tracked_caches (setupInterrupts s) = tracked_caches s"
  by (simp add: setupInterrupts_def fold_keeps [where h = tracked_caches] interrupts_cpu_def)

lemma tracked_createMemoryController:
  "createMemoryController env n s = Inr t \<Longrightarrow> tracked_caches t = tracked_caches s"
  by (auto simp: createMemoryController_def createMemoryControllers_def bind_res_Inr_iff
      fold_keeps [where h = tracked_caches])

lemma skl_evaluation_tracked:
  assumes "SklSystem env k d n model False = Inr s"
  shows "tracked_caches s = hierarchy_caches n"
proof -
  from assms obtain s0 t where
    "createMemoryController env 1 (setupInterrupts (skl_createCacheHierarchy
       (skl_createCPU env n model s0))) = Inr t"
    and s: "s = (if host_parallel t then assign_eventqs t else t)"
    by (auto simp: SklSystem_def bind_res_Inr_iff Let_def)
  then have "tracked_caches t = hierarchy_caches n"
    by (auto dest!: tracked_createMemoryController simp: tracked_setupInterrupts
        tracked_skl_hierarchy skl_createCPU_def create_cpus_def set_mem_mode_def Let_def)
  then show ?thesis by (simp add: s assign_eventqs_frames)
qed

subsection \<open>Properties\<close>

text \<open>
  C12. Wiring: whatever the kernel, disk, CPU model, number of CPUs and KVM flag, the three
  constructors return a system (they never raise) in which the instruction, data and both
  page-walker ports of every CPU are bound to something that leads to the memory
  controller, and every binding joins a requestor to a responder.
\<close>

theorem systems_wired:
  "(\<exists>s. SimpleSystem env k d n model kvm = Inr s \<and> wired n Mem_cntrl s) \<and>
   (\<exists>s. SklSystem env k d n model kvm = Inr s \<and> wired n (Mem_cntrls 0) s) \<and>
   (\<exists>s. DriveSystem env k d kvm = Inr s \<and> wired 1 Mem_cntrl s)"
proof (intro conjI)
  show "\<exists>s. SimpleSystem env k d n model kvm = Inr s \<and> wired n Mem_cntrl s"
    using simple_system_built [of env kvm n model k d] wired_eventqs by auto
  show "\<exists>s. SklSystem env k d n model kvm = Inr s \<and> wired n (Mem_cntrls 0) s"
    using skl_system_built [of env kvm n model k d] wired_eventqs by auto
  show "\<exists>s. DriveSystem env k d kvm = Inr s \<and> wired 1 Mem_cntrl s"
    using drive_system_built [of env kvm k d] by blast
qed

text \<open>
  Memory mode: a KVM system runs in \<open>atomic_noncaching\<close> mode and has a KVM virtual
  machine; the evaluation systems of \<open>run_sim.py\<close> (the timing CPU on the simple system,
  the tuned Skylake CPU) run in \<open>timing\<close> mode.
\<close>

theorem system_mem_modes:
  assumes "m5_cpu_classes_ok env"
  shows "(\<exists>s. SimpleSystem env k d n model True = Inr s \<and>
        mem_mode s = ''atomic_noncaching'' \<and> kvm_vm s) \<and>
     (\<exists>s. SimpleSystem env k d n ''TimingSimpleCPU'' False = Inr s \<and> mem_mode s = ''timing'') \<and>
     (\<exists>s. SklSystem env k d n model True = Inr s \<and>
        mem_mode s = ''atomic_noncaching'' \<and> kvm_vm s) \<and>
     (\<exists>s. SklSystem env k d n ''SklTunedCPU'' False = Inr s \<and> mem_mode s = ''timing'')"
  using assms simple_system_mode [of env k d n model True]
    simple_system_mode [of env k d n "''TimingSimpleCPU''" False]
    skl_system_mode [of env k d n model True]
    skl_system_mode [of env k d n "''SklTunedCPU''" False]
  by (simp add: m5_cpu_classes_ok_def mode_of_def)

theorem system_mem_modes_witness:
  "\<exists>s. SklSystem ref_env ''vmlinux'' ''disk'' 2 ''SklTunedCPU'' False = Inr s \<and>
     mem_mode s = ''timing''"
  using system_mem_modes [OF ref_cpu_classes_ok] by blast

text \<open>
  Event queues: a KVM system with several CPUs gives CPU i its own queue i + 1 and
  leaves the objects below it on queue 0, so no two CPUs share a queue and none shares one
  with the devices.
\<close>

theorem kvm_event_queues:
  assumes "1 < n"
  shows "\<exists>s. SklSystem env k d n model True = Inr s \<and>
    map eventq_index (sys_cpu s) = map (\<lambda>i. Some (i + 1)) [0..<n] \<and>
    map descendants_eventq (sys_cpu s) = replicate n (Some 0)"
proof -
  obtain t where t: "SklSystem env k d n model True = Inr (assign_eventqs t)"
    and n: "length (sys_cpu t) = n"
    using skl_system_built [of env True n model k d] assms by (auto simp: wired_def)
  then show ?thesis
    using assign_eventqs_nth [of _ t]
    by (auto intro!: nth_equalityI simp: assign_eventqs_frames)
qed

theorem kvm_event_queues_witness:
  "1 < (2::nat) \<and> (\<exists>s. SklSystem ref_env ''vmlinux'' ''disk'' 2 ''SklTunedCPU'' True = Inr s \<and>
    map eventq_index (sys_cpu s) = [Some 1, Some 2] \<and>
    map descendants_eventq (sys_cpu s) = [Some 0, Some 0])"
  using kvm_event_queues [of 2 ref_env "''vmlinux''" "''disk''" "''SklTunedCPU''"]
  by (simp add: numeral_2_eq_2)


text \<open>
  Flushing: on an evaluation Skylake system \<open>flushCaches\<close> drains first and then, for
  each private and shared cache the hierarchy has, writes it back and only then
  invalidates it, each cache once.
\<close>

theorem flush_covers_hierarchy:
  assumes "SklSystem env k d n model False = Inr s"
  shows "flushCaches s =
      Drain # concat (map (\<lambda>c. [MemWriteback c, MemInvalidate c]) (hierarchy_caches n)) \<and>
    distinct (hierarchy_caches n) \<and>
    set (hierarchy_caches n) =
      (\<Union>i < n. {Icache i, Dcache i, Mmucache i, L2cache i}) \<union> {L3cache}"
proof -
  have "distinct (hierarchy_caches n)"
    by (induction n) (auto simp: hierarchy_caches_def)
  moreover have "set (hierarchy_caches n) =
      (\<Union>i < n. {Icache i, Dcache i, Mmucache i, L2cache i}) \<union> {L3cache}"
    by (auto simp: hierarchy_caches_def)
  ultimately show ?thesis
    by (simp add: flushCaches_def skl_evaluation_tracked [OF assms])
qed

theorem flush_covers_hierarchy_witness:
  "\<exists>s. SklSystem ref_env ''vmlinux'' ''disk'' 1 ''SklTunedCPU'' False = Inr s \<and>
     length (flushCaches s) = 11"
proof -
  obtain s where s: "SklSystem ref_env ''vmlinux'' ''disk'' 1 ''SklTunedCPU'' False = Inr s"
    using skl_system_built [of ref_env False 1 "''SklTunedCPU''" "''vmlinux''" "''disk''"] by auto
  then show ?thesis
    using flush_covers_hierarchy [OF s] by (simp add: hierarchy_caches_def)
qed

end
