(* ===== verification/M5_Sim.thy ===== *)
theory M5_Sim
  imports Systems
begin

text \<open>
  What the simulation scripts exchange with gem5 while a simulation runs: the exit events
  \<open>m5.simulate()\<close> returns, and the effects a script has on the simulator and on its own
  output, recorded in program order. gem5 itself is not modelled: the exit events of a run
  are a list, an argument of the loop, and a loop that has used up the list is still
  waiting for the next event.

  \<open>sim_loop\<close> is the loop every script has (\<open>while\<close> no handler asked to stop: simulate,
  dispatch the event). The locale \<open>work_handler\<close> states what a script's handler of work
  items promises; the theorems on how many invocations are warmed and measured are proved
  once, in the locale, and hold for each script that interprets it. The guest side (the
  order of events a run script and the Go client \<open>tools/client/main.go\<close> produce) is at the
  end of the theory.
\<close>

subsection \<open>Exit events and effects\<close>

record exit_event =
  getCause :: string
  getCode :: int

abbreviation m5_fail_cause :: string where
  "m5_fail_cause \<equiv> ''m5_fail instruction encountered''"

abbreviation interrupt_cause :: string where
  "interrupt_cause \<equiv> ''user interrupt received''"

definition fail_event :: "int \<Rightarrow> exit_event" where
  "fail_event code = \<lparr>getCause = m5_fail_cause, getCode = code\<rparr>"

definition workbegin :: "int \<Rightarrow> exit_event" where
  "workbegin workid = \<lparr>getCause = ''workbegin'', getCode = workid\<rparr>"

definition workend :: "int \<Rightarrow> exit_event" where
  "workend workid = \<lparr>getCause = ''workend'', getCode = workid\<rparr>"

definition interrupt_event :: "int \<Rightarrow> exit_event" where
  "interrupt_event code = \<lparr>getCause = interrupt_cause, getCode = code\<rparr>"

datatype effect =
    Print string
  | LogFatal string
  | StatsReset
  | StatsDump
  | Checkpoint string
  | SwitchCpus string "(cpu_ref \<times> cpu_ref) list"
  | Instantiate "string option"
  | Mkdir string
  | WriteFile string string
  | SimQuantum int
  | M5Exit

datatype outcome = Continue | Break | Raise py_error

text \<open>The colour helpers \<open>prRed\<close>, \<open>prGreen\<close> and \<open>prYellow\<close>.\<close>

definition colour :: "string \<Rightarrow> string \<Rightarrow> string" where
  "colour code skk = CHR 0x1B # ''['' @ code @ ''m '' @ skk @ (CHR 0x1B # ''[00m'')"

definition prRed :: "string \<Rightarrow> effect" where
  "prRed skk = Print (colour ''91'' skk)"

definition prGreen :: "string \<Rightarrow> effect" where
  "prGreen skk = Print (colour ''92'' skk)"

definition prYellow :: "string \<Rightarrow> effect" where
  "prYellow skk = Print (colour ''93'' skk)"

lemmas pr_defs = prRed_def prGreen_def prYellow_def

subsection \<open>The simulation loop\<close>

fun sim_loop :: "(exit_event \<Rightarrow> 's \<Rightarrow> 's \<times> outcome) \<Rightarrow> exit_event list \<Rightarrow> 's
    \<Rightarrow> 's \<times> outcome \<times> exit_event list" where
  "sim_loop step [] s = (s, Continue, [])"
| "sim_loop step (e # es) s =
     (case step e s of
        (s', Continue) \<Rightarrow> sim_loop step es s'
      | (s', r) \<Rightarrow> (s', r, es))"

definition loop_state :: "'s \<times> outcome \<times> exit_event list \<Rightarrow> 's" where
  "loop_state r = fst r"

definition loop_outcome :: "'s \<times> outcome \<times> exit_event list \<Rightarrow> outcome" where
  "loop_outcome r = fst (snd r)"

subsection \<open>Work items and the guest's event order\<close>

definition invocation :: "nat \<Rightarrow> exit_event list" where
  "invocation i = [workbegin (100 + int i), workend (100 + int i)]"

definition invocations :: "nat \<Rightarrow> nat \<Rightarrow> exit_event list" where
  "invocations first n = concat (map invocation [first..<first + n])"

text \<open>
  \<open>main\<close> of the Go client with \<open>-m5ops\<close>: fail code 20 on start, 31 and 32 around the
  warming requests if there are any, and a work item around each measured request.
\<close>

definition client_events :: "nat \<Rightarrow> nat \<Rightarrow> exit_event list" where
  "client_events numInvoke numWarm =
     fail_event 20 # (if numWarm > 0 then [fail_event 31, fail_event 32] else [])
     @ invocations 0 numInvoke"

subsection \<open>CPU switches\<close>

text \<open>
  gem5 switches from a CPU that is running to one that is switched out. The predicate
  follows the switches of one system through a trace, with the set of running CPUs.
\<close>

definition switch_allowed :: "cpu_ref set \<Rightarrow> (cpu_ref \<times> cpu_ref) list \<Rightarrow> bool" where
  "switch_allowed running ps \<longleftrightarrow> fst ` set ps \<subseteq> running \<and> snd ` set ps \<inter> running = {}"

fun switches_ok :: "string \<Rightarrow> cpu_ref set \<Rightarrow> effect list \<Rightarrow> bool" where
  "switches_ok nm running [] = True"
| "switches_ok nm running (SwitchCpus nm' ps # es) =
     (if nm' = nm
      then switch_allowed running ps \<and> switches_ok nm (running - fst ` set ps \<union> snd ` set ps) es
      else switches_ok nm running es)"
| "switches_ok nm running (e # es) = switches_ok nm running es"

fun running_after :: "string \<Rightarrow> cpu_ref set \<Rightarrow> effect list \<Rightarrow> cpu_ref set" where
  "running_after nm running [] = running"
| "running_after nm running (SwitchCpus nm' ps # es) =
     running_after nm (if nm' = nm then running - fst ` set ps \<union> snd ` set ps else running) es"
| "running_after nm running (e # es) = running_after nm running es"

subsection \<open>Lemmas on the loop and on traces\<close>

lemma sim_loop_Continue: "step e s = (s', Continue) \<Longrightarrow> sim_loop step (e # es) s = sim_loop step es s'"
  by simp

lemma sim_loop_stop: "step e s = (s', r) \<Longrightarrow> r \<noteq> Continue \<Longrightarrow> sim_loop step (e # es) s = (s', r, es)"
  by (cases r) auto

lemma sim_loop_append:
  "sim_loop step (xs @ ys) s =
     (case sim_loop step xs s of
        (s', Continue, _) \<Rightarrow> sim_loop step ys s'
      | (s', r, rest) \<Rightarrow> (s', r, rest @ ys))"
  by (induction xs arbitrary: s) (auto split: prod.splits outcome.splits)

lemma sim_loop_append_Continue:
  "sim_loop step xs s = (s', Continue, rest) \<Longrightarrow> sim_loop step (xs @ ys) s = sim_loop step ys s'"
  by (simp add: sim_loop_append)

text \<open>What every handled event keeps, the loop keeps.\<close>

lemma sim_loop_invariant:
  assumes "\<And>e s s' r. P s \<Longrightarrow> step e s = (s', r) \<Longrightarrow> P s'" and "P s"
  shows "P (fst (sim_loop step es s))"
  using assms(2)
proof (induction es arbitrary: s)
  case (Cons e es)
  obtain s' r where "step e s = (s', r)" by (cases "step e s")
  with Cons assms(1) show ?case by (cases r) auto
qed simp

lemma invocations_0 [simp]: "invocations a 0 = []"
  by (simp add: invocations_def)

lemma invocations_Suc: "invocations a (Suc n) = invocation a @ invocations (Suc a) n"
  by (simp add: invocations_def upt_conv_Cons del: upt_Suc)

lemma invocations_add: "invocations a (m + n) = invocations a m @ invocations (a + m) n"
  by (induction m arbitrary: a) (simp_all add: invocations_Suc)

lemma switches_ok_append:
  "switches_ok nm run (xs @ ys) \<longleftrightarrow>
     switches_ok nm run xs \<and> switches_ok nm (running_after nm run xs) ys"
  by (induction nm run xs rule: switches_ok.induct) auto

lemma running_after_append:
  "running_after nm run (xs @ ys) = running_after nm (running_after nm run xs) ys"
  by (induction nm run xs rule: running_after.induct) auto

lemma switch_pairs:
  assumes "length (sys_cpu s) = n" and "length (atomic_cpu s) = n"
  shows "switchToMainCpu s = map (\<lambda>i. (AtomicCpu i, MainCpu i)) [0..<n]"
    and "switchToAtomicCpu s = map (\<lambda>i. (MainCpu i, AtomicCpu i)) [0..<n]"
  using assms
  by (simp_all add: switchToMainCpu_def switchToAtomicCpu_def main_refs_def atomic_refs_def
      zip_map_map zip_same_conv_map)

text \<open>The marks that invocations leave in a trace, for given begin and end marks.\<close>

definition inv_log :: "(int \<Rightarrow> effect list) \<Rightarrow> (int \<Rightarrow> effect list) \<Rightarrow> nat \<Rightarrow> effect list" where
  "inv_log b e i = b (int i) @ e (int i)"

definition inv_logs :: "(int \<Rightarrow> effect list) \<Rightarrow> (int \<Rightarrow> effect list) \<Rightarrow> nat \<Rightarrow> nat \<Rightarrow> effect list" where
  "inv_logs b e a n = concat (map (inv_log b e) [a..<a + n])"

text \<open>The invocation whose begin finds warming done.\<close>

definition ready_inv_log :: "(int \<Rightarrow> effect list) \<Rightarrow> effect list \<Rightarrow> (int \<Rightarrow> effect list) \<Rightarrow> nat
    \<Rightarrow> effect list" where
  "ready_inv_log b r e i = b (int i) @ r @ e (int i)"

lemma inv_logs_Suc: "inv_logs b e a (Suc n) = inv_log b e a @ inv_logs b e (Suc a) n"
  by (simp add: inv_logs_def upt_conv_Cons del: upt_Suc)

lemma inv_logs_0 [simp]: "inv_logs b e a 0 = []"
  by (simp add: inv_logs_def)

subsection \<open>The contract of a work-item handler\<close>

text \<open>
  A handler counts down the invocations to warm, then those to measure; \<open>log\<close> is its
  trace. While warming is left an invocation only leaves its marks; the first begin after
  warming adds \<open>ready_log\<close>; the end of the last measured invocation adds \<open>done_log\<close> and
  stops the loop.
\<close>

locale work_handler =
  fixes step :: "exit_event \<Rightarrow> 's \<Rightarrow> 's \<times> outcome"
    and warm :: "'s \<Rightarrow> int"
    and left :: "'s \<Rightarrow> int"
    and log :: "'s \<Rightarrow> effect list"
    and begin_log :: "int \<Rightarrow> effect list"
    and end_log :: "int \<Rightarrow> effect list"
    and ready_log :: "effect list"
    and done_log :: "effect list"
  assumes begin_warming: "0 < warm s \<Longrightarrow> step (workbegin (100 + i)) s = (s', r) \<Longrightarrow>
      r = Continue \<and> warm s' = warm s \<and> left s' = left s \<and> log s' = log s @ begin_log i"
    and begin_warmed: "warm s = 0 \<Longrightarrow> step (workbegin (100 + i)) s = (s', r) \<Longrightarrow>
      r = Continue \<and> warm s' = -1 \<and> left s' = left s \<and> log s' = log s @ begin_log i @ ready_log"
    and begin_measuring: "warm s < 0 \<Longrightarrow> step (workbegin (100 + i)) s = (s', r) \<Longrightarrow>
      r = Continue \<and> warm s' = warm s \<and> left s' = left s \<and> log s' = log s @ begin_log i"
    and end_warming: "0 < warm s \<Longrightarrow> step (workend (100 + i)) s = (s', r) \<Longrightarrow>
      r = Continue \<and> warm s' = warm s - 1 \<and> left s' = left s \<and> log s' = log s @ end_log i"
    and end_measuring: "warm s \<le> 0 \<Longrightarrow> 1 < left s \<Longrightarrow> step (workend (100 + i)) s = (s', r) \<Longrightarrow>
      r = Continue \<and> warm s' = warm s \<and> left s' = left s - 1 \<and> log s' = log s @ end_log i"
    and end_last: "warm s \<le> 0 \<Longrightarrow> left s \<in> {0, 1} \<Longrightarrow> step (workend (100 + i)) s = (s', r) \<Longrightarrow>
      r = Break \<and> warm s' = warm s \<and> left s' = 0 \<and> log s' = log s @ end_log i @ done_log"
begin

lemma warm_one:
  assumes "0 < warm s"
  shows "\<exists>s'. sim_loop step (invocation a @ es) s = sim_loop step es s' \<and>
    warm s' = warm s - 1 \<and> left s' = left s \<and> log s' = log s @ inv_log begin_log end_log a"
proof -
  obtain s1 r1 where s1: "step (workbegin (100 + int a)) s = (s1, r1)" by fastforce
  from begin_warming [OF assms s1] assms have c1: "r1 = Continue" "0 < warm s1"
    and k1: "warm s1 = warm s" "left s1 = left s" "log s1 = log s @ begin_log (int a)" by auto
  obtain s2 r2 where s2: "step (workend (100 + int a)) s1 = (s2, r2)" by fastforce
  from end_warming [OF c1(2) s2] have "r2 = Continue" "warm s2 = warm s1 - 1"
    "left s2 = left s1" "log s2 = log s1 @ end_log (int a)" by auto
  then show ?thesis
    using s1 s2 c1 k1 by (intro exI [of _ s2]) (simp add: invocation_def inv_log_def)
qed

lemma warm_partial:
  assumes "warm s = int (w + k)"
  shows "\<exists>s'. sim_loop step (invocations a w @ es) s = sim_loop step es s' \<and>
    warm s' = int k \<and> left s' = left s \<and> log s' = log s @ inv_logs begin_log end_log a w"
  using assms
proof (induction w arbitrary: a s)
  case 0
  then show ?case by auto
next
  case (Suc w)
  then have "0 < warm s" by simp
  from warm_one [OF this, of a "invocations (Suc a) w @ es"] obtain s1 where
    s1: "sim_loop step (invocation a @ invocations (Suc a) w @ es) s =
      sim_loop step (invocations (Suc a) w @ es) s1" "warm s1 = warm s - 1"
      "left s1 = left s" "log s1 = log s @ inv_log begin_log end_log a" by blast
  then have "warm s1 = int (w + k)" using Suc.prems by simp
  from Suc.IH [OF this, of "Suc a"] s1 show ?case
    by (auto simp: invocations_Suc inv_logs_Suc)
qed

lemma warm_phase:
  assumes "warm s = int w"
  shows "\<exists>s'. sim_loop step (invocations a w @ es) s = sim_loop step es s' \<and>
    warm s' = 0 \<and> left s' = left s \<and> log s' = log s @ inv_logs begin_log end_log a w"
  using warm_partial [of s w 0 a es] assms by simp

lemma measure_one:
  assumes "warm s < 0" and "1 < left s"
  shows "\<exists>s'. sim_loop step (invocation a @ es) s = sim_loop step es s' \<and>
    warm s' = warm s \<and> left s' = left s - 1 \<and> log s' = log s @ inv_log begin_log end_log a"
proof -
  obtain s1 r1 where s1: "step (workbegin (100 + int a)) s = (s1, r1)" by fastforce
  from begin_measuring [OF assms(1) s1] assms have c1: "r1 = Continue" "warm s1 \<le> 0" "1 < left s1"
    and k1: "warm s1 = warm s" "left s1 = left s" "log s1 = log s @ begin_log (int a)" by auto
  obtain s2 r2 where s2: "step (workend (100 + int a)) s1 = (s2, r2)" by fastforce
  from end_measuring [OF c1(2,3) s2] have "r2 = Continue" "warm s2 = warm s1"
    "left s2 = left s1 - 1" "log s2 = log s1 @ end_log (int a)" by auto
  then show ?thesis
    using s1 s2 c1 k1 by (intro exI [of _ s2]) (simp add: invocation_def inv_log_def)
qed

lemma measure_last:
  assumes "warm s < 0" and "left s = 1"
  shows "\<exists>s'. sim_loop step (invocation a @ es) s = (s', Break, es) \<and>
    left s' = 0 \<and> log s' = log s @ inv_log begin_log end_log a @ done_log"
proof -
  obtain s1 r1 where s1: "step (workbegin (100 + int a)) s = (s1, r1)" by fastforce
  from begin_measuring [OF assms(1) s1] assms have c1: "r1 = Continue" "warm s1 \<le> 0" "left s1 \<in> {0, 1}"
    and k1: "log s1 = log s @ begin_log (int a)" by auto
  obtain s2 r2 where s2: "step (workend (100 + int a)) s1 = (s2, r2)" by fastforce
  from end_last [OF c1(2,3) s2] have "r2 = Break" "left s2 = 0"
    "log s2 = log s1 @ end_log (int a) @ done_log" by auto
  then show ?thesis
    using s1 s2 c1 k1 by (intro exI [of _ s2]) (simp add: invocation_def inv_log_def)
qed

lemma measure_phase:
  assumes "warm s < 0" and "left s = int (Suc n)"
  shows "\<exists>s'. sim_loop step (invocations a (Suc n) @ es) s = (s', Break, es) \<and>
    left s' = 0 \<and> log s' = log s @ inv_logs begin_log end_log a (Suc n) @ done_log"
  using assms
proof (induction n arbitrary: a s)
  case 0
  from measure_last [of s a es] 0 show ?case by (simp add: invocations_Suc inv_logs_Suc)
next
  case (Suc n)
  then have "1 < left s" by simp
  from measure_one [OF Suc.prems(1) this, of a "invocations (Suc a) (Suc n) @ es"] obtain s1 where
    s1: "sim_loop step (invocation a @ invocations (Suc a) (Suc n) @ es) s =
      sim_loop step (invocations (Suc a) (Suc n) @ es) s1" "warm s1 = warm s"
      "left s1 = left s - 1" "log s1 = log s @ inv_log begin_log end_log a" by blast
  then have "warm s1 < 0" "left s1 = int (Suc n)" using Suc.prems by simp_all
  from Suc.IH [OF this, of "Suc a"] s1 show ?case
    by (auto simp: invocations_Suc [of a "Suc n"] inv_logs_Suc [of _ _ a "Suc n"])
qed

text \<open>Too few invocations: the loop is still counting.\<close>

lemma measure_partial:
  assumes "warm s < 0" and "int m < left s"
  shows "\<exists>s'. sim_loop step (invocations a m @ es) s = sim_loop step es s' \<and>
    warm s' = warm s \<and> left s' = left s - int m \<and> log s' = log s @ inv_logs begin_log end_log a m"
  using assms
proof (induction m arbitrary: a s)
  case 0
  then show ?case by auto
next
  case (Suc m)
  then have "1 < left s" by simp
  from measure_one [OF Suc.prems(1) this, of a "invocations (Suc a) m @ es"] obtain s1 where
    s1: "sim_loop step (invocation a @ invocations (Suc a) m @ es) s =
      sim_loop step (invocations (Suc a) m @ es) s1" "warm s1 = warm s"
      "left s1 = left s - 1" "log s1 = log s @ inv_log begin_log end_log a" by blast
  then have "warm s1 < 0" "int m < left s1" using Suc.prems by simp_all
  from Suc.IH [OF this, of "Suc a"] s1 show ?case
    by (auto simp: invocations_Suc inv_logs_Suc)
qed

text \<open>Warming that runs into measuring: the first begin after warming adds \<open>ready_log\<close>.\<close>

lemma ready_begin:
  assumes "warm s = 0"
  shows "\<exists>s'. step (workbegin (100 + int a)) s = (s', Continue) \<and> warm s' = -1 \<and> left s' = left s \<and>
    log s' = log s @ begin_log (int a) @ ready_log"
  using begin_warmed [OF assms] by (cases "step (workbegin (100 + int a)) s") blast

lemma ready_last:
  assumes "warm s = 0" and "left s = 1"
  shows "\<exists>s'. sim_loop step (invocation a @ es) s = (s', Break, es) \<and>
    left s' = 0 \<and> log s' = log s @ ready_inv_log begin_log ready_log end_log a @ done_log"
proof -
  obtain s1 where s1: "step (workbegin (100 + int a)) s = (s1, Continue)" "warm s1 = -1"
    "left s1 = left s" "log s1 = log s @ begin_log (int a) @ ready_log"
    using ready_begin [OF assms(1)] by blast
  obtain s2 r2 where s2: "step (workend (100 + int a)) s1 = (s2, r2)" by fastforce
  from end_last [OF _ _ s2] s1 assms have "r2 = Break" "left s2 = 0"
    "log s2 = log s1 @ end_log (int a) @ done_log" by auto
  then show ?thesis
    using s1 s2 by (intro exI [of _ s2]) (simp add: invocation_def ready_inv_log_def)
qed

lemma ready_more:
  assumes "warm s = 0" and "1 < left s"
  shows "\<exists>s'. sim_loop step (invocation a @ es) s = sim_loop step es s' \<and> warm s' = -1 \<and>
    left s' = left s - 1 \<and> log s' = log s @ ready_inv_log begin_log ready_log end_log a"
proof -
  obtain s1 where s1: "step (workbegin (100 + int a)) s = (s1, Continue)" "warm s1 = -1"
    "left s1 = left s" "log s1 = log s @ begin_log (int a) @ ready_log"
    using ready_begin [OF assms(1)] by blast
  obtain s2 r2 where s2: "step (workend (100 + int a)) s1 = (s2, r2)" by fastforce
  from end_measuring [OF _ _ s2] s1 assms have "r2 = Continue" "warm s2 = -1" "left s2 = left s - 1"
    "log s2 = log s1 @ end_log (int a)" by auto
  then show ?thesis
    using s1 s2 by (intro exI [of _ s2]) (simp add: invocation_def ready_inv_log_def)
qed

lemma ready_phase:
  assumes "warm s = 0" and "left s = int (Suc n)"
  shows "\<exists>s'. sim_loop step (invocations a (Suc n) @ es) s = (s', Break, es) \<and> left s' = 0 \<and>
    log s' = log s @ ready_inv_log begin_log ready_log end_log a @ inv_logs begin_log end_log (Suc a) n @ done_log"
proof (cases n)
  case 0
  with assms ready_last [of s a es] show ?thesis by (simp add: invocations_Suc)
next
  case (Suc m)
  with assms have "1 < left s" by simp
  from ready_more [OF assms(1) this, of a "invocations (Suc a) n @ es"] obtain s1 where
    s1: "sim_loop step (invocation a @ invocations (Suc a) n @ es) s =
      sim_loop step (invocations (Suc a) n @ es) s1" "warm s1 = -1"
      "left s1 = left s - 1" "log s1 = log s @ ready_inv_log begin_log ready_log end_log a" by blast
  with assms Suc have "warm s1 < 0" "left s1 = int (Suc m)" by simp_all
  from measure_phase [OF this, of "Suc a" es] s1 Suc show ?thesis
    by (auto simp: invocations_Suc [of a "Suc m"])
qed

lemma ready_partial:
  assumes "warm s = 0" and "int (Suc m) < left s"
  shows "\<exists>s'. sim_loop step (invocations a (Suc m) @ es) s = sim_loop step es s' \<and> warm s' = -1 \<and>
    left s' = left s - int (Suc m) \<and>
    log s' = log s @ ready_inv_log begin_log ready_log end_log a @ inv_logs begin_log end_log (Suc a) m"
proof -
  from assms have "1 < left s" by simp
  from ready_more [OF assms(1) this, of a "invocations (Suc a) m @ es"] obtain s1 where
    s1: "sim_loop step (invocation a @ invocations (Suc a) m @ es) s =
      sim_loop step (invocations (Suc a) m @ es) s1" "warm s1 = -1"
      "left s1 = left s - 1" "log s1 = log s @ ready_inv_log begin_log ready_log end_log a" by blast
  with assms have "warm s1 < 0" "int m < left s1" by simp_all
  from measure_partial [OF this, of "Suc a" es] s1 show ?thesis
    by (auto simp: invocations_Suc [of a m])
qed

text \<open>The whole run: \<open>w\<close> warming invocations, then \<open>n + 1\<close> measured ones, then the loop stops.\<close>

lemma warm_then_measure:
  assumes "warm s = int w" and "left s = int (Suc n)"
  shows "\<exists>s'. sim_loop step (invocations a (w + Suc n) @ es) s = (s', Break, es) \<and> left s' = 0 \<and>
    log s' = log s @ inv_logs begin_log end_log a w @ ready_inv_log begin_log ready_log end_log (a + w) @
      inv_logs begin_log end_log (Suc (a + w)) n @ done_log"
proof -
  obtain s1 where s1: "sim_loop step (invocations a w @ invocations (a + w) (Suc n) @ es) s =
      sim_loop step (invocations (a + w) (Suc n) @ es) s1"
    "warm s1 = 0" "left s1 = left s" "log s1 = log s @ inv_logs begin_log end_log a w"
    using warm_phase [OF assms(1)] by blast
  with assms have "left s1 = int (Suc n)" by simp
  from ready_phase [OF s1(2) this, of "a + w" es] s1 show ?thesis
    by (simp only: invocations_add append_assoc)
qed

text \<open>A guest that stops early leaves the loop running, with nothing measured to the end.\<close>

lemma too_few_invocations:
  assumes "warm s = int w" and "left s = int n" and "m < w + n"
  shows "\<exists>s'. sim_loop step (invocations a m @ es) s = sim_loop step es s' \<and>
    set (log s') \<subseteq> set (log s) \<union> (\<Union>i. set (begin_log i)) \<union> (\<Union>i. set (end_log i)) \<union> set ready_log"
proof -
  have logs: "set (inv_logs begin_log end_log b k) \<subseteq> (\<Union>i. set (begin_log i)) \<union> (\<Union>i. set (end_log i))" for b k
    by (auto simp: inv_logs_def inv_log_def)
  have ready_sub: "set (ready_inv_log begin_log ready_log end_log b) \<subseteq>
      (\<Union>i. set (begin_log i)) \<union> (\<Union>i. set (end_log i)) \<union> set ready_log" for b
    by (auto simp: ready_inv_log_def)
  show ?thesis
  proof (cases "m \<le> w")
    case True
    with assms(1) have "warm s = int (m + (w - m))" by simp
    from warm_partial [OF this, of a es] logs [of a m] show ?thesis by fastforce
  next
    case False
    then obtain k where m: "m = w + Suc k" by (metis less_imp_Suc_add not_le add_Suc_right)
    obtain s1 where s1: "sim_loop step (invocations a w @ invocations (a + w) (Suc k) @ es) s =
        sim_loop step (invocations (a + w) (Suc k) @ es) s1"
      "warm s1 = 0" "left s1 = left s" "log s1 = log s @ inv_logs begin_log end_log a w"
      using warm_phase [OF assms(1)] by blast
    have "int (Suc k) < left s1" using s1(3) assms m by simp
    from ready_partial [OF s1(2) this, of "a + w" es] obtain s2 where
      s2: "sim_loop step (invocations (a + w) (Suc k) @ es) s1 = sim_loop step es s2"
      "log s2 = log s1 @ ready_inv_log begin_log ready_log end_log (a + w) @
        inv_logs begin_log end_log (Suc (a + w)) k" by blast
    have "sim_loop step (invocations a m @ es) s = sim_loop step es s2"
      unfolding m invocations_add append_assoc s1(1) s2(1) ..
    moreover have "set (log s2) \<subseteq> set (log s) \<union> (\<Union>i. set (begin_log i)) \<union>
        (\<Union>i. set (end_log i)) \<union> set ready_log"
      using logs [of a w] logs [of "Suc (a + w)" k] ready_sub [of "a + w"]
      unfolding s1(4) s2(2) set_append by blast
    ultimately show ?thesis by blast
  qed
qed

end

end
