(* ===== verification/Run_Scripts.thy ===== *)
theory Run_Scripts
  imports M5_Sim
begin

text \<open>
  The bash scripts that the Python scripts generate and hand to the guest through
  \<open>readfile\<close>: \<open>writeRunScript\<close> of \<open>run_sim.tmpl.py\<close>, \<open>writeRunScript\<close> and
  \<open>writeDriveScript\<close> of \<open>run_sim_two_machine.tmpl.py\<close>, \<open>writeRunScript\<close> of
  \<open>vswarm_simple.tmpl.py\<close> (the ARM variants differ in the \<open>m5\<close> command only) and of
  \<open>test/run_sim_test.py\<close>. A template is the list of its lines after Python has joined the
  lines that end in a backslash; each template starts with an empty line, since its
  literal opens with a newline.

  \<open>shell_events\<close> reads such a text the way the guest executes it, as far as gem5 notices:
  an \<open>m5 fail\<close> or \<open>m5 exit\<close> line is an exit event, and a call of the client is the run of
  \<open>tools/client/main.go\<close> with the flags of that line. The theorems give the event sequence
  of each script, for every function name that is one word.
\<close>

subsection \<open>The scripts\<close>

abbreviation device :: string where
  "device \<equiv> ''enp0s2''"

text \<open>The two client calls that occur in the templates, continuation lines joined.\<close>

definition client_cmd :: "string \<Rightarrow> string \<Rightarrow> string \<Rightarrow> string \<Rightarrow> string" where
  "client_cmd fn url n w =
     ''/root/test-client     -function-name '' @ fn @ ''     -url '' @ url @
     ''     -port 50000     -n '' @ n @ ''     -w '' @ w @ ''     -m5ops     -input 10''"

definition plain_client_cmd :: "string \<Rightarrow> string \<Rightarrow> string" where
  "plain_client_cmd fn n =
     ''/root/test-client     -function-name '' @ fn @
     ''     -url localhost     -port 50000     -n '' @ n @ '' -input 10     && INVOKER_RES=$?''"

definition run_lines :: "string \<Rightarrow> string list" where
  \<open>run_lines FN_NAME =
     ['''',
      ''#!/bin/bash'',
      '''',
      ''## Define the image name of your function.'',
      '''',
      ''# We use the 'm5 fail <code>' magic instruction to indicate the'',
      ''# python script where in workflow the system currently is.'',
      '''',
      ''m5 fail 1 ## 1: BOOTING complete'',
      '''',
      ''## Spin up Container'',
      ''echo "Start the container..."'',
      ''docker-compose -f /root/functions.yaml up -d '' @ FN_NAME,
      ''m5 fail 2 ## 2: Started container'',
      '''',
      ''echo "Pin function container to core 1"'',
      ''docker update function --cpuset-cpus 1'',
      '''',
      ''sleep 5'',
      ''m5 fail 3 ## 3: Pinned container'',
      '''',
      '''',
      '''',
      ''m5 fail 10 ## 10: Start client'',
      '''',
      ''## The client will perform some functional warming'',
      ''# and then send a fail code before invoking the'',
      ''# function again for the actual measurement.'',
      client_cmd FN_NAME ''localhost'' (show_int 20) (show_int 5000),
      '''',
      ''m5 fail 11 ## 11: Stop client'',
      ''# -------------------------------------------'',
      '''',
      '''',
      ''## Stop container'',
      ''docker-compose -f /root/functions.yaml down'',
      ''m5 fail 6 ## 6: Container stop'',
      '''',
      '''',
      ''## M5 fail -1 will exit the simulations'',
      ''m5 fail -1 ## 5: Test done'',
      '''',
      '''']\<close>

definition drive_lines :: "string \<Rightarrow> string list" where
  \<open>drive_lines fn =
     ['''',
      ''#!/bin/bash'',
      '''',
      ''echo "'',
      ''Execute m5 exit to indicate boot complete"'',
      ''m5 exit'',
      '''',
      ''## Configure network interface'',
      ''echo "Config: '' @ device @ '' with ipaddress '' @ ''10.0.2.18'' @ '' "'',
      ''ifconfig '' @ device @ '' '' @ ''10.0.2.18'',
      ''ifconfig '' @ device @ '' up'',
      '''',
      ''# -------------------------------------------'',
      ''m5 fail 10 ## 10: Start client'',
      '''',
      ''## Now start the actual measurement of the function'',
      client_cmd fn ''10.0.2.17'' (show_int 50) (show_int 20000),
      '''',
      ''m5 fail 11 ## 11: Stop client'',
      ''# -------------------------------------------'',
      '''',
      '''',
      ''## M5 fail -1 will exit the simulations'',
      ''m5 fail -1 ## 5: Test done'',
      '''',
      '''']\<close>

definition testsys_lines :: "string \<Rightarrow> int \<Rightarrow> string list" where
  \<open>testsys_lines fn cpu =
     ['''',
      ''#!/bin/bash'',
      '''',
      ''m5 fail 1 ## 1: BOOTING complete'',
      '''',
      ''## Configure network interface'',
      ''echo "Config: '' @ device @ '' with ipaddress '' @ ''10.0.2.17'' @ '' "'',
      ''ifconfig '' @ device @ '' '' @ ''10.0.2.17'',
      '''',
      ''## Spin up Container'',
      ''echo "Start the container..."'',
      ''docker-compose -f /root/functions.yaml up -d '' @ fn,
      ''m5 fail 2 ## 2: Started container'',
      '''',
      ''echo "Pin function container to core '' @ show_int cpu @ ''"'',
      ''docker update function --cpuset-cpus '' @ show_int cpu,
      '''',
      ''sleep 5'',
      ''m5 fail 3 ## 3: Pinned container'',
      '''',
      ''echo "Container is running. Turn on network IF '' @ device @ ''"'',
      ''ifconfig '' @ device @ '' up'',
      '''',
      '''']\<close>

definition vswarm_lines :: "string \<Rightarrow> string \<Rightarrow> int \<Rightarrow> int \<Rightarrow> string list" where
  \<open>vswarm_lines m5cmd fn n w =
     ['''',
      ''#!/bin/bash'',
      '''',
      ''## Define the image name of your function.'',
      '''',
      ''# We use the 'm5 exit' magic instruction to indicate the'',
      ''# python script where in workflow the system currently is.'',
      '''',
      m5cmd @ '' exit ## 1: BOOTING complete'',
      '''',
      ''## Spin up Container'',
      ''echo "Start the container..."'',
      ''docker-compose -f /root/functions.yaml up -d '' @ fn,
      m5cmd @ '' exit ## 2: Started container'',
      '''',
      ''echo "Pin function container to core 1"'',
      ''docker update function --cpuset-cpus 1'',
      '''',
      ''sleep 5'',
      m5cmd @ '' exit ## 3: Pinned container'',
      '''',
      '''',
      ''# # The client will perform some functional warming'',
      ''# and then send a fail code before invoking the'',
      ''# function again for the actual measurement.'',
      ''# /root/test-client  -function-name aes -url localhost -port 50000 -n 10 -w 100 -m5ops -input 10'',
      ''# /root/test-client  -function-name fibonacci -url localhost -port 50000 -n 2 -w 2 -m5ops -v -input 10'',
      client_cmd fn ''localhost'' (show_int n) (show_int w),
      '''',
      '''',
      m5cmd @ '' exit ## 4: Stop client'',
      ''# -------------------------------------------'',
      '''',
      '''',
      ''## Stop container'',
      ''#docker-compose -f /root/functions.yaml down'',
      m5cmd @ '' exit ## 5: Container stop'',
      '''',
      '''',
      ''## exit the simulations'',
      m5cmd @ '' exit ## 6: Test done'',
      '''',
      '''']\<close>

definition ciTest_lines :: "string \<Rightarrow> string list" where
  \<open>ciTest_lines FN_NAME =
     ['''',
      ''#!/bin/bash'',
      '''',
      '''',
      ''m5 fail 1 ## 1: BOOTING complete'',
      '''',
      ''## Spin up Container'',
      ''echo "Start the container..."'',
      ''docker-compose -f functions.yaml up -d '' @ FN_NAME @ '' &&DOCKER_START_RES=$?'',
      ''m5 fail 2 ## 2: Started container'',
      '''',
      ''echo "Pin to core 1"'',
      ''docker update function --cpuset-cpus 1'',
      '''',
      ''sleep 5'',
      ''m5 fail 3 ## 3: Pinned container'',
      '''',
      '''',
      ''## Now start the warming of the function'',
      plain_client_cmd FN_NAME (show_int 5000),
      '''',
      ''m5 fail 4 ## 4: Warming done'',
      '''',
      ''# -------------------------------------------'',
      ''m5 fail 10 ## 10: Start invoking'',
      '''',
      ''## Now start the actual measurement of the function'',
      plain_client_cmd FN_NAME (show_int 5),
      '''',
      ''m5 fail 11 ## 11: Stop invoking'',
      ''# -------------------------------------------'',
      '''',
      '''',
      ''## Stop container'',
      ''docker-compose -f functions.yaml down && DOCKER_STOP_RES=$?'',
      ''m5 fail 6 ## 6: Container stop'',
      '''',
      ''sleep 5'',
      '''',
      ''if [ $INVOKER_RES ] && [ $DOCKER_START_RES ] && [ $DOCKER_STOP_RES ] ; then'',
      ''    echo "SUCCESS: All commands completed successfully"'',
      ''else'',
      ''    echo "FAIL: Commands failed"'',
      ''fi'',
      '''',
      ''## M5 fail -1 will exit the simulations'',
      ''m5 fail -1 ## 5: Test done'',
      '''',
      '''']\<close>

text \<open>Each generator writes its text below the output directory and returns the path.\<close>

definition write_script :: "string \<Rightarrow> string \<Rightarrow> string list \<Rightarrow> string \<times> effect list" where
  "write_script dir name ls =
     (let input_file_name = dir @ ''/'' @ name
      in (input_file_name, [WriteFile input_file_name (py_join nl ls)]))"

definition run_sim_writeRunScript :: "string \<Rightarrow> string \<Rightarrow> string \<times> effect list" where
  "run_sim_writeRunScript dir function_name = write_script dir ''run.sh'' (run_lines function_name)"

definition writeDriveScript :: "string \<Rightarrow> string \<Rightarrow> string \<times> effect list" where
  "writeDriveScript dir fn = write_script dir ''run_drive.sh'' (drive_lines fn)"

definition two_machine_writeRunScript :: "string \<Rightarrow> string \<Rightarrow> int \<Rightarrow> string \<times> effect list" where
  "two_machine_writeRunScript dir fn cpu = write_script dir ''run.sh'' (testsys_lines fn cpu)"

definition vswarm_writeRunScript :: "string \<Rightarrow> string \<Rightarrow> int \<Rightarrow> int \<Rightarrow> string" where
  "vswarm_writeRunScript m5cmd fn n w = py_join nl (vswarm_lines m5cmd fn n w)"

definition test_writeRunScript :: "string \<Rightarrow> string \<Rightarrow> string \<times> effect list" where
  "test_writeRunScript dir function_name = write_script dir ''run.sh'' (ciTest_lines function_name)"

subsection \<open>How the guest executes a script\<close>

definition words :: "string \<Rightarrow> string list" where
  "words l = filter (\<lambda>w. w \<noteq> []) (py_split (CHR '' '') l)"

text \<open>Go's \<open>flag\<close> package: a boolean flag stands alone, any other takes the next word.\<close>

fun parse_flags :: "string list \<Rightarrow> (string \<times> string) list" where
  "parse_flags [] = []"
| "parse_flags [w] = [(w, [])]"
| "parse_flags (w # v # ws) =
     (if w = ''-m5ops'' \<or> w = ''-v'' then (w, []) # parse_flags (v # ws)
      else (w, v) # parse_flags ws)"

definition int_flag :: "(string \<times> string) list \<Rightarrow> string \<Rightarrow> int \<Rightarrow> int" where
  "int_flag fs f dflt = (case map_of fs f of None \<Rightarrow> dflt | Some v \<Rightarrow> parse_int v)"

text \<open>\<open>main\<close> of the client with its flags; without \<open>-m5ops\<close> gem5 notices nothing.\<close>

definition client_main :: "string list \<Rightarrow> exit_event list" where
  "client_main args =
     (let fs = parse_flags args
      in if map_of fs ''-m5ops'' = None then []
         else client_events (nat (int_flag fs ''-n'' 10)) (nat (int_flag fs ''-w'' 0)))"

definition exit_instr :: exit_event where
  "exit_instr = \<lparr>getCause = ''m5_exit instruction encountered'', getCode = 0\<rparr>"

definition m5_util :: "string list \<Rightarrow> exit_event list" where
  "m5_util args =
     (case dropWhile (prefix ''--addr='') args of
        [] \<Rightarrow> []
      | op # rest \<Rightarrow>
          if op = ''exit'' then [exit_instr]
          else if op = ''fail'' then (case rest of [] \<Rightarrow> [] | c # _ \<Rightarrow> [fail_event (parse_int c)])
          else [])"

definition shell_command :: "string list \<Rightarrow> exit_event list" where
  "shell_command ws =
     (case ws of
        [] \<Rightarrow> []
      | cmd # args \<Rightarrow>
          if cmd = ''m5'' then m5_util args
          else if cmd = ''/root/test-client'' then client_main (takeWhile (\<lambda>w. w \<noteq> ''&&'') args)
          else [])"

definition shell_events :: "string \<Rightarrow> exit_event list" where
  "shell_events text = concat (map (\<lambda>l. shell_command (words l)) (py_split (CHR 0x0A) text))"

text \<open>A function name is one word: it has no character that the shell treats specially.\<close>

definition shell_special :: "char \<Rightarrow> bool" where
  "shell_special c \<longleftrightarrow>
     c \<in> set '' !#$&()*;<>?[]{|}~'' \<or> c \<in> {CHR 0x09, CHR 0x0A, CHR 0x22, CHR 0x27, CHR 0x5C, CHR 0x60}"

definition plain_word :: "string \<Rightarrow> bool" where
  "plain_word t \<longleftrightarrow> t \<noteq> [] \<and> \<not> list_ex shell_special t"

subsection \<open>Lemmas\<close>

lemma py_split_join:
  assumes "\<And>x. x \<in> set xs \<Longrightarrow> sep \<notin> set x" and "xs \<noteq> []"
  shows "py_split sep (py_join [sep] xs) = xs"
  using assms
proof (induction xs)
  case (Cons x xs)
  then show ?case
    by (cases xs) (auto simp: py_split_no_sep py_split_append_sep)
qed simp

lemma special_chars: "shell_special (CHR 0x0A)" "shell_special (CHR '' '')" "shell_special (CHR ''&'')"
  by (simp_all add: shell_special_def)

lemma plain_word_chars:
  assumes "plain_word t"
  shows "CHR 0x0A \<notin> set t" and "CHR '' '' \<notin> set t" and "t \<noteq> []" and "t \<noteq> ''&&''"
  using assms special_chars by (auto simp: plain_word_def list_ex_iff)

lemma words_append_space: "words (a @ CHR '' '' # b) = words a @ words b"
  by (simp add: words_def py_split_append_sep)

lemma words_Nil [simp]: "words [] = []"
  by (simp add: words_def)

lemma words_plain [simp]: "plain_word t \<Longrightarrow> words t = [t]"
  by (simp add: words_def plain_word_chars py_split_no_sep)

lemma words_space: "words (CHR '' '' # b) = words b"
  using words_append_space [of "[]" b] by simp

lemma words_token:
  assumes "plain_word t"
  shows "words ((a @ '' '') @ t @ (CHR '' '' # b)) = words a @ t # words b"
proof -
  have "words (a @ CHR '' '' # (t @ CHR '' '' # b)) = words a @ words (t @ CHR '' '' # b)"
    by (rule words_append_space)
  then show ?thesis using assms by (simp add: words_append_space)
qed

lemma show_int_not_special: "c \<in> set ''-0123456789'' \<Longrightarrow> \<not> shell_special c"
proof -
  have "list_all (\<lambda>c. \<not> shell_special c) ''-0123456789''" by (simp add: shell_special_def)
  then show "c \<in> set ''-0123456789'' \<Longrightarrow> \<not> shell_special c" unfolding list_all_iff by blast
qed

lemma plain_show_int [simp]: "plain_word (show_int i)"
proof -
  have "show_int i \<noteq> []" by (simp add: show_int_def)
  then show ?thesis
    using show_int_not_special show_int_chars [of _ i] by (auto simp only: plain_word_def list_ex_iff)
qed

lemma shell_events_lines:
  assumes "\<And>l. l \<in> set ls \<Longrightarrow> CHR 0x0A \<notin> set l" and "ls \<noteq> []"
  shows "shell_events (py_join nl ls) = concat (map (\<lambda>l. shell_command (words l)) ls)"
  using assms by (simp add: shell_events_def py_split_join)

text \<open>What one line of a script does: comments, empty lines and \<open>m5\<close> commands.\<close>

lemma shell_empty: "shell_command (words []) = []"
  by (simp add: shell_command_def)

lemma flags_client:
  "parse_flags [''-function-name'', fn, ''-url'', url, ''-port'', ''50000'', ''-n'', n, ''-w'', w,
     ''-m5ops'', ''-input'', ''10''] =
   [(''-function-name'', fn), (''-url'', url), (''-port'', ''50000''), (''-n'', n), (''-w'', w),
    (''-m5ops'', []), (''-input'', ''10'')]"
  by simp

lemma words_client_cmd:
  assumes "plain_word fn" and "plain_word url"
  shows "words (client_cmd fn url (show_int n) (show_int w)) =
    [''/root/test-client'', ''-function-name'', fn, ''-url'', url, ''-port'', ''50000'', ''-n'',
     show_int n, ''-w'', show_int w, ''-m5ops'', ''-input'', ''10'']"
proof -
  have "client_cmd fn url (show_int n) (show_int w) =
    (''/root/test-client     -function-name'' @ '' '') @ fn @ CHR '' '' # ((''    -url'' @ '' '') @ url @
     CHR '' '' # ((''    -port 50000     -n'' @ '' '') @ show_int n @
     CHR '' '' # ((''    -w'' @ '' '') @ show_int w @ CHR '' '' # ''    -m5ops     -input 10'')))"
    by (simp add: client_cmd_def)
  then show ?thesis
    by (simp only: words_token assms plain_show_int) (simp add: words_def)
qed

lemma client_cmd_events:
  assumes "plain_word fn" and "plain_word url"
  shows "shell_command (words (client_cmd fn url (show_int n) (show_int w))) =
    client_events (nat n) (nat w)"
  by (simp add: words_client_cmd [OF assms] shell_command_def client_main_def int_flag_def
      plain_word_chars(4) [OF assms(1)] plain_word_chars(4) [OF assms(2)]
      plain_word_chars(4) [OF plain_show_int])

lemma plain_client_cmd_events:
  assumes "plain_word fn"
  shows "shell_command (words (plain_client_cmd fn (show_int n))) = []"
proof -
  have "plain_client_cmd fn (show_int n) =
    (''/root/test-client     -function-name'' @ '' '') @ fn @ CHR '' '' #
     ((''    -url localhost     -port 50000     -n'' @ '' '') @ show_int n @
     CHR '' '' # ''-input 10     && INVOKER_RES=$?'')"
    by (simp add: plain_client_cmd_def)
  then have "words (plain_client_cmd fn (show_int n)) =
    [''/root/test-client'', ''-function-name'', fn, ''-url'', ''localhost'', ''-port'', ''50000'',
     ''-n'', show_int n, ''-input'', ''10'', ''&&'', ''INVOKER_RES=$?'']"
    by (simp only: words_token assms plain_show_int) (simp add: words_def)
  then show ?thesis
    by (simp add: shell_command_def client_main_def plain_word_chars(4) [OF assms]
        plain_word_chars(4) [OF plain_show_int])
qed

text \<open>A line whose first word is neither \<open>m5\<close> nor the client is silent.\<close>

lemma shell_other:
  assumes "words l = cmd # args" and "cmd \<noteq> ''m5''" and "cmd \<noteq> ''/root/test-client''"
  shows "shell_command (words l) = []"
  using assms by (simp add: shell_command_def)

lemma shell_other_append:
  assumes "plain_word c" and "c \<noteq> ''m5''" and "c \<noteq> ''/root/test-client''"
  shows "shell_command (words (c @ CHR '' '' # l)) = []"
  using assms by (simp add: words_append_space shell_command_def)

lemmas shell_rules = shell_command_def m5_util_def words_def parse_int_def parse_nat_def digit_val_def

lemma plain_literals:
  "plain_word ''localhost''" "plain_word ''10.0.2.17''" "plain_word ''docker-compose''"
  "plain_word ''docker''" "plain_word ''echo''" "plain_word ''m5''"
  by (simp_all add: plain_word_def shell_special_def)

lemma shell_docker_up:
  "shell_command (words (''docker-compose -f /root/functions.yaml up -d '' @ fn)) = []"
  "shell_command (words (''docker-compose -f functions.yaml up -d '' @ fn @ b)) = []"
  using shell_other_append [OF plain_literals(3), of "''-f /root/functions.yaml up -d '' @ fn"]
    shell_other_append [OF plain_literals(3), of "''-f functions.yaml up -d '' @ fn @ b"]
  by simp_all

lemma shell_pin:
  \<open>shell_command (words (''echo "Pin function container to core '' @ x @ b)) = []\<close>
  "shell_command (words (''docker update function --cpuset-cpus '' @ x)) = []"
  using shell_other_append [OF plain_literals(4), of "''update function --cpuset-cpus '' @ x"]
    shell_other_append [OF plain_literals(5), of \<open>''"Pin function container to core '' @ x @ b\<close>]
  by simp_all

lemma run_lines_events:
  assumes "plain_word fn"
  shows "concat (map (\<lambda>l. shell_command (words l)) (run_lines fn)) =
    map fail_event [1, 2, 3, 10] @ client_events 20 5000 @ map fail_event [11, 6, -1]"
  using assms client_cmd_events [of fn "''localhost''" 20 5000] plain_literals(1)
  unfolding run_lines_def list.map concat.simps shell_docker_up
  by (simp only:) (simp add: shell_rules)

lemma drive_lines_events:
  assumes "plain_word fn"
  shows "concat (map (\<lambda>l. shell_command (words l)) (drive_lines fn)) =
    [exit_instr, fail_event 10] @ client_events 50 20000 @ map fail_event [11, -1]"
  using assms client_cmd_events [of fn "''10.0.2.17''" 50 20000] plain_literals(2)
  unfolding drive_lines_def list.map concat.simps
  by (simp only:) (simp add: shell_rules)

lemma testsys_lines_events:
  "concat (map (\<lambda>l. shell_command (words l)) (testsys_lines fn cpu)) = map fail_event [1, 2, 3]"
  unfolding testsys_lines_def list.map concat.simps shell_docker_up shell_pin
  by (simp add: shell_rules)

lemma ciTest_lines_events:
  assumes "plain_word fn"
  shows "concat (map (\<lambda>l. shell_command (words l)) (ciTest_lines fn)) =
    map fail_event [1, 2, 3, 4, 10, 11, 6, -1]"
  unfolding ciTest_lines_def list.map concat.simps shell_docker_up plain_client_cmd_events [OF assms]
  by (simp add: shell_rules)

text \<open>The \<open>m5\<close> command of the x86 and of the ARM scripts.\<close>

definition m5_x86 :: string where
  "m5_x86 = ''m5''"

definition m5_arm :: string where
  "m5_arm = ''m5 --addr=0x10010000''"

lemma shell_m5_exit:
  assumes "m5cmd \<in> {m5_x86, m5_arm}"
  shows "shell_command (words (m5cmd @ CHR '' '' # ''exit'' @ CHR '' '' # b)) = [exit_instr]"
  using assms
  by (auto simp only: insert_iff empty_iff words_append_space append_Cons append_Nil)
    (simp_all add: m5_x86_def m5_arm_def shell_command_def m5_util_def words_def)

lemma vswarm_lines_events:
  assumes "plain_word fn" and "m5cmd \<in> {m5_x86, m5_arm}"
  shows "concat (map (\<lambda>l. shell_command (words l)) (vswarm_lines m5cmd fn n w)) =
    [exit_instr, exit_instr, exit_instr] @ client_events (nat n) (nat w) @
    [exit_instr, exit_instr, exit_instr]"
  using client_cmd_events [OF assms(1) plain_literals(1), of n w]
    shell_m5_exit [OF assms(2), of "''## 1: BOOTING complete''"]
    shell_m5_exit [OF assms(2), of "''## 2: Started container''"]
    shell_m5_exit [OF assms(2), of "''## 3: Pinned container''"]
    shell_m5_exit [OF assms(2), of "''## 4: Stop client''"]
    shell_m5_exit [OF assms(2), of "''## 5: Container stop''"]
    shell_m5_exit [OF assms(2), of "''## 6: Test done''"]
  unfolding vswarm_lines_def list.map concat.simps shell_docker_up append_Cons append_Nil
  by (simp only:) (simp add: shell_rules)

lemma lines_no_newline:
  assumes "CHR 0x0A \<notin> set fn" and "CHR 0x0A \<notin> set m5cmd"
  shows "l \<in> set (run_lines fn) \<Longrightarrow> CHR 0x0A \<notin> set l"
    and "l \<in> set (drive_lines fn) \<Longrightarrow> CHR 0x0A \<notin> set l"
    and "l \<in> set (testsys_lines fn cpu) \<Longrightarrow> CHR 0x0A \<notin> set l"
    and "l \<in> set (vswarm_lines m5cmd fn n w) \<Longrightarrow> CHR 0x0A \<notin> set l"
    and "l \<in> set (ciTest_lines fn) \<Longrightarrow> CHR 0x0A \<notin> set l"
  using assms plain_word_chars(1) [OF plain_show_int]
  by (auto simp: run_lines_def drive_lines_def testsys_lines_def vswarm_lines_def ciTest_lines_def
      client_cmd_def plain_client_cmd_def)

lemma lines_not_Nil [simp]:
  "run_lines fn \<noteq> []" "drive_lines fn \<noteq> []" "testsys_lines fn cpu \<noteq> []"
  "vswarm_lines m5cmd fn n w \<noteq> []" "ciTest_lines fn \<noteq> []"
  by (simp_all add: run_lines_def drive_lines_def testsys_lines_def vswarm_lines_def ciTest_lines_def)

lemma m5_commands_no_newline: "m5cmd \<in> {m5_x86, m5_arm} \<Longrightarrow> CHR 0x0A \<notin> set m5cmd"
  by (auto simp: m5_x86_def m5_arm_def)

text \<open>The scripts as the guest executes them.\<close>

lemma run_script_shell:
  assumes "plain_word fn"
  shows "shell_events (py_join nl (run_lines fn)) =
    map fail_event [1, 2, 3, 10] @ client_events 20 5000 @ map fail_event [11, 6, -1]"
  using lines_no_newline(1) [OF plain_word_chars(1) [OF assms], of "[]"]
  by (simp only: shell_events_lines lines_not_Nil run_lines_events [OF assms] set_simps empty_iff simp_thms)

lemma drive_script_shell:
  assumes "plain_word fn"
  shows "shell_events (py_join nl (drive_lines fn)) =
    [exit_instr, fail_event 10] @ client_events 50 20000 @ map fail_event [11, -1]"
  using lines_no_newline(2) [OF plain_word_chars(1) [OF assms], of "[]"]
  by (simp only: shell_events_lines lines_not_Nil drive_lines_events [OF assms] set_simps empty_iff simp_thms)

lemma testsys_script_shell:
  assumes "plain_word fn"
  shows "shell_events (py_join nl (testsys_lines fn cpu)) = map fail_event [1, 2, 3]"
  using lines_no_newline(3) [OF plain_word_chars(1) [OF assms], of "[]"]
  by (simp only: shell_events_lines lines_not_Nil testsys_lines_events set_simps empty_iff simp_thms)

lemma ciTest_script_shell:
  assumes "plain_word fn"
  shows "shell_events (py_join nl (ciTest_lines fn)) = map fail_event [1, 2, 3, 4, 10, 11, 6, -1]"
  using lines_no_newline(5) [OF plain_word_chars(1) [OF assms], of "[]"]
  by (simp only: shell_events_lines lines_not_Nil ciTest_lines_events [OF assms] set_simps empty_iff simp_thms)

lemma vswarm_script_shell:
  assumes "plain_word fn" and "m5cmd \<in> {m5_x86, m5_arm}"
  shows "shell_events (vswarm_writeRunScript m5cmd fn n w) =
    [exit_instr, exit_instr, exit_instr] @ client_events (nat n) (nat w) @
    [exit_instr, exit_instr, exit_instr]"
  using lines_no_newline(4) [OF plain_word_chars(1) [OF assms(1)] m5_commands_no_newline [OF assms(2)]]
  by (simp only: vswarm_writeRunScript_def shell_events_lines lines_not_Nil vswarm_lines_events [OF assms] simp_thms)

subsection \<open>Properties\<close>

text \<open>
  C13. The run script of \<open>run_sim.py\<close>: \<open>writeRunScript\<close> writes one file, \<open>run.sh\<close> in the
  output directory, and returns its path. Executed by the guest, its text reports booting,
  container start, pinning and client start, then the client's own events for 5000 warming
  and 20 measured requests, then client stop, container stop and fail code -1, in this
  order and nothing else.
\<close>

theorem run_script_protocol:
  assumes "plain_word fn"
  shows "\<exists>text. run_sim_writeRunScript dir fn =
      (dir @ ''/run.sh'', [WriteFile (dir @ ''/run.sh'') text]) \<and>
    shell_events text =
      map fail_event [1, 2, 3, 10, 20, 31, 32] @ invocations 0 20 @ map fail_event [11, 6, -1]"
  using run_script_shell [OF assms]
  by (simp add: run_sim_writeRunScript_def write_script_def client_events_def Let_def)

theorem run_script_protocol_witness:
  "plain_word ''fibonacci-go'' \<and>
   (\<exists>text. run_sim_writeRunScript ''m5out'' ''fibonacci-go'' =
      (''m5out/run.sh'', [WriteFile ''m5out/run.sh'' text]) \<and>
    length (shell_events text) = 50)"
proof -
  have p: "plain_word ''fibonacci-go''" by (simp add: plain_word_def shell_special_def)
  with run_script_protocol [OF p, of "''m5out''"] show ?thesis
    by (auto simp: invocations_def invocation_def upt_rec)
qed

text \<open>
  C14. The two scripts of \<open>run_sim_two_machine.py\<close> split the work: the script of the test
  system only brings up and pins the container (codes 1, 2 and 3) and never ends the
  simulation, whatever core it pins to; the drive script runs the client, with 20000
  warming and 50 measured requests, and is the one that reports code -1.
\<close>

theorem two_machine_script_protocol:
  assumes "plain_word fn"
  shows "\<exists>test drive.
    two_machine_writeRunScript dir fn cpu =
      (dir @ ''/run.sh'', [WriteFile (dir @ ''/run.sh'') test]) \<and>
    writeDriveScript dir fn =
      (dir @ ''/run_drive.sh'', [WriteFile (dir @ ''/run_drive.sh'') drive]) \<and>
    shell_events test = map fail_event [1, 2, 3] \<and>
    shell_events drive =
      exit_instr # map fail_event [10, 20, 31, 32] @ invocations 0 50 @ map fail_event [11, -1]"
  using testsys_script_shell [OF assms] drive_script_shell [OF assms]
  by (simp add: two_machine_writeRunScript_def writeDriveScript_def write_script_def client_events_def Let_def)

theorem two_machine_script_protocol_witness:
  "plain_word ''aes-go'' \<and> (\<exists>test drive.
    two_machine_writeRunScript ''m5out'' ''aes-go'' 1 =
      (''m5out/run.sh'', [WriteFile ''m5out/run.sh'' test]) \<and>
    writeDriveScript ''m5out'' ''aes-go'' =
      (''m5out/run_drive.sh'', [WriteFile ''m5out/run_drive.sh'' drive]) \<and>
    fail_event (-1) \<notin> set (shell_events test) \<and> last (shell_events drive) = fail_event (-1))"
proof -
  have p: "plain_word ''aes-go''" by (simp add: plain_word_def shell_special_def)
  with two_machine_script_protocol [OF p, of "''m5out''" 1] show ?thesis
    by (auto simp: fail_event_def)
qed

text \<open>
  The script of the \<open>vswarm_simple\<close> scripts, x86 and ARM alike: the guest leaves with
  \<open>m5 exit\<close> three times, runs the client with the numbers of invocations and warming
  requests of the command line, and leaves with \<open>m5 exit\<close> three times more; it never sends
  a fail code of its own.
\<close>

theorem vswarm_script_protocol:
  assumes "plain_word fn" and "m5cmd \<in> {m5_x86, m5_arm}"
  shows "shell_events (vswarm_writeRunScript m5cmd fn n w) =
    replicate 3 exit_instr @ client_events (nat n) (nat w) @ replicate 3 exit_instr"
  using vswarm_script_shell [OF assms] by (simp add: numeral_3_eq_3)

theorem vswarm_script_protocol_witness:
  "plain_word ''fibonacci-go'' \<and> m5_arm \<in> {m5_x86, m5_arm} \<and>
   length (shell_events (vswarm_writeRunScript m5_arm ''fibonacci-go'' 2 100)) = 13"
proof -
  have p: "plain_word ''fibonacci-go''" by (simp add: plain_word_def shell_special_def)
  with vswarm_script_protocol [OF p, of m5_arm 2 100] show ?thesis
    by (simp add: client_events_def invocations_def invocation_def upt_rec)
qed

end
