(* ===== verification/Run_Sim.thy ===== *)
theory Run_Sim
  imports Run_Scripts
begin

text \<open>
  The single-machine simulation script \<open>simulation/wkdir-tmpl/run_sim.tmpl.py\<close>: its command
  line, the handlers \<open>workitem\<close> and \<open>executeM5FailCode\<close>, the loop \<open>simulate\<close> and the main
  program. The module globals \<open>inv_to_warm\<close> and \<open>inv_to_measure\<close> and the trace of effects
  are the state; \<open>args\<close> and \<open>system\<close> are arguments. The handlers are shared with the
  two-machine script, whose \<open>workitem\<close> differs in the systems it switches: they take the
  list of effects of that switch.

  An evaluation first simulates until the main CPU has executed one instruction; the event
  that ends this is the first of the event list, and the script ignores it.
\<close>

subsection \<open>Arguments and state\<close>

record args =
  arg_kernel :: string
  arg_disk :: string
  arg_script :: string
  arg_function :: string
  arg_system :: string
  atomic_warming :: int
  num_invocations :: int
  arg_mode :: string
  take_checkpoints :: bool
  use_checkpoint :: string
  checkpoint_dir :: string

definition run_sim_defaults :: args where
  "run_sim_defaults =
     \<lparr>arg_kernel = '''', arg_disk = '''', arg_script = '''', arg_function = '''',
      arg_system = ''simple'', atomic_warming = 0, num_invocations = 5, arg_mode = ''setup'',
      take_checkpoints = False, use_checkpoint = ''warm'', checkpoint_dir = ''cpt_1m/''\<rparr>"

text \<open>The \<open>choices\<close> that \<open>argparse\<close> enforces.\<close>

definition run_sim_choices_ok :: "args \<Rightarrow> bool" where
  "run_sim_choices_ok a \<longleftrightarrow>
     arg_system a \<in> {''simple'', ''skylake''} \<and> arg_mode a \<in> {''setup'', ''evaluation''} \<and>
     use_checkpoint a \<in> {''boot'', ''warm''}"

record sim_state =
  inv_to_warm :: int
  inv_to_measure :: int
  trace :: "effect list"

definition init_state :: sim_state where
  "init_state = \<lparr>inv_to_warm = -1, inv_to_measure = -1, trace = []\<rparr>"

definition emit :: "effect list \<Rightarrow> sim_state \<Rightarrow> sim_state" where
  "emit xs s = s\<lparr>trace := trace s @ xs\<rparr>"

definition FAIL_CODES :: "int \<rightharpoonup> string" where
  "FAIL_CODES = map_of
     [(1, ''1: BOOTING complete''), (2, ''2: Started container''), (3, ''3: Pinned container''),
      (4, ''4: Warming done''), (6, ''6: Container stop''), (10, ''10: Start client''),
      (11, ''11: Stop client''), (21, ''21: Send request  ->''), (22, ''22: Recv response <-''),
      (31, ''31: Start warming''), (32, ''32: Stop warming''), (-1, ''Exit simulation'')]"

subsection \<open>The handlers\<close>

definition workitem :: "effect list \<Rightarrow> args \<Rightarrow> bool \<Rightarrow> int \<Rightarrow> sim_state \<Rightarrow> sim_state \<times> py_value" where
  "workitem to_main a begin i s =
     (let i = i - 100
      in if arg_mode a \<noteq> ''evaluation'' then (s, PyNone)
         else if begin
         then (let s = emit [prYellow (''Start invokation: '' @ show_int i)] s
               in if inv_to_warm s > 0 then (s, PyNone)
                  else if inv_to_warm s = 0
                  then (let s = emit to_main (emit [prGreen ''Warming done''] s);
                            s = s\<lparr>inv_to_warm := -1\<rparr>
                        in (emit [StatsReset] s, PyNone))
                  else (s, PyNone))
         else (let s = emit [prYellow (''End invokation: '' @ show_int i)] s
               in if inv_to_warm s > 0 then (s\<lparr>inv_to_warm := inv_to_warm s - 1\<rparr>, PyNone)
                  else (let s = (if inv_to_measure s > 0
                                 then s\<lparr>inv_to_measure := inv_to_measure s - 1\<rparr> else s)
                        in if inv_to_measure s = 0
                           then (emit [prGreen ''Measuring done'', StatsDump] s, PyBool True)
                           else (s, PyNone))))"

definition checkpoint_path :: "args \<Rightarrow> string \<Rightarrow> string" where
  "checkpoint_path a ckp_name = checkpoint_dir a @ ''/'' @ arg_function a @ ''/cpt.'' @ ckp_name"

definition executeM5FailCode :: "args \<Rightarrow> int \<Rightarrow> sim_state \<Rightarrow> sim_state \<times> py_value" where
  "executeM5FailCode a code s =
     (case FAIL_CODES code of
        None \<Rightarrow> (emit [Print (''Nothing to do for fail code: %s '' @ show_int code)] s, PyBool False)
      | Some msg \<Rightarrow>
          (let s = emit [prYellow msg] s;
               s = (if code = 32
                    then (let ckp_name = (if code = 1 then ''boot'' else if code = 32 then ''warm'' else ''xx'');
                              ckp = checkpoint_path a ckp_name
                          in emit [Print (''Create checkpoint:  '' @ ckp), Checkpoint ckp] s)
                    else s)
           in if code = -1 then (emit [prGreen ''Simulation done.''] s, PyBool True) else (s, PyNone)))"

subsection \<open>The loop\<close>

text \<open>
  One iteration: announce, take the next exit event, dispatch it; \<open>_exit\<close> is false before
  it, and an event of an unknown cause leaves it so.
\<close>

definition handle_event :: "effect list \<Rightarrow> args \<Rightarrow> exit_event \<Rightarrow> sim_state \<Rightarrow> sim_state \<times> py_value" where
  "handle_event to_main a e s =
     (if getCause e = m5_fail_cause then executeM5FailCode a (getCode e) s
      else if getCause e = ''workbegin'' then workitem to_main a True (getCode e) s
      else if getCause e = ''workend'' then workitem to_main a False (getCode e) s
      else if getCause e = interrupt_cause
      then (emit [Print ''Received user interrupt. Exit simulation''] s, PyBool True)
      else (emit [Print (''Exit cause: '' @ getCause e @ '' | code: '' @ show_int (getCode e))] s,
            PyBool False))"

definition run_step :: "effect list \<Rightarrow> args \<Rightarrow> exit_event \<Rightarrow> sim_state \<Rightarrow> sim_state \<times> outcome" where
  "run_step to_main a e s =
     (let (s, quit) = handle_event to_main a e (emit [Print ''Start simulation...''] s)
      in (s, if truthy quit then Break else Continue))"

definition simulate :: "effect list \<Rightarrow> args \<Rightarrow> exit_event list \<Rightarrow> sim_state
    \<Rightarrow> sim_state \<times> outcome \<times> exit_event list" where
  "simulate to_main a es s = sim_loop (run_step to_main a) es s"

subsection \<open>The main program\<close>

definition create_run_sim_system :: "m5_env \<Rightarrow> args \<Rightarrow> system result" where
  "create_run_sim_system env a =
     (let kvm = (arg_mode a = ''setup'')
      in if arg_system a = ''skylake'' then SklSystem env (arg_kernel a) (arg_disk a) 2 ''SklTunedCPU'' kvm
         else SimpleSystem env (arg_kernel a) (arg_disk a) 2 ''TimingSimpleCPU'' kvm)"

text \<open>Start on the main CPUs and stop after one instruction.\<close>

definition start_main_cpus :: "system \<Rightarrow> system" where
  "start_main_cpus s =
     fold (\<lambda>i s. s\<lparr>sys_cpu := (sys_cpu s)[i := (sys_cpu s ! i)
                        \<lparr>switched_out := Some False, max_insts_any_thread := Some 1\<rparr>],
                    atomic_cpu := (atomic_cpu s)[i := (atomic_cpu s ! i)\<lparr>switched_out := Some True\<rparr>]\<rparr>)
       [0..<length (sys_cpu s)] s"

definition run_sim_prepare :: "string \<Rightarrow> args \<Rightarrow> system \<Rightarrow> system \<times> effect list" where
  "run_sim_prepare outdir a sys =
     (let sys = sys\<lparr>m5ops_base := 0xffff0000, exit_on_work_items := True\<rparr>
      in if arg_function a \<noteq> []
         then (let (f, eff) = run_sim_writeRunScript outdir (arg_function a)
               in (sys\<lparr>readfile := f\<rparr>, eff))
         else (sys\<lparr>readfile := arg_script a\<rparr>, []))"

definition run_sim_main :: "m5_env \<Rightarrow> string \<Rightarrow> args \<Rightarrow> exit_event list
    \<Rightarrow> (system \<times> sim_state \<times> outcome \<times> exit_event list) result" where
  "run_sim_main env outdir a es =
     (let s = init_state;
          s = (if take_checkpoints a \<or> arg_mode a = ''setup''
               then emit [Mkdir (checkpoint_dir a @ ''/'' @ arg_function a)] s else s)
      in bind_res (create_run_sim_system env a) (\<lambda>sys.
           let (sys, eff) = run_sim_prepare outdir a sys;
               s = emit eff s;
               s = (if getHostParallel sys then emit [SimQuantum (10 ^ 9)] s else s);
               to_main = [SwitchCpus ''system'' (switchToMainCpu sys)]
           in if arg_mode a = ''setup''
              then (let s = emit [Print ''--- Setup Mode ---'', Instantiate None] s
                    in Inr (sys, simulate to_main a es s))
              else if arg_mode a = ''evaluation''
              then (let ckp = checkpoint_path a (use_checkpoint a);
                        s = emit [Print ''--- Evaluation Mode ---'',
                                  Print (''Instantiate checkpoint:  '' @ ckp)] s;
                        sys = start_main_cpus sys;
                        s = emit [Instantiate (Some ckp)] s
                    in case es of
                         [] \<Rightarrow> Inr (sys, s, Continue, [])
                       | _ # es \<Rightarrow>
                           (let s = (if atomic_warming a > 0
                                     then (emit [SwitchCpus ''system'' (switchToAtomicCpu sys)] s)
                                            \<lparr>inv_to_warm := atomic_warming a\<rparr>
                                     else s);
                                s = s\<lparr>inv_to_measure := num_invocations a\<rparr>;
                                s = emit [prGreen (''Warming for '' @ show_int (inv_to_warm s) @ '' invocations''),
                                          prGreen (''Measure for '' @ show_int (inv_to_measure s) @ '' invocations'')] s
                            in Inr (sys, simulate to_main a es s)))
              else (let s = emit [LogFatal ''Invalid mode''] s
                    in Inr (sys, simulate to_main a es s))))"

subsection \<open>Basic lemmas\<close>

lemma emit_simps [simp]:
  "trace (emit xs s) = trace s @ xs" "inv_to_warm (emit xs s) = inv_to_warm s"
  "inv_to_measure (emit xs s) = inv_to_measure s"
  by (simp_all add: emit_def)

lemma emit_upd [simp]:
  "trace (s\<lparr>inv_to_warm := w\<rparr>) = trace s" "trace (s\<lparr>inv_to_measure := m\<rparr>) = trace s"
  by simp_all

lemma event_causes [simp]:
  "getCause (fail_event c) = m5_fail_cause" "getCode (fail_event c) = c"
  "getCause (workbegin i) = ''workbegin''" "getCode (workbegin i) = i"
  "getCause (workend i) = ''workend''" "getCode (workend i) = i"
  "getCause (interrupt_event c) = interrupt_cause"
  by (simp_all add: fail_event_def workbegin_def workend_def interrupt_event_def)

text \<open>The marks of a begin and an end of an invocation in the trace.\<close>

definition begin_marks :: "int \<Rightarrow> effect list" where
  "begin_marks i = [Print ''Start simulation...'', prYellow (''Start invokation: '' @ show_int i)]"

definition end_marks :: "int \<Rightarrow> effect list" where
  "end_marks i = [Print ''Start simulation...'', prYellow (''End invokation: '' @ show_int i)]"

interpretation run_sim: work_handler "run_step to_main (a\<lparr>arg_mode := ''evaluation''\<rparr>)"
  inv_to_warm inv_to_measure trace begin_marks end_marks
  "prGreen ''Warming done'' # to_main @ [StatsReset]" "[prGreen ''Measuring done'', StatsDump]"
  for to_main a
  by unfold_locales
    (auto simp: run_step_def handle_event_def workitem_def begin_marks_def end_marks_def Let_def
      split: if_splits)

lemma emit_emit [simp]: "emit ys (emit xs s) = emit (xs @ ys) s"
  by (simp add: emit_def)

subsection \<open>The system of a run\<close>

lemma built_shape:
  assumes "ready env par n model s0" and "board t = board s0" and "wired n mem t"
  shows "length (sys_cpu (if c then assign_eventqs t else t)) = n \<and>
    length (atomic_cpu (if c then assign_eventqs t else t)) = n \<and>
    host_parallel (if c then assign_eventqs t else t) = par \<and>
    pc_io_bus (if c then assign_eventqs t else t) = Some Iobus"
  using assms board_fields(2,6,9) [OF assms(2)] board_fields(2,6,9) [OF assign_eventqs_frames(1), of t]
  by (simp add: ready_def initialised_def wired_def assign_eventqs_frames)

lemma simple_system_shape:
  "\<exists>s. SimpleSystem env k d n model kvm = Inr s \<and> length (sys_cpu s) = n \<and>
     length (atomic_cpu s) = n \<and> host_parallel s = (kvm \<and> 1 < n)"
proof -
  from simple_system_built [of env kvm n model k d] obtain s0 t where
    r: "ready env (kvm \<and> 1 < n) n (if kvm then ''X86KvmCPU'' else model) s0" "board t = board s0"
      "wired n Mem_cntrl t"
    and s: "SimpleSystem env k d n model kvm = Inr (if kvm \<and> 1 < n then assign_eventqs t else t)" by blast
  show ?thesis unfolding s using built_shape [OF r, of "kvm \<and> 1 < n"] by blast
qed

lemma skl_system_shape:
  "\<exists>s. SklSystem env k d n model kvm = Inr s \<and> length (sys_cpu s) = n \<and>
     length (atomic_cpu s) = n \<and> host_parallel s = (kvm \<and> 1 < n) \<and> pc_io_bus s = Some Iobus"
proof -
  from skl_system_built [of env kvm n model k d] obtain s0 t where
    r: "ready env (kvm \<and> 1 < n) n (if kvm then ''X86KvmCPU'' else model) s0" "board t = board s0"
      "wired n (Mem_cntrls 0) t"
    and s: "SklSystem env k d n model kvm = Inr (if kvm \<and> 1 < n then assign_eventqs t else t)" by blast
  show ?thesis unfolding s using built_shape [OF r, of "kvm \<and> 1 < n"] by blast
qed

lemma run_sim_system_shape:
  "\<exists>s. create_run_sim_system env a = Inr s \<and> length (sys_cpu s) = 2 \<and>
     length (atomic_cpu s) = 2 \<and> host_parallel s = (arg_mode a = ''setup'')"
  using skl_system_shape [of env "arg_kernel a" "arg_disk a" 2 "''SklTunedCPU''" "arg_mode a = ''setup''"]
    simple_system_shape [of env "arg_kernel a" "arg_disk a" 2 "''TimingSimpleCPU''" "arg_mode a = ''setup''"]
  by (auto simp: create_run_sim_system_def Let_def)

lemma start_main_cpus_shape:
  "length (sys_cpu (start_main_cpus s)) = length (sys_cpu s) \<and>
   length (atomic_cpu (start_main_cpus s)) = length (atomic_cpu s)"
  unfolding start_main_cpus_def
  by (rule fold_invariant [where Q = "\<lambda>_. True"]) auto

text \<open>The pairs of a switch between the two CPUs of a run.\<close>

definition main_to_atomic :: "nat \<Rightarrow> (cpu_ref \<times> cpu_ref) list" where
  "main_to_atomic n = map (\<lambda>i. (MainCpu i, AtomicCpu i)) [0..<n]"

definition atomic_to_main :: "nat \<Rightarrow> (cpu_ref \<times> cpu_ref) list" where
  "atomic_to_main n = map (\<lambda>i. (AtomicCpu i, MainCpu i)) [0..<n]"

text \<open>What the main program has done when its loop starts.\<close>

definition script_effects :: "string \<Rightarrow> args \<Rightarrow> effect list" where
  "script_effects outdir a =
     (if arg_function a \<noteq> [] then snd (run_sim_writeRunScript outdir (arg_function a)) else [])"

definition mkdir_effects :: "args \<Rightarrow> effect list" where
  "mkdir_effects a =
     (if take_checkpoints a \<or> arg_mode a = ''setup''
      then [Mkdir (checkpoint_dir a @ ''/'' @ arg_function a)] else [])"

definition setup_preamble :: "string \<Rightarrow> args \<Rightarrow> effect list" where
  "setup_preamble outdir a = mkdir_effects a @ script_effects outdir a @
     [SimQuantum (10 ^ 9), Print ''--- Setup Mode ---'', Instantiate None]"

definition evaluation_preamble :: "string \<Rightarrow> args \<Rightarrow> effect list" where
  "evaluation_preamble outdir a = mkdir_effects a @ script_effects outdir a @
     [Print ''--- Evaluation Mode ---'',
      Print (''Instantiate checkpoint:  '' @ checkpoint_path a (use_checkpoint a)),
      Instantiate (Some (checkpoint_path a (use_checkpoint a)))] @
     (if atomic_warming a > 0 then [SwitchCpus ''system'' (main_to_atomic 2)] else []) @
     [prGreen (''Warming for '' @ show_int (if atomic_warming a > 0 then atomic_warming a else -1)
        @ '' invocations''),
      prGreen (''Measure for '' @ show_int (num_invocations a) @ '' invocations'')]"

definition evaluation_start :: "string \<Rightarrow> args \<Rightarrow> sim_state" where
  "evaluation_start outdir a =
     \<lparr>inv_to_warm = (if atomic_warming a > 0 then atomic_warming a else -1),
      inv_to_measure = num_invocations a, trace = evaluation_preamble outdir a\<rparr>"

lemma prepare_shape:
  assumes "run_sim_prepare outdir a sys = (sys', eff)"
  shows "eff = script_effects outdir a \<and> length (sys_cpu sys') = length (sys_cpu sys) \<and>
    length (atomic_cpu sys') = length (atomic_cpu sys) \<and> host_parallel sys' = host_parallel sys"
  using assms by (auto simp: run_sim_prepare_def script_effects_def Let_def split: if_splits prod.splits)

lemma run_sim_setup:
  assumes "arg_mode a = ''setup''"
  shows "\<exists>sys. run_sim_main env outdir a es =
    Inr (sys, simulate [SwitchCpus ''system'' (atomic_to_main 2)] a es
      (emit (setup_preamble outdir a) init_state))"
proof -
  obtain s where s: "create_run_sim_system env a = Inr s" "length (sys_cpu s) = 2"
    "length (atomic_cpu s) = 2" "host_parallel s" using run_sim_system_shape assms by fastforce
  obtain s' eff where p: "run_sim_prepare outdir a s = (s', eff)" by fastforce
  note q = prepare_shape [OF p] 
  have "switchToMainCpu s' = atomic_to_main 2"
    using q s by (simp add: switch_pairs(1) atomic_to_main_def)
  with s p q assms show ?thesis
    by (simp add: run_sim_main_def setup_preamble_def mkdir_effects_def)
qed

lemma run_sim_evaluation:
  assumes "arg_mode a = ''evaluation''"
  shows "\<exists>sys. run_sim_main env outdir a (e # es) =
    Inr (sys, simulate [SwitchCpus ''system'' (atomic_to_main 2)] a es (evaluation_start outdir a))"
proof -
  obtain s where s: "create_run_sim_system env a = Inr s" "length (sys_cpu s) = 2"
    "length (atomic_cpu s) = 2" "\<not> host_parallel s" using run_sim_system_shape assms by fastforce
  obtain s' eff where p: "run_sim_prepare outdir a s = (s', eff)" by fastforce
  note q = prepare_shape [OF p]
  have m: "switchToMainCpu s' = atomic_to_main 2"
    using q s by (simp add: switch_pairs(1) atomic_to_main_def)
  have t: "switchToAtomicCpu (start_main_cpus s') = main_to_atomic 2"
    using q s start_main_cpus_shape [of s'] by (simp add: switch_pairs(2) main_to_atomic_def)
  show ?thesis using s p q m t assms
    by (simp add: run_sim_main_def evaluation_start_def evaluation_preamble_def mkdir_effects_def
        init_state_def emit_def Let_def)
qed

subsection \<open>Steps of the loop\<close>

abbreviation announce :: effect where
  "announce \<equiv> Print ''Start simulation...''"

lemma step_code:
  assumes "FAIL_CODES c = Some msg" and "c \<noteq> 32" and "c \<noteq> -1"
  shows "run_step tm a (fail_event c) s = (emit [announce, prYellow msg] s, Continue)"
  using assms by (simp add: run_step_def handle_event_def executeM5FailCode_def Let_def)

lemma step_checkpoint:
  "run_step tm a (fail_event 32) s =
     (emit [announce, prYellow ''32: Stop warming'',
        Print (''Create checkpoint:  '' @ checkpoint_path a ''warm''),
        Checkpoint (checkpoint_path a ''warm'')] s, Continue)"
  by (simp add: run_step_def handle_event_def executeM5FailCode_def FAIL_CODES_def Let_def)

lemma step_exit:
  "run_step tm a (fail_event (-1)) s =
     (emit [announce, prYellow ''Exit simulation'', prGreen ''Simulation done.''] s, Break)"
  by (simp add: run_step_def handle_event_def executeM5FailCode_def FAIL_CODES_def Let_def)

lemma step_unknown:
  assumes "FAIL_CODES c = None"
  shows "run_step tm a (fail_event c) s =
    (emit [announce, Print (''Nothing to do for fail code: %s '' @ show_int c)] s, Continue)"
  using assms by (simp add: run_step_def handle_event_def executeM5FailCode_def Let_def)

lemma step_interrupt:
  "run_step tm a (interrupt_event c) s =
     (emit [announce, Print ''Received user interrupt. Exit simulation''] s, Break)"
  by (simp add: run_step_def handle_event_def Let_def)

text \<open>In setup mode a work item leaves no mark but the announcement.\<close>

lemma step_setup_work:
  assumes "arg_mode a \<noteq> ''evaluation''"
  shows "run_step tm a (workbegin i) s = (emit [announce] s, Continue)"
    and "run_step tm a (workend i) s = (emit [announce] s, Continue)"
  using assms by (simp_all add: run_step_def handle_event_def workitem_def Let_def)

lemma setup_invocations:
  assumes "arg_mode a \<noteq> ''evaluation''"
  shows "sim_loop (run_step tm a) (invocations i n @ es) s =
    sim_loop (run_step tm a) es (emit (replicate (2 * n) announce) s)"
proof (induction n arbitrary: i s)
  case 0
  then show ?case by (simp add: emit_def)
next
  case (Suc n)
  have "announce # announce # replicate (2 * n) announce = replicate (2 * Suc n) announce" by simp
  then show ?case
    using Suc by (simp add: invocations_Suc invocation_def step_setup_work [OF assms])
qed

lemmas known_codes = step_code [where c = 1] step_code [where c = 2] step_code [where c = 3]
  step_code [where c = 6] step_code [where c = 10] step_code [where c = 11]
  step_code [where c = 31]

lemma fail_code_values:
  "FAIL_CODES 1 = Some ''1: BOOTING complete''" "FAIL_CODES 2 = Some ''2: Started container''"
  "FAIL_CODES 3 = Some ''3: Pinned container''" "FAIL_CODES 6 = Some ''6: Container stop''"
  "FAIL_CODES 10 = Some ''10: Start client''" "FAIL_CODES 11 = Some ''11: Stop client''"
  "FAIL_CODES 31 = Some ''31: Start warming''" "FAIL_CODES 20 = None"
  by (simp_all add: FAIL_CODES_def)

lemmas script_steps = known_codes step_checkpoint step_exit step_unknown fail_code_values

subsection \<open>Checkpoints of a trace\<close>

definition checkpoint_of :: "effect \<Rightarrow> string option" where
  "checkpoint_of e = (case e of Checkpoint p \<Rightarrow> Some p | _ \<Rightarrow> None)"

definition checkpoints_of :: "effect list \<Rightarrow> string list" where
  "checkpoints_of tr = List.map_filter checkpoint_of tr"

lemma checkpoints_append [simp]: "checkpoints_of (xs @ ys) = checkpoints_of xs @ checkpoints_of ys"
  by (simp add: checkpoints_of_def)

lemma checkpoints_Nil [simp]: "checkpoints_of [] = []"
  by (simp add: checkpoints_of_def List.map_filter_simps)

lemma checkpoints_Cons: "checkpoints_of (e # es) = (case e of Checkpoint p \<Rightarrow> [p] | _ \<Rightarrow> []) @ checkpoints_of es"
  by (simp add: checkpoints_of_def List.map_filter_simps checkpoint_of_def split: effect.splits)

lemma checkpoints_replicate [simp]: "checkpoints_of (replicate n announce) = []"
  by (induction n) (simp_all add: checkpoints_Cons)

lemma checkpoints_preamble [simp]:
  "checkpoints_of (setup_preamble outdir a) = []" "checkpoints_of (evaluation_preamble outdir a) = []"
  by (simp_all add: setup_preamble_def evaluation_preamble_def mkdir_effects_def script_effects_def
      run_sim_writeRunScript_def write_script_def checkpoints_Cons pr_defs Let_def)

text \<open>What a setup run adds to its trace while the guest executes the run script.\<close>

definition code_log :: "int \<Rightarrow> effect list" where
  "code_log c = [announce, prYellow (the (FAIL_CODES c))]"

definition setup_log :: "args \<Rightarrow> effect list" where
  "setup_log a =
     concat (map code_log [1, 2, 3, 10]) @
     [announce, Print (''Nothing to do for fail code: %s '' @ show_int 20)] @
     code_log 31 @ code_log 32 @
     [Print (''Create checkpoint:  '' @ checkpoint_path a ''warm''),
      Checkpoint (checkpoint_path a ''warm'')] @
     replicate 40 announce @
     concat (map code_log [11, 6, -1]) @ [prGreen ''Simulation done.'']"

lemma setup_script_run:
  assumes "arg_mode a \<noteq> ''evaluation''"
  shows "sim_loop (run_step tm a)
      (map fail_event [1, 2, 3, 10, 20, 31, 32] @ invocations 0 20 @ map fail_event [11, 6, -1]) s =
    (emit (setup_log a) s, Break, [])"
  using assms
  by (simp add: script_steps setup_invocations setup_log_def code_log_def FAIL_CODES_def
      del: replicate.simps)

lemma setup_log_content:
  "checkpoints_of (setup_log a) = [checkpoint_path a ''warm'']"
  "last (setup_log a) = prGreen ''Simulation done.''"
  "StatsReset \<notin> set (setup_log a)" "StatsDump \<notin> set (setup_log a)"
  "SwitchCpus nm ps \<notin> set (setup_log a)"
  by (simp_all add: setup_log_def code_log_def checkpoints_Cons pr_defs del: replicate.simps)

subsection \<open>Evaluation runs\<close>

text \<open>The events a guest restored from the checkpoint of code 32 still has to produce.\<close>

definition after_checkpoint :: "exit_event list \<Rightarrow> exit_event list" where
  "after_checkpoint es = tl (dropWhile (\<lambda>e. e \<noteq> fail_event 32) es)"

definition run_text :: "string \<Rightarrow> string" where
  "run_text fn = py_join nl (run_lines fn)"

lemma run_text_written:
  "run_sim_writeRunScript dir fn = (dir @ ''/run.sh'', [WriteFile (dir @ ''/run.sh'') (run_text fn)])"
  by (simp add: run_sim_writeRunScript_def write_script_def run_text_def Let_def)

lemma run_text_events:
  assumes "plain_word fn"
  shows "shell_events (run_text fn) =
    map fail_event [1, 2, 3, 10, 20, 31, 32] @ invocations 0 20 @ map fail_event [11, 6, -1]"
  using run_script_shell [OF assms] by (simp add: run_text_def client_events_def)

lemma run_text_resumed:
  assumes "plain_word fn"
  shows "after_checkpoint (shell_events (run_text fn)) = invocations 0 20 @ map fail_event [11, 6, -1]"
  by (simp add: run_text_events [OF assms] after_checkpoint_def fail_event_def)

lemma evaluation_mode_id: "arg_mode a = ''evaluation'' \<Longrightarrow> a\<lparr>arg_mode := ''evaluation''\<rparr> = a"
  by simp

abbreviation to_main_log :: "effect list" where
  "to_main_log \<equiv> [prGreen ''Warming done'', SwitchCpus ''system'' (atomic_to_main 2), StatsReset]"

abbreviation measured_log :: "effect list" where
  "measured_log \<equiv> [prGreen ''Measuring done'', StatsDump]"

lemma evaluation_loop:
  assumes m: "arg_mode a = ''evaluation''" and w: "inv_to_warm s = int w" and n: "inv_to_measure s = int (Suc n)"
  shows "\<exists>s'. simulate [SwitchCpus ''system'' (atomic_to_main 2)] a (invocations i (w + Suc n) @ es) s =
      (s', Break, es) \<and> inv_to_measure s' = 0 \<and>
    trace s' = trace s @ inv_logs begin_marks end_marks i w @
      ready_inv_log begin_marks to_main_log end_marks (i + w) @
      inv_logs begin_marks end_marks (Suc (i + w)) n @ measured_log"
  using run_sim.warm_then_measure [OF w n, of "[SwitchCpus ''system'' (atomic_to_main 2)]" a i es]
  unfolding simulate_def evaluation_mode_id [OF m] by simp

lemma evaluation_direct_loop:
  assumes m: "arg_mode a = ''evaluation''" and w: "inv_to_warm s < 0" and n: "inv_to_measure s = int (Suc n)"
  shows "\<exists>s'. simulate [SwitchCpus ''system'' (atomic_to_main 2)] a (invocations i (Suc n) @ es) s =
      (s', Break, es) \<and> inv_to_measure s' = 0 \<and>
    trace s' = trace s @ inv_logs begin_marks end_marks i (Suc n) @ measured_log"
  using run_sim.measure_phase [OF w n, of "[SwitchCpus ''system'' (atomic_to_main 2)]" a i es]
  unfolding simulate_def evaluation_mode_id [OF m] by simp

subsection \<open>Invariants of the loop\<close>

definition main_cpus :: "nat \<Rightarrow> cpu_ref set" where
  "main_cpus n = MainCpu ` {..<n}"

definition atomic_cpus :: "nat \<Rightarrow> cpu_ref set" where
  "atomic_cpus n = AtomicCpu ` {..<n}"

lemma switch_sets:
  "fst ` set (main_to_atomic n) = main_cpus n" "snd ` set (main_to_atomic n) = atomic_cpus n"
  "fst ` set (atomic_to_main n) = atomic_cpus n" "snd ` set (atomic_to_main n) = main_cpus n"
  "main_cpus n \<inter> atomic_cpus n = {}" "atomic_cpus n \<inter> main_cpus n = {}"
  by (auto simp: main_to_atomic_def atomic_to_main_def main_cpus_def atomic_cpus_def image_image
      atLeast0LessThan)

lemma switch_main_atomic:
  "switch_allowed (main_cpus n) (main_to_atomic n)" "switch_allowed (atomic_cpus n) (atomic_to_main n)"
  "main_cpus n - fst ` set (main_to_atomic n) \<union> snd ` set (main_to_atomic n) = atomic_cpus n"
  "atomic_cpus n - fst ` set (atomic_to_main n) \<union> snd ` set (atomic_to_main n) = main_cpus n"
  by (simp_all add: switch_allowed_def switch_sets)

text \<open>While warming is pending the atomic CPUs run, otherwise the main CPUs.\<close>

definition switch_inv :: "sim_state \<Rightarrow> bool" where
  "switch_inv s \<longleftrightarrow>
     switches_ok ''system'' (main_cpus 2) (trace s) \<and>
     running_after ''system'' (main_cpus 2) (trace s) =
       (if inv_to_warm s < 0 then main_cpus 2 else atomic_cpus 2)"

lemma switch_inv_emit:
  assumes "switch_inv s" and "\<And>e. e \<in> set xs \<Longrightarrow> \<forall>nm ps. e \<noteq> SwitchCpus nm ps"
  shows "switch_inv (emit xs s)"
proof -
  have "switches_ok nm r xs \<and> running_after nm r xs = r" for nm r
    using assms(2)
  proof (induction xs)
    case (Cons x xs)
    then show ?case by (cases x) auto
  qed simp
  with assms(1) show ?thesis by (simp add: switch_inv_def switches_ok_append running_after_append)
qed

lemma switch_inv_fail: "switch_inv s \<Longrightarrow> switch_inv (fst (executeM5FailCode a c s))"
  by (auto simp: executeM5FailCode_def Let_def pr_defs intro!: switch_inv_emit split: option.split)

lemma switch_inv_upd:
  "switch_inv s \<Longrightarrow> 0 < inv_to_warm s \<Longrightarrow> switch_inv (s\<lparr>inv_to_warm := inv_to_warm s - 1\<rparr>)"
  "switch_inv (s\<lparr>inv_to_measure := m\<rparr>) = switch_inv s"
  by (simp_all add: switch_inv_def)

lemma switch_inv_to_main:
  assumes "switch_inv s" and "inv_to_warm s = 0"
  shows "switch_inv ((emit [SwitchCpus ''system'' (atomic_to_main 2)] s)\<lparr>inv_to_warm := -1\<rparr>)"
  using assms by (simp add: switch_inv_def switches_ok_append running_after_append switch_main_atomic)

lemma switch_inv_work:
  assumes "switch_inv s"
  shows "switch_inv (fst (workitem [SwitchCpus ''system'' (atomic_to_main 2)] a b i s))"
proof -
  have e: "switch_inv (emit [prYellow x] s)" "switch_inv (emit [prYellow x, prGreen y] s)" for x y
    using assms by (auto intro!: switch_inv_emit simp: pr_defs)
  show ?thesis
  proof (cases b)
    case True
    have "switch_inv (emit [StatsReset] ((emit [SwitchCpus ''system'' (atomic_to_main 2)]
        (emit [prYellow x, prGreen y] s))\<lparr>inv_to_warm := -1\<rparr>))" if "inv_to_warm s = 0" for x y
      using that by (intro switch_inv_emit switch_inv_to_main e) auto
    with True e(1) assms show ?thesis by (simp add: workitem_def Let_def)
  next
    case False
    have "switch_inv (emit [prGreen y, StatsDump] t)" if "switch_inv t" for t y
      using that by (intro switch_inv_emit) (auto simp: pr_defs)
    moreover have "switch_inv ((emit [prYellow x] s)\<lparr>inv_to_warm := inv_to_warm s - 1\<rparr>)"
      if "0 < inv_to_warm s" for x
      using switch_inv_upd(1) [OF e(1) [of x]] that by simp
    ultimately show ?thesis
      using False e(1) assms by (simp add: workitem_def Let_def switch_inv_upd(2))
  qed
qed

lemma switch_inv_step:
  assumes "switch_inv s" and "run_step [SwitchCpus ''system'' (atomic_to_main 2)] a ev s = (s', r)"
  shows "switch_inv s'"
proof -
  let ?tm = "[SwitchCpus ''system'' (atomic_to_main 2)]"
  have e: "switch_inv (emit xs s)" if "set xs \<subseteq> range Print" for xs
    using assms(1) that by (intro switch_inv_emit) auto
  have "s' = fst (handle_event ?tm a ev (emit [announce] s))"
    using assms(2) by (simp add: run_step_def split_beta Let_def)
  then show ?thesis
    using e by (auto simp: handle_event_def intro!: switch_inv_fail switch_inv_work)
qed

text \<open>Every event leaves at most one checkpoint, and only code 32 leaves one.\<close>

lemma step_checkpoints:
  assumes "run_step tm a e s = (s', r)" and "checkpoints_of tm = []"
  shows "checkpoints_of (trace s') = checkpoints_of (trace s) @
    (if e = fail_event 32 then [checkpoint_path a ''warm''] else [])"
proof -
  have c: "checkpoints_of (trace (fst (executeM5FailCode a i s))) = checkpoints_of (trace s) @
      (if i = 32 then [checkpoint_path a ''warm''] else [])" for i s
    by (cases "i = 32") (simp_all add: executeM5FailCode_def FAIL_CODES_def Let_def checkpoints_Cons
        pr_defs split: option.split)
  have w: "checkpoints_of (trace (fst (workitem tm a b i s))) = checkpoints_of (trace s)" for b i s
    using assms(2) by (simp add: workitem_def Let_def checkpoints_Cons pr_defs)
  have f: "e = fail_event 32 \<longleftrightarrow> getCause e = m5_fail_cause \<and> getCode e = 32"
    by (cases e) (simp add: fail_event_def)
  have "s' = fst (handle_event tm a e (emit [announce] s))"
    using assms(1) by (simp add: run_step_def split_beta Let_def)
  then show ?thesis unfolding f by (simp add: handle_event_def c w checkpoints_Cons)
qed

lemma loop_checkpoints:
  assumes "checkpoints_of tm = []" and "set (checkpoints_of (trace s)) \<subseteq> {checkpoint_path a ''warm''}"
  shows "set (checkpoints_of (trace (fst (sim_loop (run_step tm a) es s)))) \<subseteq> {checkpoint_path a ''warm''}"
  using assms(2)
  by (intro sim_loop_invariant [where P = "\<lambda>s. set (checkpoints_of (trace s)) \<subseteq> {checkpoint_path a ''warm''}"])
    (auto simp: step_checkpoints [OF _ assms(1)] split: if_splits)

lemma step_keeps_trace:
  assumes "run_step tm a e s = (s', r)" and "x \<in> set (trace s)"
  shows "x \<in> set (trace s')"
proof -
  have "x \<in> set (trace (fst (executeM5FailCode a i s)))" if "x \<in> set (trace s)" for i s
    using that by (simp add: executeM5FailCode_def Let_def split: option.split)
  moreover have "x \<in> set (trace (fst (workitem tm a b i s)))" if "x \<in> set (trace s)" for b i s
    using that by (simp add: workitem_def Let_def)
  moreover have "s' = fst (handle_event tm a e (emit [announce] s))"
    using assms(1) by (simp add: run_step_def split_beta Let_def)
  ultimately show ?thesis using assms(2) by (simp add: handle_event_def)
qed

text \<open>Fail code -1 ends the loop in any mode and state; no handler raises.\<close>

lemma step_outcome: "run_step tm a e s = (s', r) \<Longrightarrow> r = Continue \<or> r = Break"
  by (auto simp: run_step_def Let_def split: prod.splits if_splits)

lemma loop_ends:
  assumes "fail_event (-1) \<in> set es \<or> interrupt_event c \<in> set es"
  shows "\<exists>s' rest. sim_loop (run_step tm a) es s = (s', Break, rest)"
  using assms
proof (induction es arbitrary: s)
  case (Cons e es)
  obtain s1 r where s1: "run_step tm a e s = (s1, r)" by fastforce
  show ?case
  proof (cases "r = Continue")
    case True
    then have "e \<noteq> fail_event (-1)" "e \<noteq> interrupt_event c"
      using s1 step_exit [of tm a s] step_interrupt [of tm a c s] by auto
    with Cons s1 True show ?thesis by auto
  next
    case False
    with step_outcome [OF s1] s1 show ?thesis by auto
  qed
qed simp

text \<open>Nothing the loop does is a \<open>fatal\<close>.\<close>

lemma step_no_fatal:
  assumes "run_step tm a e s = (s', r)" and "LogFatal m \<notin> set tm" and "LogFatal m \<notin> set (trace s)"
  shows "LogFatal m \<notin> set (trace s')"
proof -
  have "LogFatal m \<notin> set (trace (fst (executeM5FailCode a i s)))" if "LogFatal m \<notin> set (trace s)" for i s
    using that by (simp add: executeM5FailCode_def Let_def pr_defs split: option.split)
  moreover have "LogFatal m \<notin> set (trace (fst (workitem tm a b i s)))" if "LogFatal m \<notin> set (trace s)" for b i s
    using that assms(2) by (simp add: workitem_def Let_def pr_defs)
  moreover have "s' = fst (handle_event tm a e (emit [announce] s))"
    using assms(1) by (simp add: run_step_def split_beta Let_def)
  ultimately show ?thesis using assms(3) by (simp add: handle_event_def)
qed

lemma simulate_no_fatal:
  assumes "LogFatal m \<notin> set tm" and "LogFatal m \<notin> set (trace s)"
  shows "LogFatal m \<notin> set (trace (fst (simulate tm a es s)))"
  unfolding simulate_def
  by (rule sim_loop_invariant [where P = "\<lambda>s. LogFatal m \<notin> set (trace s)"])
    (use assms step_no_fatal in blast)+

lemma preambles_no_fatal:
  "LogFatal m \<notin> set (setup_preamble outdir a)"
  "LogFatal m \<notin> set (trace (evaluation_start outdir a))"
  by (simp_all add: setup_preamble_def evaluation_start_def evaluation_preamble_def mkdir_effects_def
      script_effects_def run_text_written init_state_def pr_defs)

text \<open>The whole setup run.\<close>

lemma setup_run:
  assumes "arg_mode a = ''setup''" and "plain_word (arg_function a)"
  shows "\<exists>sys st. run_sim_main env outdir a (shell_events (run_text (arg_function a))) =
      Inr (sys, st, Break, []) \<and>
    trace st = setup_preamble outdir a @ setup_log a \<and>
    checkpoints_of (trace st) = [checkpoint_path a ''warm''] \<and>
    last (trace st) = prGreen ''Simulation done.'' \<and>
    StatsReset \<notin> set (trace st) \<and> StatsDump \<notin> set (trace st) \<and>
    (\<forall>nm ps. SwitchCpus nm ps \<notin> set (trace st))"
proof -
  let ?s = "emit (setup_preamble outdir a) init_state"
  have "simulate [SwitchCpus ''system'' (atomic_to_main 2)] a (shell_events (run_text (arg_function a))) ?s
      = (emit (setup_log a) ?s, Break, [])"
    using setup_script_run [of a] assms(1)
    by (simp only: simulate_def run_text_events [OF assms(2)]) simp
  moreover have "trace (emit (setup_log a) ?s) = setup_preamble outdir a @ setup_log a"
    by (simp add: init_state_def)
  moreover have "StatsReset \<notin> set (setup_preamble outdir a)" "StatsDump \<notin> set (setup_preamble outdir a)"
    "\<And>nm ps. SwitchCpus nm ps \<notin> set (setup_preamble outdir a)"
    by (simp_all add: setup_preamble_def mkdir_effects_def script_effects_def run_text_written)
  moreover have "setup_log a \<noteq> []" by (simp add: setup_log_def)
  ultimately show ?thesis
    using run_sim_setup [OF assms(1), of env outdir "shell_events (run_text (arg_function a))"]
    by (auto simp: setup_log_content)
qed

text \<open>The whole evaluation run, from its preamble to the statistics dump.\<close>

lemma evaluation_run:
  assumes "arg_mode a = ''evaluation''" and "plain_word (arg_function a)"
    and "atomic_warming a = int w" and "0 < w" and "num_invocations a = int (Suc n)"
    and "w + Suc n \<le> 20"
  shows "\<exists>sys st rest.
    run_sim_main env outdir a (e # after_checkpoint (shell_events (run_text (arg_function a)))) =
      Inr (sys, st, Break, rest) \<and>
    inv_to_measure st = 0 \<and>
    trace st = evaluation_preamble outdir a @ inv_logs begin_marks end_marks 0 w @
      ready_inv_log begin_marks to_main_log end_marks w @
      inv_logs begin_marks end_marks (Suc w) n @ measured_log"
proof -
  let ?rest = "invocations (w + Suc n) (20 - (w + Suc n)) @ map fail_event [11, 6, -1]"
  have "invocations 0 20 @ map fail_event [11, 6, -1] = invocations 0 (w + Suc n) @ ?rest"
    using invocations_add [of 0 "w + Suc n" "20 - (w + Suc n)"] assms(6) by simp
  then have ev: "after_checkpoint (shell_events (run_text (arg_function a))) =
      invocations 0 (w + Suc n) @ ?rest"
    by (simp only: run_text_resumed [OF assms(2)])
  have "inv_to_warm (evaluation_start outdir a) = int w"
    "inv_to_measure (evaluation_start outdir a) = int (Suc n)"
    "trace (evaluation_start outdir a) = evaluation_preamble outdir a"
    using assms by (simp_all add: evaluation_start_def)
  with evaluation_loop [OF assms(1), of "evaluation_start outdir a" w n 0 ?rest]
    run_sim_evaluation [OF assms(1), of env outdir e "invocations 0 (w + Suc n) @ ?rest"]
  show ?thesis unfolding ev by force
qed

subsection \<open>Properties\<close>

text \<open>
  C1. Evaluation run: restored from the warm checkpoint, with \<open>w\<close> atomic warming
  invocations and \<open>n + 1\<close> invocations to measure, 20 at most together, the script ends by
  itself. Its trace is the preamble, the marks of \<open>w\<close> invocations on the atomic CPU, the
  switch to the main CPU and the statistics reset inside the next invocation, the marks of
  the other measured invocations and one statistics dump; exactly \<open>n + 1\<close> invocations end
  between reset and dump.
\<close>

theorem evaluation_measures:
  assumes "arg_mode a = ''evaluation''" and "plain_word (arg_function a)"
    and "atomic_warming a = int w" and "0 < w" and "num_invocations a = int (Suc n)"
    and "w + Suc n \<le> 20"
  shows "\<exists>sys st rest.
    run_sim_main env outdir a (e # after_checkpoint (shell_events (run_text (arg_function a)))) =
      Inr (sys, st, Break, rest) \<and>
    inv_to_measure st = 0 \<and>
    trace st = evaluation_preamble outdir a @ inv_logs begin_marks end_marks 0 w @
      ready_inv_log begin_marks to_main_log end_marks w @
      inv_logs begin_marks end_marks (Suc w) n @ measured_log"
  by (rule evaluation_run [OF assms])

theorem evaluation_measures_witness:
  "\<exists>sys st rest. run_sim_main ref_env ''m5out''
      (run_sim_defaults\<lparr>arg_mode := ''evaluation'', arg_function := ''aes-go'', atomic_warming := 2\<rparr>)
      (exit_instr # after_checkpoint (shell_events (run_text ''aes-go''))) = Inr (sys, st, Break, rest) \<and>
    inv_to_measure st = 0 \<and> last (trace st) = StatsDump"
proof -
  have "plain_word ''aes-go''" by (simp add: plain_word_def shell_special_def)
  then show ?thesis
    using evaluation_measures [of "run_sim_defaults\<lparr>arg_mode := ''evaluation'',
      arg_function := ''aes-go'', atomic_warming := 2\<rparr>" 2 4 ref_env "''m5out''" exit_instr]
    by (simp add: run_sim_defaults_def) force
qed

text \<open>
  Evaluation run without atomic warming: the \<open>n + 1\<close> measured invocations start with
  the first one, the run ends with the one statistics dump after them, and the statistics
  are never reset, so they include what the guest does from the checkpoint on.
\<close>

theorem evaluation_without_warming:
  assumes "arg_mode a = ''evaluation''" and "plain_word (arg_function a)"
    and "atomic_warming a \<le> 0" and "num_invocations a = int (Suc n)" and "n < 20"
  shows "\<exists>sys st rest.
    run_sim_main env outdir a (e # after_checkpoint (shell_events (run_text (arg_function a)))) =
      Inr (sys, st, Break, rest) \<and>
    inv_to_measure st = 0 \<and>
    trace st = evaluation_preamble outdir a @ inv_logs begin_marks end_marks 0 (Suc n) @ measured_log"
proof -
  let ?rest = "invocations (Suc n) (20 - Suc n) @ map fail_event [11, 6, -1]"
  have "invocations 0 20 @ map fail_event [11, 6, -1] = invocations 0 (Suc n) @ ?rest"
    using invocations_add [of 0 "Suc n" "20 - Suc n"] assms(5) by simp
  then have ev: "after_checkpoint (shell_events (run_text (arg_function a))) =
      invocations 0 (Suc n) @ ?rest"
    by (simp only: run_text_resumed [OF assms(2)])
  have "inv_to_warm (evaluation_start outdir a) < 0"
    "inv_to_measure (evaluation_start outdir a) = int (Suc n)"
    "trace (evaluation_start outdir a) = evaluation_preamble outdir a"
    using assms by (simp_all add: evaluation_start_def)
  with evaluation_direct_loop [OF assms(1), of "evaluation_start outdir a" n 0 ?rest]
    run_sim_evaluation [OF assms(1), of env outdir e "invocations 0 (Suc n) @ ?rest"]
  show ?thesis unfolding ev by force
qed

theorem evaluation_without_warming_witness:
  "\<exists>sys st rest. run_sim_main ref_env ''m5out''
      (run_sim_defaults\<lparr>arg_mode := ''evaluation'', arg_function := ''aes-go''\<rparr>)
      (exit_instr # after_checkpoint (shell_events (run_text ''aes-go''))) = Inr (sys, st, Break, rest) \<and>
    inv_to_measure st = 0 \<and> last (trace st) = StatsDump"
proof -
  have "plain_word ''aes-go''" by (simp add: plain_word_def shell_special_def)
  then show ?thesis
    using evaluation_without_warming [of "run_sim_defaults\<lparr>arg_mode := ''evaluation'',
      arg_function := ''aes-go''\<rparr>" 4 ref_env "''m5out''" exit_instr]
    by (simp add: run_sim_defaults_def) force
qed

text \<open>
  C10. Setup run: while the guest executes the generated script the run takes exactly one
  checkpoint, \<open>cpt.warm\<close> below the directory made for the function, and ends with code -1
  and the line \<open>Simulation done.\<close>; it never switches CPUs and never touches the
  statistics, although the client marks 20 work items.
\<close>

theorem setup_takes_warm_checkpoint:
  assumes "arg_mode a = ''setup''" and "plain_word (arg_function a)"
  shows "\<exists>sys st. run_sim_main env outdir a (shell_events (run_text (arg_function a))) =
      Inr (sys, st, Break, []) \<and>
    trace st = setup_preamble outdir a @ setup_log a \<and>
    checkpoints_of (trace st) = [checkpoint_path a ''warm''] \<and>
    last (trace st) = prGreen ''Simulation done.'' \<and>
    StatsReset \<notin> set (trace st) \<and> StatsDump \<notin> set (trace st) \<and>
    (\<forall>nm ps. SwitchCpus nm ps \<notin> set (trace st))"
  by (rule setup_run [OF assms])

theorem setup_takes_warm_checkpoint_witness:
  "\<exists>sys st. run_sim_main ref_env ''m5out'' (run_sim_defaults\<lparr>arg_function := ''aes-go''\<rparr>)
      (shell_events (run_text ''aes-go'')) = Inr (sys, st, Break, []) \<and>
    checkpoints_of (trace st) = [''cpt_1m//aes-go/cpt.warm'']"
proof -
  have "plain_word ''aes-go''" by (simp add: plain_word_def shell_special_def)
  then show ?thesis
    using setup_takes_warm_checkpoint [of "run_sim_defaults\<lparr>arg_function := ''aes-go''\<rparr>" ref_env "''m5out''"]
    by (simp add: run_sim_defaults_def checkpoint_path_def) force
qed

text \<open>
  C11. CPU switches: whatever exit events gem5 delivers in an evaluation run, every switch the
  script asks for goes from CPUs that are running to CPUs that are switched out, and the
  atomic CPUs are the running ones exactly while warming is pending.
\<close>

theorem evaluation_switches_ok:
  assumes "arg_mode a = ''evaluation''" and "run_sim_main env outdir a (e # es) = Inr (sys, st, r)"
  shows "switches_ok ''system'' (main_cpus 2) (trace st) \<and>
    running_after ''system'' (main_cpus 2) (trace st) =
      (if inv_to_warm st < 0 then main_cpus 2 else atomic_cpus 2)"
proof -
  have pre: "switch_inv (emit (mkdir_effects a @ script_effects outdir a @ xs) init_state)"
    if "set xs \<subseteq> range Print \<union> range Instantiate" for xs
    using that by (intro switch_inv_emit)
      (auto simp: switch_inv_def init_state_def mkdir_effects_def script_effects_def run_text_written
        split: if_splits)
  have "switch_inv (evaluation_start outdir a)"
    using pre [of "[Print x, Print y, Instantiate z]" for x y z]
    by (simp add: switch_inv_def evaluation_start_def evaluation_preamble_def init_state_def
        switches_ok_append running_after_append switch_main_atomic pr_defs)
  then have "switch_inv (fst (simulate [SwitchCpus ''system'' (atomic_to_main 2)] a es
      (evaluation_start outdir a)))"
    unfolding simulate_def by (rule sim_loop_invariant [rotated]) (erule switch_inv_step)
  moreover have "fst (simulate [SwitchCpus ''system'' (atomic_to_main 2)] a es
      (evaluation_start outdir a)) = st"
    using run_sim_evaluation [OF assms(1), of env outdir e es] assms(2)
    by (metis fst_conv sum.inject(2) prod.inject)
  ultimately show ?thesis by (simp add: switch_inv_def)
qed

theorem evaluation_switches_ok_witness:
  "\<exists>sys st r. run_sim_main ref_env ''m5out''
      (run_sim_defaults\<lparr>arg_mode := ''evaluation'', atomic_warming := 3\<rparr>) [exit_instr, exit_instr] =
      Inr (sys, st, r) \<and>
    running_after ''system'' (main_cpus 2) (trace st) =
      (if inv_to_warm st < 0 then main_cpus 2 else atomic_cpus 2)"
proof -
  let ?a = "run_sim_defaults\<lparr>arg_mode := ''evaluation'', atomic_warming := 3\<rparr>"
  have m: "arg_mode ?a = ''evaluation''" by simp
  obtain sys x where r: "run_sim_main ref_env ''m5out'' ?a [exit_instr, exit_instr] = Inr (sys, x)"
    using run_sim_evaluation [OF m, of ref_env "''m5out''" exit_instr "[exit_instr]"] by blast
  obtain st y where "x = (st, y)" by (cases x)
  with r evaluation_switches_ok [OF m, of ref_env "''m5out''" exit_instr "[exit_instr]" sys st y]
  show ?thesis by blast
qed

text \<open>
  C29. The only checkpoint a setup run ever takes is \<open>cpt.warm\<close>, whatever events gem5
  delivers. An evaluation with the default \<open>--use-checkpoint warm\<close> restores exactly that
  path; with \<open>--use-checkpoint boot\<close> it asks for a path that no setup run creates.
\<close>

theorem boot_checkpoint_never_taken:
  assumes "arg_mode a = ''setup''" and "run_sim_main env outdir a es = Inr (sys, st, r)"
    and "arg_mode b = ''evaluation''" and "checkpoint_dir b = checkpoint_dir a"
    and "arg_function b = arg_function a" and "run_sim_main env outdir b (e # es') = Inr (sys', st', r')"
  shows "set (checkpoints_of (trace st)) \<subseteq> {checkpoint_path a ''warm''} \<and>
    (use_checkpoint b = ''warm'' \<longrightarrow> Instantiate (Some (checkpoint_path a ''warm'')) \<in> set (trace st')) \<and>
    (use_checkpoint b = ''boot'' \<longrightarrow> (\<exists>p. Instantiate (Some p) \<in> set (trace st') \<and>
       p \<notin> set (checkpoints_of (trace st))))"
proof -
  let ?tm = "[SwitchCpus ''system'' (atomic_to_main 2)]"
  have tm: "checkpoints_of ?tm = []" by (simp add: checkpoints_Cons)
  have "fst (simulate ?tm a es (emit (setup_preamble outdir a) init_state)) = st"
    using run_sim_setup [OF assms(1), of env outdir es] assms(2) by (metis fst_conv sum.inject(2) prod.inject)
  then have c: "set (checkpoints_of (trace st)) \<subseteq> {checkpoint_path a ''warm''}"
    using loop_checkpoints [OF tm, of "emit (setup_preamble outdir a) init_state" a es]
    by (simp add: simulate_def init_state_def)
  have p: "checkpoint_path b x = checkpoint_path a x" for x
    using assms(4,5) by (simp add: checkpoint_path_def)
  have "fst (simulate ?tm b es' (evaluation_start outdir b)) = st'"
    using run_sim_evaluation [OF assms(3), of env outdir e es'] assms(6)
    by (metis fst_conv sum.inject(2) prod.inject)
  moreover have "Instantiate (Some (checkpoint_path b (use_checkpoint b))) \<in>
      set (trace (fst (simulate ?tm b es' (evaluation_start outdir b))))"
    unfolding simulate_def
    by (rule sim_loop_invariant) (auto simp: step_keeps_trace evaluation_start_def evaluation_preamble_def)
  ultimately have "Instantiate (Some (checkpoint_path a (use_checkpoint b))) \<in> set (trace st')"
    by (simp add: p)
  moreover have "checkpoint_path a ''boot'' \<noteq> checkpoint_path a ''warm''" by (simp add: checkpoint_path_def)
  ultimately show ?thesis using c by auto
qed

theorem boot_checkpoint_never_taken_witness:
  "\<exists>sys st r sys' st' r'. run_sim_main ref_env ''m5out'' run_sim_defaults [fail_event 1, fail_event 32] =
      Inr (sys, st, r) \<and>
    run_sim_main ref_env ''m5out''
      (run_sim_defaults\<lparr>arg_mode := ''evaluation'', use_checkpoint := ''boot''\<rparr>) [exit_instr] =
      Inr (sys', st', r') \<and>
    (\<exists>p. Instantiate (Some p) \<in> set (trace st') \<and> p \<notin> set (checkpoints_of (trace st)))"
proof -
  let ?b = "run_sim_defaults\<lparr>arg_mode := ''evaluation'', use_checkpoint := ''boot''\<rparr>"
  have a: "arg_mode run_sim_defaults = ''setup''" by (simp add: run_sim_defaults_def)
  have b: "arg_mode ?b = ''evaluation''" by simp
  obtain sys x where x: "run_sim_main ref_env ''m5out'' run_sim_defaults [fail_event 1, fail_event 32] =
      Inr (sys, x)"
    using run_sim_setup [OF a, of ref_env "''m5out''" "[fail_event 1, fail_event 32]"] by blast
  obtain sys' y where y: "run_sim_main ref_env ''m5out'' ?b [exit_instr] = Inr (sys', y)"
    using run_sim_evaluation [OF b, of ref_env "''m5out''" exit_instr "[]"] by blast
  obtain st r st' r' where "x = (st, r)" "y = (st', r')" by (cases x, cases y) blast
  with x y boot_checkpoint_never_taken [OF a _ b, of ref_env "''m5out''" _ sys st r] show ?thesis
    by (simp add: run_sim_defaults_def)
qed

text \<open>
  C30. More invocations than the client sends: when warming and measuring together ask for
  more than the 20 invocations of the run script, the run still ends, with fail code -1 and
  the line \<open>Simulation done.\<close>, but the script has not dumped the statistics.
\<close>

theorem evaluation_request_too_long:
  assumes "arg_mode a = ''evaluation''" and "plain_word (arg_function a)"
    and "atomic_warming a = int w" and "0 < w" and "num_invocations a = int n" and "20 < w + n"
  shows "\<exists>sys st.
    run_sim_main env outdir a (e # after_checkpoint (shell_events (run_text (arg_function a)))) =
      Inr (sys, st, Break, []) \<and>
    last (trace st) = prGreen ''Simulation done.'' \<and> StatsDump \<notin> set (trace st)"
proof -
  let ?tm = "[SwitchCpus ''system'' (atomic_to_main 2)]" and ?s = "evaluation_start outdir a"
  let ?last = "map fail_event [11, 6, -1]"
  have s: "inv_to_warm ?s = int w" "inv_to_measure ?s = int n"
    using assms by (simp_all add: evaluation_start_def)
  obtain s1 where s1: "sim_loop (run_step ?tm a) (invocations 0 20 @ ?last) ?s =
      sim_loop (run_step ?tm a) ?last s1"
    and sub: "set (trace s1) \<subseteq> set (trace ?s) \<union> (\<Union>i. set (begin_marks i)) \<union>
      (\<Union>i. set (end_marks i)) \<union> set to_main_log"
    using run_sim.too_few_invocations [OF s assms(6), of ?tm a 0 ?last]
    unfolding evaluation_mode_id [OF assms(1)] by auto
  have "StatsDump \<notin> set (trace s1)"
    using sub by (auto simp: evaluation_start_def evaluation_preamble_def mkdir_effects_def
        script_effects_def run_text_written begin_marks_def end_marks_def pr_defs split: if_splits)
  moreover have "simulate ?tm a (invocations 0 20 @ ?last) ?s =
      (emit (code_log 11 @ code_log 6 @ code_log (-1) @ [prGreen ''Simulation done.'']) s1, Break, [])"
    unfolding simulate_def s1 by (simp add: script_steps code_log_def FAIL_CODES_def)
  ultimately show ?thesis
    using run_sim_evaluation [OF assms(1), of env outdir e "invocations 0 20 @ ?last"]
    unfolding run_text_resumed [OF assms(2)] by (auto simp: code_log_def pr_defs)
qed

theorem evaluation_request_too_long_witness:
  "\<exists>sys st. run_sim_main ref_env ''m5out''
      (run_sim_defaults\<lparr>arg_mode := ''evaluation'', arg_function := ''aes-go'', atomic_warming := 16\<rparr>)
      (exit_instr # after_checkpoint (shell_events (run_text ''aes-go''))) = Inr (sys, st, Break, []) \<and>
    StatsDump \<notin> set (trace st)"
proof -
  have "plain_word ''aes-go''" by (simp add: plain_word_def shell_special_def)
  then show ?thesis
    using evaluation_request_too_long [of "run_sim_defaults\<lparr>arg_mode := ''evaluation'',
      arg_function := ''aes-go'', atomic_warming := 16\<rparr>" 16 5 ref_env "''m5out''" exit_instr]
    by (simp add: run_sim_defaults_def) blast
qed

text \<open>
  C31. The loop ends: in any mode and from any state, an event list that contains fail code
  -1 makes the loop stop, and it never stops by an exception; user interrupt stops it too.
\<close>

theorem simulate_ends:
  assumes "fail_event (-1) \<in> set es \<or> interrupt_event c \<in> set es"
  shows "\<exists>s' rest. simulate tm a es s = (s', Break, rest)"
  using assms loop_ends unfolding simulate_def by blast

theorem simulate_ends_witness:
  "\<exists>s' rest. simulate [] run_sim_defaults [workbegin 100, interrupt_event 0, workend 100] init_state =
     (s', Break, rest)"
  using simulate_ends [of "[workbegin 100, interrupt_event 0, workend 100]" 0] by simp

end
