(* ===== verification/Run_Sim_Test.thy ===== *)
theory Run_Sim_Test
  imports Run_Sim
begin

text \<open>
  The script \<open>test/run_sim_test.py\<close> of the integration tests: boot with KVM, start the
  container, warm the function, switch to the detailed CPUs for five invocations, switch
  back and stop. It calls two methods of the system object that the classes of
  \<open>gem5utils\<close> do not define; what gem5's own \<open>System\<close> class defines is the parameter
  \<open>inherited\<close>.
\<close>

subsection \<open>Methods of the system classes\<close>

text \<open>The methods \<open>SimpleSystem\<close> and \<open>SklSystem\<close> define themselves.\<close>

definition simple_methods :: "string list" where
  "simple_methods = [''getHostParallel'', ''createCPU'', ''switchToAtomicCpu'', ''switchToMainCpu'',
     ''setDiskImage'', ''createCacheHierarchy'', ''connectCPUDirectly'', ''createMemoryControllers'',
     ''setupInterrupts'']"

definition skl_methods :: "string list" where
  "skl_methods = [''getHostParallel'', ''createCPU'', ''switchToAtomicCpu'', ''switchToMainCpu'',
     ''setDiskImage'', ''createCacheHierarchy'', ''connectCPUDirectly'', ''flushCaches'',
     ''createSimpleMemoryController'', ''createMemoryController'', ''_createMemoryControllers'',
     ''_getInterleaveRanges'', ''setupInterrupts'']"

definition system_methods :: "args \<Rightarrow> string list" where
  "system_methods a = (if arg_system a = ''skylake'' then skl_methods else simple_methods)"

text \<open>A call of a method that may be missing.\<close>

definition call_method :: "(string \<Rightarrow> bool) \<Rightarrow> args \<Rightarrow> string \<Rightarrow> py_error option" where
  "call_method inherited a m =
     (if m \<in> set (system_methods a) \<or> inherited m then None else Some (AttributeError m))"

subsection \<open>Handlers and loop\<close>

definition test_FAIL_CODES :: "int \<rightharpoonup> string" where
  "test_FAIL_CODES = map_of
     [(1, ''1: BOOTING complete''), (2, ''2: Started container''), (3, ''3: Pinned container''),
      (4, ''4: Warming done''), (6, ''6: Container stop''), (10, ''10: Start invoking''),
      (11, ''11: Stop invoking''), (-1, ''Exit simulation'')]"

definition test_executeM5FailCode :: "(string \<Rightarrow> bool) \<Rightarrow> args \<Rightarrow> int \<Rightarrow> effect list \<Rightarrow> effect list \<times> outcome" where
  "test_executeM5FailCode inherited a code tr =
     (case test_FAIL_CODES code of
        None \<Rightarrow> (tr @ [Print (''Nothing to do for fail code: %s '' @ show_int code)], Continue)
      | Some msg \<Rightarrow>
          (let tr = tr @ [prYellow msg]
           in if code = 10
              then (let tr = tr @ [Print ''Switch detailed core'']
                    in case call_method inherited a ''switchToDetailedCpus'' of
                         Some err \<Rightarrow> (tr, Raise err)
                       | None \<Rightarrow> (tr @ [StatsReset], Continue))
              else if code = 11
              then (let tr = tr @ [Print ''Switch to kvm core'']
                    in case call_method inherited a ''switchToKvmCpus'' of
                         Some err \<Rightarrow> (tr, Raise err)
                       | None \<Rightarrow> (tr @ [StatsDump, StatsReset], Continue))
              else if code = -1
              then (tr @ [prGreen ''Simulation done.''], Raise (SystemExit 0))
              else (tr, Continue)))"

definition test_step :: "(string \<Rightarrow> bool) \<Rightarrow> args \<Rightarrow> exit_event \<Rightarrow> effect list \<Rightarrow> effect list \<times> outcome" where
  "test_step inherited a e tr =
     (let tr = tr @ [Print ''Start simulation...'']
      in if getCause e = m5_fail_cause then test_executeM5FailCode inherited a (getCode e) tr
         else if getCause e = interrupt_cause
         then (tr @ [Print ''Received user interrupt. Exit simulation''], Raise (SystemExit 1))
         else (tr @ [Print (''Exit cause: '' @ getCause e @ '' | code: '' @ show_int (getCode e))], Continue))"

definition test_simulate :: "(string \<Rightarrow> bool) \<Rightarrow> args \<Rightarrow> exit_event list \<Rightarrow> effect list
    \<Rightarrow> effect list \<times> outcome \<times> exit_event list" where
  "test_simulate inherited a es tr = sim_loop (test_step inherited a) es tr"

subsection \<open>The main program\<close>

text \<open>Both constructors are called without \<open>kvm\<close>, whose default is true.\<close>

definition test_create_system :: "m5_env \<Rightarrow> args \<Rightarrow> system result" where
  "test_create_system env a =
     (if arg_system a = ''skylake'' then SklSystem env (arg_kernel a) (arg_disk a) 2 ''SklTunedCPU'' True
      else SimpleSystem env (arg_kernel a) (arg_disk a) 2 ''TimingSimpleCPU'' True)"

definition test_main :: "m5_env \<Rightarrow> (string \<Rightarrow> bool) \<Rightarrow> string \<Rightarrow> args \<Rightarrow> exit_event list
    \<Rightarrow> (system \<times> effect list \<times> outcome \<times> exit_event list) result" where
  "test_main env inherited outdir a es =
     bind_res (test_create_system env a) (\<lambda>sys.
       let (sys, tr) =
             (if arg_function a \<noteq> []
              then (let (f, eff) = test_writeRunScript outdir (arg_function a) in (sys\<lparr>readfile := f\<rparr>, eff))
              else (sys\<lparr>readfile := arg_script a\<rparr>, []));
           tr = (if getHostParallel sys then tr @ [SimQuantum (10 ^ 9)] else tr);
           tr = tr @ [Instantiate None]
       in Inr (sys, test_simulate inherited a es tr))"

subsection \<open>Lemmas\<close>

definition ciTest_text :: "string \<Rightarrow> string" where
  "ciTest_text fn = py_join nl (ciTest_lines fn)"

definition test_preamble :: "string \<Rightarrow> args \<Rightarrow> effect list" where
  "test_preamble outdir a =
     [WriteFile (outdir @ ''/run.sh'') (ciTest_text (arg_function a)), SimQuantum (10 ^ 9), Instantiate None]"

lemma test_main_starts:
  assumes "arg_function a \<noteq> []"
  shows "\<exists>sys. test_main env inherited outdir a es =
    Inr (sys, test_simulate inherited a es (test_preamble outdir a))"
proof -
  have "\<exists>s. test_create_system env a = Inr s \<and> host_parallel s"
    using skl_system_shape [of env "arg_kernel a" "arg_disk a" 2 "''SklTunedCPU''" True]
      simple_system_shape [of env "arg_kernel a" "arg_disk a" 2 "''TimingSimpleCPU''" True]
    by (cases "arg_system a = ''skylake''") (auto simp: test_create_system_def)
  then obtain s where "test_create_system env a = Inr s" "host_parallel s" by blast
  with assms show ?thesis
    by (simp add: test_main_def test_writeRunScript_def write_script_def test_preamble_def
        ciTest_text_def Let_def)
qed

lemma methods_missing:
  "''switchToDetailedCpus'' \<notin> set (system_methods a)" "''switchToKvmCpus'' \<notin> set (system_methods a)"
  by (simp_all add: system_methods_def simple_methods_def skl_methods_def)

lemmas test_steps = test_step_def test_executeM5FailCode_def test_FAIL_CODES_def call_method_def
  methods_missing Let_def

subsection \<open>Properties\<close>

text \<open>
  C40. The integration-test script over the events of its own run script: unless gem5's
  \<open>System\<close> class itself has them, \<open>switchToDetailedCpus\<close> is missing from both system
  classes, so the run dies with an \<open>AttributeError\<close> at code 10, with codes 11, 6 and -1
  still to come. If both methods existed, it would reset the statistics at code 10, dump
  and reset them at code 11 and leave with exit status 0 at code -1.
\<close>

theorem test_run_needs_missing_methods:
  assumes "plain_word (arg_function a)"
  shows "(\<not> inherited ''switchToDetailedCpus'' \<longrightarrow> (\<exists>sys tr.
      test_main env inherited outdir a (shell_events (ciTest_text (arg_function a))) =
        Inr (sys, tr, Raise (AttributeError ''switchToDetailedCpus''), map fail_event [11, 6, -1]) \<and>
      StatsReset \<notin> set tr \<and> StatsDump \<notin> set tr)) \<and>
    (inherited ''switchToDetailedCpus'' \<and> inherited ''switchToKvmCpus'' \<longrightarrow> (\<exists>sys tr.
      test_main env inherited outdir a (shell_events (ciTest_text (arg_function a))) =
        Inr (sys, tr, Raise (SystemExit 0), []) \<and>
      filter (\<lambda>e. e \<in> {StatsReset, StatsDump}) tr = [StatsReset, StatsDump, StatsReset] \<and>
      last tr = prGreen ''Simulation done.''))"
proof -
  have ev: "shell_events (ciTest_text (arg_function a)) = map fail_event [1, 2, 3, 4, 10, 11, 6, -1]"
    unfolding ciTest_text_def by (rule ciTest_script_shell [OF assms])
  obtain sys where m: "test_main env inherited outdir a (map fail_event [1, 2, 3, 4, 10, 11, 6, -1]) =
      Inr (sys, test_simulate inherited a (map fail_event [1, 2, 3, 4, 10, 11, 6, -1]) (test_preamble outdir a))"
    using test_main_starts plain_word_chars(3) [OF assms] by blast
  show ?thesis unfolding ev m
    by (simp add: test_simulate_def test_steps test_preamble_def pr_defs)
qed

theorem test_run_needs_missing_methods_witness:
  "\<exists>sys tr. test_main ref_env (\<lambda>m. m = ''stats'') ''m5out'' (run_sim_defaults\<lparr>arg_function := ''aes-go''\<rparr>)
      (shell_events (ciTest_text ''aes-go'')) =
      Inr (sys, tr, Raise (AttributeError ''switchToDetailedCpus''), map fail_event [11, 6, -1])"
proof -
  have "plain_word ''aes-go''" by (simp add: plain_word_def shell_special_def)
  then show ?thesis
    using test_run_needs_missing_methods [of "run_sim_defaults\<lparr>arg_function := ''aes-go''\<rparr>" "\<lambda>m. m = ''stats''"]
    by (simp add: run_sim_defaults_def) blast
qed

end
