(* ===== verification/Vswarm_Simple.thy ===== *)
theory Vswarm_Simple
  imports Run_Sim
begin

text \<open>
  The scripts built on gem5's component library: \<open>vswarm_simple.tmpl.py\<close>,
  \<open>vswarm_simple_arm.tmpl.py\<close> and \<open>run_sim.arm.tmpl.py\<close>. Their exit-event handlers are
  Python generators. A generator is a state machine: its state is the point after the
  yield it stopped at together with its local variables, and one call of \<open>next\<close> gives the
  effects up to the following yield, what is yielded, and the new state.

  gem5's \<open>Simulator\<close> calls \<open>next\<close> on the generator registered for the kind of an exit
  event and stops when it yields a true value; when a generator is exhausted, or no
  generator is registered, gem5's default for that event decides. The default is the
  parameter \<open>dflt\<close> of the step functions.
\<close>

subsection \<open>Configuration\<close>

definition vswarm_defaults :: args where
  "vswarm_defaults = run_sim_defaults\<lparr>arg_function := ''fibonacci-go'', checkpoint_dir := ''checkpoints/''\<rparr>"

record board_config =
  board_class :: string
  clk_freq :: string
  l1d_size :: string
  l1i_size :: string
  l2_size :: string
  memory_class :: string
  memory_size :: string
  cpu_type :: string
  cpu_isa :: string
  num_cores :: nat
  board_release :: "string option"
  board_platform :: "string option"
  kernel_path :: string
  disk_path :: string
  bootloader :: "string option"
  readfile_contents :: string
  kernel_args :: "string list"
  restore_from :: "string option"

definition vs_checkpoint :: "args \<Rightarrow> string" where
  "vs_checkpoint a = checkpoint_dir a @ ''/'' @ arg_function a"

definition vs_mkdir :: "args \<Rightarrow> effect list" where
  "vs_mkdir a = (if arg_mode a = ''setup'' then [Mkdir (vs_checkpoint a)] else [])"

definition x86_board :: "args \<Rightarrow> board_config" where
  "x86_board a =
     \<lparr>board_class = ''X86Board'', clk_freq = ''3GHz'', l1d_size = ''16kB'', l1i_size = ''16kB'',
      l2_size = ''256kB'', memory_class = ''DualChannelDDR4_2400'', memory_size = ''2GB'',
      cpu_type = (if arg_mode a = ''setup'' then ''KVM'' else ''TIMING''), cpu_isa = ''X86'',
      num_cores = 2, board_release = None, board_platform = None, kernel_path = arg_kernel a,
      disk_path = arg_disk a, bootloader = None,
      readfile_contents = vswarm_writeRunScript m5_x86 (arg_function a) (num_invocations a) (atomic_warming a),
      kernel_args = [''earlyprintk=ttyS0'', ''console=ttyS0'', ''lpj=7999923'', ''root=/dev/hda2'',
        ''isolcpus=1'', ''cloud-init=disabled''],
      restore_from = (if arg_mode a = ''evaluation'' then Some (vs_checkpoint a) else None)\<rparr>"

text \<open>The run scripts of the two ARM variants: the x86 text with the address option of the m5 tool.\<close>

definition vswarm_arm_writeRunScript :: "args \<Rightarrow> string" where
  "vswarm_arm_writeRunScript a =
     vswarm_writeRunScript m5_arm (arg_function a) (num_invocations a) (atomic_warming a)"

definition run_sim_arm_writeRunScript :: "args \<Rightarrow> string" where
  "run_sim_arm_writeRunScript a =
     vswarm_writeRunScript m5_arm (arg_function a) (num_invocations a) (atomic_warming a)"

text \<open>The ARM board of both ARM scripts, which differ in the core used for evaluation.\<close>

definition arm_board :: "string \<Rightarrow> string \<Rightarrow> args \<Rightarrow> board_config" where
  "arm_board eval_core script a =
     \<lparr>board_class = ''ArmBoard'', clk_freq = ''3GHz'', l1d_size = ''16kB'', l1i_size = ''16kB'',
      l2_size = ''256kB'', memory_class = ''DualChannelDDR4_2400'', memory_size = ''2GB'',
      cpu_type = (if arg_mode a = ''setup'' then ''KVM'' else eval_core), cpu_isa = ''ARM'',
      num_cores = 2, board_release = Some ''ArmDefaultRelease.for_kvm'',
      board_platform = Some ''VExpress_GEM5_V1'', kernel_path = arg_kernel a,
      disk_path = arg_disk a, bootloader = Some ''arm64-bootloader'',
      readfile_contents = script,
      kernel_args = [''console=ttyAMA0'', ''lpj=19988480'', ''norandmaps'', ''root=/dev/vda2'',
        ''disk_device=/dev/vda2'', ''isolcpus=1'', ''rw'', ''mem=2147483648''],
      restore_from = (if arg_mode a = ''evaluation'' then Some (vs_checkpoint a) else None)\<rparr>"

definition vswarm_simple_arm_board :: "args \<Rightarrow> board_config" where
  "vswarm_simple_arm_board a = arm_board ''TIMING'' (vswarm_arm_writeRunScript a) a"

definition run_sim_arm_board :: "args \<Rightarrow> board_config" where
  "run_sim_arm_board a = arm_board ''ATOMIC'' (run_sim_arm_writeRunScript a) a"

text \<open>
  \<open>_build_kvm\<close> of both ARM scripts, which neither calls: \<open>scope\<close> are the names the module has,
  and a name that is missing raises when it is reached. The right-hand side of an assignment
  is evaluated before its target.
\<close>

record arm_kvm =
  arm_kvm_vm :: bool
  arm_release :: string
  arm_simulate_gic :: bool
  arm_cpus :: "cpu list"

definition need_name :: "(string \<Rightarrow> bool) \<Rightarrow> string \<Rightarrow> unit result" where
  "need_name scope n = (if scope n then Inr () else Inl (NameError n))"

definition kvm_eventqs :: "cpu list \<Rightarrow> cpu list" where
  "kvm_eventqs cpus =
     (if length cpus > 1
      then map (\<lambda>(idx, c). c\<lparr>descendants_eventq := Some 0, eventq_index := Some (1 + idx)\<rparr>) (enumerate 0 cpus)
      else cpus)"

definition build_kvm :: "(string \<Rightarrow> bool) \<Rightarrow> bool \<Rightarrow> arm_kvm \<Rightarrow> arm_kvm result" where
  "build_kvm scope kvm_userspace_gic s =
     bind_res (need_name scope ''KvmVM'') (\<lambda>_.
     bind_res (need_name scope ''ArmDefaultRelease'') (\<lambda>_.
       let s = s\<lparr>arm_kvm_vm := True, arm_release := ''ArmDefaultRelease.for_kvm''\<rparr>
       in bind_res (if kvm_userspace_gic
                    then bind_res (need_name scope ''SimObject'') (\<lambda>_.
                         bind_res (need_name scope ''GenericTimer'') (\<lambda>_. Inr (s\<lparr>arm_simulate_gic := True\<rparr>)))
                    else Inr s) (\<lambda>s.
            Inr (s\<lparr>arm_cpus := kvm_eventqs (arm_cpus s)\<rparr>))))"

definition arm_imports :: "string list" where
  "arm_imports = [''m5'', ''Armv83'', ''ArmDefaultRelease'', ''VExpress_GEM5_V1'', ''VExpress_GEM5_Foundation'',
     ''CoherenceProtocol'', ''ArmBoard'', ''DualChannelDDR4_2400'', ''SingleChannelSimpleMemory'', ''CPUTypes'',
     ''SimpleProcessor'', ''ISA'', ''obtain_resource'', ''KernelResource'', ''DiskImageResource'', ''ExitEvent'',
     ''Simulator'', ''requires'', ''PrivateL1PrivateL2CacheHierarchy'', ''os'', ''Path'', ''argparse'']"

definition vswarm_arm_build_kvm :: "bool \<Rightarrow> arm_kvm \<Rightarrow> arm_kvm result" where
  "vswarm_arm_build_kvm = build_kvm (\<lambda>n. n \<in> set arm_imports)"

definition run_sim_arm_build_kvm :: "bool \<Rightarrow> arm_kvm \<Rightarrow> arm_kvm result" where
  "run_sim_arm_build_kvm = build_kvm (\<lambda>n. n \<in> set arm_imports)"

text \<open>Functions of \<open>run_sim.arm.tmpl.py\<close> that are not registered as handlers.\<close>

definition arm_workbegin :: "effect list \<times> bool" where
  "arm_workbegin = ([Print ''Begin''], False)"

definition arm_workend :: "effect list \<times> bool" where
  "arm_workend = ([Print ''End''], False)"

subsection \<open>The generators\<close>

datatype yield_result = Yield bool | StopIteration

record work_gen =
  cnt :: int
  after_true :: bool

definition workitems_init :: work_gen where
  "workitems_init = \<lparr>cnt = 1, after_true = False\<rparr>"

text \<open>
  \<open>workitems(start)\<close>. Resumed after \<open>yield True\<close> it goes on to the \<open>yield False\<close> of the
  same round; otherwise a new round of the loop starts.
\<close>

definition workitems_next :: "args \<Rightarrow> bool \<Rightarrow> work_gen \<Rightarrow> effect list \<times> yield_result \<times> work_gen" where
  "workitems_next a start g =
     (if after_true g then ([], Yield False, g\<lparr>after_true := False\<rparr>)
      else let (eff, g) =
             (if start then ([Print (''Begin Invocation  '' @ show_int (cnt g))], g)
              else ([Print (''End Invocation  '' @ show_int (cnt g))], g\<lparr>cnt := cnt g + 1\<rparr>))
           in if arg_mode a = ''evaluation'' \<and> cnt g \<ge> num_invocations a
              then (eff, Yield True, g\<lparr>after_true := True\<rparr>)
              else (eff, Yield False, g))"

text \<open>\<open>executeExit\<close>; the state is the number of calls so far.\<close>

definition exit_messages :: "string list" where
  "exit_messages = [''1: BOOTING complete'', ''2: Started container'', ''3: Pinned container'',
     ''4: Stop client'', ''5: Stop container'', ''6: Stop simulation'']"

definition evaluation_exit :: "effect list" where
  "evaluation_exit = [Print ''Simulation done'', StatsDump, M5Exit]"

definition executeExit_next :: "args \<Rightarrow> nat \<Rightarrow> effect list \<times> yield_result \<times> nat" where
  "executeExit_next a k =
     (if arg_mode a = ''setup''
      then (if k < 6 then ([Print (exit_messages ! k)], Yield (k = 5), Suc k)
            else ([], StopIteration, k))
      else ((if k = 0 then evaluation_exit else []), StopIteration, Suc k))"

text \<open>The variant of \<open>run_sim.arm.tmpl.py\<close> yields false ten times and never true.\<close>

definition arm_executeExit_next :: "args \<Rightarrow> nat \<Rightarrow> effect list \<times> yield_result \<times> nat" where
  "arm_executeExit_next a k =
     (if arg_mode a = ''setup''
      then (if k < 6 then ([Print (exit_messages ! k)], Yield False, Suc k)
            else if k < 10 then ([], Yield False, Suc k)
            else ([], StopIteration, k))
      else ((if k = 0 then evaluation_exit else []), StopIteration, Suc k))"

definition executeFail_next :: "args \<Rightarrow> nat \<Rightarrow> effect list \<times> yield_result \<times> nat" where
  "executeFail_next a k =
     ((if k = 0 then [Print ''1: Client started'']
       else if k = 1 then [Print ''1: Function warming starts'']
       else if k = 2
       then Print ''1: Function warming done'' #
              (if arg_mode a = ''setup'' then [Checkpoint (vs_checkpoint a)] else [])
       else [Print ''1: Function warming done'']), Yield False, Suc k)"

subsection \<open>Dispatch\<close>

datatype exit_kind = WORKBEGIN | WORKEND | EXIT | FAIL

definition kind_of :: "exit_event \<Rightarrow> exit_kind option" where
  "kind_of e =
     (if getCause e = ''workbegin'' then Some WORKBEGIN
      else if getCause e = ''workend'' then Some WORKEND
      else if getCause e = ''m5_exit instruction encountered'' then Some EXIT
      else if getCause e = m5_fail_cause then Some FAIL else None)"

record vs_state =
  gen_begin :: work_gen
  gen_end :: work_gen
  gen_exit :: nat
  gen_fail :: nat
  vs_trace :: "effect list"

definition vs_init :: "args \<Rightarrow> vs_state" where
  "vs_init a = \<lparr>gen_begin = workitems_init, gen_end = workitems_init, gen_exit = 0, gen_fail = 0,
     vs_trace = vs_mkdir a\<rparr>"

definition yield_outcome :: "(exit_event \<Rightarrow> bool) \<Rightarrow> exit_event \<Rightarrow> yield_result \<Rightarrow> outcome" where
  "yield_outcome dflt e y =
     (case y of Yield b \<Rightarrow> if b then Break else Continue
      | StopIteration \<Rightarrow> if dflt e then Break else Continue)"

text \<open>\<open>on_exit_event\<close> of \<open>vswarm_simple.tmpl.py\<close>.\<close>

definition vs_step :: "(exit_event \<Rightarrow> bool) \<Rightarrow> args \<Rightarrow> exit_event \<Rightarrow> vs_state \<Rightarrow> vs_state \<times> outcome" where
  "vs_step dflt a e s =
     (case kind_of e of
        Some WORKBEGIN \<Rightarrow> (let (eff, y, g) = workitems_next a True (gen_begin s)
          in (s\<lparr>gen_begin := g, vs_trace := vs_trace s @ eff\<rparr>, yield_outcome dflt e y))
      | Some WORKEND \<Rightarrow> (let (eff, y, g) = workitems_next a False (gen_end s)
          in (s\<lparr>gen_end := g, vs_trace := vs_trace s @ eff\<rparr>, yield_outcome dflt e y))
      | Some EXIT \<Rightarrow> (let (eff, y, g) = executeExit_next a (gen_exit s)
          in (s\<lparr>gen_exit := g, vs_trace := vs_trace s @ eff\<rparr>, yield_outcome dflt e y))
      | Some FAIL \<Rightarrow> (let (eff, y, g) = executeFail_next a (gen_fail s)
          in (s\<lparr>gen_fail := g, vs_trace := vs_trace s @ eff\<rparr>, yield_outcome dflt e y))
      | None \<Rightarrow> (s, yield_outcome dflt e StopIteration))"

text \<open>The generators and their registration in \<open>vswarm_simple_arm.tmpl.py\<close> are the same text.\<close>

definition vswarm_arm_step :: "(exit_event \<Rightarrow> bool) \<Rightarrow> args \<Rightarrow> exit_event \<Rightarrow> vs_state \<Rightarrow> vs_state \<times> outcome" where
  "vswarm_arm_step = vs_step"

text \<open>\<open>on_exit_event\<close> of \<open>run_sim.arm.tmpl.py\<close>: no handlers for work items.\<close>

definition arm_step :: "(exit_event \<Rightarrow> bool) \<Rightarrow> args \<Rightarrow> exit_event \<Rightarrow> vs_state \<Rightarrow> vs_state \<times> outcome" where
  "arm_step dflt a e s =
     (case kind_of e of
        Some EXIT \<Rightarrow> (let (eff, y, g) = arm_executeExit_next a (gen_exit s)
          in (s\<lparr>gen_exit := g, vs_trace := vs_trace s @ eff\<rparr>, yield_outcome dflt e y))
      | Some FAIL \<Rightarrow> (let (eff, y, g) = executeFail_next a (gen_fail s)
          in (s\<lparr>gen_fail := g, vs_trace := vs_trace s @ eff\<rparr>, yield_outcome dflt e y))
      | _ \<Rightarrow> (s, yield_outcome dflt e StopIteration))"

subsection \<open>Lemmas\<close>

lemma kind_of_events [simp]:
  "kind_of (workbegin i) = Some WORKBEGIN" "kind_of (workend i) = Some WORKEND"
  "kind_of exit_instr = Some EXIT" "kind_of (fail_event c) = Some FAIL"
  by (simp_all add: kind_of_def exit_instr_def)

lemmas vs_next_defs = workitems_next_def executeExit_next_def executeFail_next_def
  yield_outcome_def Let_def

text \<open>One work item in setup mode, and one in evaluation mode while the count is small.\<close>

lemma vs_begin:
  assumes "\<not> after_true (gen_begin s)" and "arg_mode a = ''evaluation'' \<longrightarrow> cnt (gen_begin s) < num_invocations a"
  shows "vs_step dflt a (workbegin i) s =
    (s\<lparr>vs_trace := vs_trace s @ [Print (''Begin Invocation  '' @ show_int (cnt (gen_begin s)))]\<rparr>, Continue)"
  using assms by (cases s) (auto simp: vs_step_def vs_next_defs)

lemma vs_end:
  assumes "\<not> after_true (gen_end s)" and "arg_mode a = ''evaluation'' \<longrightarrow> cnt (gen_end s) + 1 < num_invocations a"
  shows "vs_step dflt a (workend i) s =
    (s\<lparr>gen_end := (gen_end s)\<lparr>cnt := cnt (gen_end s) + 1\<rparr>,
       vs_trace := vs_trace s @ [Print (''End Invocation  '' @ show_int (cnt (gen_end s)))]\<rparr>, Continue)"
  using assms by (auto simp: vs_step_def vs_next_defs)

lemma vs_end_stop:
  assumes "\<not> after_true (gen_end s)" and "arg_mode a = ''evaluation''" and "num_invocations a \<le> cnt (gen_end s) + 1"
  shows "\<exists>s'. vs_step dflt a (workend i) s = (s', Break) \<and>
    vs_trace s' = vs_trace s @ [Print (''End Invocation  '' @ show_int (cnt (gen_end s)))]"
  using assms by (auto simp: vs_step_def vs_next_defs)

lemma vs_begin_stop:
  assumes "\<not> after_true (gen_begin s)" and "arg_mode a = ''evaluation''" and "num_invocations a \<le> cnt (gen_begin s)"
  shows "\<exists>s'. vs_step dflt a (workbegin i) s = (s', Break) \<and>
    vs_trace s' = vs_trace s @ [Print (''Begin Invocation  '' @ show_int (cnt (gen_begin s)))]"
  using assms by (auto simp: vs_step_def vs_next_defs)

definition vs_inv_log :: "int \<Rightarrow> effect list" where
  "vs_inv_log c = [Print (''Begin Invocation  '' @ show_int 1), Print (''End Invocation  '' @ show_int c)]"

definition vs_inv_logs :: "int \<Rightarrow> nat \<Rightarrow> effect list" where
  "vs_inv_logs c n = concat (map (\<lambda>i. vs_inv_log (c + int i)) [0..<n])"

lemma vs_inv_logs_Suc: "vs_inv_logs c (Suc n) = vs_inv_log c @ vs_inv_logs (c + 1) n"
proof -
  have "[0..<Suc n] = 0 # map Suc [0..<n]" by (simp add: map_Suc_upt upt_conv_Cons del: upt_Suc)
  then show ?thesis by (simp add: vs_inv_logs_def comp_def algebra_simps del: upt_Suc)
qed

lemma vs_invocations:
  assumes "gen_begin s = workitems_init" and "\<not> after_true (gen_end s)"
    and "arg_mode a = ''evaluation'' \<longrightarrow> 1 < num_invocations a \<and> cnt (gen_end s) + int n < num_invocations a"
  shows "sim_loop (vs_step dflt a) (invocations i n @ es) s =
    sim_loop (vs_step dflt a) es
      (s\<lparr>gen_end := (gen_end s)\<lparr>cnt := cnt (gen_end s) + int n\<rparr>,
         vs_trace := vs_trace s @ vs_inv_logs (cnt (gen_end s)) n\<rparr>)"
  using assms
proof (induction n arbitrary: i s)
  case 0
  then show ?case by (simp add: vs_inv_logs_def)
next
  case (Suc n)
  let ?s1 = "s\<lparr>vs_trace := vs_trace s @ [Print (''Begin Invocation  '' @ show_int 1)]\<rparr>"
  let ?s2 = "s\<lparr>gen_end := (gen_end s)\<lparr>cnt := cnt (gen_end s) + 1\<rparr>,
    vs_trace := vs_trace s @ vs_inv_log (cnt (gen_end s))\<rparr>"
  have c: "arg_mode a = ''evaluation'' \<longrightarrow> cnt (gen_end ?s1) + 1 < num_invocations a"
    using Suc.prems(3) by auto
  have "vs_step dflt a (workbegin (100 + int i)) s = (?s1, Continue)"
    using vs_begin [of s a dflt] Suc.prems by (simp add: workitems_init_def)
  moreover have "vs_step dflt a (workend (100 + int i)) ?s1 = (?s2, Continue)"
    using vs_end [OF _ c, of dflt] Suc.prems(2) by (simp add: vs_inv_log_def)
  ultimately show ?case
    using Suc.IH [of ?s2 "Suc i"] Suc.prems
    by (simp add: invocations_Suc invocation_def vs_inv_logs_Suc algebra_simps)
qed

lemma vs_exit_setup:
  assumes "arg_mode a = ''setup''" and "gen_exit s < 6"
  shows "vs_step dflt a exit_instr s =
    (s\<lparr>gen_exit := Suc (gen_exit s), vs_trace := vs_trace s @ [Print (exit_messages ! gen_exit s)]\<rparr>,
     if gen_exit s = 5 then Break else Continue)"
  using assms by (simp add: vs_step_def vs_next_defs)

lemma vs_fail:
  "vs_step dflt a (fail_event c) s =
     (s\<lparr>gen_fail := Suc (gen_fail s),
        vs_trace := vs_trace s @ fst (executeFail_next a (gen_fail s))\<rparr>, Continue)"
  by (simp add: vs_step_def vs_next_defs)

text \<open>What the client leaves in the trace of a setup run.\<close>

definition vs_client_log :: "args \<Rightarrow> nat \<Rightarrow> nat \<Rightarrow> effect list" where
  "vs_client_log a n w =
     Print ''1: Client started'' #
     (if w > 0 then [Print ''1: Function warming starts'', Print ''1: Function warming done'',
                     Checkpoint (vs_checkpoint a)] else []) @
     vs_inv_logs 1 n"

definition vs_setup_trace :: "args \<Rightarrow> nat \<Rightarrow> nat \<Rightarrow> effect list" where
  "vs_setup_trace a n w =
     vs_mkdir a @ map Print (take 3 exit_messages) @ vs_client_log a n w @ map Print (drop 3 exit_messages)"

lemma vs_setup_loop:
  assumes "arg_mode a = ''setup''"
  shows "\<exists>s'. sim_loop (vs_step dflt a)
      (replicate 3 exit_instr @ client_events n w @ replicate 3 exit_instr) (vs_init a) = (s', Break, []) \<and>
    vs_trace s' = vs_setup_trace a n w"
proof -
  have inv: "sim_loop (vs_step dflt a) (invocations 0 n @ es) s = sim_loop (vs_step dflt a) es
      (s\<lparr>gen_end := (gen_end s)\<lparr>cnt := cnt (gen_end s) + int n\<rparr>,
         vs_trace := vs_trace s @ vs_inv_logs (cnt (gen_end s)) n\<rparr>)"
    if "gen_begin s = workitems_init" "\<not> after_true (gen_end s)" for s es
    using that assms by (intro vs_invocations) auto
  have w0: "workitems_init = \<lparr>cnt = 1, after_true = False\<rparr>" by (simp add: workitems_init_def)
  show ?thesis using assms
    by (cases "w > 0")
      (simp_all add: numeral_3_eq_3 client_events_def vs_init_def vs_exit_setup vs_fail inv w0
        executeFail_next_def vs_setup_trace_def vs_client_log_def exit_messages_def)
qed

lemma checkpoints_inv_logs [simp]: "checkpoints_of (vs_inv_logs c n) = []"
  by (induction n arbitrary: c)
    (simp_all add: vs_inv_logs_Suc vs_inv_log_def checkpoints_Cons, simp add: vs_inv_logs_def)

text \<open>A setup run over the generated script, and an evaluation run over the invocations it sends.\<close>

lemma vs_setup_run:
  assumes "arg_mode a = ''setup''" and "plain_word (arg_function a)" and "m5cmd \<in> {m5_x86, m5_arm}"
  shows "\<exists>s'. sim_loop (vs_step dflt a)
      (shell_events (vswarm_writeRunScript m5cmd (arg_function a) (num_invocations a) (atomic_warming a)))
      (vs_init a) = (s', Break, []) \<and>
    checkpoints_of (vs_trace s') = (if atomic_warming a > 0 then [vs_checkpoint a] else [])"
proof -
  obtain s' where "sim_loop (vs_step dflt a)
      (shell_events (vswarm_writeRunScript m5cmd (arg_function a) (num_invocations a) (atomic_warming a)))
      (vs_init a) = (s', Break, [])"
    and "vs_trace s' = vs_setup_trace a (nat (num_invocations a)) (nat (atomic_warming a))"
    using vs_setup_loop [OF assms(1), of dflt] vswarm_script_shell [OF assms(2,3)]
    by (simp add: numeral_3_eq_3) blast
  then show ?thesis
    by (simp add: vs_setup_trace_def vs_client_log_def vs_mkdir_def exit_messages_def checkpoints_Cons)
qed

lemma vs_evaluation_run:
  assumes "arg_mode a = ''evaluation''"
  shows "(num_invocations a = int (n + 2) \<longrightarrow> (\<exists>s'.
      sim_loop (vs_step dflt a) (invocations 0 (Suc n) @ es) (vs_init a) = (s', Break, es) \<and>
      vs_trace s' = vs_inv_logs 1 (Suc n))) \<and>
    (num_invocations a \<le> 1 \<longrightarrow> (\<exists>s'.
      sim_loop (vs_step dflt a) (workbegin i # es) (vs_init a) = (s', Break, es) \<and>
      vs_trace s' = [Print ''Begin Invocation  1'']))"
proof (intro conjI impI)
  assume n: "num_invocations a = int (n + 2)"
  have i: "gen_begin (vs_init a) = workitems_init" "gen_end (vs_init a) = workitems_init"
    "vs_trace (vs_init a) = []" using assms by (simp_all add: vs_init_def vs_mkdir_def)
  define s1 where "s1 = (vs_init a)\<lparr>gen_end := workitems_init\<lparr>cnt := 1 + int n\<rparr>,
    vs_trace := vs_inv_logs 1 n\<rparr>"
  define s2 where "s2 = s1\<lparr>vs_trace := vs_inv_logs 1 n @ [Print (''Begin Invocation  '' @ show_int 1)]\<rparr>"
  have e: "invocations 0 (Suc n) @ es = invocations 0 n @ workbegin (100 + int n) # workend (100 + int n) # es"
    using invocations_add [of 0 n 1] by (simp add: invocations_Suc invocation_def)
  have "sim_loop (vs_step dflt a) (invocations 0 n @ xs) (vs_init a) = sim_loop (vs_step dflt a) xs s1" for xs
    using vs_invocations [of "vs_init a" a n dflt 0 xs] i n
    by (simp add: s1_def workitems_init_def)
  moreover have "vs_step dflt a (workbegin (100 + int n)) s1 = (s2, Continue)"
    using vs_begin [of s1 a dflt] i n by (simp add: s1_def s2_def workitems_init_def)
  moreover obtain s3 where "vs_step dflt a (workend (100 + int n)) s2 = (s3, Break)"
    "vs_trace s3 = vs_trace s2 @ [Print (''End Invocation  '' @ show_int (1 + int n))]"
    using vs_end_stop [of s2 a dflt "100 + int n"] assms n by (auto simp: s1_def s2_def workitems_init_def)
  moreover have "vs_inv_logs 1 (Suc n) = vs_inv_logs 1 n @ vs_inv_log (1 + int n)"
    by (simp add: vs_inv_logs_def)
  ultimately show "\<exists>s'. sim_loop (vs_step dflt a) (invocations 0 (Suc n) @ es) (vs_init a) = (s', Break, es) \<and>
      vs_trace s' = vs_inv_logs 1 (Suc n)"
    unfolding e by (simp add: s2_def vs_inv_log_def)
next
  assume "num_invocations a \<le> 1"
  moreover have "show_int 1 = ''1''" by (simp add: show_int_def show_nat.simps)
  ultimately show "\<exists>s'. sim_loop (vs_step dflt a) (workbegin i # es) (vs_init a) = (s', Break, es) \<and>
      vs_trace s' = [Print ''Begin Invocation  1'']"
    using vs_begin_stop [of "vs_init a" a dflt i] assms
    by (auto simp: vs_init_def workitems_init_def vs_mkdir_def)
qed

lemma arm_setup_run:
  assumes "arg_mode a = ''setup''" and "plain_word (arg_function a)"
    and "\<And>e. getCause e = ''workbegin'' \<or> getCause e = ''workend'' \<Longrightarrow> \<not> dflt e"
  shows "\<exists>s'. sim_loop (arm_step dflt a)
      (shell_events (vswarm_writeRunScript m5_arm (arg_function a) (num_invocations a) (atomic_warming a)))
      (vs_init a) = (s', Continue, []) \<and>
    checkpoints_of (vs_trace s') = (if atomic_warming a > 0 then [vs_checkpoint a] else [])"
proof -
  have inv: "sim_loop (arm_step dflt a) (invocations i n @ es) s = sim_loop (arm_step dflt a) es s" for i n es s
    by (induction n arbitrary: i) (simp_all add: invocations_Suc invocation_def arm_step_def
        yield_outcome_def assms(3))
  have ev: "shell_events (vswarm_writeRunScript m5_arm (arg_function a) (num_invocations a) (atomic_warming a)) =
      [exit_instr, exit_instr, exit_instr] @ client_events (nat (num_invocations a)) (nat (atomic_warming a)) @
      [exit_instr, exit_instr, exit_instr]"
    by (rule vswarm_script_shell [OF assms(2)]) simp
  show ?thesis unfolding ev using assms(1)
    by (simp add: client_events_def inv arm_step_def arm_executeExit_next_def executeFail_next_def
        yield_outcome_def vs_init_def vs_mkdir_def checkpoints_Cons Let_def)
qed

subsection \<open>Properties\<close>

text \<open>
  C28. Setup run of the \<open>vswarm_simple\<close> scripts, x86 and ARM, whatever gem5's default
  handlers do: over the events of the generated script the run stops at the sixth
  \<open>m5 exit\<close>. It has taken one checkpoint, \<open>checkpoint-dir/function\<close>, if warming requests
  were asked for, and none at all with \<open>--atomic-warming 0\<close>, the default.
\<close>

theorem vswarm_setup_checkpoint:
  assumes "arg_mode a = ''setup''" and "plain_word (arg_function a)" and "m5cmd \<in> {m5_x86, m5_arm}"
  shows "\<exists>s'. sim_loop (vs_step dflt a)
      (shell_events (vswarm_writeRunScript m5cmd (arg_function a) (num_invocations a) (atomic_warming a)))
      (vs_init a) = (s', Break, []) \<and>
    checkpoints_of (vs_trace s') = (if atomic_warming a > 0 then [vs_checkpoint a] else [])"
  using assms by (rule vs_setup_run)

theorem vswarm_setup_checkpoint_witness:
  "\<exists>s'. sim_loop (vs_step (\<lambda>_. True) vswarm_defaults)
      (shell_events (vswarm_writeRunScript m5_x86 (arg_function vswarm_defaults)
         (num_invocations vswarm_defaults) (atomic_warming vswarm_defaults)))
      (vs_init vswarm_defaults) = (s', Break, []) \<and> checkpoints_of (vs_trace s') = []"
proof -
  have "arg_mode vswarm_defaults = ''setup''" "plain_word (arg_function vswarm_defaults)"
    by (simp_all add: vswarm_defaults_def run_sim_defaults_def plain_word_def shell_special_def)
  from vswarm_setup_checkpoint [OF this, of m5_x86 "\<lambda>_. True"] show ?thesis
    by (simp add: vswarm_defaults_def run_sim_defaults_def)
qed

text \<open>
  The unused helper \<open>_build_kvm\<close> of the two ARM scripts could not be called: it needs names
  the modules do not import. With them it would give the CPUs their event queues the way the
  system classes do.
\<close>

lemma build_kvm_undefined:
  "vswarm_arm_build_kvm gic s = Inl (NameError ''KvmVM'')"
  "run_sim_arm_build_kvm gic s = Inl (NameError ''KvmVM'')"
  "\<lbrakk>\<And>n. scope n\<rbrakk> \<Longrightarrow> 1 < length (sys_cpu t) \<Longrightarrow> arm_cpus s = sys_cpu t \<Longrightarrow>
    \<exists>s'. build_kvm scope gic s = Inr s' \<and> length (arm_cpus s') = length (sys_cpu t) \<and>
      (\<forall>i < length (sys_cpu t). arm_cpus s' ! i = (sys_cpu t ! i)\<lparr>descendants_eventq := Some 0, eventq_index := Some (i + 1)\<rparr>)"
  by (simp_all add: vswarm_arm_build_kvm_def run_sim_arm_build_kvm_def build_kvm_def need_name_def arm_imports_def
      kvm_eventqs_def Let_def nth_enumerate_eq)

end
