(* ===== verification/Two_Machine.thy ===== *)
theory Two_Machine
  imports Run_Sim "HOL-Library.Multiset"
begin

text \<open>
  The two-machine script \<open>simulation/wkdir-tmpl/run_sim_two_machine.tmpl.py\<close>: a test system
  (Skylake, runs the function) and a drive system (runs the client) joined by a simulated
  Ethernet link. Its handlers are the ones of \<open>run_sim.tmpl.py\<close> word for word, except that
  \<open>workitem\<close> switches the CPUs of both systems and that \<open>simulate\<close> reports \<open>Simulation done.\<close>
  once more when the loop has ended.

  The two guests run side by side, so the exit events of a run are any interleaving of the
  events of the two run scripts (\<open>shuffles\<close>).
\<close>

subsection \<open>Arguments\<close>

record tm_args =
  tm_base :: args
  tm_cpu :: string
  etherdump :: "string option"

text \<open>There is no \<open>--system\<close> option here; the field of the shared record is not used.\<close>

definition two_machine_defaults :: tm_args where
  "two_machine_defaults =
     \<lparr>tm_base = run_sim_defaults\<lparr>arg_system := '''', checkpoint_dir := ''cpt_2m/''\<rparr>,
      tm_cpu = ''SklTunedCPU'', etherdump = None\<rparr>"

subsection \<open>The two systems and the link\<close>

definition create_system :: "m5_env \<Rightarrow> string \<Rightarrow> string \<Rightarrow> string \<Rightarrow> bool \<Rightarrow> system result" where
  "create_system env linux_kernel_path disk_image_path detailed_cpu_model kvm =
     bind_res (SklSystem env linux_kernel_path disk_image_path 2 detailed_cpu_model kvm) (\<lambda>s.
       Inr (s\<lparr>exit_on_work_items := True, m5ops_base := 0xffff0000\<rparr>))"

definition create_drive_system :: "m5_env \<Rightarrow> string \<Rightarrow> string \<Rightarrow> bool \<Rightarrow> system result" where
  "create_drive_system env linux_kernel_path disk_image_path kvm =
     bind_res (DriveSystem env linux_kernel_path disk_image_path kvm) (\<lambda>s.
       Inr (s\<lparr>exit_on_work_items := True, m5ops_base := 0xffff0000\<rparr>))"

record dual_root =
  full_system :: bool
  testsys :: system
  drivesys :: system
  sim_quantum :: int
  link_delay :: string
  link_int0 :: string
  link_int1 :: string
  link_dump :: "(string \<times> nat) option"

text \<open>\<open>hasattr(testSystem, "pc")\<close>: \<open>initFS\<close> has attached the platform to its I/O bus.\<close>

definition makeDualRoot :: "bool \<Rightarrow> system \<Rightarrow> system \<Rightarrow> string option \<Rightarrow> bool \<Rightarrow>
    (dual_root \<times> effect list) result" where
  "makeDualRoot fs testSystem driveSystem dumpfile kvm =
     (let f = 10 ^ 12;
          us = f div 10 ^ 6;
          q = (if kvm then 1000 else 0);
          sq = 1000 * us;
          msg = Print (''Tick freq = '' @ show_int f @ '' ticks/sec. Set sim quantum to ''
                  @ show_int sq @ '' ticks/sec => '' @ show_int q @ [CHR 0xC2, CHR 0xB5] @ ''s'');
          latency = show_int (2 * q) @ ''us''
      in if pc_io_bus testSystem \<noteq> None
         then Inr (\<lparr>full_system = fs, testsys = testSystem, drivesys = driveSystem,
                    sim_quantum = sq, link_delay = latency,
                    link_int0 = ''testsys.pc.ethernet.interface'',
                    link_int1 = ''drivesys.pc.ethernet.interface'',
                    link_dump = (case dumpfile of None \<Rightarrow> None
                                 | Some file \<Rightarrow> if file = [] then None else Some (file, 2048))\<rparr>,
                   [msg, SimQuantum sq])
         else Inl (Fatal (''Don'' @ [CHR 0x27] @ ''t know how to connect these system together'')))"

text \<open>
  The result \<^term>\<open>Fatal\<close> stands for the call of \<^verbatim>\<open>fatal\<close>, a name the script
  itself does not import; whatever that name is bound to, the run ends at the call.
\<close>

subsection \<open>Handlers and loop\<close>

definition tm_switch_to_main :: "system \<Rightarrow> system \<Rightarrow> effect list" where
  "tm_switch_to_main sys drv =
     [SwitchCpus ''system'' (skl_switchToMainCpu sys), SwitchCpus ''drive_sys'' (drive_switchToMainCpu drv)]"

definition tm_FAIL_CODES :: "int \<rightharpoonup> string" where
  "tm_FAIL_CODES = map_of
     [(1, ''1: BOOTING complete''), (2, ''2: Started container''), (3, ''3: Pinned container''),
      (4, ''4: Warming done''), (6, ''6: Container stop''), (10, ''10: Start client''),
      (11, ''11: Stop client''), (21, ''21: Send request  ->''), (22, ''22: Recv response <-''),
      (31, ''31: Start warming''), (32, ''32: Stop warming''), (-1, ''Exit simulation'')]"

lemma tm_codes_shared: "tm_FAIL_CODES = FAIL_CODES"
  by (simp add: tm_FAIL_CODES_def FAIL_CODES_def)

definition tm_workitem :: "system \<Rightarrow> system \<Rightarrow> args \<Rightarrow> bool \<Rightarrow> int \<Rightarrow> sim_state \<Rightarrow> sim_state \<times> py_value" where
  "tm_workitem sys drv = workitem (tm_switch_to_main sys drv)"

definition tm_executeM5FailCode :: "args \<Rightarrow> int \<Rightarrow> sim_state \<Rightarrow> sim_state \<times> py_value" where
  "tm_executeM5FailCode = executeM5FailCode"

definition tm_step :: "system \<Rightarrow> system \<Rightarrow> args \<Rightarrow> exit_event \<Rightarrow> sim_state \<Rightarrow> sim_state \<times> outcome" where
  "tm_step sys drv a e s =
     (let s = emit [Print ''Start simulation...''] s;
          (s, quit) =
            (if getCause e = m5_fail_cause then tm_executeM5FailCode a (getCode e) s
             else if getCause e = ''workbegin'' then tm_workitem sys drv a True (getCode e) s
             else if getCause e = ''workend'' then tm_workitem sys drv a False (getCode e) s
             else if getCause e = interrupt_cause
             then (emit [Print ''Received user interrupt. Exit simulation''] s, PyBool True)
             else (emit [Print (''Exit cause: '' @ getCause e @ '' | code: '' @ show_int (getCode e))] s,
                   PyBool False))
      in (s, if truthy quit then Break else Continue))"

definition tm_simulate :: "system \<Rightarrow> system \<Rightarrow> args \<Rightarrow> exit_event list \<Rightarrow> sim_state
    \<Rightarrow> sim_state \<times> outcome \<times> exit_event list" where
  "tm_simulate sys drv a es s =
     (case sim_loop (tm_step sys drv a) es s of
        (s, Break, rest) \<Rightarrow> (emit [prGreen ''Simulation done.''] s, Break, rest)
      | r \<Rightarrow> r)"

subsection \<open>The main program\<close>

definition tm_scripts :: "string \<Rightarrow> string \<Rightarrow> system \<Rightarrow> system \<Rightarrow> system \<times> system \<times> effect list" where
  "tm_scripts outdir fn sys drv =
     (let (f, e1) = two_machine_writeRunScript outdir fn 1;
          (g, e2) = writeDriveScript outdir fn
      in (sys\<lparr>readfile := f\<rparr>, drv\<lparr>readfile := g\<rparr>, e1 @ e2))"

definition two_machine_main :: "m5_env \<Rightarrow> string \<Rightarrow> tm_args \<Rightarrow> exit_event list
    \<Rightarrow> (dual_root \<times> sim_state \<times> outcome \<times> exit_event list) result" where
  "two_machine_main env outdir ta es =
     (let a = tm_base ta;
          s = init_state;
          s = (if take_checkpoints a \<or> arg_mode a = ''setup''
               then emit [Mkdir (checkpoint_dir a @ ''/'' @ arg_function a)] s else s);
          kvm = (arg_mode a = ''setup'')
      in bind_res (create_system env (arg_kernel a) (arg_disk a) ''SklTunedCPU'' kvm) (\<lambda>sys.
         bind_res (create_drive_system env (arg_kernel a) (arg_disk a) kvm) (\<lambda>drv.
         bind_res (makeDualRoot True sys drv (etherdump ta) kvm) (\<lambda>(root, eff).
           let s = emit eff s;
               (sys, drv, eff) = tm_scripts outdir (arg_function a) sys drv;
               s = emit eff s
           in if arg_mode a = ''setup''
              then (let s = emit [Print ''--- Setup Mode ---'', Instantiate None] s
                    in Inr (root\<lparr>testsys := sys, drivesys := drv\<rparr>, tm_simulate sys drv a es s))
              else if arg_mode a = ''evaluation''
              then (let ckp = checkpoint_path a (use_checkpoint a);
                        s = emit [Print ''--- Evaluation Mode ---'',
                                  Print (''Instantiate checkpoint:  '' @ ckp)] s;
                        sys = start_main_cpus sys;
                        root = root\<lparr>testsys := sys, drivesys := drv\<rparr>;
                        s = emit [Instantiate (Some ckp)] s
                    in case es of
                         [] \<Rightarrow> Inr (root, s, Continue, [])
                       | _ # es \<Rightarrow>
                           (let s = (if atomic_warming a > 0
                                     then (emit [SwitchCpus ''system'' (skl_switchToAtomicCpu sys),
                                                 SwitchCpus ''drive_sys'' (drive_switchToAtomicCpu drv)] s)
                                            \<lparr>inv_to_warm := atomic_warming a\<rparr>
                                     else s);
                                s = s\<lparr>inv_to_measure := num_invocations a\<rparr>;
                                s = emit [prGreen (''Warming for '' @ show_int (inv_to_warm s) @ '' invocations''),
                                          prGreen (''Measure for '' @ show_int (inv_to_measure s) @ '' invocations'')] s
                            in Inr (root, tm_simulate sys drv a es s)))
              else Inl (Fatal ''Invalid mode'')))))"

subsection \<open>Basic lemmas\<close>

lemma tm_step_run_step: "tm_step sys drv = run_step (tm_switch_to_main sys drv)"
  by (intro ext)
    (simp add: tm_step_def run_step_def handle_event_def tm_workitem_def tm_executeM5FailCode_def Let_def)

lemma drive_system_shape:
  "\<exists>s. DriveSystem env k d kvm = Inr s \<and> length (sys_cpu s) = 1 \<and> length (atomic_cpu s) = 1"
proof -
  from drive_system_built [of env kvm k d] obtain s0 t where
    "ready env kvm 1 (if kvm then ''X86KvmCPU'' else ''AtomicSimpleCPU'') s0"
    "board t = board s0" "wired 1 Mem_cntrl t" "DriveSystem env k d kvm = Inr t" by blast
  then show ?thesis using built_shape [of env kvm 1 _ s0 t Mem_cntrl False] by auto
qed

text \<open>What the main program has done when its loop starts.\<close>

definition tm_to_main :: "effect list" where
  "tm_to_main = [SwitchCpus ''system'' (atomic_to_main 2), SwitchCpus ''drive_sys'' (atomic_to_main 1)]"

definition tm_root_effects :: "bool \<Rightarrow> effect list" where
  "tm_root_effects kvm =
     [Print (''Tick freq = '' @ show_int (10 ^ 12) @ '' ticks/sec. Set sim quantum to ''
        @ show_int (10 ^ 9) @ '' ticks/sec => '' @ show_int (if kvm then 1000 else 0)
        @ [CHR 0xC2, CHR 0xB5] @ ''s''), SimQuantum (10 ^ 9)]"

definition tm_script_effects :: "string \<Rightarrow> args \<Rightarrow> effect list" where
  "tm_script_effects outdir a =
     snd (two_machine_writeRunScript outdir (arg_function a) 1) @ snd (writeDriveScript outdir (arg_function a))"

definition tm_setup_preamble :: "string \<Rightarrow> args \<Rightarrow> effect list" where
  "tm_setup_preamble outdir a = mkdir_effects a @ tm_root_effects True @ tm_script_effects outdir a @
     [Print ''--- Setup Mode ---'', Instantiate None]"

definition tm_evaluation_preamble :: "string \<Rightarrow> args \<Rightarrow> effect list" where
  "tm_evaluation_preamble outdir a = mkdir_effects a @ tm_root_effects False @ tm_script_effects outdir a @
     [Print ''--- Evaluation Mode ---'',
      Print (''Instantiate checkpoint:  '' @ checkpoint_path a (use_checkpoint a)),
      Instantiate (Some (checkpoint_path a (use_checkpoint a)))] @
     (if atomic_warming a > 0
      then [SwitchCpus ''system'' (main_to_atomic 2), SwitchCpus ''drive_sys'' (main_to_atomic 1)] else []) @
     [prGreen (''Warming for '' @ show_int (if atomic_warming a > 0 then atomic_warming a else -1)
        @ '' invocations''),
      prGreen (''Measure for '' @ show_int (num_invocations a) @ '' invocations'')]"

definition tm_evaluation_start :: "string \<Rightarrow> args \<Rightarrow> sim_state" where
  "tm_evaluation_start outdir a =
     \<lparr>inv_to_warm = (if atomic_warming a > 0 then atomic_warming a else -1),
      inv_to_measure = num_invocations a, trace = tm_evaluation_preamble outdir a\<rparr>"

definition tm_result :: "sim_state \<times> outcome \<times> exit_event list \<Rightarrow> sim_state \<times> outcome \<times> exit_event list" where
  "tm_result r = (case r of
       (s, Break, rest) \<Rightarrow> (emit [prGreen ''Simulation done.''] s, Break, rest) | r \<Rightarrow> r)"

lemma tm_simulate_result:
  "tm_simulate sys drv a es s = tm_result (sim_loop (run_step (tm_switch_to_main sys drv) a) es s)"
  by (simp only: tm_simulate_def tm_result_def tm_step_run_step)

lemma tm_systems:
  "\<exists>sys drv root. create_system env k d ''SklTunedCPU'' kvm = Inr sys \<and>
     create_drive_system env k d kvm = Inr drv \<and>
     makeDualRoot True sys drv dump kvm = Inr (root, tm_root_effects kvm) \<and>
     length (sys_cpu sys) = 2 \<and> length (atomic_cpu sys) = 2 \<and>
     length (sys_cpu drv) = 1 \<and> length (atomic_cpu drv) = 1"
proof -
  obtain s where s: "SklSystem env k d 2 ''SklTunedCPU'' kvm = Inr s" "length (sys_cpu s) = 2"
    "length (atomic_cpu s) = 2" "pc_io_bus s = Some Iobus"
    using skl_system_shape [of env k d 2 "''SklTunedCPU''" kvm] by blast
  obtain t where t: "DriveSystem env k d kvm = Inr t" "length (sys_cpu t) = 1" "length (atomic_cpu t) = 1"
    using drive_system_shape by blast
  show ?thesis using s t
    by (simp add: create_system_def create_drive_system_def makeDualRoot_def tm_root_effects_def Let_def)
qed

lemma tm_switch_pairs:
  assumes "length (sys_cpu sys) = 2" and "length (atomic_cpu sys) = 2"
    and "length (sys_cpu drv) = 1" and "length (atomic_cpu drv) = 1"
  shows "tm_switch_to_main sys drv = tm_to_main"
  using assms by (simp add: tm_switch_to_main_def tm_to_main_def switch_pairs(1) atomic_to_main_def)

lemma two_machine_setup:
  assumes "arg_mode (tm_base ta) = ''setup''"
  shows "\<exists>root. two_machine_main env outdir ta es =
    Inr (root, tm_result (sim_loop (run_step tm_to_main (tm_base ta)) es
      (emit (tm_setup_preamble outdir (tm_base ta)) init_state)))"
proof -
  let ?a = "tm_base ta"
  obtain sys drv root where c: "create_system env (arg_kernel ?a) (arg_disk ?a) ''SklTunedCPU'' True = Inr sys"
    "create_drive_system env (arg_kernel ?a) (arg_disk ?a) True = Inr drv"
    "makeDualRoot True sys drv (etherdump ta) True = Inr (root, tm_root_effects True)"
    and l: "length (sys_cpu sys) = 2" "length (atomic_cpu sys) = 2"
    "length (sys_cpu drv) = 1" "length (atomic_cpu drv) = 1" using tm_systems by metis
  have "tm_switch_to_main (sys\<lparr>readfile := x\<rparr>) (drv\<lparr>readfile := y\<rparr>) = tm_to_main" for x y
    using l by (intro tm_switch_pairs) auto
  with c assms show ?thesis
    by (simp add: two_machine_main_def tm_scripts_def tm_simulate_result
        tm_setup_preamble_def mkdir_effects_def tm_script_effects_def split_beta Let_def)
qed

lemma two_machine_evaluation:
  assumes "arg_mode (tm_base ta) = ''evaluation''"
  shows "\<exists>root. two_machine_main env outdir ta (e # es) =
    Inr (root, tm_result (sim_loop (run_step tm_to_main (tm_base ta)) es
      (tm_evaluation_start outdir (tm_base ta))))"
proof -
  let ?a = "tm_base ta"
  obtain sys drv root where c: "create_system env (arg_kernel ?a) (arg_disk ?a) ''SklTunedCPU'' False = Inr sys"
    "create_drive_system env (arg_kernel ?a) (arg_disk ?a) False = Inr drv"
    "makeDualRoot True sys drv (etherdump ta) False = Inr (root, tm_root_effects False)"
    and l: "length (sys_cpu sys) = 2" "length (atomic_cpu sys) = 2"
    "length (sys_cpu drv) = 1" "length (atomic_cpu drv) = 1" using tm_systems by metis
  let ?sys = "\<lambda>x. start_main_cpus (sys\<lparr>readfile := x\<rparr>)"
  have n: "length (sys_cpu (?sys x)) = 2" "length (atomic_cpu (?sys x)) = 2" for x
    using l start_main_cpus_shape [of "sys\<lparr>readfile := x\<rparr>"] by simp_all
  have m: "tm_switch_to_main (?sys x) (drv\<lparr>readfile := y\<rparr>) = tm_to_main" for x y
    using l n by (intro tm_switch_pairs) auto
  have p: "switchToAtomicCpu (?sys x) = main_to_atomic 2" for x
    using n [of x] by (simp add: switch_pairs(2) main_to_atomic_def)
  have q: "switchToAtomicCpu (drv\<lparr>readfile := y\<rparr>) = main_to_atomic 1" for y
    using l by (simp add: switch_pairs(2) main_to_atomic_def)
  show ?thesis using c assms m p q
    by (simp add: two_machine_main_def tm_scripts_def tm_simulate_result
        tm_evaluation_start_def tm_evaluation_preamble_def mkdir_effects_def tm_script_effects_def
        init_state_def emit_def split_beta Let_def)
qed

subsection \<open>Interleavings of the two guests\<close>

lemma shuffles_end:
  assumes "es \<in> shuffles ts (ds @ [x])"
  shows "\<exists>xs ys ts1. es = xs @ x # ys \<and> set ts1 \<subseteq> set ts \<and> xs \<in> shuffles ts1 ds"
  using assms
proof (induction es arbitrary: ts ds)
  case (Cons e es)
  then consider "ts \<noteq> []" "hd ts = e" "es \<in> shuffles (tl ts) (ds @ [x])"
    | "ds = []" "e = x" | d where "ds = e # d" "es \<in> shuffles ts (d @ [x])"
    by (cases ds) (auto simp: Cons_in_shuffles_iff)
  then show ?case
  proof cases
    case 1
    from Cons.IH [OF 1(3)] obtain xs ys ts1 where "es = xs @ x # ys" "set ts1 \<subseteq> set (tl ts)"
      "xs \<in> shuffles ts1 ds" by blast
    with 1 show ?thesis
      by (intro exI [of _ "e # xs"] exI [of _ ys] exI [of _ "e # ts1"])
        (auto simp: Cons_in_shuffles_iff dest: list.set_sel(2))
  next
    case 2
    then show ?thesis by (intro exI [of _ "[]"] exI [of _ es]) auto
  next
    case 3
    from Cons.IH [OF 3(2)] obtain xs ys ts1 where "es = xs @ x # ys" "set ts1 \<subseteq> set ts"
      "xs \<in> shuffles ts1 d" by blast
    with 3 show ?thesis
      by (intro exI [of _ "e # xs"] exI [of _ ys] exI [of _ ts1]) (auto simp: Cons_in_shuffles_iff)
  qed
qed simp

lemma step_setup_continues:
  assumes "arg_mode a \<noteq> ''evaluation''" and "e \<noteq> fail_event (-1)" and "getCause e \<noteq> interrupt_cause"
  shows "snd (run_step tm a e s) = Continue"
proof -
  have "\<not> (getCause e = m5_fail_cause \<and> getCode e = -1)"
    using assms(2) by (cases e) (simp add: fail_event_def)
  then show ?thesis
    using assms(1,3)
    by (auto simp: run_step_def handle_event_def workitem_def executeM5FailCode_def Let_def
        split: option.split)
qed

text \<open>A setup run stops at the first code -1 and takes one checkpoint per code 32 before it.\<close>

lemma setup_until_exit:
  assumes "arg_mode a \<noteq> ''evaluation''" and "checkpoints_of tm = []"
    and "\<And>e. e \<in> set xs \<Longrightarrow> e \<noteq> fail_event (-1) \<and> getCause e \<noteq> interrupt_cause"
  shows "\<exists>s'. sim_loop (run_step tm a) (xs @ fail_event (-1) # ys) s = (s', Break, ys) \<and>
    checkpoints_of (trace s') = checkpoints_of (trace s) @
      replicate (count_list xs (fail_event 32)) (checkpoint_path a ''warm'') \<and>
    last (trace s') = prGreen ''Simulation done.''"
  using assms(3)
proof (induction xs arbitrary: s)
  case Nil
  then show ?case by (simp add: step_exit checkpoints_Cons pr_defs)
next
  case (Cons e xs)
  obtain s1 r where s1: "run_step tm a e s = (s1, r)" by fastforce
  with step_setup_continues [OF assms(1), of e tm s] Cons.prems have "r = Continue" by simp
  with s1 step_checkpoints [OF s1 assms(2)] Cons.IH [of s1] Cons.prems show ?case by auto
qed

subsection \<open>Evaluation\<close>

definition drive_text :: "string \<Rightarrow> string" where
  "drive_text fn = py_join nl (drive_lines fn)"

definition testsys_text :: "string \<Rightarrow> string" where
  "testsys_text fn = py_join nl (testsys_lines fn 1)"

lemma drive_text_resumed:
  assumes "plain_word fn"
  shows "after_checkpoint (shell_events (drive_text fn)) = invocations 0 50 @ map fail_event [11, -1]"
  using drive_script_shell [OF assms]
  by (simp add: drive_text_def client_events_def after_checkpoint_def fail_event_def exit_instr_def)

lemma tm_evaluation_loop:
  assumes m: "arg_mode a = ''evaluation''" and w: "inv_to_warm s = int w" and n: "inv_to_measure s = int (Suc n)"
  shows "\<exists>s'. sim_loop (run_step tm_to_main a) (invocations i (w + Suc n) @ es) s = (s', Break, es) \<and>
    inv_to_measure s' = 0 \<and>
    trace s' = trace s @ inv_logs begin_marks end_marks i w @
      ready_inv_log begin_marks (prGreen ''Warming done'' # tm_to_main @ [StatsReset]) end_marks (i + w) @
      inv_logs begin_marks end_marks (Suc (i + w)) n @ measured_log"
  using run_sim.warm_then_measure [OF w n, of tm_to_main a i es]
  unfolding evaluation_mode_id [OF m] by simp

text \<open>The whole evaluation run of the two machines.\<close>

lemma two_machine_evaluation_run:
  assumes "arg_mode (tm_base ta) = ''evaluation''" and "plain_word (arg_function (tm_base ta))"
    and "atomic_warming (tm_base ta) = int w" and "0 < w"
    and "num_invocations (tm_base ta) = int (Suc n)" and "w + Suc n \<le> 50"
  shows "\<exists>root st rest.
    two_machine_main env outdir ta
      (e # after_checkpoint (shell_events (drive_text (arg_function (tm_base ta))))) =
      Inr (root, st, Break, rest) \<and>
    inv_to_measure st = 0 \<and>
    trace st = tm_evaluation_preamble outdir (tm_base ta) @ inv_logs begin_marks end_marks 0 w @
      ready_inv_log begin_marks
        [prGreen ''Warming done'', SwitchCpus ''system'' (atomic_to_main 2),
         SwitchCpus ''drive_sys'' (atomic_to_main 1), StatsReset] end_marks w @
      inv_logs begin_marks end_marks (Suc w) n @ measured_log @ [prGreen ''Simulation done.'']"
proof -
  let ?a = "tm_base ta" and ?s = "tm_evaluation_start outdir (tm_base ta)"
  let ?rest = "invocations (w + Suc n) (50 - (w + Suc n)) @ map fail_event [11, -1]"
  have "invocations 0 50 @ map fail_event [11, -1] = invocations 0 (w + Suc n) @ ?rest"
    using invocations_add [of 0 "w + Suc n" "50 - (w + Suc n)"] assms(6) by simp
  then have ev: "after_checkpoint (shell_events (drive_text (arg_function ?a))) =
      invocations 0 (w + Suc n) @ ?rest"
    by (simp only: drive_text_resumed [OF assms(2)])
  have "inv_to_warm ?s = int w" "inv_to_measure ?s = int (Suc n)"
    "trace ?s = tm_evaluation_preamble outdir ?a"
    using assms by (simp_all add: tm_evaluation_start_def)
  with tm_evaluation_loop [OF assms(1), of ?s w n 0 ?rest] obtain st where
    "sim_loop (run_step tm_to_main ?a) (invocations 0 (w + Suc n) @ ?rest) ?s = (st, Break, ?rest)"
    "inv_to_measure st = 0"
    "trace st = tm_evaluation_preamble outdir ?a @ inv_logs begin_marks end_marks 0 w @
      ready_inv_log begin_marks (prGreen ''Warming done'' # tm_to_main @ [StatsReset]) end_marks w @
      inv_logs begin_marks end_marks (Suc w) n @ measured_log" by auto
  with two_machine_evaluation [OF assms(1), of env outdir e "invocations 0 (w + Suc n) @ ?rest"]
  show ?thesis unfolding ev by (auto simp: tm_result_def tm_to_main_def)
qed

subsection \<open>Properties\<close>

text \<open>The whole setup run of the two machines.\<close>

lemma two_machine_setup_run:
  assumes "arg_mode (tm_base ta) = ''setup''" and "plain_word (arg_function (tm_base ta))"
    and "es \<in> shuffles (shell_events (testsys_text (arg_function (tm_base ta))))
      (shell_events (drive_text (arg_function (tm_base ta))))"
  shows "\<exists>root st rest. two_machine_main env outdir ta es = Inr (root, st, Break, rest) \<and>
    checkpoints_of (trace st) = [checkpoint_path (tm_base ta) ''warm''] \<and>
    last (trace st) = prGreen ''Simulation done.''"
proof -
  let ?a = "tm_base ta" and ?s = "emit (tm_setup_preamble outdir (tm_base ta)) init_state"
  define ds where "ds = exit_instr # map fail_event [10, 20, 31, 32] @ invocations 0 50 @ [fail_event 11]"
  define t3 where "t3 = map fail_event [1, 2, 3]"
  have d: "shell_events (drive_text (arg_function ?a)) = ds @ [fail_event (-1)]"
    using drive_script_shell [OF assms(2)] by (simp add: drive_text_def client_events_def ds_def)
  have "es \<in> shuffles t3 (ds @ [fail_event (-1)])"
    using assms(3) unfolding testsys_text_def testsys_script_shell [OF assms(2)] d t3_def .
  from shuffles_end [OF this] obtain xs ys ts where es: "es = xs @ fail_event (-1) # ys"
    and ts: "set ts \<subseteq> set t3" and xs: "xs \<in> shuffles ts ds" by blast
  have inv: "e \<in> set (invocations 0 50) \<Longrightarrow> getCause e = ''workbegin'' \<or> getCause e = ''workend''" for e
    by (auto simp: invocations_def invocation_def)
  have ok: "e \<noteq> fail_event (-1) \<and> getCause e \<noteq> interrupt_cause" if "e \<in> set xs" for e
    using that set_shuffles [OF xs] ts inv [of e] by (auto simp: ds_def t3_def fail_event_def exit_instr_def)
  have "count_list ts (fail_event 32) = 0" using ts by (auto simp: count_list_0_iff t3_def fail_event_def)
  moreover have "count_list (invocations 0 50) (fail_event 32) = 0"
    using inv by (fastforce simp: count_list_0_iff)
  ultimately have n: "count_list xs (fail_event 32) = 1"
    using arg_cong [OF mset_shuffles [OF xs], of "\<lambda>m. count m (fail_event 32)"]
    by (simp add: count_mset ds_def fail_event_def exit_instr_def)
  have "checkpoints_of tm_to_main = []" "checkpoints_of (trace ?s) = []"
    by (simp_all add: tm_to_main_def tm_setup_preamble_def mkdir_effects_def tm_root_effects_def
        tm_script_effects_def two_machine_writeRunScript_def writeDriveScript_def write_script_def
        checkpoints_Cons init_state_def Let_def)
  with setup_until_exit [of ?a tm_to_main xs ys ?s] ok n obtain st where
    "sim_loop (run_step tm_to_main ?a) es ?s = (st, Break, ys)"
    "checkpoints_of (trace st) = [checkpoint_path ?a ''warm'']"
    using assms(1) es by auto
  with two_machine_setup [OF assms(1), of env outdir es] show ?thesis
    by (auto simp: tm_result_def checkpoints_Cons pr_defs)
qed

text \<open>
  C8. Two-machine setup: the exit events of the two guests may interleave in any way. The
  run ends at the drive system's code -1, it has then taken exactly one checkpoint,
  \<open>cpt.warm\<close> of the function, and its last line is \<open>Simulation done.\<close>
\<close>

theorem two_machine_setup_any_interleaving:
  assumes "arg_mode (tm_base ta) = ''setup''" and "plain_word (arg_function (tm_base ta))"
    and "es \<in> shuffles (shell_events (testsys_text (arg_function (tm_base ta))))
      (shell_events (drive_text (arg_function (tm_base ta))))"
  shows "\<exists>root st rest. two_machine_main env outdir ta es = Inr (root, st, Break, rest) \<and>
    checkpoints_of (trace st) = [checkpoint_path (tm_base ta) ''warm''] \<and>
    last (trace st) = prGreen ''Simulation done.''"
  by (rule two_machine_setup_run [OF assms])

theorem two_machine_setup_any_interleaving_witness:
  "\<exists>root st rest. two_machine_main ref_env ''m5out''
      (two_machine_defaults\<lparr>tm_base := run_sim_defaults\<lparr>arg_function := ''aes-go''\<rparr>\<rparr>)
      (splice (shell_events (testsys_text ''aes-go'')) (shell_events (drive_text ''aes-go''))) =
      Inr (root, st, Break, rest) \<and>
    checkpoints_of (trace st) = [''cpt_1m//aes-go/cpt.warm'']"
proof -
  let ?ta = "two_machine_defaults\<lparr>tm_base := run_sim_defaults\<lparr>arg_function := ''aes-go''\<rparr>\<rparr>"
  have a: "arg_mode (tm_base ?ta) = ''setup''" "arg_function (tm_base ?ta) = ''aes-go''"
    "checkpoint_path (tm_base ?ta) ''warm'' = ''cpt_1m//aes-go/cpt.warm''"
    by (simp_all add: run_sim_defaults_def checkpoint_path_def)
  have p: "plain_word (arg_function (tm_base ?ta))" by (simp add: plain_word_def shell_special_def)
  show ?thesis
    using two_machine_setup_any_interleaving [OF a(1) p splice_in_shuffles, of ref_env "''m5out''"]
    unfolding a by blast
qed

text \<open>
  C9. Two-machine evaluation: with \<open>w\<close> warming invocations and \<open>n + 1\<close> to measure, 50 at
  most together, the run ends by itself. Both systems switch from their atomic to their
  main CPUs, test system first, inside the first measured invocation, then the statistics
  are reset, and they are dumped once after the \<open>n + 1\<close> measured invocations; unlike the
  single-machine script it then prints \<open>Simulation done.\<close>
\<close>

theorem two_machine_evaluation_measures:
  assumes "arg_mode (tm_base ta) = ''evaluation''" and "plain_word (arg_function (tm_base ta))"
    and "atomic_warming (tm_base ta) = int w" and "0 < w"
    and "num_invocations (tm_base ta) = int (Suc n)" and "w + Suc n \<le> 50"
  shows "\<exists>root st rest.
    two_machine_main env outdir ta
      (e # after_checkpoint (shell_events (drive_text (arg_function (tm_base ta))))) =
      Inr (root, st, Break, rest) \<and>
    inv_to_measure st = 0 \<and>
    trace st = tm_evaluation_preamble outdir (tm_base ta) @ inv_logs begin_marks end_marks 0 w @
      ready_inv_log begin_marks
        [prGreen ''Warming done'', SwitchCpus ''system'' (atomic_to_main 2),
         SwitchCpus ''drive_sys'' (atomic_to_main 1), StatsReset] end_marks w @
      inv_logs begin_marks end_marks (Suc w) n @ measured_log @ [prGreen ''Simulation done.'']"
  by (rule two_machine_evaluation_run [OF assms])

theorem two_machine_evaluation_measures_witness:
  "\<exists>root st rest. two_machine_main ref_env ''m5out''
      (two_machine_defaults\<lparr>tm_base := run_sim_defaults
         \<lparr>arg_mode := ''evaluation'', arg_function := ''aes-go'', atomic_warming := 2\<rparr>\<rparr>)
      (exit_instr # after_checkpoint (shell_events (drive_text ''aes-go''))) =
      Inr (root, st, Break, rest) \<and> inv_to_measure st = 0"
proof -
  let ?ta = "two_machine_defaults\<lparr>tm_base := run_sim_defaults
    \<lparr>arg_mode := ''evaluation'', arg_function := ''aes-go'', atomic_warming := 2\<rparr>\<rparr>"
  have "plain_word ''aes-go''" by (simp add: plain_word_def shell_special_def)
  then show ?thesis
    using two_machine_evaluation_measures [of ?ta 2 4 ref_env "''m5out''" exit_instr]
    by (simp add: run_sim_defaults_def) blast
qed

text \<open>
  Link and quantum: in both modes the two systems are built and joined through their
  Ethernet interfaces, and the simulation quantum is 10^9 ticks (1 ms). In setup mode the
  link delay of 2000 us is above that quantum; in evaluation mode it is 0 us, below it,
  while the comments of the source ask for a quantum of 0 without KVM and for a delay
  above the quantum.
\<close>

theorem dual_root_link:
  "\<exists>sys drv root eff. create_system env k d ''SklTunedCPU'' kvm = Inr sys \<and>
     create_drive_system env k d kvm = Inr drv \<and>
     makeDualRoot True sys drv dump kvm = Inr (root, eff) \<and>
     testsys root = sys \<and> drivesys root = drv \<and>
     link_int0 root = ''testsys.pc.ethernet.interface'' \<and>
     link_int1 root = ''drivesys.pc.ethernet.interface'' \<and>
     sim_quantum root = 10 ^ 9 \<and> link_delay root = (if kvm then ''2000us'' else ''0us'')"
proof -
  obtain s where s: "SklSystem env k d 2 ''SklTunedCPU'' kvm = Inr s" "pc_io_bus s = Some Iobus"
    using skl_system_shape [of env k d 2 "''SklTunedCPU''" kvm] by blast
  obtain t where t: "DriveSystem env k d kvm = Inr t" using drive_system_shape by blast
  have "show_int 2000 = ''2000''" "show_int 0 = ''0''" by (simp_all add: show_int_def show_nat.simps)
  with s t show ?thesis
    by (simp add: create_system_def create_drive_system_def makeDualRoot_def Let_def)
qed

end
