(* ===== verification/Check_Sims.thy ===== *)
theory Check_Sims
  imports Two_Machine "HOL-Library.List_Lexorder"
begin

text \<open>
  The script \<open>analysis/check_simulations.py\<close>: it scans the gem5 log of every result
  directory, prints a verdict for each and writes \<open>rerun.sh\<close> with the commands of the
  simulations, those of successful ones as comments. The directory tree it reads is the
  parameter record \<open>file_tree\<close>, in which listing a directory may raise; a log is the list of its lines, newlines included, as
  Python's file iterator delivers them.
\<close>

subsection \<open>The directory tree\<close>

record file_tree =
  ft_listdir :: "string \<Rightarrow> string list result"
  ft_isdir :: "string \<Rightarrow> bool"
  ft_lines :: "string \<Rightarrow> string list option"

subsection \<open>Scanning a log\<close>

record scan_state =
  scan_cmd :: string
  scan_success :: bool
  scan_count :: nat

definition scan_init :: scan_state where
  "scan_init = \<lparr>scan_cmd = '''', scan_success = False, scan_count = 0\<rparr>"

definition note_command :: "string \<Rightarrow> scan_state \<Rightarrow> scan_state" where
  "note_command line st =
     (if take 14 line = ''command line: '' then st\<lparr>scan_cmd := py_strip (drop 14 line)\<rparr> else st)"

fun scan_log :: "string list \<Rightarrow> scan_state \<Rightarrow> scan_state" where
  "scan_log [] st = st"
| "scan_log (line # ls) st =
     (let st = note_command line st
      in if py_in ''Simulation done'' line then st\<lparr>scan_success := True\<rparr>
         else scan_log ls (if py_in ''End invokation:'' line
                           then st\<lparr>scan_count := scan_count st + 1\<rparr> else st))"

subsection \<open>The report\<close>

text \<open>The field \<open>{subdir:>25}\<close>.\<close>

definition right_align :: "nat \<Rightarrow> string \<Rightarrow> string" where
  "right_align n s = replicate (n - length s) (CHR '' '') @ s"

definition status_text :: "scan_state \<Rightarrow> string" where
  "status_text st =
     (if scan_success st
      then (if scan_count st < 20 then colour ''93'' ''WARN'' else colour ''92'' ''succeed'')
      else colour ''91'' ''fail'')"

definition log_name :: "string \<Rightarrow> string \<Rightarrow> string" where
  "log_name dir subdir = dir @ ''/'' @ subdir @ ''/gem5.log''"

definition check_subdir :: "file_tree \<Rightarrow> string \<Rightarrow> string
    \<Rightarrow> effect list \<times> (bool \<times> string) list \<Rightarrow> effect list \<times> (bool \<times> string) list" where
  "check_subdir ft dir subdir acc =
     (case ft_lines ft (log_name dir subdir) of
        None \<Rightarrow> acc
      | Some ls \<Rightarrow>
          (let st = scan_log ls scan_init
           in (fst acc @ [Print (right_align 25 subdir @ '' > '' @ show_int (int (scan_count st))
                            @ '' : '' @ status_text st)],
               snd acc @ [(scan_success st,
                           scan_cmd st @ '' > '' @ log_name dir subdir @ '' 2>&1 &'')])))"

definition rerun_line :: "bool \<times> string \<Rightarrow> string" where
  "rerun_line r = (if fst r then ''# '' else []) @ '' sudo '' @ snd r @ '' '' @ nl"

definition check_simulations :: "file_tree \<Rightarrow> string \<Rightarrow> effect list result" where
  "check_simulations ft dir =
     bind_res (ft_listdir ft dir) (\<lambda>names.
       let subdirs = sort_key (\<lambda>s. map (of_char :: char \<Rightarrow> nat) s)
                       (filter (\<lambda>s. ft_isdir ft (dir @ s)) names);
           (out, rerun_cmds) = fold (check_subdir ft dir) subdirs ([], [])
       in Inr (out @ [WriteFile ''rerun.sh'' (concat (map rerun_line rerun_cmds))]))"

subsection \<open>What a scan finds\<close>

definition is_done :: "string \<Rightarrow> bool" where
  "is_done line \<longleftrightarrow> py_in ''Simulation done'' line"

definition is_end :: "string \<Rightarrow> bool" where
  "is_end line \<longleftrightarrow> py_in ''End invokation:'' line"

definition command_of :: "string \<Rightarrow> string option" where
  "command_of line = (if take 14 line = ''command line: '' then Some (py_strip (drop 14 line)) else None)"

text \<open>The lines the scan looks at: up to and including the first that says it is done.\<close>

definition seen :: "string list \<Rightarrow> string list" where
  "seen ls = take (Suc (length (takeWhile (\<lambda>l. \<not> is_done l) ls))) ls"

lemma scan_log_closed:
  "scan_log ls st =
     \<lparr>scan_cmd = last (scan_cmd st # List.map_filter command_of (seen ls)),
      scan_success = (scan_success st \<or> list_ex is_done ls),
      scan_count = scan_count st + length (filter is_end (takeWhile (\<lambda>l. \<not> is_done l) ls))\<rparr>"
proof (induction ls arbitrary: st)
  case Nil
  then show ?case by (simp add: seen_def List.map_filter_simps)
next
  case (Cons l ls)
  show ?case
  proof (cases "is_done l")
    case True
    then show ?thesis
      by (cases st) (simp add: is_done_def note_command_def command_of_def seen_def List.map_filter_simps Let_def)
  next
    case False
    then show ?thesis using Cons [of "if is_end l then note_command l st\<lparr>scan_count := scan_count st + 1\<rparr>
        else note_command l st"]
      by (auto simp: is_done_def is_end_def note_command_def command_of_def seen_def
          List.map_filter_simps Let_def)
  qed
qed

lemma check_subdirs_closed:
  "fold (check_subdir ft dir) subs acc =
     (fst acc @ concat (map (\<lambda>s. fst (check_subdir ft dir s ([], []))) subs),
      snd acc @ concat (map (\<lambda>s. snd (check_subdir ft dir s ([], []))) subs))"
proof (induction subs arbitrary: acc)
  case (Cons s subs)
  then show ?case by (cases "ft_lines ft (log_name dir s)") (auto simp: check_subdir_def Let_def)
qed simp

definition rerun_body :: "bool \<times> string \<Rightarrow> string" where
  "rerun_body r = (if fst r then ''# '' else []) @ '' sudo '' @ snd r @ '' ''"

lemma rerun_split:
  assumes "\<And>r. r \<in> set rs \<Longrightarrow> CHR 0x0A \<notin> set (snd r)"
  shows "py_split (CHR 0x0A) (concat (map rerun_line rs)) = map rerun_body rs @ [[]]"
  using assms
proof (induction rs)
  case (Cons r rs)
  have n: "CHR 0x0A \<notin> set (rerun_body r)" using Cons.prems [of r] by (simp add: rerun_body_def)
  have "concat (map rerun_line (r # rs)) = rerun_body r @ CHR 0x0A # concat (map rerun_line rs)"
    by (simp add: rerun_line_def rerun_body_def)
  then have "py_split (CHR 0x0A) (concat (map rerun_line (r # rs))) =
      [rerun_body r] @ py_split (CHR 0x0A) (concat (map rerun_line rs))"
    by (simp only: py_split_append_sep py_split_no_sep [OF n])
  then show ?case using Cons by simp
qed simp

text \<open>The lines of a shell script that are neither empty nor comments.\<close>

definition active_lines :: "string \<Rightarrow> string list" where
  "active_lines text = filter (\<lambda>l. l \<noteq> [] \<and> hd l \<noteq> CHR ''#'') (py_split (CHR 0x0A) text)"

lemma rerun_active:
  assumes "\<And>r. r \<in> set rs \<Longrightarrow> CHR 0x0A \<notin> set (snd r)"
  shows "active_lines (concat (map rerun_line rs)) =
    map (\<lambda>r. '' sudo '' @ snd r @ '' '') (filter (\<lambda>r. \<not> fst r) rs)"
proof -
  have "filter (\<lambda>l. l \<noteq> [] \<and> hd l \<noteq> CHR ''#'') (map rerun_body rs) =
      map (\<lambda>r. '' sudo '' @ snd r @ '' '') (filter (\<lambda>r. \<not> fst r) rs)"
    by (induction rs) (simp_all add: rerun_body_def)
  then show ?thesis by (simp add: active_lines_def rerun_split [OF assms])
qed

subsection \<open>The log of a run\<close>

fun printed :: "effect list \<Rightarrow> string list" where
  "printed [] = []"
| "printed (Print t # es) = (t @ nl) # printed es"
| "printed (_ # es) = printed es"

lemma printed_append [simp]: "printed (xs @ ys) = printed xs @ printed ys"
  by (induction xs rule: printed.induct) auto

text \<open>Lines that cannot say that the simulation is done: a letter of the phrase is missing.\<close>

lemma not_done:
  "CHR ''S'' \<notin> set l \<Longrightarrow> \<not> is_done l" "CHR ''d'' \<notin> set l \<Longrightarrow> \<not> is_done l"
  "CHR ''l'' \<notin> set l \<Longrightarrow> \<not> is_done l"
  by (auto simp: is_done_def dest!: py_in_set)

lemma not_end: "CHR ''E'' \<notin> set l \<Longrightarrow> \<not> is_end l" "CHR ''k'' \<notin> set l \<Longrightarrow> \<not> is_end l"
  by (auto simp: is_end_def dest!: py_in_set)

lemma show_int_letters:
  "CHR ''S'' \<notin> set (show_int i)" "CHR ''d'' \<notin> set (show_int i)" "CHR ''l'' \<notin> set (show_int i)"
  "CHR ''E'' \<notin> set (show_int i)"
  using show_int_chars by fastforce+

lemma done_line: "is_done (colour ''92'' ''Simulation done.'' @ nl)"
  by (simp add: is_done_def colour_def)

subsection \<open>The lines a scan reacts to\<close>

definition relevant :: "string \<Rightarrow> bool" where
  "relevant l \<longleftrightarrow> is_done l \<or> is_end l \<or> command_of l \<noteq> None"

lemma scan_log_relevant: "scan_log ls st = scan_log (filter relevant ls) st"
proof (induction ls arbitrary: st)
  case (Cons l ls)
  then show ?case
    by (auto simp: relevant_def is_done_def is_end_def command_of_def note_command_def Let_def split: if_splits)
qed simp

text \<open>
  The log of a run: a banner of gem5, with the command line as its only line of that kind, and
  then the printed lines with other lines of gem5 in between, none of which the scan reacts to.
\<close>

definition gem5_log :: "string \<Rightarrow> effect list \<Rightarrow> string list \<Rightarrow> bool" where
  "gem5_log cmd tr ls \<longleftrightarrow>
     (\<exists>banner others body. ls = banner @ body \<and> body \<in> shuffles others (printed tr) \<and>
        List.map_filter command_of banner = [cmd] \<and>
        list_all (\<lambda>l. \<not> is_done l \<and> \<not> is_end l) banner \<and> list_all (\<lambda>l. \<not> relevant l) others)"

lemma gem5_log_relevant:
  assumes "body \<in> shuffles others xs" and "list_all (\<lambda>l. \<not> relevant l) others"
  shows "filter relevant body = filter relevant xs"
proof -
  have "filter relevant others = []" using assms(2) by (simp add: list_all_iff filter_empty_conv)
  moreover have "filter relevant body \<in> filter relevant ` shuffles others xs" using assms(1) by simp
  ultimately show ?thesis by (simp add: filter_shuffles)
qed

lemma scan_log_append:
  "list_all (\<lambda>l. \<not> is_done l) xs \<Longrightarrow> scan_log (xs @ ys) st = scan_log ys (scan_log xs st)"
  by (induction xs arbitrary: st) (auto simp: is_done_def Let_def)

lemma scan_banner:
  assumes "List.map_filter command_of banner = [cmd]" and "list_all (\<lambda>l. \<not> is_done l \<and> \<not> is_end l) banner"
  shows "scan_log banner scan_init = scan_init\<lparr>scan_cmd := cmd\<rparr>"
proof -
  have nd: "\<not> list_ex is_done banner" "filter is_end (takeWhile (\<lambda>l. \<not> is_done l) banner) = []"
    using assms(2) by (auto simp: list_all_iff list_ex_iff filter_empty_conv dest: set_takeWhileD)
  have tw: "takeWhile (\<lambda>l. \<not> is_done l) banner = banner" using assms(2) by (simp add: list_all_iff takeWhile_eq_all_conv)
  have "seen banner = banner" unfolding seen_def tw by simp
  with nd assms(1) show ?thesis by (simp add: scan_log_closed scan_init_def)
qed

text \<open>The scan of such a log, for a run that printed \<open>n\<close> lines on ended invocations.\<close>

lemma scan_gem5_log:
  assumes "gem5_log cmd tr ls" and "filter relevant (printed tr) = ends @ tail"
    and "list_all (\<lambda>l. is_end l \<and> \<not> is_done l \<and> command_of l = None) ends"
    and "tail = [] \<or> tail = [fin] \<and> is_done fin \<and> command_of fin = None"
  shows "scan_log ls scan_init = \<lparr>scan_cmd = cmd, scan_success = (tail \<noteq> []), scan_count = length ends\<rparr>"
proof -
  obtain banner others body where ls: "ls = banner @ body" and body: "body \<in> shuffles others (printed tr)"
    and banner: "List.map_filter command_of banner = [cmd]"
      "list_all (\<lambda>l. \<not> is_done l \<and> \<not> is_end l) banner" and others: "list_all (\<lambda>l. \<not> relevant l) others"
    using assms(1) unfolding gem5_log_def by blast
  have q: "list_all (\<lambda>l. \<not> is_done l) banner" using banner(2) by (simp add: list_all_iff)
  have n: "list_all (\<lambda>l. \<not> is_done l) ends" using assms(3) by (simp add: list_all_iff)
  have e: "scan_log ends st = st\<lparr>scan_count := scan_count st + length ends\<rparr>" for st
    using assms(3) by (induction ends arbitrary: st)
      (auto simp: is_done_def is_end_def command_of_def note_command_def Let_def split: if_splits)
  have "scan_log ls scan_init = scan_log body (scan_init\<lparr>scan_cmd := cmd\<rparr>)"
    unfolding ls scan_log_append [OF q] scan_banner [OF banner] ..
  also have "\<dots> = scan_log (ends @ tail) (scan_init\<lparr>scan_cmd := cmd\<rparr>)"
    using scan_log_relevant gem5_log_relevant [OF body others] assms(2) by metis
  also have "\<dots> = scan_log tail (scan_init\<lparr>scan_cmd := cmd, scan_count := length ends\<rparr>)"
    unfolding scan_log_append [OF n] e by (simp add: scan_init_def)
  also have "\<dots> = \<lparr>scan_cmd = cmd, scan_success = (tail \<noteq> []), scan_count = length ends\<rparr>"
    using assms(4) by (auto simp: scan_init_def is_done_def command_of_def note_command_def Let_def split: if_splits)
  finally show ?thesis .
qed

subsection \<open>What an evaluation prints\<close>

lemma no_command: "l = [] \<or> hd l \<noteq> CHR ''c'' \<Longrightarrow> command_of l = None"
  by (cases l) (auto simp: command_of_def)

text \<open>The blank in each phrase the scan looks for cannot come from a path without blanks.\<close>

lemma checkpoint_line_irrelevant:
  assumes "CHR '' '' \<notin> set p"
  shows "\<not> relevant (''Instantiate checkpoint:  '' @ p)"
proof -
  have "\<not> is_done (''Instantiate checkpoint:  '' @ p)" "\<not> is_end (''Instantiate checkpoint:  '' @ p)"
    using assms by (auto simp: is_done_def is_end_def dest!: py_in_set)
  moreover have "command_of (''Instantiate checkpoint:  '' @ p) = None" by (rule no_command) simp
  ultimately show ?thesis by (simp add: relevant_def)
qed

definition end_line :: "int \<Rightarrow> string" where
  "end_line i = colour ''93'' (''End invokation: '' @ show_int i) @ nl"

lemma coloured_no_command: "command_of (colour c t @ nl) = None"
  by (rule no_command) (simp add: colour_def)

lemma end_line_found: "is_end (end_line i)" "\<not> is_done (end_line i)" "command_of (end_line i) = None"
proof -
  show "is_end (end_line i)"
    unfolding is_end_def end_line_def colour_def
    using py_in_append [OF py_in_self, of "''End invokation:''" "CHR 0x1B # ''[93m ''" "CHR '' '' # show_int i @ (CHR 0x1B # ''[00m'') @ nl"]
    by simp
  show "\<not> is_done (end_line i)" unfolding end_line_def
    using show_int_letters(3) [of i] by (intro not_done(3)) (simp add: colour_def)
  show "command_of (end_line i) = None" unfolding end_line_def by (rule coloured_no_command)
qed

lemma marks_relevant:
  "filter relevant (printed (begin_marks i)) = []" "filter relevant (printed (end_marks i)) = [end_line i]"
proof -
  have "\<not> relevant (''Start simulation...'' @ nl)"
    by (simp add: relevant_def not_done(2) not_end(1) no_command)
  moreover have "\<not> relevant (colour ''93'' (''Start invokation: '' @ show_int i) @ nl)"
  proof -
    have "\<not> is_done (colour ''93'' (''Start invokation: '' @ show_int i) @ nl)"
      using show_int_letters(3) [of i] by (intro not_done(3)) (simp add: colour_def)
    moreover have "\<not> is_end (colour ''93'' (''Start invokation: '' @ show_int i) @ nl)"
      using show_int_letters(4) [of i] by (intro not_end(1)) (simp add: colour_def)
    ultimately show ?thesis unfolding relevant_def coloured_no_command by simp
  qed
  moreover have "relevant (colour ''93'' (''End invokation: '' @ show_int i) @ nl)"
    using end_line_found(1) [of i] by (simp add: relevant_def end_line_def)
  ultimately show "filter relevant (printed (begin_marks i)) = []"
    "filter relevant (printed (end_marks i)) = [end_line i]"
    by (simp_all add: begin_marks_def end_marks_def prYellow_def end_line_def)
qed

lemma inv_logs_relevant:
  "filter relevant (printed (inv_logs begin_marks end_marks a n)) = map (\<lambda>i. end_line (int i)) [a..<a + n]"
  by (induction n arbitrary: a) (simp_all add: inv_logs_Suc inv_log_def marks_relevant upt_conv_Cons del: upt_Suc)

lemma green_irrelevant:
  "\<not> relevant (colour ''92'' (''Warming for '' @ show_int i @ '' invocations'') @ nl)"
  "\<not> relevant (colour ''92'' (''Measure for '' @ show_int i @ '' invocations'') @ nl)"
  "\<not> relevant (colour ''92'' ''Warming done'' @ nl)" "\<not> relevant (colour ''92'' ''Measuring done'' @ nl)"
proof -
  have q: "\<not> relevant (colour ''92'' t @ nl)" if "CHR ''S'' \<notin> set t" "CHR ''E'' \<notin> set t" for t
  proof -
    have "\<not> is_done (colour ''92'' t @ nl)" using that(1) by (intro not_done(1)) (simp add: colour_def)
    moreover have "\<not> is_end (colour ''92'' t @ nl)" using that(2) by (intro not_end(1)) (simp add: colour_def)
    ultimately show ?thesis unfolding relevant_def coloured_no_command by simp
  qed
  show "\<not> relevant (colour ''92'' (''Warming for '' @ show_int i @ '' invocations'') @ nl)"
    "\<not> relevant (colour ''92'' (''Measure for '' @ show_int i @ '' invocations'') @ nl)"
    "\<not> relevant (colour ''92'' ''Warming done'' @ nl)" "\<not> relevant (colour ''92'' ''Measuring done'' @ nl)"
    by (rule q; use show_int_letters in simp)+
qed

text \<open>The lines before the loop, on one and on two machines.\<close>

lemma preambles_irrelevant:
  assumes "CHR '' '' \<notin> set (checkpoint_path a (use_checkpoint a))"
  shows "list_all (\<lambda>l. \<not> relevant l) (printed (evaluation_preamble outdir a))"
    and "list_all (\<lambda>l. \<not> relevant l) (printed (tm_evaluation_preamble outdir a))"
proof -
  have m: "\<not> relevant (''--- Evaluation Mode ---'' @ nl)"
    by (simp add: relevant_def not_done(1) not_end(2) no_command)
  have i: "\<not> relevant (''Instantiate checkpoint:  '' @ checkpoint_path a (use_checkpoint a) @ nl)"
    by (rule checkpoint_line_irrelevant) (use assms in simp)
  have t: "\<not> relevant ((''Tick freq = '' @ show_int (10 ^ 12) @ '' ticks/sec. Set sim quantum to ''
        @ show_int (10 ^ 9) @ '' ticks/sec => '' @ show_int x @ [CHR 0xC2, CHR 0xB5] @ ''s'') @ nl)" (is "\<not> relevant ?t") for x
  proof -
    have "\<not> is_done ?t" using show_int_letters(2) by (intro not_done(2)) simp
    moreover have "\<not> is_end ?t" using show_int_letters(4) by (intro not_end(1)) simp
    moreover have "command_of ?t = None" by (rule no_command) simp
    ultimately show ?thesis by (simp only: relevant_def) simp
  qed
  show "list_all (\<lambda>l. \<not> relevant l) (printed (evaluation_preamble outdir a))"
    "list_all (\<lambda>l. \<not> relevant l) (printed (tm_evaluation_preamble outdir a))"
    using m i t green_irrelevant
    by (simp_all add: evaluation_preamble_def tm_evaluation_preamble_def mkdir_effects_def
        script_effects_def tm_script_effects_def tm_root_effects_def run_text_written
        two_machine_writeRunScript_def writeDriveScript_def write_script_def prGreen_def Let_def
        append_assoc [symmetric] del: append_assoc append_Cons append.append_Cons)
qed

lemma evaluation_relevant:
  assumes "list_all (\<lambda>l. \<not> relevant l) (printed pre)" and "printed rl = [colour ''92'' ''Warming done'' @ nl]"
  shows "filter relevant (printed (pre @ inv_logs begin_marks end_marks 0 w @
      ready_inv_log begin_marks rl end_marks w @ inv_logs begin_marks end_marks (Suc w) n @ measured_log)) =
    map (\<lambda>i. end_line (int i)) [0..<w + Suc n]"
proof -
  have p: "filter relevant (printed pre) = []" using assms(1) by (simp add: list_all_iff filter_empty_conv)
  have "[0..<w + Suc n] = [0..<w] @ [w] @ [Suc w..<Suc w + n]"
    using upt_add_eq_append [of 0 w "Suc n"] by (simp add: upt_conv_Cons del: upt_Suc)
  then show ?thesis
    by (simp add: p inv_logs_relevant ready_inv_log_def marks_relevant assms(2) green_irrelevant prGreen_def
        del: upt_Suc append_assoc append.append_Cons)
qed

lemma end_lines_found:
  "list_all (\<lambda>l. is_end l \<and> \<not> is_done l \<and> command_of l = None) (map (\<lambda>i. end_line (int i)) xs)"
  by (simp add: list_all_iff end_line_found)

text \<open>
  The report: one verdict line and one \<open>rerun.sh\<close> entry for each subdirectory that has a
  log, in the order of the sorted names; subdirectories without a log are left out of
  both.
\<close>

definition log_scans :: "file_tree \<Rightarrow> string \<Rightarrow> string list \<Rightarrow> (string \<times> scan_state) list" where
  "log_scans ft dir names =
     concat (map (\<lambda>s. case ft_lines ft (log_name dir s) of None \<Rightarrow> []
                       | Some ls \<Rightarrow> [(s, scan_log ls scan_init)])
       (sort_key (map (of_char :: char \<Rightarrow> nat)) (filter (\<lambda>s. ft_isdir ft (dir @ s)) names)))"

definition verdict_line :: "string \<Rightarrow> nat \<Rightarrow> string \<Rightarrow> effect" where
  "verdict_line subdir n verdict = Print (right_align 25 subdir @ '' > '' @ show_int (int n) @ '' : '' @ verdict)"

definition rerun_cmd :: "string \<Rightarrow> string \<Rightarrow> string \<Rightarrow> string" where
  "rerun_cmd dir s cmd = cmd @ '' > '' @ log_name dir s @ '' 2>&1 &''"

lemma check_simulations_report:
  assumes "ft_listdir ft dir = Inr names"
  shows "check_simulations ft dir =
    Inr (map (\<lambda>(s, st). verdict_line s (scan_count st) (status_text st)) (log_scans ft dir names) @
      [WriteFile ''rerun.sh'' (concat (map (\<lambda>(s, st). rerun_line (scan_success st, rerun_cmd dir s (scan_cmd st)))
         (log_scans ft dir names)))])"
proof -
  let ?one = "\<lambda>s. case ft_lines ft (log_name dir s) of None \<Rightarrow> [] | Some ls \<Rightarrow> [(s, scan_log ls scan_init)]"
  have a: "fst (check_subdir ft dir s ([], [])) =
      map (\<lambda>(s, st). verdict_line s (scan_count st) (status_text st)) (?one s)"
    and b: "snd (check_subdir ft dir s ([], [])) =
      map (\<lambda>(s, st). (scan_success st, rerun_cmd dir s (scan_cmd st))) (?one s)" for s
    by (simp_all add: check_subdir_def verdict_line_def rerun_cmd_def Let_def split: option.split)
  show ?thesis
    unfolding check_simulations_def Let_def check_subdirs_closed a b log_scans_def
    by (simp add: assms map_concat comp_def case_prod_unfold)
qed

definition rerun_entry :: "string \<Rightarrow> string \<times> scan_state \<Rightarrow> bool \<times> string" where
  "rerun_entry dir r = (scan_success (snd r), rerun_cmd dir (fst r) (scan_cmd (snd r)))"

lemma report_written:
  assumes "ft_listdir ft dir = Inr names"
  shows "check_simulations ft dir =
    Inr (map (\<lambda>(s, st). verdict_line s (scan_count st) (status_text st)) (log_scans ft dir names) @
      [WriteFile ''rerun.sh'' (concat (map rerun_line (map (rerun_entry dir) (log_scans ft dir names))))])"
  by (simp add: check_simulations_report [OF assms] rerun_entry_def case_prod_unfold comp_def)

lemma entry_one_line:
  assumes "CHR 0x0A \<notin> set dir" and "\<And>s st. (s, st) \<in> set rs \<Longrightarrow> CHR 0x0A \<notin> set s \<and> CHR 0x0A \<notin> set (scan_cmd st)"
    and "r \<in> set (map (rerun_entry dir) rs)"
  shows "CHR 0x0A \<notin> set (snd r)"
  using assms by (auto simp: rerun_entry_def rerun_cmd_def log_name_def)

lemma report_active:
  assumes "CHR 0x0A \<notin> set dir" and "\<And>s st. (s, st) \<in> set rs \<Longrightarrow> CHR 0x0A \<notin> set s \<and> CHR 0x0A \<notin> set (scan_cmd st)"
  shows "active_lines (concat (map rerun_line (map (rerun_entry dir) rs))) =
    map (\<lambda>(s, st). '' sudo '' @ rerun_cmd dir s (scan_cmd st) @ '' '') (filter (\<lambda>(s, st). \<not> scan_success st) rs)"
proof -
  have "active_lines (concat (map rerun_line (map (rerun_entry dir) rs))) =
      map (\<lambda>r. '' sudo '' @ snd r @ '' '') (filter (\<lambda>r. \<not> fst r) (map (rerun_entry dir) rs))"
    by (rule rerun_active) (rule entry_one_line [OF assms])
  also have "\<dots> = map (\<lambda>(s, st). '' sudo '' @ rerun_cmd dir s (scan_cmd st) @ '' '') (filter (\<lambda>(s, st). \<not> scan_success st) rs)"
    by (simp add: filter_map comp_def rerun_entry_def case_prod_unfold)
  finally show ?thesis .
qed

subsection \<open>Properties\<close>

text \<open>
  C27. A log scan, as one pass with an early exit, finds what it is meant to find: success
  if some line says \<open>Simulation done\<close>; the number of \<open>End invokation:\<close> lines before the
  first such line; and the command of the last \<open>command line: \<close> line up to that line.
\<close>

theorem scan_log_correct:
  "scan_success (scan_log ls scan_init) = list_ex is_done ls \<and>
   scan_count (scan_log ls scan_init) = length (filter is_end (takeWhile (\<lambda>l. \<not> is_done l) ls)) \<and>
   scan_cmd (scan_log ls scan_init) = last ([] # List.map_filter command_of (seen ls))"
  by (simp add: scan_log_closed scan_init_def)

text \<open>
  C26. \<open>rerun.sh\<close> re-runs exactly the failed simulations of the directory: if no name and no
  command has a newline, the lines of the written script that are not comments are, in the
  order of the sorted names, the commands of the runs whose log has no success, each behind
  \<open>sudo\<close> and with its log as output. A directory that cannot be listed raises, and nothing is
  written.
\<close>

theorem rerun_only_failed:
  assumes "CHR 0x0A \<notin> set dir"
    and "\<And>names s st. ft_listdir ft dir = Inr names \<Longrightarrow> (s, st) \<in> set (log_scans ft dir names) \<Longrightarrow>
      CHR 0x0A \<notin> set s \<and> CHR 0x0A \<notin> set (scan_cmd st)"
  shows "case ft_listdir ft dir of
      Inl e \<Rightarrow> check_simulations ft dir = Inl e
    | Inr names \<Rightarrow> \<exists>verdicts txt. check_simulations ft dir = Inr (verdicts @ [WriteFile ''rerun.sh'' txt]) \<and>
        length verdicts = length (log_scans ft dir names) \<and>
        active_lines txt = map (\<lambda>(s, st). '' sudo '' @ rerun_cmd dir s (scan_cmd st) @ '' '')
          (filter (\<lambda>(s, st). \<not> scan_success st) (log_scans ft dir names))"
proof (cases "ft_listdir ft dir")
  case (Inl e)
  then show ?thesis by (simp add: check_simulations_def)
next
  case (Inr names)
  have "active_lines (concat (map rerun_line (map (rerun_entry dir) (log_scans ft dir names)))) =
      map (\<lambda>(s, st). '' sudo '' @ rerun_cmd dir s (scan_cmd st) @ '' '')
        (filter (\<lambda>(s, st). \<not> scan_success st) (log_scans ft dir names))"
    by (rule report_active [OF assms(1)]) (rule assms(2) [OF Inr])
  then show ?thesis unfolding Inr sum.case
    by (intro exI conjI) (rule report_written [OF Inr], simp, assumption)
qed

definition demo_tree :: file_tree where
  "demo_tree = \<lparr>ft_listdir = (\<lambda>d. if d = ''res/'' then Inr [''b'', ''a''] else Inl (FileNotFoundError d)),
     ft_isdir = (\<lambda>p. True),
     ft_lines = (\<lambda>p. Some (if p = ''res//a/gem5.log'' then [''command line: gem5 a'', ''Simulation done'']
                          else [''command line: gem5 b'', ''panic'']))\<rparr>"

lemma demo_scans:
  "log_scans demo_tree ''res/'' [''b'', ''a''] =
     [(''a'', \<lparr>scan_cmd = ''gem5 a'', scan_success = True, scan_count = 0\<rparr>),
      (''b'', \<lparr>scan_cmd = ''gem5 b'', scan_success = False, scan_count = 0\<rparr>)]"
  by (simp add: log_scans_def demo_tree_def log_name_def scan_init_def note_command_def py_strip_def py_space_def
      sort_key_def)

theorem rerun_only_failed_witness:
  "\<exists>verdicts txt. check_simulations demo_tree ''res/'' = Inr (verdicts @ [WriteFile ''rerun.sh'' txt]) \<and>
     length verdicts = 2 \<and> active_lines txt = ['' sudo gem5 b > res//b/gem5.log 2>&1 & '']"
proof -
  have l: "ft_listdir demo_tree ''res/'' = Inr [''b'', ''a'']" by (simp add: demo_tree_def)
  have "case ft_listdir demo_tree ''res/'' of
      Inl e \<Rightarrow> check_simulations demo_tree ''res/'' = Inl e
    | Inr names \<Rightarrow> \<exists>verdicts txt. check_simulations demo_tree ''res/'' = Inr (verdicts @ [WriteFile ''rerun.sh'' txt]) \<and>
        length verdicts = length (log_scans demo_tree ''res/'' names) \<and>
        active_lines txt = map (\<lambda>(s, st). '' sudo '' @ rerun_cmd ''res/'' s (scan_cmd st) @ '' '')
          (filter (\<lambda>(s, st). \<not> scan_success st) (log_scans demo_tree ''res/'' names))"
    by (rule rerun_only_failed) (auto simp: l demo_scans)
  then show ?thesis by (simp add: l demo_scans rerun_cmd_def log_name_def numeral_2_eq_2)
qed

text \<open>
  The directory has to be given with its trailing slash: the test for subdirectories appends the
  name without one, and when no such path is a directory nothing is reported and \<open>rerun.sh\<close> is
  written empty, whatever the logs say.
\<close>

theorem no_slash_no_report:
  assumes "ft_listdir ft dir = Inr names" and "\<And>s. s \<in> set names \<Longrightarrow> \<not> ft_isdir ft (dir @ s)"
  shows "check_simulations ft dir = Inr [WriteFile ''rerun.sh'' []]"
proof -
  have "filter (\<lambda>s. ft_isdir ft (dir @ s)) names = []" using assms(2) by (simp add: filter_empty_conv)
  then show ?thesis by (simp add: report_written [OF assms(1)] log_scans_def)
qed

text \<open>
  The log of a single-machine evaluation that measured all its invocations: the scan counts them
  but finds no success, since the script never prints \<open>Simulation done\<close> on that path.
\<close>

theorem single_machine_evaluation_flagged:
  assumes "arg_mode a = ''evaluation''" and "plain_word (arg_function a)"
    and "atomic_warming a = int w" and "0 < w" and "num_invocations a = int (Suc n)" and "w + Suc n \<le> 20"
    and "CHR '' '' \<notin> set (checkpoint_path a (use_checkpoint a))"
  shows "\<exists>sys st rest.
    run_sim_main env outdir a (e # after_checkpoint (shell_events (run_text (arg_function a)))) =
      Inr (sys, st, Break, rest) \<and> inv_to_measure st = 0 \<and>
    (\<forall>cmd log. gem5_log cmd (trace st) log \<longrightarrow>
       scan_log log scan_init = \<lparr>scan_cmd = cmd, scan_success = False, scan_count = w + Suc n\<rparr>)"
proof -
  obtain sys st rest where run: "run_sim_main env outdir a
      (e # after_checkpoint (shell_events (run_text (arg_function a)))) = Inr (sys, st, Break, rest)"
    and z: "inv_to_measure st = 0"
    and tr: "trace st = evaluation_preamble outdir a @ inv_logs begin_marks end_marks 0 w @
      ready_inv_log begin_marks to_main_log end_marks w @
      inv_logs begin_marks end_marks (Suc w) n @ measured_log"
    using evaluation_run [OF assms(1-6), of env outdir e] by blast
  have "filter relevant (printed (trace st)) = map (\<lambda>i. end_line (int i)) [0..<w + Suc n] @ []"
    unfolding tr append_Nil2
    by (rule evaluation_relevant) (rule preambles_irrelevant(1) [OF assms(7)], simp add: prGreen_def)
  from scan_gem5_log [OF _ this end_lines_found]
  have "scan_log log scan_init = \<lparr>scan_cmd = cmd, scan_success = False, scan_count = w + Suc n\<rparr>"
    if "gem5_log cmd (trace st) log" for cmd log using that by simp
  with run z show ?thesis by blast
qed

text \<open>
  The log of a two-machine evaluation that measured all its invocations: the scan succeeds and
  counts the \<open>w\<close> warming and the \<open>n + 1\<close> measured invocations. The verdict is \<open>succeed\<close> only from
  20 invocations on; the defaults give a warning.
\<close>

theorem two_machine_evaluation_checked:
  assumes "arg_mode (tm_base ta) = ''evaluation''" and "plain_word (arg_function (tm_base ta))"
    and "atomic_warming (tm_base ta) = int w" and "0 < w"
    and "num_invocations (tm_base ta) = int (Suc n)" and "w + Suc n \<le> 50"
    and "CHR '' '' \<notin> set (checkpoint_path (tm_base ta) (use_checkpoint (tm_base ta)))"
  shows "\<exists>root st rest.
    two_machine_main env outdir ta
      (e # after_checkpoint (shell_events (drive_text (arg_function (tm_base ta))))) =
      Inr (root, st, Break, rest) \<and>
    (\<forall>cmd log. gem5_log cmd (trace st) log \<longrightarrow>
       scan_log log scan_init = \<lparr>scan_cmd = cmd, scan_success = True, scan_count = w + Suc n\<rparr>)"
proof -
  let ?a = "tm_base ta" and ?done = "colour ''92'' ''Simulation done.'' @ nl"
  let ?rl = "[prGreen ''Warming done'', SwitchCpus ''system'' (atomic_to_main 2),
         SwitchCpus ''drive_sys'' (atomic_to_main 1), StatsReset]"
  obtain root st rest where run: "two_machine_main env outdir ta
      (e # after_checkpoint (shell_events (drive_text (arg_function ?a)))) = Inr (root, st, Break, rest)"
    and tr: "trace st = (tm_evaluation_preamble outdir ?a @ inv_logs begin_marks end_marks 0 w @
      ready_inv_log begin_marks ?rl end_marks w @
      inv_logs begin_marks end_marks (Suc w) n @ measured_log) @ [prGreen ''Simulation done.'']"
    using two_machine_evaluation_run [OF assms(1-6), of env outdir e] by auto
  have d: "printed [prGreen ''Simulation done.''] = [?done]" by (simp add: prGreen_def)
  have r: "relevant ?done" using done_line by (simp only: relevant_def) simp
  have f: "filter relevant (printed (trace st)) = map (\<lambda>i. end_line (int i)) [0..<w + Suc n] @ [?done]"
    unfolding tr printed_append [of _ "[prGreen ''Simulation done.'']"] d filter_append
    by (subst evaluation_relevant [OF preambles_irrelevant(2) [OF assms(7)]])
      (simp add: prGreen_def, simp only: filter.simps r if_True)
  have "scan_log log scan_init = \<lparr>scan_cmd = cmd, scan_success = True, scan_count = w + Suc n\<rparr>"
    if "gem5_log cmd (trace st) log" for cmd log
    using scan_gem5_log [OF that f end_lines_found, of ?done] done_line coloured_no_command by simp
  with run show ?thesis by blast
qed

end
