(* ===== verification/Release_Data.thy ===== *)
theory Release_Data
  imports Vswarm_Prelude
begin

text \<open>
  What the two release scripts \<open>resources/artifacts.py\<close> and \<open>resources/upload_assets.py\<close> share:
  JSON values and the way Python indexes them, the working directory with the printed
  output, actions on it that may raise (the files and the output of an action that raises are
  kept), and the helpers both scripts define, \<open>get_assets\<close> and \<open>spinning_cursor\<close>.
\<close>

subsection \<open>JSON\<close>

datatype json =
    JNull
  | JBool bool
  | JInt int
  | JStr string
  | JArr "json list"
  | JObj "(string \<times> json) list"

text \<open>\<open>j[key]\<close> for a string and for a number, iteration, \<open>len(j)\<close> and the truth value.\<close>

fun jget :: "json \<Rightarrow> string \<Rightarrow> json result" where
  "jget (JObj m) k = (case map_of m k of None \<Rightarrow> Inl (KeyError k) | Some v \<Rightarrow> Inr v)"
| "jget _ k = Inl (TypeError k)"

fun jindex :: "json \<Rightarrow> nat \<Rightarrow> json result" where
  "jindex (JArr xs) i = py_index xs i"
| "jindex (JStr s) i = bind_res (py_index s i) (\<lambda>c. Inr (JStr [c]))"
| "jindex (JObj m) i = Inl (KeyError (show_nat i))"
| "jindex _ i = Inl (TypeError ''subscript'')"

fun jiter :: "json \<Rightarrow> json list result" where
  "jiter (JArr xs) = Inr xs"
| "jiter (JObj m) = Inr (map (\<lambda>p. JStr (fst p)) m)"
| "jiter (JStr s) = Inr (map (\<lambda>c. JStr [c]) s)"
| "jiter _ = Inl (TypeError ''not iterable'')"

fun jlen :: "json \<Rightarrow> nat result" where
  "jlen (JArr xs) = Inr (length xs)"
| "jlen (JObj m) = Inr (length m)"
| "jlen (JStr s) = Inr (length s)"
| "jlen _ = Inl (TypeError ''len'')"

fun jtruthy :: "json \<Rightarrow> bool" where
  "jtruthy JNull = False"
| "jtruthy (JBool b) = b"
| "jtruthy (JInt i) = (i \<noteq> 0)"
| "jtruthy (JStr s) = (s \<noteq> [])"
| "jtruthy (JArr xs) = (xs \<noteq> [])"
| "jtruthy (JObj m) = (m \<noteq> [])"

text \<open>A value used as a string.\<close>

fun jstr :: "json \<Rightarrow> string result" where
  "jstr (JStr s) = Inr s"
| "jstr _ = Inl (TypeError ''str'')"

definition jfield :: "json \<Rightarrow> string \<Rightarrow> string result" where
  "jfield j k = bind_res (jget j k) jstr"

subsection \<open>Actions\<close>

text \<open>A request that uploads an asset, as the upload script sends it.\<close>

record upload_request =
  req_url :: string
  req_token :: string
  req_mime :: string
  req_name :: string
  req_data :: string
  req_timeout :: int

record world =
  w_files :: "string \<rightharpoonup> string"
  w_out :: "string list"
  w_log :: "string list"
  w_posts :: "upload_request list"

type_synonym 'a act = "world \<Rightarrow> 'a result \<times> world"

definition act_return :: "'a \<Rightarrow> 'a act" where
  "act_return x w = (Inr x, w)"

definition act_raise :: "py_error \<Rightarrow> 'a act" where
  "act_raise e w = (Inl e, w)"

definition act_bind :: "'a act \<Rightarrow> ('a \<Rightarrow> 'b act) \<Rightarrow> 'b act" where
  "act_bind m f w = (case m w of (Inl e, w') \<Rightarrow> (Inl e, w') | (Inr x, w') \<Rightarrow> f x w')"

definition act_then :: "unit act \<Rightarrow> 'b act \<Rightarrow> 'b act" where
  "act_then m n = act_bind m (\<lambda>u. n)"

definition act_lift :: "'a result \<Rightarrow> 'a act" where
  "act_lift r w = (r, w)"

definition say :: "string \<Rightarrow> unit act" where
  "say s w = (Inr (), w\<lparr>w_out := w_out w @ [s]\<rparr>)"

definition log_line :: "string \<Rightarrow> unit act" where
  "log_line s w = (Inr (), w\<lparr>w_log := w_log w @ [s]\<rparr>)"

text \<open>Opening a file for writing empties it; \<open>append_file\<close> is \<open>f.write\<close> on the open file.\<close>

definition open_write :: "string \<Rightarrow> unit act" where
  "open_write name w =
     (if name = [] then (Inl (FileNotFoundError name), w)
      else (Inr (), w\<lparr>w_files := (w_files w)(name \<mapsto> [])\<rparr>))"

definition append_file :: "string \<Rightarrow> string \<Rightarrow> unit act" where
  "append_file name data w =
     (Inr (), w\<lparr>w_files := (w_files w)(name \<mapsto> (case w_files w name of None \<Rightarrow> [] | Some d \<Rightarrow> d) @ data)\<rparr>)"

definition read_file :: "string \<Rightarrow> string act" where
  "read_file name w =
     (case w_files w name of None \<Rightarrow> (Inl (FileNotFoundError name), w) | Some d \<Rightarrow> (Inr d, w))"

definition remove_file :: "string \<Rightarrow> unit act" where
  "remove_file name w =
     (case w_files w name of
        None \<Rightarrow> (Inl (FileNotFoundError name), w)
      | Some d \<Rightarrow> (Inr (), w\<lparr>w_files := (w_files w)(name := None)\<rparr>))"

text \<open>\<open>shutil.move\<close> to a path that is not a directory.\<close>

definition move_file :: "string \<Rightarrow> string \<Rightarrow> unit act" where
  "move_file src dst w =
     (case w_files w src of
        None \<Rightarrow> (Inl (FileNotFoundError src), w)
      | Some d \<Rightarrow> (Inr (), w\<lparr>w_files := ((w_files w)(src := None))(dst \<mapsto> d)\<rparr>))"

definition put_files :: "(string \<times> string) list \<Rightarrow> unit act" where
  "put_files fs w = (Inr (), w\<lparr>w_files := (w_files w) ++ map_of fs\<rparr>)"

fun act_each :: "('a \<Rightarrow> unit act) \<Rightarrow> 'a list \<Rightarrow> unit act" where
  "act_each f [] = act_return ()"
| "act_each f (x # xs) = act_then (f x) (act_each f xs)"

lemma act_return_run [simp]: "act_return x w = (Inr x, w)"
  by (simp add: act_return_def)

lemma act_raise_run [simp]: "act_raise e w = (Inl e, w)"
  by (simp add: act_raise_def)

lemma act_lift_run [simp]: "act_lift r w = (r, w)"
  by (simp add: act_lift_def)

lemma say_run [simp]: "say s w = (Inr (), w\<lparr>w_out := w_out w @ [s]\<rparr>)"
  by (simp add: say_def)

lemma act_bind_run: "m w = (Inr x, w') \<Longrightarrow> act_bind m f w = f x w'"
  by (simp add: act_bind_def)

lemma act_bind_fail: "m w = (Inl e, w') \<Longrightarrow> act_bind m f w = (Inl e, w')"
  by (simp add: act_bind_def)

lemma act_then_run: "m w = (Inr x, w') \<Longrightarrow> act_then m n w = n w'"
  by (simp add: act_then_def act_bind_run)

lemma act_then_fail: "m w = (Inl e, w') \<Longrightarrow> act_then m n w = (Inl e, w')"
  by (simp add: act_then_def act_bind_fail)

lemma act_bind_lift [simp]: "act_bind (act_lift r) f w = (case r of Inl e \<Rightarrow> (Inl e, w) | Inr x \<Rightarrow> f x w)"
  by (simp add: act_bind_def split: sum.split)

lemma act_then_say [simp]: "act_then (say s) n w = n (w\<lparr>w_out := w_out w @ [s]\<rparr>)"
  by (simp add: act_then_run)

subsubsection \<open>What an action leaves behind\<close>

text \<open>
  \<open>leaves m w fs\<close>: the action returns from \<open>w\<close> with the files \<open>fs\<close> and nothing new in the error
  log; \<open>stops m w e fs\<close>: it raises \<open>e\<close> with the files \<open>fs\<close>. Both compose along the sequence.
\<close>

definition leaves :: "'a act \<Rightarrow> world \<Rightarrow> (string \<rightharpoonup> string) \<Rightarrow> bool" where
  "leaves m w fs \<longleftrightarrow> (\<exists>x w'. m w = (Inr x, w') \<and> w_files w' = fs \<and> w_log w' = w_log w)"

definition stops :: "'a act \<Rightarrow> world \<Rightarrow> py_error \<Rightarrow> (string \<rightharpoonup> string) \<Rightarrow> bool" where
  "stops m w e fs \<longleftrightarrow> (\<exists>w'. m w = (Inl e, w') \<and> w_files w' = fs \<and> w_log w' = w_log w)"

named_theorems act_rules "rules for sequences of actions"

lemma leaves_then [act_rules]:
  "leaves m w fs \<Longrightarrow> (\<And>w'. w_files w' = fs \<Longrightarrow> w_log w' = w_log w \<Longrightarrow> leaves n w' fs') \<Longrightarrow>
   leaves (act_then m n) w fs'"
  by (fastforce simp: leaves_def act_then_def act_bind_def)

lemma stops_then [act_rules]:
  "leaves m w fs \<Longrightarrow> (\<And>w'. w_files w' = fs \<Longrightarrow> w_log w' = w_log w \<Longrightarrow> stops n w' e fs') \<Longrightarrow>
   stops (act_then m n) w e fs'"
  by (fastforce simp: leaves_def stops_def act_then_def act_bind_def)

text \<open>An action that leaves files, as an equation for what follows it.\<close>

lemma leaves_step:
  assumes "leaves m w fs"
  obtains w' where "w_files w' = fs" and "w_log w' = w_log w" and "\<And>n. act_then m n w = n w'"
  using assms by (auto simp: leaves_def act_then_run)

lemma act_bind_ok [simp]: "act_bind (act_lift (Inr x)) f = f x"
  by (rule ext) (simp add: act_bind_def)

lemma leaves_say: "leaves (say s) w (w_files w)"
  by (simp add: leaves_def)

lemma leaves_move:
  "w_files w src = Some d \<Longrightarrow> leaves (move_file src dst) w (((w_files w)(src := None))(dst \<mapsto> d))"
  by (simp add: leaves_def move_file_def)

lemma stops_move: "w_files w src = None \<Longrightarrow> stops (move_file src dst) w (FileNotFoundError src) (w_files w)"
  by (simp add: stops_def move_file_def)

lemma leaves_remove: "w_files w f = Some d \<Longrightarrow> leaves (remove_file f) w ((w_files w)(f := None))"
  by (simp add: leaves_def remove_file_def)

lemma leaves_open: "f \<noteq> [] \<Longrightarrow> leaves (open_write f) w ((w_files w)(f \<mapsto> []))"
  by (simp add: leaves_def open_write_def)

lemma leaves_append: "w_files w f = Some d \<Longrightarrow> leaves (append_file f x) w ((w_files w)(f \<mapsto> d @ x))"
  by (simp add: leaves_def append_file_def)

lemma leaves_return: "leaves (act_return x) w (w_files w)"
  by (simp add: leaves_def)

subsection \<open>Assets\<close>

fun res_each :: "('a \<Rightarrow> 'b result) \<Rightarrow> 'a list \<Rightarrow> 'b list result" where
  "res_each f [] = Inr []"
| "res_each f (x # xs) = bind_res (f x) (\<lambda>y. bind_res (res_each f xs) (\<lambda>ys. Inr (y # ys)))"

definition get_assets :: "json \<Rightarrow> (json \<times> json) list result" where
  "get_assets release =
     bind_res (bind_res (jget release ''assets'') jiter) (res_each (\<lambda>a.
       bind_res (jget a ''name'') (\<lambda>n. bind_res (jget a ''browser_download_url'') (\<lambda>u. Inr (n, u)))))"

text \<open>The \<open>k\<close>-th value of the generator.\<close>

definition spinning_cursor :: "nat \<Rightarrow> char" where
  "spinning_cursor k = [CHR ''|'', CHR ''/'', CHR ''-'', CHR 0x5C] ! (k mod 4)"

text \<open>
  The loop that waits for processes and turns the spinner: for each poll, whether all of them
  are still running. The list ends where the user interrupts the script.
\<close>

fun wait_loop :: "string \<Rightarrow> nat \<Rightarrow> bool list \<Rightarrow> unit act" where
  "wait_loop text k [] w = (Inl KeyboardInterrupt, w)"
| "wait_loop text k (running # polls) w =
     (if running
      then wait_loop text (Suc k) polls (w\<lparr>w_out := w_out w @ [[CHR 0x0D], text @ [spinning_cursor k]]\<rparr>)
      else (Inr (), w))"

definition spin_output :: "string \<Rightarrow> nat \<Rightarrow> nat \<Rightarrow> string list" where
  "spin_output text k n = concat (map (\<lambda>k. [[CHR 0x0D], text @ [spinning_cursor k]]) [k..<k + n])"

lemma spin_output_Suc:
  "spin_output text k (Suc n) = [[CHR 0x0D], text @ [spinning_cursor k]] @ spin_output text (Suc k) n"
  by (simp add: spin_output_def upt_conv_Cons del: upt_Suc)

lemma wait_loop_ends:
  "wait_loop text k (replicate n True @ False # polls) w = (Inr (), w\<lparr>w_out := w_out w @ spin_output text k n\<rparr>)"
  by (induction n arbitrary: k w) (simp_all add: spin_output_Suc, simp add: spin_output_def)

lemma wait_loop_interrupted:
  "wait_loop text k (replicate n True) w = (Inl KeyboardInterrupt, w\<lparr>w_out := w_out w @ spin_output text k n\<rparr>)"
  by (induction n arbitrary: k w) (simp_all add: spin_output_Suc, simp add: spin_output_def)

lemma wait_split:
  assumes "False \<in> set polls"
  obtains n rest where "polls = replicate n True @ False # rest"
proof -
  from split_list_first [OF assms] obtain ys zs where "polls = ys @ False # zs" "False \<notin> set ys" by blast
  moreover from this have "ys = replicate (length ys) True" by (metis (full_types) replicate_eqI)
  ultimately show ?thesis using that by metis
qed

lemma wait_loop_quiet:
  assumes "False \<in> set polls"
  obtains out where "wait_loop text k polls w = (Inr (), w\<lparr>w_out := w_out w @ out\<rparr>)"
  using assms wait_loop_ends by (metis wait_split)

text \<open>A release as the GitHub interface documents it: a tag and assets with a name and an address.\<close>

definition asset_is :: "json \<Rightarrow> string \<times> string \<Rightarrow> bool" where
  "asset_is a nu \<longleftrightarrow> jget a ''name'' = Inr (JStr (fst nu)) \<and>
     jget a ''browser_download_url'' = Inr (JStr (snd nu))"

definition release_is :: "json \<Rightarrow> string \<Rightarrow> (string \<times> string) list \<Rightarrow> bool" where
  "release_is r tag nus \<longleftrightarrow>
     jget r ''tag_name'' = Inr (JStr tag) \<and>
     (case jget r ''assets'' of Inr (JArr as) \<Rightarrow> list_all2 asset_is as nus | _ \<Rightarrow> False)"

definition mk_release :: "string \<Rightarrow> (string \<times> string) list \<Rightarrow> json" where
  "mk_release tag nus =
     JObj [(''tag_name'', JStr tag), (''assets'', JArr (map (\<lambda>(n, u).
       JObj [(''name'', JStr n), (''browser_download_url'', JStr u)]) nus))]"

lemma mk_release_is: "release_is (mk_release tag nus) tag nus"
  by (simp add: release_is_def mk_release_def asset_is_def list_all2_conv_all_nth split_beta)

lemma release_assets:
  assumes "release_is r tag nus"
  obtains as where "bind_res (jget r ''assets'') jiter = Inr as" and "list_all2 asset_is as nus"
  using assms by (auto simp: release_is_def split: sum.splits json.splits)

lemma get_assets_release:
  assumes "release_is r tag nus"
  shows "get_assets r = Inr (map (\<lambda>(n, u). (JStr n, JStr u)) nus)"
proof -
  from assms obtain as where a: "bind_res (jget r ''assets'') jiter = Inr as" and l: "list_all2 asset_is as nus"
    by (rule release_assets)
  from l have "res_each (\<lambda>a. bind_res (jget a ''name'') (\<lambda>n. bind_res (jget a ''browser_download_url'')
      (\<lambda>u. Inr (n, u)))) as = Inr (map (\<lambda>(n, u). (JStr n, JStr u)) nus)"
    by (induction rule: list_all2_induct) (auto simp: asset_is_def)
  with a show ?thesis by (simp add: get_assets_def)
qed

subsection \<open>Searching a list of releases\<close>

text \<open>
  The interface of the search loops: \<open>search j is\<close> goes through the positions \<open>is\<close> of the JSON
  value \<open>j\<close> and returns the first one whose entry passes \<open>test\<close>; errors of indexing and of the
  test end it.
\<close>

locale release_search =
  fixes search :: "json \<Rightarrow> nat list \<Rightarrow> nat option result"
    and test :: "json \<Rightarrow> bool result"
  assumes search_Nil: "search j [] = Inr None"
    and search_Cons: "search j (i # is) =
      bind_res (bind_res (jindex j i) test) (\<lambda>b. if b then Inr (Some i) else search j is)"
begin

lemma search_positions:
  assumes "list_all2 (\<lambda>r b. test r = Inr b) rs bs" and "set is \<subseteq> {..<length rs}"
  shows "search (JArr rs) is = Inr (find (\<lambda>i. bs ! i) is)"
  using assms(2)
proof (induction "is")
  case Nil
  then show ?case by (simp add: search_Nil)
next
  case (Cons i "is")
  then have "test (rs ! i) = Inr (bs ! i)" using assms(1) by (simp add: list_all2_conv_all_nth)
  with Cons show ?case by (simp add: search_Cons py_index_def)
qed

text \<open>The two laws determine the search.\<close>

lemma search_determined:
  assumes "release_search other test"
  shows "search j is = other j is"
proof (induction "is")
  case Nil
  then show ?case by (simp add: search_Nil release_search.search_Nil [OF assms])
next
  case (Cons i "is")
  then show ?case by (simp add: search_Cons release_search.search_Cons [OF assms] cong: if_cong)
qed

end

end
