(* ===== verification/Artifacts.thy ===== *)
theory Artifacts
  imports Release_Data
begin

text \<open>
  The script \<open>resources/artifacts.py\<close>: it finds a release of the repository, downloads the
  kernel, the client and the parts of the disk image, unpacks the image and moves the three
  to the output directory. Parameters (record \<open>network\<close>): the answers of the web interface
  and of the file server, the JSON reader and the two processes that unpack the image. For
  these processes the record has what each poll answers, up to an interrupt by the user, and
  which files are there at the moment the script stops waiting.
\<close>

subsection \<open>Parameters and arguments\<close>

record server_body =
  content_length :: "int option"
  body_chunks :: "string list"
  body_error :: "py_error option"

record untar_run =
  untar_polls :: "(int option \<times> int option) list"
  untar_files :: "(string \<times> string) list"

record network =
  api_get :: "string \<Rightarrow> (int \<times> json result) result"
  fetch :: "string \<Rightarrow> server_body result"
  untar :: "string \<Rightarrow> untar_run"
  json_load :: "string \<Rightarrow> json result"

record art_args =
  art_file :: string
  art_download :: bool
  art_version :: string
  art_output :: string
  os_version :: string
  art_arch :: string

text \<open>The defaults, for the value of the variable \<open>RESOURCES\<close> if it is set.\<close>

definition resources_dir :: "string option \<Rightarrow> string" where
  "resources_dir env = (case env of None \<Rightarrow> ''./'' | Some d \<Rightarrow> d)"

definition art_defaults :: "string option \<Rightarrow> art_args" where
  "art_defaults env =
     \<lparr>art_file = resources_dir env @ ''/release.json'', art_download = False, art_version = ''latest'',
      art_output = resources_dir env @ ''/'', os_version = ''focal'', art_arch = ''amd64''\<rparr>"

subsection \<open>Downloading\<close>

definition write_chunks :: "string \<Rightarrow> string list \<Rightarrow> unit act" where
  "write_chunks f chunks = act_each (append_file f) chunks"

definition download :: "network \<Rightarrow> string \<Rightarrow> string \<Rightarrow> unit act" where
  "download net f url =
     act_bind (act_lift (fetch net url)) (\<lambda>response.
       let total_size_in_bytes = (case content_length response of None \<Rightarrow> 0 | Some n \<Rightarrow> n);
           n = sum_list (map (\<lambda>data. int (length data)) (body_chunks response))
       in act_then (write_chunks f (body_chunks response))
          (case body_error response of
             Some e \<Rightarrow> act_raise e
           | None \<Rightarrow>
               if total_size_in_bytes \<noteq> 0 \<and> n \<noteq> total_size_in_bytes
               then log_line ''ERROR, something went wrong'' else act_return ()))"

text \<open>Whether both processes still run, for each poll: \<open>ps.poll() is None and ps2.poll() is None\<close>.\<close>

definition untar_running :: "untar_run \<Rightarrow> bool list" where
  "untar_running run = map (\<lambda>(ps, ps2). ps = None \<and> ps2 = None) (untar_polls run)"

definition decompressParallel :: "network \<Rightarrow> string \<Rightarrow> unit act" where
  "decompressParallel net tar_file =
     act_then (say (''Decompress file: '' @ tar_file))
       (act_bind (\<lambda>w. (Inr (untar net (case w_files w tar_file of None \<Rightarrow> [] | Some d \<Rightarrow> d)), w)) (\<lambda>run.
         act_then (wait_loop ''Decompressing... '' 0 (untar_running run)) (put_files (untar_files run))))"

definition url_name :: "string \<Rightarrow> string" where
  "url_name url = last (py_split (CHR ''/'') url)"

definition download_part :: "network \<Rightarrow> nat \<Rightarrow> nat \<times> string \<Rightarrow> unit act" where
  "download_part net parts iu =
     act_then (say (''Download: '' @ show_int (int (fst iu + 1)) @ ''/'' @ show_int (int parts) @ '' '' @ url_name (snd iu)))
       (download net ''disk.tmp'' (snd iu))"

definition downloadDiskImage :: "network \<Rightarrow> string list \<Rightarrow> unit act" where
  "downloadDiskImage net asset_urls =
     act_then (open_write ''disk.tmp'')
      (act_then (act_each (download_part net (length asset_urls)) (enumerate 0 asset_urls))
        (act_then (decompressParallel net ''disk.tmp'') (remove_file ''disk.tmp'')))"

definition downloadAsset :: "network \<Rightarrow> string \<Rightarrow> unit act" where
  "downloadAsset net asset_url =
     act_then (say (''Download: '' @ url_name asset_url))
      (act_then (open_write (url_name asset_url)) (download net (url_name asset_url) asset_url))"

subsection \<open>Releases\<close>

abbreviation apostrophe :: string where
  "apostrophe \<equiv> [CHR 0x27]"

definition releases_api :: string where
  "releases_api = ''https://api.github.com/repos/vhive-serverless/vSwarm-u/releases''"

definition get_latest_release :: "network \<Rightarrow> json act" where
  "get_latest_release net =
     act_then (say (''Releases API: '' @ releases_api @ ''/latest''))
       (act_bind (act_lift (api_get net (releases_api @ ''/latest''))) (\<lambda>(status, answer).
         act_bind (act_lift answer) (\<lambda>release.
         act_bind (act_lift (jlen release)) (\<lambda>n. act_return release))))"

text \<open>The search loop: the number of the first release with the tag.\<close>

fun find_release :: "json \<Rightarrow> string \<Rightarrow> nat list \<Rightarrow> nat option result" where
  "find_release releases tag [] = Inr None"
| "find_release releases tag (i # is) =
     bind_res (bind_res (jindex releases i) (\<lambda>r. jget r ''tag_name'')) (\<lambda>t.
       if t = JStr tag then Inr (Some i) else find_release releases tag is)"

definition get_release :: "network \<Rightarrow> string \<Rightarrow> json act" where
  "get_release net tag_name =
     (if tag_name = ''latest'' then get_latest_release net
      else act_then (say (''Releases API: '' @ releases_api))
       (act_bind (act_lift (api_get net releases_api)) (\<lambda>(status, answer).
        act_then (say (''debug: '' @ show_int status))
         (act_bind (act_lift answer) (\<lambda>releases.
          act_bind (act_lift (jlen releases)) (\<lambda>n.
          act_bind (act_lift (find_release releases tag_name [0..<n])) (\<lambda>found.
            case found of
              None \<Rightarrow> act_then (say (''Can'' @ apostrophe @ ''t found the target tagname '' @ apostrophe @ tag_name @ apostrophe)) (act_raise (SystemExit 1))
            | Some i \<Rightarrow>
                act_then (say (''Found the target tagname '' @ apostrophe @ tag_name @ apostrophe @ '', '' @ show_int (int i)))
                  (act_lift (jindex releases i)))))))))"

definition get_version :: "json \<Rightarrow> string result" where
  "get_version release = jfield release ''tag_name''"

fun first_url :: "string \<Rightarrow> json list \<Rightarrow> string option result" where
  "first_url name [] = Inr None"
| "first_url name (a # as) =
     bind_res (jfield a ''name'') (\<lambda>n.
       if py_in name n then bind_res (jfield a ''browser_download_url'') (\<lambda>u. Inr (Some u))
       else first_url name as)"

definition get_url :: "json \<Rightarrow> string \<Rightarrow> string option result" where
  "get_url release name = bind_res (bind_res (jget release ''assets'') jiter) (first_url name)"

fun all_urls :: "string \<Rightarrow> json list \<Rightarrow> string list result" where
  "all_urls name [] = Inr []"
| "all_urls name (a # as) =
     bind_res (jfield a ''name'') (\<lambda>n.
       if py_in ''sums'' n then all_urls name as
       else if py_in name n
       then bind_res (jfield a ''browser_download_url'') (\<lambda>u.
              bind_res (all_urls name as) (\<lambda>us. Inr (u # us)))
       else all_urls name as)"

definition get_urls :: "json \<Rightarrow> string \<Rightarrow> string list result" where
  "get_urls release name = bind_res (bind_res (jget release ''assets'') jiter) (all_urls name)"

subsection \<open>The main operation\<close>

definition option_text :: "string option \<Rightarrow> string" where
  "option_text u = (case u of None \<Rightarrow> ''None'' | Some s \<Rightarrow> s)"

text \<open>The test \<open>len(disk_urls) == None\<close> compares a number with \<open>None\<close>.\<close>

definition int_is_none :: "nat \<Rightarrow> bool" where
  "int_is_none n = False"

definition downloadMoveAssets :: "network \<Rightarrow> art_args \<Rightarrow> string \<Rightarrow> unit act" where
  "downloadMoveAssets net a version =
     act_bind (if version = ''latest'' then get_latest_release net else get_release net version) (\<lambda>release.
     act_bind (act_lift (get_version release)) (\<lambda>v.
     act_then (say (''Download Artifacts from version: '' @ v)) (
     let name = ''vmlinux-'' @ os_version a @ ''-'' @ art_arch a in
     act_bind (act_lift (get_url release name)) (\<lambda>kernel_url.
     act_then (say (option_text kernel_url)) (
     case kernel_url of None \<Rightarrow> act_raise (PyException (''kernel not found!: '' @ name)) | Some kernel_url \<Rightarrow>
     act_then (downloadAsset net kernel_url) (
     let name = ''test-client-'' @ art_arch a in
     act_bind (act_lift (get_url release name)) (\<lambda>client_url.
     case client_url of None \<Rightarrow> act_raise (PyException (''client not found!: '' @ name)) | Some client_url \<Rightarrow>
     act_then (downloadAsset net client_url) (
     let disk_name = ''disk-image-'' @ os_version a @ ''-'' @ art_arch a @ ''.qcow2'' in
     act_bind (act_lift (get_urls release disk_name)) (\<lambda>disk_urls.
     if int_is_none (length disk_urls) then act_raise (PyException (''disk-image not found!: '' @ name)) else
     act_then (say ''Download Disk image.. This could take a few minutes'') (
     act_then (downloadDiskImage net disk_urls) (
     act_then (say (''Copy artifacts to: '' @ art_output a)) (
     act_then (move_file (url_name kernel_url) (art_output a @ ''kernel'')) (
     act_then (move_file (url_name client_url) (art_output a @ ''client'')) (
     move_file ''temp/disk-image.qcow2'' (art_output a @ ''disk-image.qcow2'')))))))))))))))"

definition artifacts_main :: "network \<Rightarrow> art_args \<Rightarrow> unit act" where
  "artifacts_main net a = downloadMoveAssets net a (art_version a)"

subsection \<open>Operations of the script that its main part does not call\<close>

definition load_release_file :: "network \<Rightarrow> art_args \<Rightarrow> json act" where
  "load_release_file net a = act_bind (read_file (art_file a)) (\<lambda>text. act_lift (json_load net text))"

definition download_found :: "network \<Rightarrow> string option \<Rightarrow> unit act" where
  "download_found net url =
     (case url of None \<Rightarrow> act_raise (AttributeError ''split'') | Some u \<Rightarrow> downloadAsset net u)"

definition downloadAssets :: "network \<Rightarrow> art_args \<Rightarrow> unit act" where
  "downloadAssets net a =
     act_bind (load_release_file net a) (\<lambda>artifacts.
     act_bind (get_latest_release net) (\<lambda>release.
     act_then (say ''Download Artifacts'') (
     act_bind (act_lift (get_url release ''vmlinux'')) (\<lambda>url.
     act_then (download_found net url) (
     act_bind (act_lift (get_url release ''client'')) (\<lambda>url.
     act_then (download_found net url) (
     act_bind (act_lift (get_urls release ''disk-image'')) (\<lambda>urls.
     act_then (say ''Download Disk image.. This could take a few minutes'') (
     downloadDiskImage net urls)))))))))"

definition moveAssets :: "network \<Rightarrow> art_args \<Rightarrow> unit act" where
  "moveAssets net a =
     act_bind (load_release_file net a) (\<lambda>artifacts.
     act_then (say (''Copy artifacts to: '' @ art_output a)) (
     act_bind (act_lift (jfield artifacts ''kernel'')) (\<lambda>k.
     act_then (move_file (url_name k) (art_output a @ ''kernel'')) (
     act_bind (act_lift (jfield artifacts ''client'')) (\<lambda>c.
     act_then (move_file (url_name c) (art_output a @ ''client'')) (
     act_bind (act_lift (bind_res (bind_res (jget artifacts ''disk-image'') (\<lambda>d. jindex d 0)) jstr)) (\<lambda>d.
     move_file (hd (py_split (CHR ''.'') (url_name d))) (art_output a @ ''disk-image.qcow2''))))))))"

definition getVersion :: "network \<Rightarrow> art_args \<Rightarrow> unit act" where
  "getVersion net a =
     act_bind (load_release_file net a) (\<lambda>artifacts.
       act_bind (act_lift (jfield artifacts ''tag_name'')) say)"

subsection \<open>Lookups in a release\<close>

lemma release_urls:
  assumes "release_is r tag nus"
  shows "get_url r name = Inr (map_option snd (find (\<lambda>nu. py_in name (fst nu)) nus))"
    and "get_urls r name = Inr (map snd (filter (\<lambda>nu. \<not> py_in ''sums'' (fst nu) \<and> py_in name (fst nu)) nus))"
    and "get_version r = Inr tag"
proof -
  from assms obtain as where a: "bind_res (jget r ''assets'') jiter = Inr as" and l: "list_all2 asset_is as nus"
    by (rule release_assets)
  from l have "first_url name as = Inr (map_option snd (find (\<lambda>nu. py_in name (fst nu)) nus))"
    by (induction rule: list_all2_induct) (auto simp: asset_is_def jfield_def)
  with a show "get_url r name = Inr (map_option snd (find (\<lambda>nu. py_in name (fst nu)) nus))"
    by (simp add: get_url_def)
  from l have "all_urls name as =
      Inr (map snd (filter (\<lambda>nu. \<not> py_in ''sums'' (fst nu) \<and> py_in name (fst nu)) nus))"
    by (induction rule: list_all2_induct) (auto simp: asset_is_def jfield_def)
  with a show "get_urls r name =
      Inr (map snd (filter (\<lambda>nu. \<not> py_in ''sums'' (fst nu) \<and> py_in name (fst nu)) nus))"
    by (simp add: get_urls_def)
  show "get_version r = Inr tag" using assms by (simp add: release_is_def get_version_def jfield_def)
qed

definition tag_test :: "string \<Rightarrow> json \<Rightarrow> bool result" where
  "tag_test tag r = bind_res (jget r ''tag_name'') (\<lambda>t. Inr (t = JStr tag))"

interpretation tag_search: release_search "\<lambda>j is. find_release j tag is" "tag_test tag" for tag
proof
  show "find_release j tag (i # is) = bind_res (bind_res (jindex j i) (tag_test tag))
      (\<lambda>b. if b then Inr (Some i) else find_release j tag is)" for j i "is"
    by (cases "jindex j i") (auto simp: tag_test_def bind_res_def split: sum.split)
qed simp

lemma find_release_tags:
  assumes "list_all2 (\<lambda>r t. jget r ''tag_name'' = Inr (JStr t)) rs tags" and "set is \<subseteq> {..<length rs}"
  shows "find_release (JArr rs) tag is = Inr (find (\<lambda>i. tags ! i = tag) is)"
proof -
  have l: "length rs = length tags" using assms(1) by (rule list_all2_lengthD)
  have "list_all2 (\<lambda>r b. tag_test tag r = Inr b) rs (map (\<lambda>t. t = tag) tags)"
    using assms(1) by (auto simp: list_all2_conv_all_nth tag_test_def)
  from tag_search.search_positions [OF this assms(2)]
  have "find_release (JArr rs) tag is = Inr (find (\<lambda>i. map (\<lambda>t. t = tag) tags ! i) is)" .
  also have "find (\<lambda>i. map (\<lambda>t. t = tag) tags ! i) is = find (\<lambda>i. tags ! i = tag) is"
    by (rule find_cong) (use assms(2) l in auto)
  finally show ?thesis .
qed

subsection \<open>Downloads that arrive\<close>

text \<open>The server delivers the data completely, and the announced length, if any, is right.\<close>

definition served :: "network \<Rightarrow> string \<Rightarrow> string \<Rightarrow> bool" where
  "served net url data \<longleftrightarrow>
     (case fetch net url of
        Inl e \<Rightarrow> False
      | Inr r \<Rightarrow> body_error r = None \<and> concat (body_chunks r) = data \<and>
          content_length r \<in> {None, Some 0, Some (int (length data))})"

lemma leaves_chunks:
  "w_files w f = Some d \<Longrightarrow> leaves (write_chunks f cs) w ((w_files w)(f \<mapsto> d @ concat cs))"
  unfolding write_chunks_def
proof (induction cs arbitrary: w d)
  case Nil
  then show ?case by (simp add: leaves_def fun_upd_idem)
next
  case (Cons c cs)
  have "leaves (act_each (append_file f) cs) w' ((w_files w)(f \<mapsto> d @ concat (c # cs)))"
    if "w_files w' = (w_files w)(f \<mapsto> d @ c)" for w'
    using Cons.IH [of w' "d @ c"] unfolding that by (simp add: fun_upd_def cong: if_cong)
  with leaves_append [OF Cons.prems] show ?case unfolding act_each.simps by (rule leaves_then)
qed

lemma sum_chunks: "sum_list (map (\<lambda>c. int (length c)) cs) = int (length (concat cs))"
  by (induction cs) auto

lemma leaves_download:
  assumes "served net url data" and "w_files w f = Some d"
  shows "leaves (download net f url) w ((w_files w)(f \<mapsto> d @ data))"
proof -
  from assms(1) obtain r where r: "fetch net url = Inr r" "body_error r = None" "concat (body_chunks r) = data"
    "content_length r \<in> {None, Some 0, Some (int (length data))}"
    by (auto simp: served_def split: sum.splits)
  have ok: "\<not> ((case content_length r of None \<Rightarrow> 0 | Some n \<Rightarrow> n) \<noteq> 0 \<and>
      int (length data) \<noteq> (case content_length r of None \<Rightarrow> 0 | Some n \<Rightarrow> n))"
    using r(4) by auto
  have c: "leaves (write_chunks f (body_chunks r)) w ((w_files w)(f \<mapsto> d @ data))"
    using leaves_chunks [OF assms(2), of "body_chunks r"] by (simp add: r(3))
  have "leaves (act_return ()) w' ((w_files w)(f \<mapsto> d @ data))" if "w_files w' = (w_files w)(f \<mapsto> d @ data)" for w'
    using leaves_return [of "()" w'] that by simp
  with c show ?thesis
    unfolding download_def r(1) act_bind_ok Let_def r(2) sum_chunks r(3) option.case if_not_P [OF ok]
    by (rule leaves_then)
qed

lemma leaves_downloadAsset:
  assumes "served net url data" and "url_name url \<noteq> []"
  shows "leaves (downloadAsset net url) w ((w_files w)(url_name url \<mapsto> data))"
proof -
  have "leaves (download net (url_name url) url) w' ((w_files w)(url_name url \<mapsto> data))"
    if "w_files w' = (w_files w)(url_name url \<mapsto> [])" for w'
    using leaves_download [OF assms(1), of w' "url_name url" "[]"] that by simp
  then show ?thesis unfolding downloadAsset_def
    by (intro leaves_then [OF leaves_say] leaves_then [OF leaves_open [OF assms(2)]]) simp
qed

lemma leaves_parts:
  assumes "list_all2 (served net) urls datas" and "w_files w ''disk.tmp'' = Some d"
  shows "leaves (act_each (download_part net m) (enumerate k urls)) w
    ((w_files w)(''disk.tmp'' \<mapsto> d @ concat datas))"
  using assms
proof (induction urls datas arbitrary: k w d rule: list_all2_induct)
  case Nil
  then show ?case by (simp add: leaves_def fun_upd_idem)
next
  case (Cons u us x xs)
  have "leaves (download_part net m (k, u)) w ((w_files w)(''disk.tmp'' \<mapsto> d @ x))"
    unfolding download_part_def fst_conv snd_conv
    by (rule leaves_then [OF leaves_say]) (metis leaves_download [OF Cons(1)] Cons(4))
  moreover have "leaves (act_each (download_part net m) (enumerate (Suc k) us)) w'
      ((w_files w)(''disk.tmp'' \<mapsto> d @ concat (x # xs)))"
    if "w_files w' = (w_files w)(''disk.tmp'' \<mapsto> d @ x)" for w'
    using Cons(3) [of w' "d @ x" "Suc k"] unfolding that by (simp add: fun_upd_def cong: if_cong)
  ultimately show ?case unfolding enumerate_simps act_each.simps by (rule leaves_then)
qed

definition untar_ends :: "network \<Rightarrow> string \<Rightarrow> bool" where
  "untar_ends net d \<longleftrightarrow> False \<in> set (untar_running (untar net d))"

lemma leaves_wait:
  assumes "False \<in> set polls"
  shows "leaves (wait_loop msg k polls) w (w_files w)"
proof -
  obtain out where "wait_loop msg k polls w = (Inr (), w\<lparr>w_out := w_out w @ out\<rparr>)"
    using assms by (rule wait_loop_quiet)
  then show ?thesis by (simp add: leaves_def)
qed

lemma leaves_put: "leaves (put_files fs) w (w_files w ++ map_of fs)"
  by (simp add: leaves_def put_files_def)

lemma leaves_decompress:
  assumes "w_files w f = Some d" and "untar_ends net d"
  shows "leaves (decompressParallel net f) w (w_files w ++ map_of (untar_files (untar net d)))"
proof -
  let ?run = "untar net d"
  have "leaves (act_then (wait_loop ''Decompressing... '' 0 (untar_running ?run)) (put_files (untar_files ?run))) v
      (w_files v ++ map_of (untar_files ?run))" for v
    using assms(2) leaves_put
    by (intro leaves_then [OF leaves_wait]) (simp add: untar_ends_def, metis)
  from this [of "w\<lparr>w_out := w_out w @ [''Decompress file: '' @ f]\<rparr>"] show ?thesis
    using assms(1) by (simp add: decompressParallel_def leaves_def act_bind_def)
qed

lemma leaves_downloadDiskImage:
  assumes "list_all2 (served net) urls datas" and "untar_ends net (concat datas)"
  shows "leaves (downloadDiskImage net urls) w
    ((w_files w ++ map_of (untar_files (untar net (concat datas))))(''disk.tmp'' := None))"
proof -
  let ?u = "untar_files (untar net (concat datas))"
  let ?fs = "(w_files w)(''disk.tmp'' \<mapsto> concat datas)"
  have e: "(?fs ++ map_of ?u)(''disk.tmp'' := None) = (w_files w ++ map_of ?u)(''disk.tmp'' := None)"
    by (rule ext) (simp add: map_add_def split: option.split)
  have parts: "leaves (act_each (download_part net (length urls)) (enumerate 0 urls)) w' ?fs"
    if "w_files w' = (w_files w)(''disk.tmp'' \<mapsto> [])" for w'
    using leaves_parts [OF assms(1), of w' "[]" "length urls" 0] that by simp
  have unpack: "leaves (decompressParallel net ''disk.tmp'') w' (?fs ++ map_of ?u)" if "w_files w' = ?fs" for w'
    using leaves_decompress [OF _ assms(2), of w' "''disk.tmp''"] that by simp
  have rm: "leaves (remove_file ''disk.tmp'') w' ((w_files w ++ map_of ?u)(''disk.tmp'' := None))"
    if "w_files w' = ?fs ++ map_of ?u" for w'
  proof -
    have "w_files w' ''disk.tmp'' \<noteq> None" by (simp add: that map_add_def split: option.split)
    then obtain x where "w_files w' ''disk.tmp'' = Some x" by blast
    from leaves_remove [OF this] show ?thesis by (simp only: that e)
  qed
  have "leaves (open_write ''disk.tmp'') w ((w_files w)(''disk.tmp'' \<mapsto> []))" by (rule leaves_open) simp
  then show ?thesis unfolding downloadDiskImage_def
    by (rule leaves_then) (rule leaves_then [OF parts], assumption,
      rule leaves_then [OF unpack], assumption, erule rm)
qed

subsection \<open>The main run\<close>

lemma py_split_pieces: "p \<in> set (py_split c s) \<Longrightarrow> c \<notin> set p"
proof (induction s arbitrary: p)
  case (Cons d s)
  then show ?case by (cases "py_split c s") (auto split: if_splits)
qed simp

lemma url_name_no_slash: "CHR ''/'' \<notin> set (url_name url)"
  unfolding url_name_def by (rule py_split_pieces [OF last_in_set]) simp

lemma release_object: "release_is r tag nus \<Longrightarrow> \<exists>n. jlen r = Inr n"
  by (cases r) (auto simp: release_is_def)

text \<open>
  A release the script can work with: the answer to the request for the latest release, its
  kernel and client, both served, and the parts of its disk image, all served.
\<close>

definition kernel_asset :: "art_args \<Rightarrow> string" where
  "kernel_asset a = ''vmlinux-'' @ os_version a @ ''-'' @ art_arch a"

definition client_asset :: "art_args \<Rightarrow> string" where
  "client_asset a = ''test-client-'' @ art_arch a"

definition disk_asset :: "art_args \<Rightarrow> string" where
  "disk_asset a = ''disk-image-'' @ os_version a @ ''-'' @ art_arch a @ ''.qcow2''"

definition latest_is :: "network \<Rightarrow> (string \<times> string) list \<Rightarrow> bool" where
  "latest_is net nus \<longleftrightarrow>
     (case api_get net (releases_api @ ''/latest'') of
        Inr (st, Inr r) \<Rightarrow> (case get_version r of Inr tag \<Rightarrow> release_is r tag nus | Inl e \<Rightarrow> False)
      | _ \<Rightarrow> False)"

definition disk_urls_of :: "art_args \<Rightarrow> (string \<times> string) list \<Rightarrow> string list" where
  "disk_urls_of a nus =
     map snd (filter (\<lambda>nu. \<not> py_in ''sums'' (fst nu) \<and> py_in (disk_asset a) (fst nu)) nus)"

lemma latest_step:
  assumes "latest_is net nus"
  obtains r tag w' where "release_is r tag nus" and "w_files w' = w_files w" and "w_log w' = w_log w"
    and "get_latest_release net w = (Inr r, w')"
proof -
  from assms obtain st ans where q: "api_get net (releases_api @ ''/latest'') = Inr (st, ans)"
    by (auto simp: latest_is_def split: sum.splits)
  with assms obtain r where s: "ans = Inr r" by (cases ans) (auto simp: latest_is_def)
  with assms q obtain tag where "release_is r tag nus" by (cases "get_version r") (auto simp: latest_is_def)
  with q s have r: "api_get net (releases_api @ ''/latest'') = Inr (st, Inr r)" "release_is r tag nus" by simp_all
  with release_object [OF r(2)] that show ?thesis
    by (auto simp: get_latest_release_def act_bind_run)
qed

text \<open>Up to the moves: the files after all downloads.\<close>

lemma downloads_done:
  assumes "latest_is net nus"
    and "find (\<lambda>nu. py_in (kernel_asset a) (fst nu)) nus = Some (kn, ku)"
    and "find (\<lambda>nu. py_in (client_asset a) (fst nu)) nus = Some (cn, cu)"
    and "served net ku kdata" and "served net cu cdata" and "url_name ku \<noteq> []" and "url_name cu \<noteq> []"
    and "list_all2 (served net) (disk_urls_of a nus) datas" and "untar_ends net (concat datas)"
  obtains w' where "w_log w' = w_log w"
    and "w_files w' = ((w_files w)(url_name ku \<mapsto> kdata, url_name cu \<mapsto> cdata) ++
          map_of (untar_files (untar net (concat datas))))(''disk.tmp'' := None)"
    and "downloadMoveAssets net a ''latest'' w =
      act_then (move_file (url_name ku) (art_output a @ ''kernel''))
       (act_then (move_file (url_name cu) (art_output a @ ''client''))
         (move_file ''temp/disk-image.qcow2'' (art_output a @ ''disk-image.qcow2''))) w'"
proof -
  obtain r tag w1 where r: "release_is r tag nus" "w_files w1 = w_files w" "w_log w1 = w_log w"
    "get_latest_release net w = (Inr r, w1)"
    using latest_step [OF assms(1)] by blast
  note u = release_urls [OF r(1)]
  let ?moves = "act_then (move_file (url_name ku) (art_output a @ ''kernel''))
       (act_then (move_file (url_name cu) (art_output a @ ''client''))
         (move_file ''temp/disk-image.qcow2'' (art_output a @ ''disk-image.qcow2'')))"
  let ?dl = "act_then (say ''Download Disk image.. This could take a few minutes'') (
     act_then (downloadDiskImage net (disk_urls_of a nus)) (act_then (say (''Copy artifacts to: '' @ art_output a)) ?moves))"
  have run: "downloadMoveAssets net a ''latest'' w =
    act_then (say (''Download Artifacts from version: '' @ tag)) (act_then (say ku)
      (act_then (downloadAsset net ku) (act_then (downloadAsset net cu) ?dl))) w1"
    using assms(2,3) unfolding disk_urls_of_def disk_asset_def kernel_asset_def client_asset_def
    by (simp add: downloadMoveAssets_def act_bind_run [of "get_latest_release net" w r w1, OF r(4)] u int_is_none_def option_text_def Let_def
        del: act_then_say act_bind_lift)
  define w2 where "w2 = w1\<lparr>w_out := w_out w1 @ [''Download Artifacts from version: '' @ tag, ku]\<rparr>"
  have w2: "w_files w2 = w_files w" "w_log w2 = w_log w" "downloadMoveAssets net a ''latest'' w =
    act_then (downloadAsset net ku) (act_then (downloadAsset net cu) ?dl) w2"
    unfolding run w2_def by (simp_all add: r(2,3))
  obtain w3 where w3: "w_files w3 = (w_files w)(url_name ku \<mapsto> kdata)" "w_log w3 = w_log w"
    "downloadMoveAssets net a ''latest'' w = act_then (downloadAsset net cu) ?dl w3"
  proof (rule leaves_step [OF leaves_downloadAsset [OF assms(4,6), of w2]])
    fix w' assume "w_files w' = (w_files w2)(url_name ku \<mapsto> kdata)" "w_log w' = w_log w2"
      and st: "\<And>n :: unit act. act_then (downloadAsset net ku) n w2 = n w'"
    then show thesis by (intro that [of w']) (simp_all only: w2 st)
  qed
  obtain w4 where w4: "w_files w4 = (w_files w)(url_name ku \<mapsto> kdata, url_name cu \<mapsto> cdata)" "w_log w4 = w_log w"
    "downloadMoveAssets net a ''latest'' w = ?dl w4"
  proof (rule leaves_step [OF leaves_downloadAsset [OF assms(5,7), of w3]])
    fix w' assume "w_files w' = (w_files w3)(url_name cu \<mapsto> cdata)" "w_log w' = w_log w3"
      and st: "\<And>n :: unit act. act_then (downloadAsset net cu) n w3 = n w'"
    then show thesis by (intro that [of w']) (simp_all only: w3 st)
  qed
  let ?w4 = "w4\<lparr>w_out := w_out w4 @ [''Download Disk image.. This could take a few minutes'']\<rparr>"
  have f4: "w_files ?w4 = (w_files w)(url_name ku \<mapsto> kdata, url_name cu \<mapsto> cdata)" "w_log ?w4 = w_log w"
    by (simp_all add: w4(1,2))
  obtain w5 where w5: "w_files w5 = ((w_files w)(url_name ku \<mapsto> kdata, url_name cu \<mapsto> cdata) ++
          map_of (untar_files (untar net (concat datas))))(''disk.tmp'' := None)" "w_log w5 = w_log w"
    "downloadMoveAssets net a ''latest'' w = act_then (say (''Copy artifacts to: '' @ art_output a)) ?moves w5"
  proof (rule leaves_step [OF leaves_downloadDiskImage [OF assms(8,9), of ?w4]])
    fix w' assume "w_files w' = (w_files ?w4 ++ map_of (untar_files (untar net (concat datas))))(''disk.tmp'' := None)"
      "w_log w' = w_log ?w4"
      and st: "\<And>n :: unit act. act_then (downloadDiskImage net (disk_urls_of a nus)) n ?w4 = n w'"
    then show thesis by (intro that [of w']) (simp_all only: f4 w4(3) act_then_say st)
  qed
  then show ?thesis
    by (intro that [of "w5\<lparr>w_out := w_out w5 @ [''Copy artifacts to: '' @ art_output a]\<rparr>"]) simp_all
qed

text \<open>The two processes come to an end, with these files in place.\<close>

definition unpacks :: "network \<Rightarrow> string \<Rightarrow> (string \<times> string) list \<Rightarrow> bool" where
  "unpacks net d fs \<longleftrightarrow> untar_ends net d \<and> untar_files (untar net d) = fs"

lemma unpacks_parts: "unpacks net d fs \<Longrightarrow> untar_ends net d" "unpacks net d fs \<Longrightarrow> untar_files (untar net d) = fs"
  by (simp_all add: unpacks_def)

text \<open>The three moves at the end.\<close>

lemma leaves_moves:
  assumes "distinct [k, c, d, ok, oc, od]"
    and "w_files w k = Some x" and "w_files w c = Some y" and "w_files w d = Some z"
  shows "leaves (act_then (move_file k ok) (act_then (move_file c oc) (move_file d od))) w
    ((w_files w)(k := None, ok \<mapsto> x, c := None, oc \<mapsto> y, d := None, od \<mapsto> z))"
  using assms by (auto simp: leaves_def act_then_def act_bind_def move_file_def)

lemma stops_moves:
  assumes "distinct [k, c, d, ok, oc]"
    and "w_files w k = Some x" and "w_files w c = Some y" and "w_files w d = None"
  shows "stops (act_then (move_file k ok) (act_then (move_file c oc) (move_file d od))) w
    (FileNotFoundError d) ((w_files w)(k := None, ok \<mapsto> x, c := None, oc \<mapsto> y))"
  using assms by (auto simp: stops_def act_then_def act_bind_def move_file_def)

lemma output_names:
  assumes "CHR ''/'' \<in> set output"
  shows "output @ s \<noteq> url_name u" "url_name u \<noteq> output @ s" "''temp/disk-image.qcow2'' \<noteq> url_name u"
    "url_name u \<noteq> ''temp/disk-image.qcow2''" "output @ s \<noteq> ''disk.tmp''" "''disk.tmp'' \<noteq> output @ s"
    "''temp/disk-image.qcow2'' \<noteq> output @ ''kernel''" "''temp/disk-image.qcow2'' \<noteq> output @ ''client''"
proof -
  show "output @ s \<noteq> url_name u" using url_name_no_slash [of u] assms by (metis Un_iff set_append)
  then show "url_name u \<noteq> output @ s" by simp
  have "CHR ''/'' \<in> set ''temp/disk-image.qcow2''" by simp
  then show "''temp/disk-image.qcow2'' \<noteq> url_name u" using url_name_no_slash [of u] by metis
  then show "url_name u \<noteq> ''temp/disk-image.qcow2''" by metis
  have "CHR ''/'' \<notin> set ''disk.tmp''" by simp
  then show "output @ s \<noteq> ''disk.tmp''" using assms by (metis Un_iff set_append)
  then show "''disk.tmp'' \<noteq> output @ s" by metis
  have "last ''temp/disk-image.qcow2'' \<noteq> last (output @ ''kernel'')"
    "last ''temp/disk-image.qcow2'' \<noteq> last (output @ ''client'')" by simp_all
  then show "''temp/disk-image.qcow2'' \<noteq> output @ ''kernel''" "''temp/disk-image.qcow2'' \<noteq> output @ ''client''"
    by metis+
qed

text \<open>The two errors the script raises itself.\<close>

lemma missing_asset:
  assumes "latest_is net nus" and "art_version a = ''latest''"
  shows "(find (\<lambda>nu. py_in (kernel_asset a) (fst nu)) nus = None \<longrightarrow>
      stops (artifacts_main net a) w (PyException (''kernel not found!: '' @ kernel_asset a)) (w_files w)) \<and>
    (\<forall>kn ku kdata. find (\<lambda>nu. py_in (kernel_asset a) (fst nu)) nus = Some (kn, ku) \<longrightarrow>
      served net ku kdata \<longrightarrow> url_name ku \<noteq> [] \<longrightarrow>
      find (\<lambda>nu. py_in (client_asset a) (fst nu)) nus = None \<longrightarrow>
      stops (artifacts_main net a) w (PyException (''client not found!: '' @ client_asset a))
        ((w_files w)(url_name ku \<mapsto> kdata)))"
proof (intro conjI impI allI)
  obtain r tag w1 where r: "release_is r tag nus" "w_files w1 = w_files w" "w_log w1 = w_log w"
    "get_latest_release net w = (Inr r, w1)"
    using latest_step [OF assms(1)] by blast
  note u = release_urls [OF r(1)]
  note main = artifacts_main_def downloadMoveAssets_def act_bind_run [of "get_latest_release net" w r w1, OF r(4)]
    u option_text_def kernel_asset_def client_asset_def Let_def assms(2)
  show "stops (artifacts_main net a) w (PyException (''kernel not found!: '' @ kernel_asset a)) (w_files w)"
    if "find (\<lambda>nu. py_in (kernel_asset a) (fst nu)) nus = None"
    using that by (simp add: main stops_def r(2,3))
  show "stops (artifacts_main net a) w (PyException (''client not found!: '' @ client_asset a))
        ((w_files w)(url_name ku \<mapsto> kdata))"
    if k: "find (\<lambda>nu. py_in (kernel_asset a) (fst nu)) nus = Some (kn, ku)"
      "find (\<lambda>nu. py_in (client_asset a) (fst nu)) nus = None"
      and s: "served net ku kdata" "url_name ku \<noteq> []" for kn ku kdata
  proof -
    let ?w = "w1\<lparr>w_out := w_out w1 @ [''Download Artifacts from version: '' @ tag, ku]\<rparr>"
    obtain w' where "downloadAsset net ku ?w = (Inr (), w')" "w_log w' = w_log ?w"
      "w_files w' = (w_files ?w)(url_name ku \<mapsto> kdata)"
      using leaves_downloadAsset [OF s, of ?w] by (auto simp: leaves_def)
    with k show ?thesis by (simp add: main stops_def act_then_run r(2,3))
  qed
qed

subsection \<open>Example data\<close>

definition demo_assets :: "(string \<times> string) list" where
  "demo_assets =
     [(''vmlinux-focal-amd64'', ''https://dl/vmlinux''), (''test-client-amd64'', ''https://dl/client''),
      (''disk-image-focal-amd64.qcow2.aa'', ''https://dl/aa''), (''disk-image-focal-amd64.qcow2.ab'', ''https://dl/ab'')]"

text \<open>A server that sends each address as its own content, and an archive that unpacks to itself.\<close>

definition demo_net :: "(string \<times> string) list \<Rightarrow> network" where
  "demo_net nus =
     \<lparr>api_get = (\<lambda>url. Inr (200, Inr (if url = releases_api then JArr [mk_release ''v1'' [], mk_release ''v2'' nus]
                                        else mk_release ''v2'' nus))),
      fetch = (\<lambda>url. Inr \<lparr>content_length = None, body_chunks = [url], body_error = None\<rparr>),
      untar = (\<lambda>d. \<lparr>untar_polls = [(None, None), (None, None), (Some 0, None)], untar_files = (if d = [] then [] else [(''temp/disk-image.qcow2'', d)])\<rparr>),
      json_load = (\<lambda>s. Inr JNull)\<rparr>"

definition empty_world :: world where
  "empty_world = \<lparr>w_files = (\<lambda>f. None), w_out = [], w_log = [], w_posts = []\<rparr>"

lemma demo_net_latest: "latest_is (demo_net nus) nus"
  using mk_release_is [of "''v2''" nus]
  by (simp add: latest_is_def demo_net_def get_version_def jfield_def mk_release_def releases_api_def)

lemma demo_net_served: "served (demo_net nus) url url"
  by (simp add: served_def demo_net_def)

lemma demo_names:
  "kernel_asset (art_defaults None) = ''vmlinux-focal-amd64''"
  "client_asset (art_defaults None) = ''test-client-amd64''"
  "disk_asset (art_defaults None) = ''disk-image-focal-amd64.qcow2''"
  "art_output (art_defaults None) = ''.//''" "art_version (art_defaults None) = ''latest''"
  by (simp_all add: kernel_asset_def client_asset_def disk_asset_def art_defaults_def resources_dir_def)

subsection \<open>Properties\<close>

text \<open>
  Finding a release by its tag: for a list of releases with these tags the first one
  with the wanted tag is returned; if there is none the script prints so and exits with
  status 1. Neither touches a file.
\<close>

theorem get_release_by_tag:
  assumes "tag \<noteq> ''latest''" and "api_get net releases_api = Inr (st, Inr (JArr rs))"
    and "list_all2 (\<lambda>r t. jget r ''tag_name'' = Inr (JStr t)) rs tags"
  shows "\<exists>w'. w_files w' = w_files w \<and> w_log w' = w_log w \<and>
    (case find (\<lambda>i. tags ! i = tag) [0..<length tags] of
       None \<Rightarrow> get_release net tag w = (Inl (SystemExit 1), w')
     | Some i \<Rightarrow> get_release net tag w = (Inr (rs ! i), w') \<and> tags ! i = tag \<and> i < length rs \<and>
         (\<forall>j < i. tags ! j \<noteq> tag))"
proof -
  have l: "length rs = length tags" using assms(3) by (rule list_all2_lengthD)
  have f: "find_release (JArr rs) tag [0..<length tags] = Inr (find (\<lambda>i. tags ! i = tag) [0..<length tags])"
    by (rule find_release_tags [OF assms(3)]) (auto simp: l)
  show ?thesis
  proof (cases "find (\<lambda>i. tags ! i = tag) [0..<length tags]")
    case None
    then show ?thesis using assms(1,2) f by (simp add: get_release_def l del: upt_Suc)
  next
    case (Some i)
    then have i: "i < length tags" "tags ! i = tag" "\<forall>j < i. tags ! j \<noteq> tag"
      by (auto simp: find_Some_iff)
    with Some show ?thesis using assms(1,2) f by (simp add: get_release_def l py_index_def del: upt_Suc)
  qed
qed

theorem get_release_by_tag_witness:
  "fst (get_release (demo_net []) ''v2'' empty_world) = Inr (mk_release ''v2'' [])"
proof -
  have "list_all2 (\<lambda>r t. jget r ''tag_name'' = Inr (JStr t)) [mk_release ''v1'' [], mk_release ''v2'' []] [''v1'', ''v2'']"
    by (simp add: mk_release_def)
  moreover have "find (\<lambda>i. [''v1'', ''v2''] ! i = ''v2'') [0..<length [''v1'', ''v2'']] = Some 1" by (simp add: upt_rec)
  moreover have "api_get (demo_net []) releases_api = Inr (200, Inr (JArr [mk_release ''v1'' [], mk_release ''v2'' []]))"
    by (simp add: demo_net_def)
  ultimately show ?thesis
    using get_release_by_tag [of "''v2''" "demo_net []" 200 "[mk_release ''v1'' [], mk_release ''v2'' []]" "[''v1'', ''v2'']" empty_world]
    by auto
qed

text \<open>
  A complete download, as an action on the working directory.
\<close>

lemma artifacts_installs:
  assumes "latest_is net nus" and "art_version a = ''latest''"
    and "find (\<lambda>nu. py_in (kernel_asset a) (fst nu)) nus = Some (kn, ku)"
    and "find (\<lambda>nu. py_in (client_asset a) (fst nu)) nus = Some (cn, cu)"
    and "served net ku kdata" and "served net cu cdata" and "url_name ku \<noteq> []" and "url_name cu \<noteq> []"
    and "list_all2 (served net) (disk_urls_of a nus) datas"
    and "unpacks net (concat datas) [(''temp/disk-image.qcow2'', img)]"
    and "distinct [url_name ku, url_name cu, ''disk.tmp'']"
    and "CHR ''/'' \<in> set (art_output a)" and "art_output a \<noteq> ''temp/''"
  shows "\<exists>fs. leaves (artifacts_main net a) w fs \<and>
    fs (art_output a @ ''kernel'') = Some kdata \<and> fs (art_output a @ ''client'') = Some cdata \<and>
    fs (art_output a @ ''disk-image.qcow2'') = Some img \<and>
    fs (url_name ku) = None \<and> fs (url_name cu) = None \<and>
    fs ''disk.tmp'' = None \<and> fs ''temp/disk-image.qcow2'' = None"
proof -
  obtain w' where w': "w_log w' = w_log w"
    "w_files w' = ((w_files w)(url_name ku \<mapsto> kdata, url_name cu \<mapsto> cdata) ++
          map_of [(''temp/disk-image.qcow2'', img)])(''disk.tmp'' := None)"
    "downloadMoveAssets net a ''latest'' w =
      act_then (move_file (url_name ku) (art_output a @ ''kernel''))
       (act_then (move_file (url_name cu) (art_output a @ ''client''))
         (move_file ''temp/disk-image.qcow2'' (art_output a @ ''disk-image.qcow2''))) w'"
    using downloads_done [OF assms(1,3-9) unpacks_parts(1) [OF assms(10)], of w]
    unfolding unpacks_parts(2) [OF assms(10)] by blast
  note n = output_names [OF assms(12)]
  have "art_output a @ ''disk-image.qcow2'' \<noteq> ''temp/disk-image.qcow2''"
    using assms(13) append_same_eq [of "art_output a" "''disk-image.qcow2''" "''temp/''"] by simp
  then have d: "distinct [url_name ku, url_name cu, ''temp/disk-image.qcow2'', art_output a @ ''kernel'',
      art_output a @ ''client'', art_output a @ ''disk-image.qcow2'']"
    using assms(11) n by simp
  have t: "w_files w' (url_name ku) = Some kdata" "w_files w' (url_name cu) = Some cdata"
    "w_files w' ''temp/disk-image.qcow2'' = Some img" "w_files w' ''disk.tmp'' = None"
    using assms(11) n by (simp_all add: w'(2))
  show ?thesis
  proof (intro exI conjI)
    show "leaves (artifacts_main net a) w ((w_files w')(url_name ku := None, art_output a @ ''kernel'' \<mapsto> kdata,
        url_name cu := None, art_output a @ ''client'' \<mapsto> cdata,
        ''temp/disk-image.qcow2'' := None, art_output a @ ''disk-image.qcow2'' \<mapsto> img))"
      using leaves_moves [OF d t(1-3)] w'(1,3) by (simp add: leaves_def artifacts_main_def assms(2))
  qed (use d t(4) n in simp_all)
qed

text \<open>
  A release without the kernel or the client for the chosen system stops the run with
  an error that names the asset; nothing is moved to the output directory. Without the
  kernel no file is written at all.
\<close>

theorem missing_asset_stops:
  assumes "latest_is net nus" and "art_version a = ''latest''"
  shows "(find (\<lambda>nu. py_in (kernel_asset a) (fst nu)) nus = None \<longrightarrow>
      stops (artifacts_main net a) w (PyException (''kernel not found!: '' @ kernel_asset a)) (w_files w)) \<and>
    (\<forall>kn ku kdata. find (\<lambda>nu. py_in (kernel_asset a) (fst nu)) nus = Some (kn, ku) \<longrightarrow>
      served net ku kdata \<longrightarrow> url_name ku \<noteq> [] \<longrightarrow>
      find (\<lambda>nu. py_in (client_asset a) (fst nu)) nus = None \<longrightarrow>
      stops (artifacts_main net a) w (PyException (''client not found!: '' @ client_asset a))
        ((w_files w)(url_name ku \<mapsto> kdata)))"
  using missing_asset [OF assms, of w] by blast

theorem missing_asset_stops_witness:
  "stops (artifacts_main (demo_net [(''vmlinux-amd64'', ''https://dl/vmlinux'')]) (art_defaults None)) empty_world
     (PyException ''kernel not found!: vmlinux-focal-amd64'') (w_files empty_world)"
proof -
  have "find (\<lambda>nu. py_in (kernel_asset (art_defaults None)) (fst nu)) [(''vmlinux-amd64'', ''https://dl/vmlinux'')] = None"
    by (simp add: demo_names)
  with missing_asset_stops [OF demo_net_latest demo_names(5), of "[(''vmlinux-amd64'', ''https://dl/vmlinux'')]" empty_world]
  show ?thesis by (simp add: demo_names)
qed

text \<open>
  C38. A missing disk image is not noticed before the end: the test for it never holds, so
  when no image has been unpacked (a release without disk parts, or the unpacking process
  not yet finished when the waiting loop ends) the run raises a file error only at the last
  move, after kernel and client have been replaced in the output directory.
\<close>

theorem missing_disk_found_late:
  assumes "latest_is net nus" and "art_version a = ''latest''"
    and "find (\<lambda>nu. py_in (kernel_asset a) (fst nu)) nus = Some (kn, ku)"
    and "find (\<lambda>nu. py_in (client_asset a) (fst nu)) nus = Some (cn, cu)"
    and "served net ku kdata" and "served net cu cdata" and "url_name ku \<noteq> []" and "url_name cu \<noteq> []"
    and "list_all2 (served net) (disk_urls_of a nus) datas"
    and "unpacks net (concat datas) []" and "w_files w ''temp/disk-image.qcow2'' = None"
    and "distinct [url_name ku, url_name cu, ''disk.tmp'']" and "CHR ''/'' \<in> set (art_output a)"
  shows "\<exists>fs. stops (artifacts_main net a) w (FileNotFoundError ''temp/disk-image.qcow2'') fs \<and>
    fs (art_output a @ ''kernel'') = Some kdata \<and> fs (art_output a @ ''client'') = Some cdata"
proof -
  obtain w' where w': "w_log w' = w_log w"
    "w_files w' = ((w_files w)(url_name ku \<mapsto> kdata, url_name cu \<mapsto> cdata) ++ map_of [])(''disk.tmp'' := None)"
    "downloadMoveAssets net a ''latest'' w =
      act_then (move_file (url_name ku) (art_output a @ ''kernel''))
       (act_then (move_file (url_name cu) (art_output a @ ''client''))
         (move_file ''temp/disk-image.qcow2'' (art_output a @ ''disk-image.qcow2''))) w'"
    using downloads_done [OF assms(1,3-9) unpacks_parts(1) [OF assms(10)], of w]
    unfolding unpacks_parts(2) [OF assms(10)] by blast
  note n = output_names [OF assms(13)]
  have d: "distinct [url_name ku, url_name cu, ''temp/disk-image.qcow2'', art_output a @ ''kernel'',
      art_output a @ ''client'']"
    using assms(12) n by simp
  have t: "w_files w' (url_name ku) = Some kdata" "w_files w' (url_name cu) = Some cdata"
    "w_files w' ''temp/disk-image.qcow2'' = None"
    using assms(11,12) n by (simp_all add: w'(2))
  show ?thesis
  proof (intro exI conjI)
    show "stops (artifacts_main net a) w (FileNotFoundError ''temp/disk-image.qcow2'')
        ((w_files w')(url_name ku := None, art_output a @ ''kernel'' \<mapsto> kdata,
          url_name cu := None, art_output a @ ''client'' \<mapsto> cdata))"
      using stops_moves [OF d t] w'(1,3) by (simp add: stops_def artifacts_main_def assms(2))
  qed (use d n in simp_all)
qed

theorem missing_disk_found_late_witness:
  "\<exists>fs. stops (artifacts_main (demo_net (take 2 demo_assets)) (art_defaults None)) empty_world
     (FileNotFoundError ''temp/disk-image.qcow2'') fs \<and> fs ''.//kernel'' = Some ''https://dl/vmlinux''"
proof -
  let ?a = "art_defaults None" and ?s = "take 2 demo_assets" and ?n = "demo_net (take 2 demo_assets)"
  have u: "url_name ''https://dl/vmlinux'' = ''vmlinux''" "url_name ''https://dl/client'' = ''client''"
    by (simp_all add: url_name_def)
  have d: "list_all2 (served ?n) (disk_urls_of ?a ?s) []"
    by (simp add: disk_urls_of_def demo_names demo_assets_def)
  have f: "find (\<lambda>nu. py_in (kernel_asset ?a) (fst nu)) ?s = Some (''vmlinux-focal-amd64'', ''https://dl/vmlinux'')"
    "find (\<lambda>nu. py_in (client_asset ?a) (fst nu)) ?s = Some (''test-client-amd64'', ''https://dl/client'')"
    by (simp_all add: demo_names demo_assets_def)
  have t: "unpacks ?n (concat []) []" by (simp add: demo_net_def unpacks_def untar_ends_def untar_running_def)
  show ?thesis
    using missing_disk_found_late [OF demo_net_latest demo_names(5) f demo_net_served demo_net_served _ _ d t, of empty_world]
    by (simp add: u demo_names empty_world_def) blast
qed



end
