(* ===== verification/Upload_Assets.thy ===== *)
theory Upload_Assets
  imports Release_Data
begin

text \<open>
  The script \<open>resources/upload_assets.py\<close>: it looks up a release, uploads kernel and client,
  packs and splits the disk image and uploads the parts. Parameters (record \<open>upload_env\<close>): the
  answers of the web interface to the release request and to each upload, the guessed file
  types, the order in which the directory is listed, what the external \<open>tar\<close> and \<open>split\<close>
  commands produce, and what each poll of the \<open>tar\<close> process answers.
\<close>

subsection \<open>Parameters and arguments\<close>

datatype post_result = Status int | RetryError | PostRaise py_error

record upload_env =
  releases_get :: "(int \<times> json result) result"
  post_reply :: "nat \<Rightarrow> upload_request \<Rightarrow> post_result"
  guess_type :: "string \<Rightarrow> string option"
  list_dir :: "string \<Rightarrow> (string \<rightharpoonup> string) \<Rightarrow> string list"
  tar_members :: "(string \<times> string) list \<Rightarrow> string"
  tar_pigz :: "string \<Rightarrow> string option \<Rightarrow> int option list \<times> string"
  split_parts :: "string \<Rightarrow> string \<Rightarrow> (string \<times> string) list"

record up_args =
  up_kernel :: string
  up_disk_image :: string
  up_client :: string
  up_upload_url :: string
  up_tag_name :: string
  up_release_id :: string
  up_version :: bool

text \<open>The defaults contain the text \<open>None\<close> if the variable \<open>RESOURCES\<close> is not set.\<close>

definition up_resources :: "string option \<Rightarrow> string" where
  "up_resources env = (case env of None \<Rightarrow> ''None'' | Some d \<Rightarrow> d)"

definition up_defaults :: "string option \<Rightarrow> up_args" where
  "up_defaults env =
     \<lparr>up_kernel = up_resources env @ ''/kernel'', up_disk_image = up_resources env @ ''/disk-image'',
      up_client = up_resources env @ ''/client'', up_upload_url = [], up_tag_name = [], up_release_id = [],
      up_version = False\<rparr>"

definition up_releases_api :: string where
  "up_releases_api = ''https://api.github.com/repos/'' @ ''vhive-serverless/vSwarm-u'' @ ''/releases''"

subsection \<open>The release\<close>

text \<open>The condition of the search loop, with its short circuits.\<close>

definition release_matches :: "json \<Rightarrow> string \<Rightarrow> string \<Rightarrow> bool result" where
  "release_matches r rid tag =
     bind_res (if rid \<noteq> [] then bind_res (jget r ''id'') (\<lambda>v. Inr (jtruthy v)) else Inr False) (\<lambda>b.
       if b then Inr True
       else if tag \<noteq> [] then bind_res (jget r ''tag_name'') (\<lambda>t. Inr (t = JStr tag))
       else Inr False)"

fun search_release :: "json \<Rightarrow> string \<Rightarrow> string \<Rightarrow> nat list \<Rightarrow> nat option result" where
  "search_release releases rid tag [] = Inr None"
| "search_release releases rid tag (i # is) =
     bind_res (bind_res (jindex releases i) (\<lambda>r. release_matches r rid tag)) (\<lambda>b.
       if b then Inr (Some i) else search_release releases rid tag is)"

definition up_get_release :: "upload_env \<Rightarrow> string \<Rightarrow> string \<Rightarrow> json act" where
  "up_get_release env tag rid =
     act_then (say (''Releases API: '' @ up_releases_api))
      (act_bind (act_lift (releases_get env)) (\<lambda>(status, answer).
       act_then (say (''debug: '' @ show_int status))
        (act_bind (act_lift answer) (\<lambda>releases.
         act_bind (act_lift (jlen releases)) (\<lambda>n.
         act_bind (act_lift (search_release releases rid tag [0..<n])) (\<lambda>found.
           case found of
             None \<Rightarrow> act_then (say (''Can'' @ [CHR 0x27] @ ''t found the target tagname.'')) (act_raise (SystemExit 1))
           | Some i \<Rightarrow>
               act_then (say (''Found the target tagname, '' @ show_int (int i)))
                 (act_lift (jindex releases i))))))))"

definition get_uploadurl :: "json \<Rightarrow> string act" where
  "get_uploadurl release =
     act_bind (act_lift (jfield release ''upload_url'')) (\<lambda>u.
       let upload_url = py_replace ''{?name,label}'' '''' u
       in act_then (say (''Upload URL: '' @ upload_url)) (act_return upload_url))"

subsection \<open>Packing\<close>

fun read_members :: "string list \<Rightarrow> (string \<times> string) list act" where
  "read_members [] = act_return []"
| "read_members (m # ms) =
     act_bind (read_file m) (\<lambda>d. act_bind (read_members ms) (\<lambda>r. act_return ((m, d) # r)))"

definition compress :: "upload_env \<Rightarrow> string \<Rightarrow> string list \<Rightarrow> unit act" where
  "compress env tar_file members =
     act_then (open_write tar_file)
      (act_bind (read_members members) (\<lambda>ms. append_file tar_file (tar_members env ms)))"

definition compressParallel :: "upload_env \<Rightarrow> string \<Rightarrow> string \<Rightarrow> unit act" where
  "compressParallel env tar_file file =
     act_then (say (''Compress file: '' @ file @ '' -> '' @ tar_file))
      (act_bind (\<lambda>w. (Inr (tar_pigz env file (w_files w file)), w)) (\<lambda>(polls, data).
        act_then (wait_loop ''Compressing... '' 0 (map (\<lambda>p. p = None) polls)) (put_files [(tar_file, data)])))"

definition split_file :: "upload_env \<Rightarrow> string \<Rightarrow> string \<Rightarrow> string \<Rightarrow> unit act" where
  "split_file env filename bytes outname =
     (let outname = (if outname = [] then filename @ ''.'' else outname)
      in act_then (say (''Split file: '' @ filename @ '' -> '' @ outname @ ''xx''))
          (\<lambda>w. put_files (map (\<lambda>(suffix, data). (outname @ suffix, data))
                 (case w_files w filename of None \<Rightarrow> [] | Some d \<Rightarrow> split_parts env bytes d)) w))"

subsection \<open>Uploading\<close>

text \<open>A path below \<open>./\<close> names a file of the working directory.\<close>

definition rel_path :: "string \<Rightarrow> string" where
  "rel_path p = (if prefix ''./'' p then dropWhile (\<lambda>c. c = CHR ''/'') (drop 2 p) else p)"

text \<open>The result is \<open>500\<close>, \<open>True\<close> or \<open>False\<close>.\<close>

definition send :: "upload_env \<Rightarrow> upload_request \<Rightarrow> py_value act" where
  "send env req w =
     (let w' = w\<lparr>w_posts := w_posts w @ [req]\<rparr>
      in case post_reply env (length (w_posts w)) req of
           RetryError \<Rightarrow> (Inr (PyInt 500), w')
         | PostRaise e \<Rightarrow> (Inl e, w')
         | Status s \<Rightarrow> (Inr (PyBool (s = 201)), w'))"

definition mime_type :: "upload_env \<Rightarrow> string \<Rightarrow> string" where
  "mime_type env path =
     (case guess_type env (''out/'' @ path) of None \<Rightarrow> ''application/octet-stream'' | Some m \<Rightarrow> m)"

definition upload_asset :: "upload_env \<Rightarrow> string \<Rightarrow> string \<Rightarrow> string \<Rightarrow> string \<Rightarrow> int \<Rightarrow> py_value act" where
  "upload_asset env token upload_url path name timeout =
     act_then (say (''Upload asset: '' @ path))
      (act_then (say (''Mimetype: '' @ mime_type env path))
        (act_bind (read_file (rel_path path)) (\<lambda>data.
          send env \<lparr>req_url = upload_url, req_token = ''token '' @ token, req_mime = mime_type env path,
            req_name = (if name \<noteq> [] then name else path), req_data = data, req_timeout = timeout\<rparr>)))"

definition up_get_assets :: "json \<Rightarrow> (json \<times> json) list result" where
  "up_get_assets release =
     bind_res (bind_res (jget release ''assets'') jiter) (res_each (\<lambda>a.
       bind_res (jget a ''name'') (\<lambda>n. bind_res (jget a ''browser_download_url'') (\<lambda>u. Inr (n, u)))))"

lemma up_get_assets_eq: "up_get_assets = get_assets"
  by (rule ext) (simp add: up_get_assets_def get_assets_def)

text \<open>\<open>str\<close> of a JSON value and of the list \<open>get_assets\<close> returns.\<close>

definition quoted :: "string \<Rightarrow> string" where
  "quoted s = CHR 0x27 # s @ [CHR 0x27]"

fun json_text :: "json \<Rightarrow> string" where
  "json_text JNull = ''None''"
| "json_text (JBool b) = (if b then ''True'' else ''False'')"
| "json_text (JInt i) = show_int i"
| "json_text (JStr s) = quoted s"
| "json_text (JArr xs) = ''['' @ py_join '', '' (map json_text xs) @ '']''"
| "json_text (JObj m) = ''{'' @ py_join '', '' (map (\<lambda>p. quoted (fst p) @ '': '' @ json_text (snd p)) m) @ ''}''"

definition assets_text :: "(json \<times> json) list \<Rightarrow> string" where
  "assets_text as = json_text (JArr (map (\<lambda>(n, u). JObj [(''name'', n), (''url'', u)]) as))"

text \<open>\<open>str\<close> of a list of file names without quotes and backslashes.\<close>

definition list_text :: "string list \<Rightarrow> string" where
  "list_text xs = ''['' @ py_join '', '' (map quoted xs) @ '']''"

definition ansi :: "string \<Rightarrow> string \<Rightarrow> string" where
  "ansi col s = CHR 0x1B # ''[1;'' @ col @ '';40m'' @ s @ (CHR 0x1B # ''[0m'')"

fun upload_parts :: "upload_env \<Rightarrow> string \<Rightarrow> string \<Rightarrow> string \<Rightarrow> nat \<Rightarrow> nat \<Rightarrow> string list \<Rightarrow> string
    \<Rightarrow> string act" where
  "upload_parts env token upload_url dir num i [] mark = act_return mark"
| "upload_parts env token upload_url dir num i (f # fs) mark =
     act_then (say (''Current asset: '' @ f))
      (act_bind (upload_asset env token upload_url (dir @ ''/'' @ f) (''disk-image-'' @ show_int (int i)) 50) (\<lambda>r.
        let progress = show_int (int (i + 1)) @ ''/'' @ show_int (int num)
        in if truthy r
           then act_then (say (ansi ''32'' (f @ '': success. '' @ progress)))
                  (upload_parts env token upload_url dir num (i + 1) fs mark)
           else act_then (say (ansi ''31'' (f @ '': fail. '' @ progress)))
                  (upload_parts env token upload_url dir num (i + 1) fs ''1'')))"

definition upload_disk :: "upload_env \<Rightarrow> string \<Rightarrow> string \<Rightarrow> string \<Rightarrow> string \<Rightarrow> unit act" where
  "upload_disk env token upload_url dir prf =
     act_bind (\<lambda>w. (Inr (list_dir env dir (w_files w)), w)) (\<lambda>out_files.
       let disk_files = filter (\<lambda>f. py_in prf f) out_files;
           disk_files_num = length disk_files
       in act_then (say (''Disks: '' @ list_text disk_files @ nl @ ''Number of files: '' @ show_int (int disk_files_num)))
           (act_bind (upload_parts env token upload_url dir disk_files_num 0 disk_files ''0'') (\<lambda>mark.
             if mark = ''0'' then say (ansi ''32'' '' All assets uploaded success fully'')
             else if mark = ''1'' then say (ansi ''31'' '' Fail for uploading all '')
             else act_return ())))"

definition drop_result :: "'a act \<Rightarrow> unit act" where
  "drop_result m = act_bind m (\<lambda>x. act_return ())"

definition upload_main :: "upload_env \<Rightarrow> string option \<Rightarrow> up_args \<Rightarrow> unit act" where
  "upload_main env github_token a =
     (case github_token of
        None \<Rightarrow> act_raise (KeyError ''GITHUB_TOKEN'')
      | Some token \<Rightarrow>
          act_bind (up_get_release env (up_tag_name a) (up_release_id a)) (\<lambda>release.
          act_bind (get_uploadurl release) (\<lambda>upload_url.
          act_then (say upload_url) (
          act_then (say ''Upload Kernel'') (
          act_then (drop_result (upload_asset env token upload_url (up_kernel a) ''vmlinux-amd64'' 10)) (
          act_then (say ''Upload Client'') (
          act_then (drop_result (upload_asset env token upload_url (up_client a) ''client-amd64'' 10)) (
          act_then (say ''Compress and Split disk-image'') (
          act_then (compressParallel env ''tmp'' (up_disk_image a)) (
          act_then (split_file env ''tmp'' ''500m'' ''disk-image-amd64-'') (
          act_then (remove_file ''tmp'') (
          act_then (say ''Upload disk-image'') (
          act_then (upload_disk env token upload_url ''.'' ''disk-image-amd64-'') (
          act_bind (up_get_release env (up_tag_name a) (up_release_id a)) (\<lambda>release.
          act_then (drop_result (get_uploadurl release)) (
          act_bind (act_lift (up_get_assets release)) (\<lambda>assets.
            say (assets_text assets))))))))))))))))))"

interpretation id_search: release_search "\<lambda>j is. search_release j rid tag is" "\<lambda>r. release_matches r rid tag" for rid tag
  by unfold_locales simp_all

subsection \<open>What an action sends\<close>

text \<open>
  \<open>sends m w x qs fs\<close>: from \<open>w\<close> the action returns \<open>x\<close>, with the files \<open>fs\<close>, and has sent the
  requests \<open>qs\<close>.
\<close>

definition sends :: "'a act \<Rightarrow> world \<Rightarrow> 'a \<Rightarrow> upload_request list \<Rightarrow> (string \<rightharpoonup> string) \<Rightarrow> bool" where
  "sends m w x qs fs \<longleftrightarrow>
     (\<exists>w'. m w = (Inr x, w') \<and> w_files w' = fs \<and> w_posts w' = w_posts w @ qs)"

lemma sends_bind:
  "sends m w x qs fs \<Longrightarrow>
   (\<And>w'. w_files w' = fs \<Longrightarrow> w_posts w' = w_posts w @ qs \<Longrightarrow> sends (f x) w' y qs' fs') \<Longrightarrow>
   sends (act_bind m f) w y (qs @ qs') fs'"
  by (fastforce simp: sends_def act_bind_def)

lemma sends_then:
  "sends m w () qs fs \<Longrightarrow>
   (\<And>w'. w_files w' = fs \<Longrightarrow> w_posts w' = w_posts w @ qs \<Longrightarrow> sends n w' y qs' fs') \<Longrightarrow>
   sends (act_then m n) w y (qs @ qs') fs'"
  unfolding act_then_def by (rule sends_bind)

text \<open>Printing first changes neither.\<close>

lemma sends_say:
  "(\<And>w'. w_files w' = w_files w \<Longrightarrow> w_posts w' = w_posts w \<Longrightarrow> sends n w' y qs fs) \<Longrightarrow>
   sends (act_then (say s) n) w y qs fs"
  by (simp add: sends_def)

lemma sends_drop: "sends m w x qs fs \<Longrightarrow> sends (drop_result m) w () qs fs"
  by (auto simp: sends_def drop_result_def act_bind_def)

lemma sends_last_say: "sends (say s) w () [] (w_files w)"
  by (simp add: sends_def)

text \<open>The request of one asset, and its outcome.\<close>

definition asset_request :: "upload_env \<Rightarrow> string \<Rightarrow> string \<Rightarrow> string \<Rightarrow> string \<Rightarrow> int \<Rightarrow> string \<Rightarrow> upload_request" where
  "asset_request env token url path name timeout data =
     \<lparr>req_url = url, req_token = ''token '' @ token, req_mime = mime_type env path,
      req_name = (if name \<noteq> [] then name else path), req_data = data, req_timeout = timeout\<rparr>"

definition no_post_error :: "upload_env \<Rightarrow> bool" where
  "no_post_error env \<longleftrightarrow> (\<forall>k req e. post_reply env k req \<noteq> PostRaise e)"

definition accepted :: "post_result \<Rightarrow> bool" where
  "accepted p \<longleftrightarrow> p = Status 201 \<or> p = RetryError"

definition outcome :: "post_result \<Rightarrow> py_value" where
  "outcome p = (case p of RetryError \<Rightarrow> PyInt 500 | Status s \<Rightarrow> PyBool (s = 201) | PostRaise e \<Rightarrow> PyNone)"

lemma truthy_outcome: "truthy (outcome p) = accepted p"
  by (cases p) (auto simp: outcome_def accepted_def)

lemma sends_asset:
  assumes "w_files w (rel_path path) = Some data" and "no_post_error env"
  shows "sends (upload_asset env token url path name timeout) w
    (outcome (post_reply env (length (w_posts w)) (asset_request env token url path name timeout data)))
    [asset_request env token url path name timeout data] (w_files w)"
  using assms
  by (auto simp: sends_def upload_asset_def asset_request_def send_def read_file_def act_bind_def
      no_post_error_def outcome_def Let_def split: post_result.splits)

text \<open>The requests of the parts of a disk, numbered from \<open>i\<close>.\<close>

definition part_requests :: "upload_env \<Rightarrow> string \<Rightarrow> string \<Rightarrow> string \<Rightarrow> (string \<Rightarrow> string) \<Rightarrow> nat \<Rightarrow> string list
    \<Rightarrow> upload_request list" where
  "part_requests env token url dir data i fs =
     map (\<lambda>(k, f). asset_request env token url (dir @ ''/'' @ f) (''disk-image-'' @ show_int (int k)) 50 (data f))
       (enumerate i fs)"

fun all_accepted :: "upload_env \<Rightarrow> nat \<Rightarrow> upload_request list \<Rightarrow> bool" where
  "all_accepted env k [] = True"
| "all_accepted env k (q # qs) = (accepted (post_reply env k q) \<and> all_accepted env (Suc k) qs)"

lemma sends_parts:
  assumes "\<And>f. f \<in> set fs \<Longrightarrow> w_files w (rel_path (dir @ ''/'' @ f)) = Some (data f)" and "no_post_error env"
  shows "sends (upload_parts env token url dir num i fs mark) w
    (if all_accepted env (length (w_posts w)) (part_requests env token url dir data i fs) then mark else ''1'')
    (part_requests env token url dir data i fs) (w_files w)"
  using assms(1)
proof (induction fs arbitrary: i w mark)
  case Nil
  then show ?case by (simp add: sends_def part_requests_def)
next
  case (Cons f fs)
  let ?q = "asset_request env token url (dir @ ''/'' @ f) (''disk-image-'' @ show_int (int i)) 50 (data f)"
  let ?qs = "part_requests env token url dir data (Suc i) fs"
  have qs: "part_requests env token url dir data i (f # fs) = [?q] @ ?qs"
    by (simp add: part_requests_def)
  show ?case unfolding upload_parts.simps qs
  proof (rule sends_say, rule sends_bind)
    fix w1 :: world assume w1: "w_files w1 = w_files w" "w_posts w1 = w_posts w"
    let ?r = "post_reply env (length (w_posts w)) ?q"
    show "sends (upload_asset env token url (dir @ ''/'' @ f) (''disk-image-'' @ show_int (int i)) 50) w1
        (outcome ?r) [?q] (w_files w)"
      using sends_asset [of w1 "dir @ ''/'' @ f" "data f" env token url _ 50] Cons.prems [of f] assms(2)
      by (simp add: w1)
    fix w2 :: world assume w2: "w_files w2 = w_files w" "w_posts w2 = w_posts w1 @ [?q]"
    have IH: "sends (upload_parts env token url dir num (i + 1) fs m) w3
        (if all_accepted env (Suc (length (w_posts w))) ?qs then m else ''1'') ?qs (w_files w)"
      if "w_files w3 = w_files w2" "w_posts w3 = w_posts w2" for w3 m
      using Cons.IH [of w3 "Suc i" m] Cons.prems that w1 w2 by simp
    show "sends (let progress = show_int (int (i + 1)) @ ''/'' @ show_int (int num)
        in if truthy (outcome ?r)
           then act_then (say (ansi ''32'' (f @ '': success. '' @ progress)))
                  (upload_parts env token url dir num (i + 1) fs mark)
           else act_then (say (ansi ''31'' (f @ '': fail. '' @ progress)))
                  (upload_parts env token url dir num (i + 1) fs ''1'')) w2
        (if all_accepted env (length (w_posts w)) ([?q] @ ?qs) then mark else ''1'') ?qs (w_files w)"
    proof (cases "accepted ?r")
      case True
      then show ?thesis
        by (simp only: truthy_outcome Let_def if_True append_Cons append_Nil all_accepted.simps simp_thms)
          (rule sends_say, rule IH)
    next
      case False
      then show ?thesis
        by (simp only: truthy_outcome Let_def if_False append_Cons append_Nil all_accepted.simps simp_thms)
          (rule sends_say, use IH [of _ "''1''"] in simp)
    qed
  qed
qed

lemma upload_disk_run:
  assumes "disk_files = filter (py_in prf) (list_dir env dir (w_files w))"
    and "\<And>f. f \<in> set disk_files \<Longrightarrow> w_files w (rel_path (dir @ ''/'' @ f)) = Some (data f)" and "no_post_error env"
  shows "\<exists>w'. upload_disk env token url dir prf w = (Inr (), w') \<and> w_files w' = w_files w \<and>
    w_posts w' = w_posts w @ part_requests env token url dir data 0 disk_files \<and>
    last (w_out w') =
      (if all_accepted env (length (w_posts w)) (part_requests env token url dir data 0 disk_files)
       then ansi ''32'' '' All assets uploaded success fully'' else ansi ''31'' '' Fail for uploading all '')"
proof -
  let ?o = "''Disks: '' @ list_text disk_files @ nl @ ''Number of files: '' @ show_int (int (length disk_files))"
  define w1 where "w1 = w\<lparr>w_out := w_out w @ [?o]\<rparr>"
  have w1: "w_files w1 = w_files w" "w_posts w1 = w_posts w" by (simp_all add: w1_def)
  define qs where "qs = part_requests env token url dir data 0 disk_files"
  obtain w2 where w2: "upload_parts env token url dir (length disk_files) 0 disk_files ''0'' w1 =
      (Inr (if all_accepted env (length (w_posts w)) qs then ''0'' else ''1''), w2)"
    "w_files w2 = w_files w" "w_posts w2 = w_posts w @ qs"
    using sends_parts [of disk_files w1 dir data env token url "length disk_files" 0 "''0''"] assms(2,3)
    unfolding w1 sends_def qs_def by blast
  have "upload_disk env token url dir prf w =
    act_bind (upload_parts env token url dir (length disk_files) 0 disk_files ''0'') (\<lambda>mark.
             if mark = ''0'' then say (ansi ''32'' '' All assets uploaded success fully'')
             else if mark = ''1'' then say (ansi ''31'' '' Fail for uploading all '')
             else act_return ()) w1"
    by (simp add: upload_disk_def act_bind_def [of "\<lambda>w. (Inr (list_dir env dir (w_files w)), w)"] Let_def
        assms(1) w1_def)
  then show ?thesis
    unfolding act_bind_run [of "upload_parts env token url dir (length disk_files) 0 disk_files ''0''" w1, OF w2(1)]
    by (simp add: w2 qs_def)
qed

lemma sends_disk:
  assumes "disk_files = filter (py_in prf) (list_dir env dir (w_files w))"
    and "\<And>f. f \<in> set disk_files \<Longrightarrow> w_files w (rel_path (dir @ ''/'' @ f)) = Some (data f)" and "no_post_error env"
  shows "sends (upload_disk env token url dir prf) w () (part_requests env token url dir data 0 disk_files) (w_files w)"
  using upload_disk_run [OF assms, of token url] by (auto simp: sends_def)

subsection \<open>The whole upload\<close>

lemma sends_release:
  assumes "releases_get env = Inr (st, Inr (JArr rs))"
    and "search_release (JArr rs) rid tag [0..<length rs] = Inr (Some i)" and "i < length rs"
  shows "sends (up_get_release env tag rid) w (rs ! i) [] (w_files w)"
  using assms by (simp add: sends_def up_get_release_def py_index_def)

lemma sends_url:
  assumes "jfield r ''upload_url'' = Inr u"
  shows "sends (get_uploadurl r) w (py_replace ''{?name,label}'' '''' u) [] (w_files w)"
  using assms by (simp add: sends_def get_uploadurl_def Let_def)

definition tar_ends :: "upload_env \<Rightarrow> string \<Rightarrow> string option \<Rightarrow> bool" where
  "tar_ends env file content \<longleftrightarrow> list_ex (\<lambda>p. p \<noteq> None) (fst (tar_pigz env file content))"

lemma sends_compress:
  assumes "tar_ends env file (w_files w file)"
  shows "sends (compressParallel env tar_file file) w () []
     ((w_files w)(tar_file \<mapsto> snd (tar_pigz env file (w_files w file))))"
proof -
  obtain polls data where p: "tar_pigz env file (w_files w file) = (polls, data)" by fastforce
  with assms have "False \<in> set (map (\<lambda>p. p = None) polls)" by (auto simp: tar_ends_def list_ex_iff)
  note quiet = wait_loop_quiet [OF this]
  let ?w = "w\<lparr>w_out := w_out w @ [''Compress file: '' @ file @ '' -> '' @ tar_file]\<rparr>"
  obtain out where "wait_loop ''Compressing... '' 0 (map (\<lambda>p. p = None) polls) ?w =
      (Inr (), ?w\<lparr>w_out := w_out ?w @ out\<rparr>)" by (rule quiet)
  with p show ?thesis
    by (simp add: sends_def compressParallel_def act_then_def act_bind_def put_files_def)
qed

definition part_files :: "(string \<times> string) list \<Rightarrow> (string \<times> string) list" where
  "part_files parts = map (\<lambda>(suffix, data). (''disk-image-amd64-'' @ suffix, data)) parts"

lemma sends_split:
  assumes "w_files w f = Some d"
  shows "sends (split_file env f ''500m'' ''disk-image-amd64-'') w () []
    (w_files w ++ map_of (part_files (split_parts env ''500m'' d)))"
  using assms by (simp add: sends_def split_file_def put_files_def part_files_def Let_def)

lemma sends_remove: "w_files w f = Some d \<Longrightarrow> sends (remove_file f) w () [] ((w_files w)(f := None))"
  by (simp add: sends_def remove_file_def)

lemma rel_path_part: "rel_path (''.'' @ ''/'' @ ''disk-image-amd64-'' @ s) = ''disk-image-amd64-'' @ s"
  by (simp add: rel_path_def)

lemma part_files_tmp: "map_of (part_files parts) ''tmp'' = None"
  by (induction parts) (auto simp: part_files_def)

lemma part_files_names: "f \<in> fst ` set (part_files parts) \<Longrightarrow> \<exists>s. f = ''disk-image-amd64-'' @ s"
  by (auto simp: part_files_def)

text \<open>
  The situation of a regular upload: the release is found and has an upload address, kernel
  and client exist, the packing process ends, the packed image is split into \<open>parts\<close> and the directory lists exactly
  these, in the order \<open>names\<close>.
\<close>

definition upload_ready :: "upload_env \<Rightarrow> up_args \<Rightarrow> json list \<Rightarrow> nat \<Rightarrow> (string \<rightharpoonup> string)
    \<Rightarrow> (string \<times> string) list \<Rightarrow> string list \<Rightarrow> bool" where
  "upload_ready env a rs i fs parts names \<longleftrightarrow>
     search_release (JArr rs) (up_release_id a) (up_tag_name a) [0..<length rs] = Inr (Some i) \<and>
     i < length rs \<and> no_post_error env \<and> tar_ends env (up_disk_image a) (fs (up_disk_image a)) \<and>
     parts = split_parts env ''500m'' (snd (tar_pigz env (up_disk_image a) (fs (up_disk_image a)))) \<and>
     names = filter (py_in ''disk-image-amd64-'')
       (list_dir env ''.'' ((fs ++ map_of (part_files parts))(''tmp'' := None))) \<and>
     set names = fst ` set (part_files parts)"

lemma sends_main:
  assumes ready: "upload_ready env a rs i (w_files w) parts names"
    and rel: "releases_get env = Inr (st, Inr (JArr rs))"
    and url: "jfield (rs ! i) ''upload_url'' = Inr u" and assets: "get_assets (rs ! i) = Inr as"
    and kernel: "w_files w (rel_path (up_kernel a)) = Some kdata"
    and client: "w_files w (rel_path (up_client a)) = Some cdata"
    and to: "to = py_replace ''{?name,label}'' '''' u"
  shows "sends (upload_main env (Some token) a) w ()
    ([asset_request env token to (up_kernel a) ''vmlinux-amd64'' 10 kdata,
      asset_request env token to (up_client a) ''client-amd64'' 10 cdata] @
     part_requests env token to ''.'' (\<lambda>f. the (map_of (part_files parts) f)) 0 names)
    ((w_files w ++ map_of (part_files parts))(''tmp'' := None))"
proof -
  note r = ready [unfolded upload_ready_def]
  define F where "F = w_files w"
  define packed where "packed = snd (tar_pigz env (up_disk_image a) (F (up_disk_image a)))"
  define G where "G = (F ++ map_of (part_files parts))(''tmp'' := None)"
  define qs where "qs = part_requests env token to ''.'' (\<lambda>f. the (map_of (part_files parts) f)) 0 names"
  have release: "sends (up_get_release env (up_tag_name a) (up_release_id a)) v (rs ! i) [] H"
    if "w_files v = H" for v H using sends_release [OF rel, of _ _ i v] r that by simp
  have address: "sends (get_uploadurl (rs ! i)) v to [] H" if "w_files v = H" for v H
    using sends_url [OF url, of v] that to by simp
  have k: "sends (drop_result (upload_asset env token to (up_kernel a) ''vmlinux-amd64'' 10)) v ()
      [asset_request env token to (up_kernel a) ''vmlinux-amd64'' 10 kdata] F" if "w_files v = F" for v
    using sends_drop [OF sends_asset [of v "up_kernel a" kdata env]] r kernel that by (simp add: F_def)
  have c: "sends (drop_result (upload_asset env token to (up_client a) ''client-amd64'' 10)) v ()
      [asset_request env token to (up_client a) ''client-amd64'' 10 cdata] F" if "w_files v = F" for v
    using sends_drop [OF sends_asset [of v "up_client a" cdata env]] r client that by (simp add: F_def)
  have pack: "sends (compressParallel env ''tmp'' (up_disk_image a)) v () [] (F(''tmp'' \<mapsto> packed))"
    if "w_files v = F" for v
    using sends_compress [of env "up_disk_image a" v "''tmp''"] r that by (simp add: packed_def F_def)
  have parts: "parts = split_parts env ''500m'' packed" using r by (simp add: packed_def F_def)
  have split: "sends (split_file env ''tmp'' ''500m'' ''disk-image-amd64-'') v () []
      (F(''tmp'' \<mapsto> packed) ++ map_of (part_files parts))" if "w_files v = F(''tmp'' \<mapsto> packed)" for v
    using sends_split [of v "''tmp''" packed env] that by (simp add: parts)
  have rm: "sends (remove_file ''tmp'') v () [] G" if "w_files v = F(''tmp'' \<mapsto> packed) ++ map_of (part_files parts)" for v
  proof -
    have "w_files v ''tmp'' = Some packed" using part_files_tmp [of parts] by (simp add: that map_add_def)
    moreover have "(w_files v)(''tmp'' := None) = G"
      by (rule ext) (simp add: that G_def map_add_def split: option.split)
    ultimately show ?thesis using sends_remove [of v "''tmp''" packed] by simp
  qed
  have disk: "sends (upload_disk env token to ''.'' ''disk-image-amd64-'') v () qs G" if "w_files v = G" for v
  proof -
    have "w_files v (rel_path (''.'' @ ''/'' @ f)) = Some (the (map_of (part_files parts) f))" if f: "f \<in> set names" for f
    proof -
      have "f \<in> fst ` set (part_files parts)" using f r by blast
      moreover from this obtain s where "f = ''disk-image-amd64-'' @ s" using part_files_names by blast
      moreover from calculation obtain d where "map_of (part_files parts) f = Some d"
        by (metis map_of_eq_None_iff not_None_eq)
      ultimately show ?thesis by (simp add: rel_path_part [simplified] \<open>w_files v = G\<close> G_def map_add_def)
    qed
    then show ?thesis using sends_disk [of names "''disk-image-amd64-''" env "''.''" v] r that
      by (simp add: qs_def G_def F_def)
  qed
  have last: "sends (say s) v () [] G" if "w_files v = G" for v s using sends_last_say [of s v] that by simp
  have "sends (upload_main env (Some token) a) w () ([] @ [] @
      [asset_request env token to (up_kernel a) ''vmlinux-amd64'' 10 kdata] @
      [asset_request env token to (up_client a) ''client-amd64'' 10 cdata] @ [] @ [] @ [] @ qs @ [] @ [] @ []) G"
    unfolding upload_main_def option.case
    apply (rule sends_bind [OF release [OF F_def [symmetric]]])
    apply (rule sends_bind [OF address], assumption)
    apply (rule sends_say, rule sends_say, rule sends_then [OF k], simp)
    apply (rule sends_say, rule sends_then [OF c], simp)
    apply (rule sends_say, rule sends_then [OF pack], simp)
    apply (rule sends_then [OF split], assumption, rule sends_then [OF rm], assumption)
    apply (rule sends_say, rule sends_then [OF disk], simp)
    apply (rule sends_bind [OF release], assumption)
    apply (rule sends_then [OF sends_drop [OF address]], assumption)
    apply (unfold up_get_assets_eq assets act_bind_ok, rule last, assumption)
    done
  then show ?thesis by (simp add: qs_def G_def F_def)
qed

subsection \<open>Example data\<close>

definition demo_releases :: "json list" where
  "demo_releases =
     [JObj [(''id'', JInt 11), (''tag_name'', JStr ''v2''), (''upload_url'', JStr ''https://up{?name,label}''), (''assets'', JArr [])],
      JObj [(''id'', JInt 10), (''tag_name'', JStr ''v1''), (''upload_url'', JStr ''https://up1{?name,label}''), (''assets'', JArr [])]]"

definition demo_parts :: "(string \<times> string) list" where
  "demo_parts = [(''aa'', ''D''), (''ab'', ''E'')]"

definition demo_listing :: "string list" where
  "demo_listing = [''disk-image-amd64-ab'', ''disk-image-amd64-aa'']"

definition demo_env :: upload_env where
  "demo_env =
     \<lparr>releases_get = Inr (200, Inr (JArr demo_releases)),
      post_reply = (\<lambda>k q. if k = 2 then RetryError else Status 201),
      guess_type = (\<lambda>p. None),
      list_dir = (\<lambda>d fs. [''disk-image-amd64-ab'', ''kernel'', ''disk-image-amd64-aa'']),
      tar_members = (\<lambda>ms. concat (map snd ms)),
      tar_pigz = (\<lambda>f d. ([None, Some 0], case d of None \<Rightarrow> [] | Some s \<Rightarrow> s)),
      split_parts = (\<lambda>n d. [(''aa'', take 1 d), (''ab'', drop 1 d)])\<rparr>"

definition demo_args :: up_args where
  "demo_args = (up_defaults (Some ''res''))\<lparr>up_tag_name := ''v2''\<rparr>"

definition demo_world :: world where
  "demo_world =
     \<lparr>w_files = map_of [(''res/kernel'', ''K''), (''res/client'', ''C''), (''res/disk-image'', ''DE'')],
      w_out = [], w_log = [], w_posts = []\<rparr>"

lemma demo_no_error: "no_post_error demo_env"
  by (simp add: no_post_error_def demo_env_def)

lemma demo_upload:
  "upload_ready demo_env demo_args demo_releases 0 (w_files demo_world) demo_parts demo_listing"
  "releases_get demo_env = Inr (200, Inr (JArr demo_releases))"
  "jfield (demo_releases ! 0) ''upload_url'' = Inr ''https://up{?name,label}''"
  "get_assets (demo_releases ! 0) = Inr []"
  "w_files demo_world (rel_path (up_kernel demo_args)) = Some ''K''"
  "w_files demo_world (rel_path (up_client demo_args)) = Some ''C''"
proof -
  show "upload_ready demo_env demo_args demo_releases 0 (w_files demo_world) demo_parts demo_listing"
    unfolding upload_ready_def using demo_no_error
    by (auto simp: tar_ends_def demo_env_def demo_args_def demo_world_def up_defaults_def up_resources_def demo_releases_def
        release_matches_def py_index_def part_files_def demo_parts_def demo_listing_def upt_rec)
  show "releases_get demo_env = Inr (200, Inr (JArr demo_releases))" by (simp add: demo_env_def)
  show "jfield (demo_releases ! 0) ''upload_url'' = Inr ''https://up{?name,label}''"
    "get_assets (demo_releases ! 0) = Inr []"
    by (simp_all add: jfield_def get_assets_def demo_releases_def)
  show "w_files demo_world (rel_path (up_kernel demo_args)) = Some ''K''"
    "w_files demo_world (rel_path (up_client demo_args)) = Some ''C''"
    by (simp_all add: demo_world_def demo_args_def up_defaults_def up_resources_def rel_path_def)
qed

subsection \<open>Properties\<close>

text \<open>
  C23. A regular upload sends exactly these requests, in this order: the kernel and the client
  under fixed names, then one request per part of the packed image. The parts are numbered
  in the order of the directory listing, which is not sorted, so the number says nothing
  about the place of the part in the image. The temporary archive is removed, and whether
  kernel and client were accepted is not looked at.
\<close>

theorem upload_main_requests:
  assumes "upload_ready env a rs i (w_files w) parts names"
    and "releases_get env = Inr (st, Inr (JArr rs))"
    and "jfield (rs ! i) ''upload_url'' = Inr u" and "get_assets (rs ! i) = Inr as"
    and "w_files w (rel_path (up_kernel a)) = Some kdata" and "w_files w (rel_path (up_client a)) = Some cdata"
  shows "\<exists>w'. upload_main env (Some token) a w = (Inr (), w') \<and> w_files w' ''tmp'' = None \<and>
    map (\<lambda>q. (req_name q, req_data q)) (w_posts w') =
      map (\<lambda>q. (req_name q, req_data q)) (w_posts w) @
      [(''vmlinux-amd64'', kdata), (''client-amd64'', cdata)] @
      map (\<lambda>(k, f). (''disk-image-'' @ show_int (int k), the (map_of (part_files parts) f))) (enumerate 0 names)"
proof -
  have "map (\<lambda>q. (req_name q, req_data q)) (part_requests env token to ''.'' (\<lambda>f. the (map_of (part_files parts) f)) 0 names) =
      map (\<lambda>(k, f). (''disk-image-'' @ show_int (int k), the (map_of (part_files parts) f))) (enumerate 0 names)" for to
    by (simp add: part_requests_def asset_request_def split_beta)
  with sends_main [OF assms refl, of token] show ?thesis
    by (auto simp: sends_def asset_request_def)
qed

theorem upload_main_requests_witness:
  "\<exists>w'. upload_main demo_env (Some ''t'') demo_args demo_world = (Inr (), w') \<and>
    map (\<lambda>q. (req_name q, req_data q)) (w_posts w') =
      [(''vmlinux-amd64'', ''K''), (''client-amd64'', ''C''), (''disk-image-0'', ''E''), (''disk-image-1'', ''D'')]"
proof -
  from upload_main_requests [OF demo_upload, of "''t''"]
  obtain w' where w': "upload_main demo_env (Some ''t'') demo_args demo_world = (Inr (), w')"
    "map (\<lambda>q. (req_name q, req_data q)) (w_posts w') =
      map (\<lambda>q. (req_name q, req_data q)) (w_posts demo_world) @
      [(''vmlinux-amd64'', ''K''), (''client-amd64'', ''C'')] @
      map (\<lambda>(k, f). (''disk-image-'' @ show_int (int k), the (map_of (part_files demo_parts) f))) (enumerate 0 demo_listing)"
    by (elim exE conjE) (rule that)
  have "show_int 0 = ''0''" "show_int 1 = ''1''" "w_posts demo_world = []"
    by (simp_all add: show_int_def show_nat.simps demo_world_def)
  with w' show ?thesis by (intro exI [of _ w']) (simp add: part_files_def demo_parts_def demo_listing_def)
qed

text \<open>
  C39. The verdict on the disk upload: every file of the listing whose name contains the
  prefix is sent once, in listing order, and the last line printed says success exactly if
  each upload was answered with status 201 or ran out of retries; the latter returns the
  number 500, which counts as true.
\<close>

theorem upload_disk_report:
  assumes "disk_files = filter (py_in prf) (list_dir env dir (w_files w))"
    and "\<And>f. f \<in> set disk_files \<Longrightarrow> w_files w (rel_path (dir @ ''/'' @ f)) = Some (data f)" and "no_post_error env"
  shows "\<exists>w'. upload_disk env token url dir prf w = (Inr (), w') \<and>
    w_posts w' = w_posts w @ part_requests env token url dir data 0 disk_files \<and>
    last (w_out w') =
      (if \<forall>k < length disk_files. post_reply env (length (w_posts w) + k)
            (part_requests env token url dir data 0 disk_files ! k) \<in> {Status 201, RetryError}
       then ansi ''32'' '' All assets uploaded success fully'' else ansi ''31'' '' Fail for uploading all '')"
proof -
  have *: "all_accepted env n qs = (\<forall>k < length qs. post_reply env (n + k) (qs ! k) \<in> {Status 201, RetryError})" for n qs
    by (induction qs arbitrary: n) (auto simp: accepted_def nth_Cons less_Suc_eq_0_disj)
  have "length (part_requests env token url dir data 0 disk_files) = length disk_files" by (simp add: part_requests_def)
  with upload_disk_run [OF assms, of token url] show ?thesis unfolding * by metis
qed

theorem upload_disk_report_witness:
  "\<exists>w'. upload_disk (demo_env\<lparr>post_reply := (\<lambda>k q. RetryError)\<rparr>) ''t'' ''u'' ''.'' ''disk-image-amd64-''
     (demo_world\<lparr>w_files := map_of [(''disk-image-amd64-aa'', ''D''), (''disk-image-amd64-ab'', ''E'')]\<rparr>) = (Inr (), w') \<and>
    last (w_out w') = ansi ''32'' '' All assets uploaded success fully''"
proof -
  let ?env = "demo_env\<lparr>post_reply := (\<lambda>k q. RetryError)\<rparr>"
  let ?w = "demo_world\<lparr>w_files := map_of [(''disk-image-amd64-aa'', ''D''), (''disk-image-amd64-ab'', ''E'')]\<rparr>"
  define names where "names = [''disk-image-amd64-ab'', ''disk-image-amd64-aa'']"
  have "names = filter (py_in ''disk-image-amd64-'') (list_dir ?env ''.'' (w_files ?w))"
    by (simp add: demo_env_def names_def)
  moreover have "w_files ?w (rel_path (''.'' @ ''/'' @ f)) = Some (the (w_files ?w f))" if "f \<in> set names" for f
    using that by (auto simp: names_def rel_path_def)
  moreover have "no_post_error ?env" by (simp add: no_post_error_def)
  ultimately have "\<exists>w'. upload_disk ?env ''t'' ''u'' ''.'' ''disk-image-amd64-'' ?w = (Inr (), w') \<and>
    w_posts w' = w_posts ?w @ part_requests ?env ''t'' ''u'' ''.'' (\<lambda>f. the (w_files ?w f)) 0 names \<and>
    last (w_out w') =
      (if \<forall>k < length names. post_reply ?env (length (w_posts ?w) + k)
            (part_requests ?env ''t'' ''u'' ''.'' (\<lambda>f. the (w_files ?w f)) 0 names ! k) \<in> {Status 201, RetryError}
       then ansi ''32'' '' All assets uploaded success fully'' else ansi ''31'' '' Fail for uploading all '')"
    by (rule upload_disk_report)
  then show ?thesis by (elim exE conjE) (intro exI conjI, assumption, simp)
qed

text \<open>
  The release identifier is not compared: with any non-empty identifier on the command
  line, and any tag, the first release of the list is taken as soon as it has a non-zero
  identifier of its own.
\<close>

theorem release_id_not_compared:
  assumes "releases_get env = Inr (st, Inr (JArr (r # rs)))" and "rid \<noteq> []"
    and "jget r ''id'' = Inr v" and "jtruthy v"
  shows "\<exists>w'. up_get_release env tag rid w = (Inr r, w') \<and> w_files w' = w_files w \<and> w_posts w' = w_posts w"
proof -
  have "release_matches r rid tag = Inr True" using assms(2-) by (simp add: release_matches_def)
  then have "search_release (JArr (r # rs)) rid tag (0 # is) = Inr (Some 0)" for "is"
    by (simp add: id_search.search_Cons py_index_def)
  then have "search_release (JArr (r # rs)) rid tag [0..<length (r # rs)] = Inr (Some 0)"
    by (simp add: upt_conv_Cons del: upt_Suc search_release.simps)
  from sends_release [OF assms(1) this, of w] show ?thesis by (simp add: sends_def)
qed

theorem release_id_not_compared_witness:
  "\<exists>w' r. up_get_release demo_env ''v1'' ''10'' demo_world = (Inr r, w') \<and> jget r ''id'' = Inr (JInt 11)"
  using release_id_not_compared [of demo_env 200 "demo_releases ! 0" "tl demo_releases" "''10''" "JInt 11" "''v1''" demo_world]
  by (auto simp: demo_env_def demo_releases_def)

end
