(* ===== verification/Command_Lines.thy ===== *)
theory Command_Lines
  imports Argparse Run_Sim_Test Vswarm_Simple Check_Sims Artifacts Upload_Assets
begin

text \<open>
  The command lines of the programs: the parser each script builds with \<open>add_argument\<close>, the
  arguments it hands to the models of the scripts, and the command lines that the generated
  shell scripts \<open>sim_function.sh\<close> and \<open>setup_function.sh\<close> call them with. An option without a
  default is \<open>None\<close> in Python when it is absent; the records of the models have the empty
  string there (\<open>--kernel\<close>, \<open>--disk\<close>), or an option type (\<open>--etherdump\<close>).
\<close>

subsection \<open>Reading a namespace\<close>

definition ns_str :: "namespace \<Rightarrow> string \<Rightarrow> string" where
  "ns_str ns d = (case ns d of Some (AStr s) \<Rightarrow> s | _ \<Rightarrow> [])"

definition ns_int :: "namespace \<Rightarrow> string \<Rightarrow> int" where
  "ns_int ns d = (case ns d of Some (AInt i) \<Rightarrow> i | _ \<Rightarrow> 0)"

definition ns_bool :: "namespace \<Rightarrow> string \<Rightarrow> bool" where
  "ns_bool ns d \<longleftrightarrow> ns d = Some (ABool True)"

definition ns_opt :: "namespace \<Rightarrow> string \<Rightarrow> string option" where
  "ns_opt ns d = (case ns d of Some (AStr s) \<Rightarrow> Some s | _ \<Rightarrow> None)"

subsection \<open>The simulation scripts\<close>

definition kernel_opt :: arg_spec where
  "kernel_opt = str_option [''--kernel''] ANone None"

definition disk_opt :: arg_spec where
  "disk_opt = str_option [''--disk''] ANone None"

definition script_opt :: arg_spec where
  "script_opt = str_option [''-s'', ''--script''] (AStr []) None"

definition function_opt :: "string \<Rightarrow> arg_spec" where
  "function_opt d = str_option [''-f'', ''--function''] (AStr d) None"

definition system_opt :: arg_spec where
  "system_opt = str_option [''--system''] (AStr ''simple'') (Some [''simple'', ''skylake''])"

definition cpu_opt :: arg_spec where
  "cpu_opt = str_option [''--cpu''] (AStr ''SklTunedCPU'') None"

definition atomic_warming_opt :: arg_spec where
  "atomic_warming_opt = int_option [''--atomic-warming''] 0"

definition num_invocations_opt :: arg_spec where
  "num_invocations_opt = int_option [''--num-invocations''] 5"

definition mode_opt :: arg_spec where
  "mode_opt = str_option [''--mode''] (AStr ''setup'') (Some [''setup'', ''evaluation''])"

definition take_checkpoints_opt :: arg_spec where
  "take_checkpoints_opt = flag_option [''--take-checkpoints'']"

definition use_checkpoint_opt :: arg_spec where
  "use_checkpoint_opt = str_option [''--use-checkpoint''] (AStr ''warm'') (Some [''boot'', ''warm''])"

definition checkpoint_dir_opt :: "string \<Rightarrow> arg_spec" where
  "checkpoint_dir_opt d = str_option [''--checkpoint-dir''] (AStr d) None"

definition etherdump_opt :: arg_spec where
  "etherdump_opt = str_option [''--etherdump''] ANone None"

definition run_sim_parser :: parser where
  "run_sim_parser =
     [help_option, kernel_opt, disk_opt, script_opt, function_opt [], system_opt, atomic_warming_opt,
      num_invocations_opt, mode_opt, take_checkpoints_opt, use_checkpoint_opt, checkpoint_dir_opt ''cpt_1m/'']"

definition two_machine_parser :: parser where
  "two_machine_parser =
     [help_option, kernel_opt, disk_opt, script_opt, function_opt [], cpu_opt, atomic_warming_opt,
      num_invocations_opt, mode_opt, take_checkpoints_opt, use_checkpoint_opt, checkpoint_dir_opt ''cpt_2m/'',
      etherdump_opt]"

definition vswarm_parser :: parser where
  "vswarm_parser =
     [help_option, kernel_opt, disk_opt, function_opt ''fibonacci-go'', atomic_warming_opt,
      num_invocations_opt, mode_opt, checkpoint_dir_opt ''checkpoints/'']"

definition vswarm_arm_parser :: parser where
  "vswarm_arm_parser = vswarm_parser"

definition run_sim_arm_parser :: parser where
  "run_sim_arm_parser = vswarm_parser"

definition run_sim_test_parser :: parser where
  "run_sim_test_parser = [help_option, kernel_opt, disk_opt, script_opt, function_opt [], system_opt]"

text \<open>The attributes the scripts read, over the shared record; absent ones stay at its defaults.\<close>

definition base_args :: "namespace \<Rightarrow> args" where
  "base_args ns =
     \<lparr>arg_kernel = ns_str ns ''kernel'', arg_disk = ns_str ns ''disk'', arg_script = ns_str ns ''script'',
      arg_function = ns_str ns ''function'', arg_system = ns_str ns ''system'',
      atomic_warming = ns_int ns ''atomic_warming'', num_invocations = ns_int ns ''num_invocations'',
      arg_mode = ns_str ns ''mode'', take_checkpoints = ns_bool ns ''take_checkpoints'',
      use_checkpoint = ns_str ns ''use_checkpoint'', checkpoint_dir = ns_str ns ''checkpoint_dir''\<rparr>"

definition run_sim_parse_arguments :: "string list \<Rightarrow> args result" where
  "run_sim_parse_arguments argv = bind_res (parse_args run_sim_parser argv) (\<lambda>ns. Inr (base_args ns))"

definition two_machine_parse_arguments :: "string list \<Rightarrow> tm_args result" where
  "two_machine_parse_arguments argv =
     bind_res (parse_args two_machine_parser argv) (\<lambda>ns.
       Inr \<lparr>tm_base = base_args ns, tm_cpu = ns_str ns ''cpu'', etherdump = ns_opt ns ''etherdump''\<rparr>)"

definition vswarm_args :: "namespace \<Rightarrow> args" where
  "vswarm_args ns =
     vswarm_defaults\<lparr>arg_kernel := ns_str ns ''kernel'', arg_disk := ns_str ns ''disk'',
       arg_function := ns_str ns ''function'', atomic_warming := ns_int ns ''atomic_warming'',
       num_invocations := ns_int ns ''num_invocations'', arg_mode := ns_str ns ''mode'',
       checkpoint_dir := ns_str ns ''checkpoint_dir''\<rparr>"

definition vswarm_parse_arguments :: "string list \<Rightarrow> args result" where
  "vswarm_parse_arguments argv = bind_res (parse_args vswarm_parser argv) (\<lambda>ns. Inr (vswarm_args ns))"

definition run_sim_test_parse_arguments :: "string list \<Rightarrow> args result" where
  "run_sim_test_parse_arguments argv =
     bind_res (parse_args run_sim_test_parser argv) (\<lambda>ns.
       Inr (run_sim_defaults\<lparr>arg_kernel := ns_str ns ''kernel'', arg_disk := ns_str ns ''disk'',
         arg_script := ns_str ns ''script'', arg_function := ns_str ns ''function'',
         arg_system := ns_str ns ''system''\<rparr>))"

subsection \<open>The resource and analysis scripts\<close>

definition artifacts_parser :: "string option \<Rightarrow> parser" where
  "artifacts_parser env =
     [help_option,
      str_option [''--file''] (AStr (resources_dir env @ ''/release.json'')) None,
      flag_option [''--download'', ''-d''],
      str_option [''--version'', ''-v''] (AStr ''latest'') None,
      str_option [''--output'', ''-o''] (AStr (resources_dir env @ ''/'')) None,
      str_option [''--os-version'', ''-l''] (AStr ''focal'') (Some [''focal'', ''jammy'']),
      str_option [''--arch'', ''-a''] (AStr ''amd64'') (Some [''amd64'', ''arm64''])]"

definition artifacts_parse :: "string option \<Rightarrow> string list \<Rightarrow> art_args result" where
  "artifacts_parse env argv =
     bind_res (parse_args (artifacts_parser env) argv) (\<lambda>ns.
       Inr \<lparr>art_file = ns_str ns ''file'', art_download = ns_bool ns ''download'',
         art_version = ns_str ns ''version'', art_output = ns_str ns ''output'',
         os_version = ns_str ns ''os_version'', art_arch = ns_str ns ''arch''\<rparr>)"

definition upload_parser :: "string option \<Rightarrow> parser" where
  "upload_parser env =
     [help_option,
      str_option [''--kernel''] (AStr (up_resources env @ ''/kernel'')) None,
      str_option [''--disk-image''] (AStr (up_resources env @ ''/disk-image'')) None,
      str_option [''--client''] (AStr (up_resources env @ ''/client'')) None,
      str_option [''--upload-url''] (AStr []) None,
      str_option [''--tag-name''] (AStr []) None,
      str_option [''--release-id''] (AStr []) None,
      flag_option [''--version'', ''-v'']]"

definition upload_parse :: "string option \<Rightarrow> string list \<Rightarrow> up_args result" where
  "upload_parse env argv =
     bind_res (parse_args (upload_parser env) argv) (\<lambda>ns.
       Inr \<lparr>up_kernel = ns_str ns ''kernel'', up_disk_image = ns_str ns ''disk_image'',
         up_client = ns_str ns ''client'', up_upload_url = ns_str ns ''upload_url'',
         up_tag_name = ns_str ns ''tag_name'', up_release_id = ns_str ns ''release_id'',
         up_version = ns_bool ns ''version''\<rparr>)"

definition check_parser :: parser where
  "check_parser = [help_option, str_positional ''dir'']"

definition check_parse_arguments :: "string list \<Rightarrow> string result" where
  "check_parse_arguments argv = bind_res (parse_args check_parser argv) (\<lambda>ns. Inr (ns_str ns ''dir''))"

subsection \<open>Whole programs, from their command line\<close>

definition run_sim_script :: "m5_env \<Rightarrow> string \<Rightarrow> string list \<Rightarrow> exit_event list
    \<Rightarrow> (system \<times> sim_state \<times> outcome \<times> exit_event list) result" where
  "run_sim_script env outdir argv es =
     bind_res (run_sim_parse_arguments argv) (\<lambda>a. run_sim_main env outdir a es)"

definition two_machine_script :: "m5_env \<Rightarrow> string \<Rightarrow> string list \<Rightarrow> exit_event list
    \<Rightarrow> (dual_root \<times> sim_state \<times> outcome \<times> exit_event list) result" where
  "two_machine_script env outdir argv es =
     bind_res (two_machine_parse_arguments argv) (\<lambda>ta. two_machine_main env outdir ta es)"

definition check_script :: "file_tree \<Rightarrow> string list \<Rightarrow> effect list result" where
  "check_script ft argv = bind_res (check_parse_arguments argv) (\<lambda>dir. check_simulations ft dir)"

text \<open>
  The component-library scripts: the board with its workload, and the exit events handled by the
  generators; \<open>dflt\<close> is gem5's own reaction where a generator has ended or none is registered.
\<close>

definition vswarm_script :: "(exit_event \<Rightarrow> bool) \<Rightarrow> string list \<Rightarrow> exit_event list
    \<Rightarrow> (board_config \<times> vs_state \<times> outcome \<times> exit_event list) result" where
  "vswarm_script dflt argv es =
     bind_res (vswarm_parse_arguments argv) (\<lambda>a.
       Inr (x86_board a, sim_loop (vs_step dflt a) es (vs_init a)))"

definition vswarm_arm_parse_arguments :: "string list \<Rightarrow> args result" where
  "vswarm_arm_parse_arguments argv = bind_res (parse_args vswarm_arm_parser argv) (\<lambda>ns. Inr (vswarm_args ns))"

definition vswarm_arm_script :: "(exit_event \<Rightarrow> bool) \<Rightarrow> string list \<Rightarrow> exit_event list
    \<Rightarrow> (board_config \<times> vs_state \<times> outcome \<times> exit_event list) result" where
  "vswarm_arm_script dflt argv es =
     bind_res (vswarm_arm_parse_arguments argv) (\<lambda>a.
       Inr (vswarm_simple_arm_board a, sim_loop (vswarm_arm_step dflt a) es (vs_init a)))"

definition run_sim_arm_parse_arguments :: "string list \<Rightarrow> args result" where
  "run_sim_arm_parse_arguments argv = bind_res (parse_args run_sim_arm_parser argv) (\<lambda>ns. Inr (vswarm_args ns))"

definition run_sim_arm_script :: "(exit_event \<Rightarrow> bool) \<Rightarrow> string list \<Rightarrow> exit_event list
    \<Rightarrow> (board_config \<times> vs_state \<times> outcome \<times> exit_event list) result" where
  "run_sim_arm_script dflt argv es =
     bind_res (run_sim_arm_parse_arguments argv) (\<lambda>a.
       Inr (run_sim_arm_board a, sim_loop (arm_step dflt a) es (vs_init a)))"

text \<open>The command line of their usage notes.\<close>

definition vswarm_argv :: "string \<Rightarrow> string \<Rightarrow> string \<Rightarrow> string \<Rightarrow> nat \<Rightarrow> nat \<Rightarrow> string list" where
  "vswarm_argv mode fn vmlinux img warm runs =
     [''--mode'', mode, ''--function'', fn, ''--kernel'', vmlinux, ''--disk'', img,
      ''--atomic-warming'', show_int (int warm), ''--num-invocations'', show_int (int runs)]"

text \<open>The arguments after the configuration file in \<open>sim_function.sh\<close> and \<open>setup_function.sh\<close>.\<close>

definition sim_function_argv :: "string \<Rightarrow> string list" where
  "sim_function_argv fn =
     [''--kernel'', ''kernel'', ''--disk'', ''disk.img'', ''--function'', fn, ''--mode=evaluation'',
      ''--atomic-warming'', ''10'', ''--num-invocation'', ''10'']"

definition setup_function_argv :: "string \<Rightarrow> string list" where
  "setup_function_argv fn =
     [''--kernel'', ''kernel'', ''--disk'', ''disk.img'', ''--function'', fn, ''--mode=setup'']"

subsection \<open>The parsers are well formed\<close>

lemmas spec_defs = help_option_def str_option_def int_option_def flag_option_def str_positional_def dest_of_def
  kernel_opt_def disk_opt_def script_opt_def function_opt_def system_opt_def cpu_opt_def
  atomic_warming_opt_def num_invocations_opt_def mode_opt_def take_checkpoints_opt_def
  use_checkpoint_opt_def checkpoint_dir_opt_def etherdump_opt_def

lemmas parser_defs = run_sim_parser_def two_machine_parser_def vswarm_parser_def run_sim_test_parser_def
  artifacts_parser_def upload_parser_def check_parser_def

interpretation run_sim_args: arg_parser run_sim_parser
  by unfold_locales (simp_all add: parser_defs spec_defs option_name_ok_def typed_def)

interpretation two_machine_args: arg_parser two_machine_parser
  by unfold_locales (simp_all add: parser_defs spec_defs option_name_ok_def typed_def)

interpretation vswarm_cmd: arg_parser vswarm_parser
  by unfold_locales (simp_all add: parser_defs spec_defs option_name_ok_def typed_def)

interpretation run_sim_test_args: arg_parser run_sim_test_parser
  by unfold_locales (simp_all add: parser_defs spec_defs option_name_ok_def typed_def)

interpretation artifacts_args: arg_parser "artifacts_parser env" for env
  by unfold_locales (simp_all add: parser_defs spec_defs option_name_ok_def typed_def)

interpretation upload_args: arg_parser "upload_parser env" for env
  by unfold_locales (simp_all add: parser_defs spec_defs option_name_ok_def typed_def)

interpretation check_args: arg_parser check_parser
  by unfold_locales (simp_all add: parser_defs spec_defs option_name_ok_def typed_def)

subsection \<open>Command lines of the simulation scripts\<close>

lemma dest_simps [simp]:
  "arg_dest kernel_opt = ''kernel''" "arg_dest disk_opt = ''disk''" "arg_dest script_opt = ''script''"
  "arg_dest (function_opt d) = ''function''" "arg_dest system_opt = ''system''" "arg_dest cpu_opt = ''cpu''"
  "arg_dest atomic_warming_opt = ''atomic_warming''" "arg_dest num_invocations_opt = ''num_invocations''"
  "arg_dest mode_opt = ''mode''" "arg_dest take_checkpoints_opt = ''take_checkpoints''"
  "arg_dest use_checkpoint_opt = ''use_checkpoint''" "arg_dest (checkpoint_dir_opt d) = ''checkpoint_dir''"
  "arg_dest etherdump_opt = ''etherdump''"
  by (simp_all add: spec_defs)

lemma value_simps [simp]:
  "get_value kernel_opt s = Inr (AStr s)" "get_value disk_opt s = Inr (AStr s)"
  "get_value script_opt s = Inr (AStr s)" "get_value (function_opt d) s = Inr (AStr s)"
  "get_value (checkpoint_dir_opt d) s = Inr (AStr s)" "get_value cpu_opt s = Inr (AStr s)"
  "get_value etherdump_opt s = Inr (AStr s)"
  "get_value system_opt s = (if s \<in> {''simple'', ''skylake''} then Inr (AStr s) else Inl (SystemExit 2))"
  "get_value mode_opt s = (if s \<in> {''setup'', ''evaluation''} then Inr (AStr s) else Inl (SystemExit 2))"
  "get_value use_checkpoint_opt s = (if s \<in> {''boot'', ''warm''} then Inr (AStr s) else Inl (SystemExit 2))"
  "get_value atomic_warming_opt (show_int i) = Inr (AInt i)"
  "get_value num_invocations_opt (show_int i) = Inr (AInt i)"
  by (simp_all add: spec_defs get_value_def)

lemma act_simps [simp]:
  "arg_act kernel_opt = Store" "arg_act disk_opt = Store" "arg_act script_opt = Store"
  "arg_act (function_opt d) = Store" "arg_act system_opt = Store" "arg_act atomic_warming_opt = Store"
  "arg_act num_invocations_opt = Store" "arg_act mode_opt = Store" "arg_act use_checkpoint_opt = Store"
  "arg_act (checkpoint_dir_opt d) = Store" "arg_act take_checkpoints_opt = Store_true"
  "arg_act cpu_opt = Store" "arg_act etherdump_opt = Store"
  by (simp_all add: spec_defs)

lemma default_simps [simp]:
  "arg_default kernel_opt = ANone" "arg_default disk_opt = ANone" "arg_default script_opt = AStr []"
  "arg_default (function_opt d) = AStr d" "arg_default system_opt = AStr ''simple''"
  "arg_default cpu_opt = AStr ''SklTunedCPU''" "arg_default atomic_warming_opt = AInt 0"
  "arg_default num_invocations_opt = AInt 5" "arg_default mode_opt = AStr ''setup''"
  "arg_default take_checkpoints_opt = ABool False" "arg_default use_checkpoint_opt = AStr ''warm''"
  "arg_default (checkpoint_dir_opt d) = AStr d" "arg_default etherdump_opt = ANone"
  by (simp_all add: spec_defs)

lemmas read_defs = base_args_def apply_setting_def ns_str_def ns_int_def ns_bool_def ns_opt_def
  default_namespace_def help_option_def

text \<open>The arguments as a full command line.\<close>

definition run_sim_settings :: "args \<Rightarrow> setting list" where
  "run_sim_settings a =
     [Joined kernel_opt ''--kernel'' (arg_kernel a), Joined disk_opt ''--disk'' (arg_disk a),
      Joined script_opt ''--script'' (arg_script a), Joined (function_opt []) ''--function'' (arg_function a),
      Joined system_opt ''--system'' (arg_system a),
      Joined atomic_warming_opt ''--atomic-warming'' (show_int (atomic_warming a)),
      Joined num_invocations_opt ''--num-invocations'' (show_int (num_invocations a)),
      Joined mode_opt ''--mode'' (arg_mode a),
      Joined use_checkpoint_opt ''--use-checkpoint'' (use_checkpoint a),
      Joined (checkpoint_dir_opt ''cpt_1m/'') ''--checkpoint-dir'' (checkpoint_dir a)] @
     (if take_checkpoints a then [Flag take_checkpoints_opt ''--take-checkpoints''] else [])"

definition run_sim_command :: "args \<Rightarrow> string list" where
  "run_sim_command a = concat (map setting_tokens (run_sim_settings a))"

lemma run_sim_opts:
  "kernel_opt \<in> set run_sim_parser" "disk_opt \<in> set run_sim_parser" "script_opt \<in> set run_sim_parser"
  "function_opt [] \<in> set run_sim_parser" "system_opt \<in> set run_sim_parser"
  "atomic_warming_opt \<in> set run_sim_parser" "num_invocations_opt \<in> set run_sim_parser"
  "mode_opt \<in> set run_sim_parser" "take_checkpoints_opt \<in> set run_sim_parser"
  "use_checkpoint_opt \<in> set run_sim_parser" "checkpoint_dir_opt ''cpt_1m/'' \<in> set run_sim_parser"
  by (simp_all add: run_sim_parser_def)

lemma opt_names:
  "''--kernel'' \<in> set (option_strings kernel_opt)" "''--disk'' \<in> set (option_strings disk_opt)"
  "''--script'' \<in> set (option_strings script_opt)" "''--function'' \<in> set (option_strings (function_opt d))"
  "''--system'' \<in> set (option_strings system_opt)"
  "''--atomic-warming'' \<in> set (option_strings atomic_warming_opt)"
  "''--num-invocations'' \<in> set (option_strings num_invocations_opt)"
  "''--mode'' \<in> set (option_strings mode_opt)"
  "''--take-checkpoints'' \<in> set (option_strings take_checkpoints_opt)"
  "''--use-checkpoint'' \<in> set (option_strings use_checkpoint_opt)"
  "''--checkpoint-dir'' \<in> set (option_strings (checkpoint_dir_opt d))"
  by (simp_all add: spec_defs)

lemma run_sim_settings_ok:
  assumes "run_sim_choices_ok a"
  shows "list_all (setting_ok run_sim_parser) (run_sim_settings a)"
proof -
  note j = run_sim_args.joined_ok
  have v: "get_value system_opt (arg_system a) = Inr (AStr (arg_system a))"
    "get_value mode_opt (arg_mode a) = Inr (AStr (arg_mode a))"
    "get_value use_checkpoint_opt (use_checkpoint a) = Inr (AStr (use_checkpoint a))"
    using assms by (auto simp: run_sim_choices_ok_def)
  show ?thesis
    unfolding run_sim_settings_def
    by (simp del: setting_ok.simps
        add: j [OF run_sim_opts(1) opt_names(1)] j [OF run_sim_opts(2) opt_names(2)]
          j [OF run_sim_opts(3) opt_names(3)] j [OF run_sim_opts(4) opt_names(4)]
          j [OF run_sim_opts(5) opt_names(5) _ v(1)] j [OF run_sim_opts(6) opt_names(6)]
          j [OF run_sim_opts(7) opt_names(7)] j [OF run_sim_opts(8) opt_names(8) _ v(2)]
          j [OF run_sim_opts(10) opt_names(10) _ v(3)] j [OF run_sim_opts(11) opt_names(11)]
          run_sim_args.flag_ok [OF run_sim_opts(9) opt_names(9)])
qed

text \<open>
  C20. Round trip of the command line: every set of arguments of \<open>run_sim.py\<close> with permitted
  choices, whatever the texts and numbers in it (negative ones, texts that look like options),
  can be spelt as a command line, \<open>--option=value\<close> for each of them, and \<open>parse_arguments\<close>
  reads exactly these arguments back.
\<close>

theorem command_line_roundtrip:
  assumes "run_sim_choices_ok a"
  shows "run_sim_parse_arguments (run_sim_command a) = Inr a"
proof -
  have "parse_args run_sim_parser (run_sim_command a) =
      Inr (fold apply_setting (run_sim_settings a) (default_namespace run_sim_parser))"
    unfolding run_sim_command_def
    by (rule parse_settings [OF run_sim_settings_ok [OF assms]]) (simp add: parser_defs spec_defs)
  moreover have "base_args (fold apply_setting (run_sim_settings a) (default_namespace run_sim_parser)) = a"
    using assms
    by (cases a) (auto simp: run_sim_choices_ok_def run_sim_settings_def run_sim_parser_def read_defs)
  ultimately show ?thesis by (simp add: run_sim_parse_arguments_def)
qed

theorem command_line_roundtrip_witness:
  "run_sim_parse_arguments (run_sim_command (run_sim_defaults\<lparr>arg_script := ''--mode'', atomic_warming := -3\<rparr>)) =
     Inr (run_sim_defaults\<lparr>arg_script := ''--mode'', atomic_warming := -3\<rparr>)"
  by (rule command_line_roundtrip) (simp add: run_sim_choices_ok_def run_sim_defaults_def)

text \<open>The abbreviation \<open>--num-invocation\<close> stands for \<open>--num-invocations\<close>.\<close>

lemma num_invocation_abbreviated:
  "names_option run_sim_parser ''--num-invocation'' num_invocations_opt None"
  "names_option two_machine_parser ''--num-invocation'' num_invocations_opt None"
  by (simp_all add: names_option_def parse_optional_def find_option_def split_eq_def abbreviated_def
      option_tuples_def parser_defs spec_defs)

lemma ten_value [simp]:
  "get_value atomic_warming_opt ''10'' = Inr (AInt 10)" "get_value num_invocations_opt ''10'' = Inr (AInt 10)"
proof -
  have "show_int 10 = ''10''" by (simp add: show_int_def show_nat.simps)
  then show "get_value atomic_warming_opt ''10'' = Inr (AInt 10)"
    "get_value num_invocations_opt ''10'' = Inr (AInt 10)"
    using value_simps(11,12) [of 10] by simp_all
qed

definition setup_settings :: "string \<Rightarrow> string \<Rightarrow> setting list" where
  "setup_settings fn mode =
     [Spaced kernel_opt ''--kernel'' ''kernel'', Spaced disk_opt ''--disk'' ''disk.img'',
      Spaced (function_opt []) ''--function'' fn, Joined mode_opt ''--mode'' mode]"

definition sim_settings :: "string \<Rightarrow> setting list" where
  "sim_settings fn = setup_settings fn ''evaluation'' @
     [Spaced atomic_warming_opt ''--atomic-warming'' ''10'',
      Spaced num_invocations_opt ''--num-invocation'' ''10'']"

lemma argv_settings:
  "sim_function_argv fn = concat (map setting_tokens (sim_settings fn))"
  "setup_function_argv fn = concat (map setting_tokens (setup_settings fn ''setup''))"
  by (simp_all add: sim_function_argv_def setup_function_argv_def sim_settings_def setup_settings_def)

definition function_word :: "string \<Rightarrow> bool" where
  "function_word fn \<longleftrightarrow> plain_word fn \<and> hd fn \<noteq> CHR ''-''"

lemma setup_settings_ok:
  assumes "function_word fn" and "mode \<in> {''setup'', ''evaluation''}"
  shows "list_all (setting_ok run_sim_parser) (setup_settings fn mode)"
    and "list_all (setting_ok two_machine_parser) (setup_settings fn mode)"
proof -
  have a: "is_arg p fn" "is_arg p ''kernel''" "is_arg p ''disk.img''" for p
    using assms(1) by (simp_all add: parse_plain function_word_def)
  have m: "mode = ''setup'' \<or> mode = ''evaluation''" using assms(2) by simp
  have p: "kernel_opt \<in> set two_machine_parser" "disk_opt \<in> set two_machine_parser"
    "function_opt [] \<in> set two_machine_parser" "mode_opt \<in> set two_machine_parser"
    by (simp_all add: two_machine_parser_def)
  note d = setup_settings_def setting_ok.simps act_simps list.pred_inject a m
  show "list_all (setting_ok run_sim_parser) (setup_settings fn mode)"
    by (simp add: d run_sim_args.names_full run_sim_opts opt_names del: append.simps)
  show "list_all (setting_ok two_machine_parser) (setup_settings fn mode)"
    by (simp add: d two_machine_args.names_full p opt_names del: append.simps)
qed

lemma sim_settings_ok:
  assumes "function_word fn"
  shows "list_all (setting_ok run_sim_parser) (sim_settings fn)"
    and "list_all (setting_ok two_machine_parser) (sim_settings fn)"
proof -
  have a: "is_arg p ''10''" for p by (simp add: parse_plain)
  have p: "atomic_warming_opt \<in> set two_machine_parser" by (simp add: two_machine_parser_def)
  note s = setup_settings_ok [OF assms, of "''evaluation''"]
  show "list_all (setting_ok run_sim_parser) (sim_settings fn)"
    using s(1) a num_invocation_abbreviated(1)
    by (simp add: sim_settings_def run_sim_args.names_full run_sim_opts opt_names)
  show "list_all (setting_ok two_machine_parser) (sim_settings fn)"
    using s(2) a num_invocation_abbreviated(2)
    by (simp add: sim_settings_def two_machine_args.names_full p opt_names)
qed

definition setup_function_args :: "string \<Rightarrow> args" where
  "setup_function_args fn =
     run_sim_defaults\<lparr>arg_kernel := ''kernel'', arg_disk := ''disk.img'', arg_function := fn\<rparr>"

definition sim_function_args :: "string \<Rightarrow> args" where
  "sim_function_args fn =
     (setup_function_args fn)\<lparr>arg_mode := ''evaluation'', atomic_warming := 10, num_invocations := 10\<rparr>"

lemma run_sim_commands_parsed:
  assumes "function_word fn"
  shows "run_sim_parse_arguments (sim_function_argv fn) = Inr (sim_function_args fn)"
    and "run_sim_parse_arguments (setup_function_argv fn) = Inr (setup_function_args fn)"
proof -
  have p: "filter (\<lambda>a. option_strings a = []) run_sim_parser = []" by (simp add: parser_defs spec_defs)
  show "run_sim_parse_arguments (sim_function_argv fn) = Inr (sim_function_args fn)"
    unfolding run_sim_parse_arguments_def argv_settings parse_settings [OF sim_settings_ok(1) [OF assms] p]
    by (simp add: sim_settings_def setup_settings_def run_sim_parser_def read_defs
        sim_function_args_def setup_function_args_def run_sim_defaults_def)
  show "run_sim_parse_arguments (setup_function_argv fn) = Inr (setup_function_args fn)"
    unfolding run_sim_parse_arguments_def argv_settings
      parse_settings [OF setup_settings_ok(1) [OF assms, of "''setup''", simplified] p]
    by (simp add: setup_settings_def run_sim_parser_def read_defs setup_function_args_def run_sim_defaults_def)
qed

lemma two_machine_commands_parsed:
  assumes "function_word fn"
  shows "two_machine_parse_arguments (sim_function_argv fn) =
      Inr (two_machine_defaults\<lparr>tm_base := (sim_function_args fn)\<lparr>arg_system := [], checkpoint_dir := ''cpt_2m/''\<rparr>\<rparr>)"
    and "two_machine_parse_arguments (setup_function_argv fn) =
      Inr (two_machine_defaults\<lparr>tm_base := (setup_function_args fn)\<lparr>arg_system := [], checkpoint_dir := ''cpt_2m/''\<rparr>\<rparr>)"
proof -
  have p: "filter (\<lambda>a. option_strings a = []) two_machine_parser = []" by (simp add: parser_defs spec_defs)
  note d = setup_settings_def two_machine_parser_def read_defs setup_function_args_def run_sim_defaults_def
    two_machine_defaults_def
  show "two_machine_parse_arguments (sim_function_argv fn) =
      Inr (two_machine_defaults\<lparr>tm_base := (sim_function_args fn)\<lparr>arg_system := [], checkpoint_dir := ''cpt_2m/''\<rparr>\<rparr>)"
    unfolding two_machine_parse_arguments_def argv_settings parse_settings [OF sim_settings_ok(2) [OF assms] p]
    by (simp add: sim_settings_def d sim_function_args_def)
  show "two_machine_parse_arguments (setup_function_argv fn) =
      Inr (two_machine_defaults\<lparr>tm_base := (setup_function_args fn)\<lparr>arg_system := [], checkpoint_dir := ''cpt_2m/''\<rparr>\<rparr>)"
    unfolding two_machine_parse_arguments_def argv_settings
      parse_settings [OF setup_settings_ok(2) [OF assms, of "''setup''", simplified] p]
    by (simp add: d)
qed

subsection \<open>What every accepted command line guarantees\<close>

lemma choice_value:
  assumes "typed a v" and "arg_act a = Store" and "arg_typ a = TStr" and "arg_choices a = Some ch"
  obtains s where "v = AStr s" and "s \<in> set ch"
  using assms by (auto simp: typed_def split: arg_value.splits)

lemma parsed_choice:
  assumes "all_typed p ns" and "a \<in> set p" and "arg_act a = Store" and "arg_typ a = TStr"
    and "arg_choices a = Some ch"
  shows "ns_str ns (arg_dest a) \<in> set ch"
proof -
  from assms(1-3) obtain v where v: "ns (arg_dest a) = Some v" "typed a v"
    by (auto simp: all_typed_def list_all_iff split: option.splits)
  obtain s where "v = AStr s" "s \<in> set ch" by (rule choice_value [OF v(2) assms(3-5)])
  with v(1) show ?thesis by (simp add: ns_str_def)
qed

lemma choices_simps [simp]:
  "arg_choices system_opt = Some [''simple'', ''skylake'']" "arg_choices mode_opt = Some [''setup'', ''evaluation'']"
  "arg_choices use_checkpoint_opt = Some [''boot'', ''warm'']" "arg_typ system_opt = TStr"
  "arg_typ mode_opt = TStr" "arg_typ use_checkpoint_opt = TStr"
  by (simp_all add: spec_defs)

lemma run_sim_choices:
  assumes "run_sim_parse_arguments argv = Inr a"
  shows "run_sim_choices_ok a"
proof -
  obtain ns where ns: "parse_args run_sim_parser argv = Inr ns" and a: "a = base_args ns"
    using assms by (auto simp: run_sim_parse_arguments_def bind_res_Inr_iff)
  note c = parsed_choice [OF run_sim_args.parse_typed [OF ns]]
  from c [OF run_sim_opts(5)] c [OF run_sim_opts(8)] c [OF run_sim_opts(10)]
  show ?thesis by (simp add: a base_args_def run_sim_choices_ok_def)
qed

lemma two_machine_mode:
  assumes "two_machine_parse_arguments argv = Inr ta"
  shows "arg_mode (tm_base ta) \<in> {''setup'', ''evaluation''} \<and> use_checkpoint (tm_base ta) \<in> {''boot'', ''warm''}"
proof -
  obtain ns where ns: "parse_args two_machine_parser argv = Inr ns" and a: "tm_base ta = base_args ns"
    using assms by (auto simp: two_machine_parse_arguments_def bind_res_Inr_iff)
  note c = parsed_choice [OF two_machine_args.parse_typed [OF ns]]
  have "mode_opt \<in> set two_machine_parser" "use_checkpoint_opt \<in> set two_machine_parser"
    by (simp_all add: two_machine_parser_def)
  from c [OF this(1)] c [OF this(2)] show ?thesis by (simp add: a base_args_def)
qed

lemma vswarm_mode:
  assumes "vswarm_parse_arguments argv = Inr a"
  shows "arg_mode a \<in> {''setup'', ''evaluation''}"
proof -
  obtain ns where ns: "parse_args vswarm_parser argv = Inr ns" and a: "a = vswarm_args ns"
    using assms by (auto simp: vswarm_parse_arguments_def bind_res_Inr_iff)
  have "mode_opt \<in> set vswarm_parser" by (simp add: vswarm_parser_def)
  from parsed_choice [OF vswarm_cmd.parse_typed [OF ns] this] show ?thesis by (simp add: a vswarm_args_def)
qed

lemma artifacts_choices:
  assumes "artifacts_parse env argv = Inr a"
  shows "os_version a \<in> {''focal'', ''jammy''} \<and> art_arch a \<in> {''amd64'', ''arm64''}"
proof -
  obtain ns where ns: "parse_args (artifacts_parser env) argv = Inr ns"
    and a: "os_version a = ns_str ns ''os_version''" "art_arch a = ns_str ns ''arch''"
    using assms by (auto simp: artifacts_parse_def bind_res_Inr_iff)
  let ?o = "str_option [''--os-version'', ''-l''] (AStr ''focal'') (Some [''focal'', ''jammy''])"
  let ?a = "str_option [''--arch'', ''-a''] (AStr ''amd64'') (Some [''amd64'', ''arm64''])"
  have d: "arg_dest ?o = ''os_version''" "arg_dest ?a = ''arch''" by (simp_all add: spec_defs)
  have m: "?o \<in> set (artifacts_parser env)" "?a \<in> set (artifacts_parser env)" by (simp_all add: artifacts_parser_def)
  note c = parsed_choice [OF artifacts_args.parse_typed [OF ns]]
  have "ns_str ns (arg_dest ?o) \<in> set [''focal'', ''jammy'']" "ns_str ns (arg_dest ?a) \<in> set [''amd64'', ''arm64'']"
    by (rule c [OF m(1)] c [OF m(2)]; simp add: str_option_def)+
  then show ?thesis unfolding d a by simp
qed

lemma parse_arguments_exits:
  "exit_only (run_sim_parse_arguments argv)" "exit_only (two_machine_parse_arguments argv)"
  "exit_only (vswarm_parse_arguments argv)" "exit_only (artifacts_parse env argv)"
  unfolding run_sim_parse_arguments_def two_machine_parse_arguments_def vswarm_parse_arguments_def
    artifacts_parse_def
  by (intro exit_only_bind exit_only_parse exit_only_simps)+

text \<open>
  C18. Typed arguments: whatever the command line, the scripts go on only with arguments in
  their declared choices (system, mode, checkpoint of the simulation scripts; Ubuntu version
  and architecture of the release download); any other command line ends them with status 2,
  or 0 for the help text, before they have any effect.
\<close>

theorem command_line_checked:
  "(case run_sim_parse_arguments argv of
      Inr a \<Rightarrow> run_sim_choices_ok a | Inl e \<Rightarrow> e = SystemExit 0 \<or> e = SystemExit 2) \<and>
   (case two_machine_parse_arguments argv of
      Inr ta \<Rightarrow> arg_mode (tm_base ta) \<in> {''setup'', ''evaluation''} \<and> use_checkpoint (tm_base ta) \<in> {''boot'', ''warm''}
    | Inl e \<Rightarrow> e = SystemExit 0 \<or> e = SystemExit 2) \<and>
   (case vswarm_parse_arguments argv of
      Inr a \<Rightarrow> arg_mode a \<in> {''setup'', ''evaluation''} | Inl e \<Rightarrow> e = SystemExit 0 \<or> e = SystemExit 2) \<and>
   (case artifacts_parse env argv of
      Inr a \<Rightarrow> os_version a \<in> {''focal'', ''jammy''} \<and> art_arch a \<in> {''amd64'', ''arm64''}
    | Inl e \<Rightarrow> e = SystemExit 0 \<or> e = SystemExit 2)"
proof (intro conjI)
  show "case run_sim_parse_arguments argv of
      Inr a \<Rightarrow> run_sim_choices_ok a | Inl e \<Rightarrow> e = SystemExit 0 \<or> e = SystemExit 2"
    using run_sim_choices [of argv] parse_arguments_exits(1) [of argv]
    by (simp add: exit_only_def split: sum.splits)
  show "case two_machine_parse_arguments argv of
      Inr ta \<Rightarrow> arg_mode (tm_base ta) \<in> {''setup'', ''evaluation''} \<and> use_checkpoint (tm_base ta) \<in> {''boot'', ''warm''}
    | Inl e \<Rightarrow> e = SystemExit 0 \<or> e = SystemExit 2"
    using two_machine_mode [of argv] parse_arguments_exits(2) [of argv]
    by (simp add: exit_only_def split: sum.splits)
  show "case vswarm_parse_arguments argv of
      Inr a \<Rightarrow> arg_mode a \<in> {''setup'', ''evaluation''} | Inl e \<Rightarrow> e = SystemExit 0 \<or> e = SystemExit 2"
    using vswarm_mode [of argv] parse_arguments_exits(3) [of argv]
    by (simp add: exit_only_def split: sum.splits)
  show "case artifacts_parse env argv of
      Inr a \<Rightarrow> os_version a \<in> {''focal'', ''jammy''} \<and> art_arch a \<in> {''amd64'', ''arm64''}
    | Inl e \<Rightarrow> e = SystemExit 0 \<or> e = SystemExit 2"
    using artifacts_choices [of env argv] parse_arguments_exits(4) [of env argv]
    by (simp add: exit_only_def split: sum.splits)
qed

subsection \<open>The scripts called from their command lines\<close>

lemma run_sim_never_fatal:
  assumes "run_sim_choices_ok a"
  shows "\<exists>sys st r. run_sim_main env outdir a es = Inr (sys, st, r) \<and> LogFatal m \<notin> set (trace st)"
proof (cases "arg_mode a = ''setup''")
  case True
  from run_sim_setup [OF this, of env outdir es] obtain sys where
    "run_sim_main env outdir a es = Inr (sys, simulate [SwitchCpus ''system'' (atomic_to_main 2)] a es
      (emit (setup_preamble outdir a) init_state))" by blast
  moreover have "LogFatal m \<notin> set (trace (fst (simulate [SwitchCpus ''system'' (atomic_to_main 2)] a es
      (emit (setup_preamble outdir a) init_state))))"
    by (rule simulate_no_fatal) (simp_all add: preambles_no_fatal init_state_def)
  ultimately show ?thesis by (metis prod.collapse)
next
  case False
  with assms have e: "arg_mode a = ''evaluation''" by (simp add: run_sim_choices_ok_def)
  show ?thesis
  proof (cases es)
    case Nil
    obtain sys where "create_run_sim_system env a = Inr sys" using run_sim_system_shape [of env a] by blast
    with Nil e show ?thesis
      by (simp add: run_sim_main_def run_sim_prepare_def Let_def init_state_def split_beta run_text_written)
  next
    case (Cons x xs)
    from run_sim_evaluation [OF e, of env outdir x xs] obtain sys where
      "run_sim_main env outdir a es = Inr (sys, simulate [SwitchCpus ''system'' (atomic_to_main 2)] a xs
        (evaluation_start outdir a))" unfolding Cons by blast
    moreover have "LogFatal m \<notin> set (trace (fst (simulate [SwitchCpus ''system'' (atomic_to_main 2)] a xs
        (evaluation_start outdir a))))"
      by (rule simulate_no_fatal) (simp_all add: preambles_no_fatal)
    ultimately show ?thesis by (metis prod.collapse)
  qed
qed

lemma two_machine_builds:
  assumes "arg_mode (tm_base ta) \<in> {''setup'', ''evaluation''}"
  shows "\<not> isl (two_machine_main env outdir ta es)"
proof (cases "arg_mode (tm_base ta) = ''setup''")
  case True
  from two_machine_setup [OF this, of env outdir es] show ?thesis by auto
next
  case False
  with assms have e: "arg_mode (tm_base ta) = ''evaluation''" by simp
  show ?thesis
  proof (cases es)
    case Nil
    from two_machine_evaluation [OF e, of env outdir exit_instr "[]"] show ?thesis
      unfolding Nil two_machine_main_def bind_res_def Let_def
      by (auto simp: e split: sum.splits prod.splits)
  next
    case (Cons x xs)
    from two_machine_evaluation [OF e, of env outdir x xs] show ?thesis unfolding Cons by auto
  qed
qed


lemma sim_args_fields:
  "arg_mode (sim_function_args fn) = ''evaluation''" "arg_function (sim_function_args fn) = fn"
  "atomic_warming (sim_function_args fn) = int 10" "num_invocations (sim_function_args fn) = int (Suc 9)"
  "arg_mode (setup_function_args fn) = ''setup''" "arg_function (setup_function_args fn) = fn"
  by (simp_all add: sim_function_args_def setup_function_args_def run_sim_defaults_def)

lemma workflow_checkpoint:
  "checkpoint_path (setup_function_args fn) ''warm'' = ''cpt_1m//'' @ fn @ ''/cpt.warm''"
  "checkpoint_path (sim_function_args fn) (use_checkpoint (sim_function_args fn)) = ''cpt_1m//'' @ fn @ ''/cpt.warm''"
  by (simp_all add: checkpoint_path_def sim_function_args_def setup_function_args_def run_sim_defaults_def)

lemma script_commands:
  assumes "function_word fn"
  shows "run_sim_script env d (setup_function_argv fn) es = run_sim_main env d (setup_function_args fn) es"
    and "run_sim_script env d (sim_function_argv fn) es = run_sim_main env d (sim_function_args fn) es"
  by (simp_all add: run_sim_script_def run_sim_commands_parsed [OF assms])

lemma workflow_setup:
  assumes "function_word fn"
  shows "\<exists>sys st. run_sim_script env outdir (setup_function_argv fn) (shell_events (run_text fn)) =
        Inr (sys, st, Break, []) \<and>
      checkpoints_of (trace st) = [''cpt_1m//'' @ fn @ ''/cpt.warm'']"
proof -
  have pw: "plain_word fn" using assms by (simp add: function_word_def)
  with setup_run [of "setup_function_args fn" env outdir] show ?thesis
    unfolding script_commands [OF assms] sim_args_fields workflow_checkpoint by blast
qed

lemma workflow_restores:
  "Instantiate (Some (''cpt_1m//'' @ fn @ ''/cpt.warm'')) \<in>
     set (evaluation_preamble outdir (sim_function_args fn))"
  unfolding workflow_checkpoint(2) [symmetric] by (simp add: evaluation_preamble_def)

lemma workflow_evaluation:
  assumes "function_word fn"
  shows "\<exists>sys st rest. run_sim_script env outdir (sim_function_argv fn)
        (e # after_checkpoint (shell_events (run_text fn))) = Inr (sys, st, Break, rest) \<and>
      trace st = evaluation_preamble outdir (sim_function_args fn) @ inv_logs begin_marks end_marks 0 10 @
        ready_inv_log begin_marks to_main_log end_marks 10 @
        inv_logs begin_marks end_marks 11 9 @ measured_log"
proof -
  have pw: "plain_word fn" using assms by (simp add: function_word_def)
  have "\<exists>sys st rest. run_sim_main env outdir (sim_function_args fn)
        (e # after_checkpoint (shell_events (run_text fn))) = Inr (sys, st, Break, rest) \<and>
      inv_to_measure st = 0 \<and>
      trace st = evaluation_preamble outdir (sim_function_args fn) @ inv_logs begin_marks end_marks 0 10 @
        ready_inv_log begin_marks to_main_log end_marks 10 @
        inv_logs begin_marks end_marks (Suc 10) 9 @ measured_log"
    using evaluation_run [of "sim_function_args fn" 10 9 env outdir e] pw unfolding sim_args_fields by simp
  then show ?thesis unfolding script_commands [OF assms] by (elim exE conjE) (intro exI conjI, assumption, simp)
qed

text \<open>
  C2. The documented workflow: \<open>setup_function.sh\<close> followed by \<open>sim_function.sh\<close> for a
  function whose name is a plain word not starting with \<open>-\<close>. The setup run takes exactly the
  checkpoint that the evaluation run restores, and the evaluation warms for 10 invocations,
  measures the next 10 and dumps the statistics once, after the last of them. The shell script
  asks for this with \<open>--num-invocation\<close>, which \<open>argparse\<close> completes to \<open>--num-invocations\<close>.
\<close>

theorem workflow_measures:
  assumes "function_word fn"
  shows "(\<exists>sys st. run_sim_script env setup_out (setup_function_argv fn) (shell_events (run_text fn)) =
        Inr (sys, st, Break, []) \<and>
      checkpoints_of (trace st) = [''cpt_1m//'' @ fn @ ''/cpt.warm'']) \<and>
    (\<exists>sys st rest. run_sim_script env outdir (sim_function_argv fn)
          (e # after_checkpoint (shell_events (run_text fn))) = Inr (sys, st, Break, rest) \<and>
      Instantiate (Some (''cpt_1m//'' @ fn @ ''/cpt.warm'')) \<in> set (trace st) \<and>
      trace st = evaluation_preamble outdir (sim_function_args fn) @ inv_logs begin_marks end_marks 0 10 @
        ready_inv_log begin_marks to_main_log end_marks 10 @
        inv_logs begin_marks end_marks 11 9 @ measured_log)"
proof (intro conjI)
  show "\<exists>sys st. run_sim_script env setup_out (setup_function_argv fn) (shell_events (run_text fn)) =
      Inr (sys, st, Break, []) \<and> checkpoints_of (trace st) = [''cpt_1m//'' @ fn @ ''/cpt.warm'']"
    by (rule workflow_setup [OF assms])
  from workflow_evaluation [OF assms, of env outdir e] obtain sys st rest where
    r: "run_sim_script env outdir (sim_function_argv fn)
        (e # after_checkpoint (shell_events (run_text fn))) = Inr (sys, st, Break, rest)"
    and tr: "trace st = evaluation_preamble outdir (sim_function_args fn) @ inv_logs begin_marks end_marks 0 10 @
        ready_inv_log begin_marks to_main_log end_marks 10 @
        inv_logs begin_marks end_marks 11 9 @ measured_log" by (elim exE conjE) (rule that)
  have m: "Instantiate (Some (''cpt_1m//'' @ fn @ ''/cpt.warm'')) \<in> set (trace st)"
    unfolding tr set_append by (rule UnI1 [OF workflow_restores])
  show "\<exists>sys st rest. run_sim_script env outdir (sim_function_argv fn)
          (e # after_checkpoint (shell_events (run_text fn))) = Inr (sys, st, Break, rest) \<and>
      Instantiate (Some (''cpt_1m//'' @ fn @ ''/cpt.warm'')) \<in> set (trace st) \<and>
      trace st = evaluation_preamble outdir (sim_function_args fn) @ inv_logs begin_marks end_marks 0 10 @
        ready_inv_log begin_marks to_main_log end_marks 10 @
        inv_logs begin_marks end_marks 11 9 @ measured_log"
    by (intro exI conjI, rule r, rule m, rule tr)
qed

theorem workflow_measures_witness:
  "(\<exists>sys st. run_sim_script ref_env ''out'' (setup_function_argv ''aes-go'') (shell_events (run_text ''aes-go'')) =
      Inr (sys, st, Break, []) \<and> checkpoints_of (trace st) = [''cpt_1m//aes-go/cpt.warm'']) \<and>
   (\<exists>sys st rest. run_sim_script ref_env ''m5out'' (sim_function_argv ''aes-go'')
      (exit_instr # after_checkpoint (shell_events (run_text ''aes-go''))) = Inr (sys, st, Break, rest) \<and>
    Instantiate (Some ''cpt_1m//aes-go/cpt.warm'') \<in> set (trace st))"
proof -
  have "function_word ''aes-go''" by (simp add: function_word_def plain_word_def shell_special_def)
  from workflow_measures [OF this, of ref_env "''out''" "''m5out''" exit_instr] show ?thesis
    by (elim conjE exE) (intro conjI exI, assumption, simp, assumption, simp)
qed

text \<open>The arguments of the two-machine script in the same workflow.\<close>

definition tm_workflow_args :: "args \<Rightarrow> tm_args" where
  "tm_workflow_args a = two_machine_defaults\<lparr>tm_base := a\<lparr>arg_system := [], checkpoint_dir := ''cpt_2m/''\<rparr>\<rparr>"

lemma tm_workflow_fields:
  "arg_mode (tm_base (tm_workflow_args a)) = arg_mode a"
  "arg_function (tm_base (tm_workflow_args a)) = arg_function a"
  "atomic_warming (tm_base (tm_workflow_args a)) = atomic_warming a"
  "num_invocations (tm_base (tm_workflow_args a)) = num_invocations a"
  "checkpoint_path (tm_base (tm_workflow_args a)) c = ''cpt_2m//'' @ arg_function a @ ''/cpt.'' @ c"
  by (simp_all add: tm_workflow_args_def checkpoint_path_def)

lemma tm_script_commands:
  assumes "function_word fn"
  shows "two_machine_script env d (setup_function_argv fn) es =
      two_machine_main env d (tm_workflow_args (setup_function_args fn)) es"
    and "two_machine_script env d (sim_function_argv fn) es =
      two_machine_main env d (tm_workflow_args (sim_function_args fn)) es"
  by (simp_all add: two_machine_script_def two_machine_commands_parsed [OF assms] tm_workflow_args_def)

abbreviation both_to_main_log :: "effect list" where
  "both_to_main_log \<equiv> [prGreen ''Warming done'', SwitchCpus ''system'' (atomic_to_main 2),
     SwitchCpus ''drive_sys'' (atomic_to_main 1), StatsReset]"

lemma tm_workflow_evaluation:
  assumes "function_word fn"
  shows "\<exists>root st rest. two_machine_script env outdir (sim_function_argv fn)
        (e # after_checkpoint (shell_events (drive_text fn))) = Inr (root, st, Break, rest) \<and>
      trace st = tm_evaluation_preamble outdir (tm_base (tm_workflow_args (sim_function_args fn))) @
        inv_logs begin_marks end_marks 0 10 @ ready_inv_log begin_marks both_to_main_log end_marks 10 @
        inv_logs begin_marks end_marks 11 9 @ measured_log @ [prGreen ''Simulation done.'']"
proof -
  have pw: "plain_word fn" using assms by (simp add: function_word_def)
  have s: "Suc 10 = 11" by simp
  note f = tm_workflow_fields sim_args_fields
  from two_machine_evaluation_run [of "tm_workflow_args (sim_function_args fn)" 10 9 env outdir e] pw
  show ?thesis unfolding tm_script_commands [OF assms] f s by auto
qed

text \<open>
  C3. The same workflow after \<open>make build-two-machine\<close>: the same two command lines, read by the
  two-machine script. However the exit events of the two guests interleave, the setup run
  takes the one checkpoint that the evaluation restores; the evaluation warms both machines
  for 10 invocations, measures the next 10 on the detailed CPUs and dumps the statistics once.
\<close>

theorem two_machine_workflow_measures:
  assumes "function_word fn"
    and "es \<in> shuffles (shell_events (testsys_text fn)) (shell_events (drive_text fn))"
  shows "(\<exists>root st rest. two_machine_script env setup_out (setup_function_argv fn) es =
        Inr (root, st, Break, rest) \<and>
      checkpoints_of (trace st) = [''cpt_2m//'' @ fn @ ''/cpt.warm'']) \<and>
    (\<exists>root st rest. two_machine_script env outdir (sim_function_argv fn)
          (e # after_checkpoint (shell_events (drive_text fn))) = Inr (root, st, Break, rest) \<and>
      trace st = tm_evaluation_preamble outdir (tm_base (tm_workflow_args (sim_function_args fn))) @
        inv_logs begin_marks end_marks 0 10 @ ready_inv_log begin_marks both_to_main_log end_marks 10 @
        inv_logs begin_marks end_marks 11 9 @ measured_log @ [prGreen ''Simulation done.''] \<and>
      Instantiate (Some (''cpt_2m//'' @ fn @ ''/cpt.warm'')) \<in>
        set (tm_evaluation_preamble outdir (tm_base (tm_workflow_args (sim_function_args fn)))))"
proof (intro conjI)
  have pw: "plain_word fn" using assms(1) by (simp add: function_word_def)
  note s = tm_script_commands [OF assms(1)] and f = tm_workflow_fields sim_args_fields
  have w: "''/cpt.'' @ ''warm'' = ''/cpt.warm''" by simp
  show "\<exists>root st rest. two_machine_script env setup_out (setup_function_argv fn) es =
        Inr (root, st, Break, rest) \<and> checkpoints_of (trace st) = [''cpt_2m//'' @ fn @ ''/cpt.warm'']"
    using two_machine_setup_run [of "tm_workflow_args (setup_function_args fn)" es env setup_out] pw assms(2)
    unfolding s f w by blast
  have i: "Instantiate (Some (''cpt_2m//'' @ fn @ ''/cpt.warm'')) \<in>
      set (tm_evaluation_preamble outdir (tm_base (tm_workflow_args (sim_function_args fn))))"
    by (simp add: tm_evaluation_preamble_def tm_workflow_args_def checkpoint_path_def
        sim_function_args_def setup_function_args_def run_sim_defaults_def)
  from tm_workflow_evaluation [OF assms(1), of env outdir e]
  obtain root st rest where r: "two_machine_script env outdir (sim_function_argv fn)
        (e # after_checkpoint (shell_events (drive_text fn))) = Inr (root, st, Break, rest)"
    and tr: "trace st = tm_evaluation_preamble outdir (tm_base (tm_workflow_args (sim_function_args fn))) @
        inv_logs begin_marks end_marks 0 10 @ ready_inv_log begin_marks both_to_main_log end_marks 10 @
        inv_logs begin_marks end_marks 11 9 @ measured_log @ [prGreen ''Simulation done.'']"
    by (elim exE conjE) (rule that)
  from r tr i show "\<exists>root st rest. two_machine_script env outdir (sim_function_argv fn)
          (e # after_checkpoint (shell_events (drive_text fn))) = Inr (root, st, Break, rest) \<and>
      trace st = tm_evaluation_preamble outdir (tm_base (tm_workflow_args (sim_function_args fn))) @
        inv_logs begin_marks end_marks 0 10 @ ready_inv_log begin_marks both_to_main_log end_marks 10 @
        inv_logs begin_marks end_marks 11 9 @ measured_log @ [prGreen ''Simulation done.''] \<and>
      Instantiate (Some (''cpt_2m//'' @ fn @ ''/cpt.warm'')) \<in>
        set (tm_evaluation_preamble outdir (tm_base (tm_workflow_args (sim_function_args fn))))"
    by (intro exI conjI)
qed

theorem two_machine_workflow_measures_witness:
  "\<exists>root st rest. two_machine_script ref_env ''out'' (setup_function_argv ''aes-go'')
      (splice (shell_events (testsys_text ''aes-go'')) (shell_events (drive_text ''aes-go''))) =
      Inr (root, st, Break, rest) \<and> checkpoints_of (trace st) = [''cpt_2m//aes-go/cpt.warm'']"
proof -
  have "function_word ''aes-go''" by (simp add: function_word_def plain_word_def shell_special_def)
  from two_machine_workflow_measures [OF this splice_in_shuffles, of ref_env "''out''" "''m5out''" exit_instr]
  show ?thesis by (elim conjE exE) (intro exI conjI, assumption, simp)
qed

subsection \<open>The command line of the component-library scripts\<close>

definition vswarm_settings :: "string \<Rightarrow> string \<Rightarrow> string \<Rightarrow> string \<Rightarrow> nat \<Rightarrow> nat \<Rightarrow> setting list" where
  "vswarm_settings mode fn vmlinux img warm runs =
     [Spaced mode_opt ''--mode'' mode, Spaced (function_opt ''fibonacci-go'') ''--function'' fn,
      Spaced kernel_opt ''--kernel'' vmlinux, Spaced disk_opt ''--disk'' img,
      Spaced atomic_warming_opt ''--atomic-warming'' (show_int (int warm)),
      Spaced num_invocations_opt ''--num-invocations'' (show_int (int runs))]"

definition usage_args :: "string \<Rightarrow> string \<Rightarrow> string \<Rightarrow> string \<Rightarrow> nat \<Rightarrow> nat \<Rightarrow> args" where
  "usage_args mode fn vmlinux img warm runs =
     vswarm_defaults\<lparr>arg_mode := mode, arg_function := fn, arg_kernel := vmlinux, arg_disk := img,
       atomic_warming := int warm, num_invocations := int runs\<rparr>"

definition plain_arg :: "string \<Rightarrow> bool" where
  "plain_arg s \<longleftrightarrow> s = [] \<or> hd s \<noteq> CHR ''-''"

lemma show_nat_arg: "is_arg p (show_int (int n))"
proof -
  have "hd (show_nat n) \<in> set (show_nat n)" by simp
  with show_nat_digits [of "hd (show_nat n)" n] have "hd (show_nat n) \<noteq> CHR ''-''" by auto
  then show ?thesis by (intro parse_plain) (simp add: show_int_def)
qed

lemma vswarm_settings_ok:
  assumes "mode \<in> {''setup'', ''evaluation''}" and "function_word fn" and "plain_arg vmlinux" and "plain_arg img"
  shows "list_all (setting_ok vswarm_parser) (vswarm_settings mode fn vmlinux img warm runs)"
proof -
  have p: "kernel_opt \<in> set vswarm_parser" "disk_opt \<in> set vswarm_parser" "function_opt ''fibonacci-go'' \<in> set vswarm_parser"
    "mode_opt \<in> set vswarm_parser" "atomic_warming_opt \<in> set vswarm_parser" "num_invocations_opt \<in> set vswarm_parser"
    by (simp_all add: vswarm_parser_def)
  have a: "is_arg q fn" "is_arg q vmlinux" "is_arg q img" "is_arg q mode" for q
    using assms by (auto intro!: parse_plain simp: function_word_def plain_arg_def)
  have m: "mode = ''setup'' \<or> mode = ''evaluation''" using assms(1) by simp
  note d = vswarm_settings_def setting_ok.simps act_simps list.pred_inject a m show_nat_arg
  show ?thesis by (simp add: d vswarm_cmd.names_full p opt_names del: append.simps)
qed

lemma vswarm_commands_parsed:
  assumes "mode \<in> {''setup'', ''evaluation''}" and "function_word fn" and "plain_arg vmlinux" and "plain_arg img"
  shows "vswarm_parse_arguments (vswarm_argv mode fn vmlinux img warm runs) = Inr (usage_args mode fn vmlinux img warm runs)"
proof -
  have p: "filter (\<lambda>a. option_strings a = []) vswarm_parser = []" by (simp add: parser_defs spec_defs)
  have t: "vswarm_argv mode fn vmlinux img warm runs = concat (map setting_tokens (vswarm_settings mode fn vmlinux img warm runs))"
    by (simp add: vswarm_argv_def vswarm_settings_def)
  show ?thesis
    unfolding vswarm_parse_arguments_def t parse_settings [OF vswarm_settings_ok [OF assms] p]
    using assms(1) by (auto simp: vswarm_settings_def vswarm_parser_def read_defs vswarm_args_def usage_args_def vswarm_defaults_def)
qed

lemma vswarm_scripts_run:
  assumes "mode \<in> {''setup'', ''evaluation''}" and "function_word fn" and "plain_arg vmlinux" and "plain_arg img"
    and "a = usage_args mode fn vmlinux img warm runs"
  shows "vswarm_script dflt (vswarm_argv mode fn vmlinux img warm runs) es =
      Inr (x86_board a, sim_loop (vs_step dflt a) es (vs_init a))"
    and "vswarm_arm_script dflt (vswarm_argv mode fn vmlinux img warm runs) es =
      Inr (vswarm_simple_arm_board a, sim_loop (vs_step dflt a) es (vs_init a))"
    and "run_sim_arm_script dflt (vswarm_argv mode fn vmlinux img warm runs) es =
      Inr (run_sim_arm_board a, sim_loop (arm_step dflt a) es (vs_init a))"
proof -
  note v = vswarm_commands_parsed [OF assms(1-4), of warm runs]
  have "vswarm_arm_parse_arguments (vswarm_argv mode fn vmlinux img warm runs) = Inr a"
    "run_sim_arm_parse_arguments (vswarm_argv mode fn vmlinux img warm runs) = Inr a"
    using v by (simp_all add: vswarm_arm_parse_arguments_def run_sim_arm_parse_arguments_def vswarm_arm_parser_def
        run_sim_arm_parser_def vswarm_parse_arguments_def assms(5))
  with v show "vswarm_script dflt (vswarm_argv mode fn vmlinux img warm runs) es =
      Inr (x86_board a, sim_loop (vs_step dflt a) es (vs_init a))"
    "vswarm_arm_script dflt (vswarm_argv mode fn vmlinux img warm runs) es =
      Inr (vswarm_simple_arm_board a, sim_loop (vs_step dflt a) es (vs_init a))"
    "run_sim_arm_script dflt (vswarm_argv mode fn vmlinux img warm runs) es =
      Inr (run_sim_arm_board a, sim_loop (arm_step dflt a) es (vs_init a))"
    by (simp_all add: vswarm_script_def vswarm_arm_script_def run_sim_arm_script_def vswarm_arm_step_def assms(5))
qed

subsection \<open>The command line of the checker\<close>

lemma classify_plain: "list_all (is_arg p) ss \<Longrightarrow> classify p ss = Inr (map Arg ss)"
  by (induction ss) (simp_all add: is_arg_def)

lemma consume_extras: "consume p (map Arg ss) [] extras ns = (if ss \<noteq> [] \<or> extras then Inl (SystemExit 2) else Inr ns)"
  by (induction ss arbitrary: extras) simp_all

text \<open>
  The checker takes exactly one directory: with it the report is made, with none or more
  than one (no option among them) the script ends with status 2 and writes nothing.
\<close>

theorem check_script_one_directory:
  assumes "list_all (\<lambda>s. s = [] \<or> hd s \<noteq> CHR ''-'') argv"
  shows "check_script ft argv =
    (case argv of [dir] \<Rightarrow> check_simulations ft dir | _ \<Rightarrow> Inl (SystemExit 2))"
proof -
  have c: "classify check_parser argv = Inr (map Arg argv)"
    using assms by (intro classify_plain) (simp add: list_all_iff parse_plain)
  have pos: "filter (\<lambda>a. option_strings a = []) check_parser = [str_positional ''dir'']"
    by (simp add: check_parser_def spec_defs)
  have s: "store_value (str_positional ''dir'') x ns = Inr (ns(''dir'' \<mapsto> AStr x))" for x ns
    by (simp add: store_value_def get_value_def str_positional_def)
  show ?thesis
  proof (cases argv)
    case Nil
    with c pos show ?thesis by (simp add: check_script_def check_parse_arguments_def parse_args_def)
  next
    case (Cons x xs)
    with c pos show ?thesis
      by (cases xs) (simp_all add: check_script_def check_parse_arguments_def parse_args_def s consume_extras ns_str_def)
  qed
qed

theorem check_script_one_directory_witness:
  "check_script \<lparr>ft_listdir = (\<lambda>_. Inr []), ft_isdir = (\<lambda>_. True), ft_lines = (\<lambda>_. None)\<rparr> [''a'', ''b''] = Inl (SystemExit 2)"
  using check_script_one_directory [of "[''a'', ''b'']"] by simp

end
