(* ===== verification/Gem5_Utils.thy ===== *)
theory Gem5_Utils
  imports Vswarm_Prelude "HOL-Library.AList" "HOL-Library.List_Lexorder"
begin

text \<open>
  The result library \<open>analysis/gem5_utils.py\<close>: splitting a gem5 statistics file into its
  dumps, the pickled cache in front of that parser, the collection of a whole result
  directory, and the tables written from it. Parameters: \<open>rule\<close>, the pyparsing rule applied
  to one line (key and value, or no match), \<open>json\<close>, the JSON reader, and \<open>frame\<close>, the pandas
  constructor. The messages of caught exceptions, which the code prints, are not kept.
\<close>

subsection \<open>Files\<close>

text \<open>
  A file is text, as its lines, or a pickled value; both have a modification time. The
  operating system takes repeated slashes in a path for one. Listing a directory gives its names,
  or the exception \<open>os.listdir\<close> raises.
\<close>

type_synonym stats_dict = "(string \<times> string) list"

datatype content = TextFile "string list" | PickleFile "stats_dict list option"

fun norm_path :: "string \<Rightarrow> string" where
  "norm_path (c # d # s) =
     (if c = CHR ''/'' \<and> d = CHR ''/'' then norm_path (d # s) else c # norm_path (d # s))"
| "norm_path s = s"

record result_fs =
  fs_files :: "string \<rightharpoonup> nat \<times> content"
  fs_isdir :: "string \<Rightarrow> bool"
  fs_listdir :: "string \<Rightarrow> string list result"

definition fs_get :: "result_fs \<Rightarrow> string \<Rightarrow> (nat \<times> content) option" where
  "fs_get fs p = fs_files fs (norm_path p)"

definition fs_put :: "string \<Rightarrow> nat \<times> content \<Rightarrow> result_fs \<Rightarrow> result_fs" where
  "fs_put p f fs = fs\<lparr>fs_files := (fs_files fs)(norm_path p \<mapsto> f)\<rparr>"

text \<open>\<open>os.path.join\<close> of two parts.\<close>

definition path_join :: "string \<Rightarrow> string \<Rightarrow> string" where
  "path_join a b =
     (if b \<noteq> [] \<and> hd b = CHR ''/'' then b
      else if a = [] \<or> last a = CHR ''/'' then a @ b
      else a @ ''/'' @ b)"

definition fs_text :: "result_fs \<Rightarrow> string \<Rightarrow> string list option" where
  "fs_text fs p = (case fs_get fs p of Some (t, TextFile ls) \<Rightarrow> Some ls | _ \<Rightarrow> None)"

subsection \<open>Configurations and statistics\<close>

definition read_configs :: "(string list \<Rightarrow> 'j option) \<Rightarrow> result_fs \<Rightarrow> string \<Rightarrow> string \<Rightarrow> 'j option" where
  "read_configs json fs result_dir config_json_file_name =
     (case fs_text fs (path_join result_dir config_json_file_name) of
        None \<Rightarrow> None
      | Some ls \<Rightarrow> json ls)"

text \<open>
  \<open>ExperimentConfigs.__getitem__\<close>: \<open>execute\<close> is the method of that name of a configuration, if it
  has one. The trees of \<open>objectpath\<close> have one; \<open>None\<close> and the values that \<open>json.load\<close> returns, which
  are what \<open>read_configs\<close> passes on, do not.
\<close>

definition configs_getitem :: "('j \<Rightarrow> (string \<Rightarrow> 'v) option) \<Rightarrow> 'j option \<Rightarrow> string \<Rightarrow> 'v result" where
  "configs_getitem execute raw_configs index =
     (case raw_configs of
        None \<Rightarrow> Inl (AttributeError ''execute'')
      | Some t \<Rightarrow> (case execute t of
            None \<Rightarrow> Inl (AttributeError ''execute'')
          | Some query \<Rightarrow> Inr (query (''$.'' @ index))))"

lemma configs_getitem_json:
  assumes "\<And>t. execute t = None"
  shows "configs_getitem execute (read_configs json fs dir name) index = Inl (AttributeError ''execute'')"
  by (simp add: configs_getitem_def assms split: option.split)

text \<open>\<open>ExperimentStats.__getitem__\<close>.\<close>

definition stats_getitem :: "stats_dict \<Rightarrow> string \<Rightarrow> string option" where
  "stats_getitem raw_stats index = map_of raw_stats index"

text \<open>
  The loop of \<open>read_stats\<close>: the list of dictionaries and the number of the current dump. The
  assignment \<open>stats[i][key] = value\<close> raises when the dictionary is missing.
\<close>

definition stat_line :: "(string \<Rightarrow> (string \<times> string) option) \<Rightarrow> string
    \<Rightarrow> stats_dict list \<times> nat \<Rightarrow> (stats_dict list \<times> nat) result" where
  "stat_line rule line st =
     (let (stats, i) = st;
          stats = (if length stats \<le> i then stats @ [[]] else stats);
          j = (if py_in ''End Simulation Statistics'' line then i + 1 else i)
      in case rule line of
           None \<Rightarrow> Inr (stats, j)
         | Some (key, val) \<Rightarrow>
             bind_res (py_index stats i) (\<lambda>d. Inr (stats[i := AList.update key val d], j)))"

fun stat_lines :: "(string \<Rightarrow> (string \<times> string) option) \<Rightarrow> string list
    \<Rightarrow> stats_dict list \<times> nat \<Rightarrow> (stats_dict list \<times> nat) result" where
  "stat_lines rule [] st = Inr st"
| "stat_lines rule (line # ls) st = bind_res (stat_line rule line st) (stat_lines rule ls)"

definition read_stats :: "(string \<Rightarrow> (string \<times> string) option) \<Rightarrow> result_fs \<Rightarrow> string \<Rightarrow> string
    \<Rightarrow> stats_dict list option" where
  "read_stats rule fs result_dir stats_file_name =
     (case fs_text fs (path_join result_dir stats_file_name) of
        None \<Rightarrow> None
      | Some ls \<Rightarrow> (case stat_lines rule ls ([], 0) of Inl e \<Rightarrow> None | Inr (stats, i) \<Rightarrow> Some stats))"

subsection \<open>The cache\<close>

definition load_pickle :: "result_fs \<Rightarrow> string \<Rightarrow> stats_dict list option result" where
  "load_pickle fs p =
     (case fs_get fs p of
        None \<Rightarrow> Inl (FileNotFoundError p)
      | Some (t, TextFile ls) \<Rightarrow> Inl (PyException ''UnpicklingError'')
      | Some (t, PickleFile v) \<Rightarrow> Inr v)"

definition cache_name :: "string \<Rightarrow> string \<Rightarrow> string" where
  "cache_name result_dir stats_file_name =
     result_dir @ ''/'' @ take (length stats_file_name - 5) stats_file_name"

definition find_stats :: "(string \<Rightarrow> (string \<times> string) option) \<Rightarrow> nat \<Rightarrow> result_fs \<Rightarrow> string \<Rightarrow> string
    \<Rightarrow> (result_fs \<times> stats_dict list option) result" where
  "find_stats rule now fs result_dir stats_file_name =
     (let filename = cache_name result_dir stats_file_name;
          stale = (case fs_get fs filename of
                     None \<Rightarrow> Inr True
                   | Some (tc, _) \<Rightarrow>
                       (case fs_get fs (result_dir @ ''/'' @ stats_file_name) of
                          None \<Rightarrow> Inl (FileNotFoundError stats_file_name)
                        | Some (ts, _) \<Rightarrow> Inr (ts > tc)))
      in bind_res stale (\<lambda>b.
         bind_res (if b
                   then (if fs_isdir fs (norm_path result_dir)
                         then Inr (fs_put filename (now, PickleFile (read_stats rule fs result_dir stats_file_name)) fs)
                         else Inl (FileNotFoundError filename))
                   else Inr fs) (\<lambda>fs.
         bind_res (load_pickle fs filename) (\<lambda>v. Inr (fs, v)))))"

fun group_loop :: "(string \<Rightarrow> (string \<times> string) option) \<Rightarrow> nat \<Rightarrow> string \<Rightarrow> string list
    \<Rightarrow> result_fs \<times> (string \<times> stats_dict list) list
    \<Rightarrow> (result_fs \<times> (string \<times> stats_dict list) list) result" where
  "group_loop rule now result_dir [] st = Inr st"
| "group_loop rule now result_dir (subdir # subdirs) (fs, grp) =
     bind_res (find_stats rule now fs (path_join result_dir subdir) ''stats.txt'') (\<lambda>(fs, stats).
       group_loop rule now result_dir subdirs
         (fs, case stats of None \<Rightarrow> grp
              | Some [] \<Rightarrow> grp
              | Some (d # ds) \<Rightarrow> AList.update subdir (d # ds) grp))"

definition find_stats_group :: "(string \<Rightarrow> (string \<times> string) option) \<Rightarrow> nat \<Rightarrow> result_fs \<Rightarrow> string
    \<Rightarrow> (result_fs \<times> (string \<times> stats_dict list) list) result" where
  "find_stats_group rule now fs result_dir =
     bind_res (fs_listdir fs result_dir) (\<lambda>names.
       let subdirs = sort_key (map (of_char :: char \<Rightarrow> nat))
                       (filter (\<lambda>s. fs_isdir fs (norm_path (result_dir @ s))) names)
       in group_loop rule now result_dir subdirs (fs, []))"

record ('j, 'p) experiment_results =
  res_configs :: "'j option"
  res_stats :: "stats_dict list"
  res_props :: 'p

definition parse_result :: "(string list \<Rightarrow> 'j option) \<Rightarrow> (string \<Rightarrow> (string \<times> string) option)
    \<Rightarrow> result_fs \<Rightarrow> string \<Rightarrow> string \<Rightarrow> string \<Rightarrow> 'p \<Rightarrow> ('j, 'p) experiment_results result" where
  "parse_result json rule fs result_dir config_json_file_name stats_file_name props =
     (case read_stats rule fs result_dir stats_file_name of
        None \<Rightarrow> Inl (TypeError ''NoneType'')
      | Some stats \<Rightarrow> Inr \<lparr>res_configs = read_configs json fs result_dir config_json_file_name,
                           res_stats = stats, res_props = props\<rparr>)"

subsection \<open>Tables\<close>

text \<open>The values a field function returns, and \<open>str\<close> as the CSV writer applies it.\<close>

datatype cell = CellNone | CellStr string | CellInt int

fun cell_text :: "cell \<Rightarrow> string" where
  "cell_text CellNone = []"
| "cell_text (CellStr s) = s"
| "cell_text (CellInt i) = show_int i"

text \<open>A field: its column name, its function of a result (which may raise) and its type.\<close>

record 'r table_field =
  field_name :: string
  field_fun :: "'r \<Rightarrow> cell result"
  field_type :: string

fun map_res :: "('a \<Rightarrow> 'b result) \<Rightarrow> 'a list \<Rightarrow> 'b list result" where
  "map_res f [] = Inr []"
| "map_res f (x # xs) = bind_res (f x) (\<lambda>y. bind_res (map_res f xs) (\<lambda>ys. Inr (y # ys)))"

text \<open>One row with \<open>delimiter=','\<close>, \<open>quotechar='"'\<close> and \<open>QUOTE_ALL\<close>; a quote inside is doubled.\<close>

fun double_quotes :: "string \<Rightarrow> string" where
  "double_quotes [] = []"
| "double_quotes (c # s) = (if c = CHR 0x22 then [c, c] else [c]) @ double_quotes s"

definition csv_cell :: "string \<Rightarrow> string" where
  "csv_cell s = CHR 0x22 # double_quotes s @ [CHR 0x22]"

definition csv_row :: "string list \<Rightarrow> string" where
  "csv_row cells = py_join '','' (map csv_cell cells) @ [CHR 0x0D, CHR 0x0A]"

text \<open>
  \<open>to_csv\<close>: the text of the written file, and the exception of a field function, which leaves the
  header and the rows before it in the file.
\<close>

fun csv_rows :: "'r table_field list \<Rightarrow> 'r list \<Rightarrow> string \<Rightarrow> string \<times> unit result" where
  "csv_rows flds [] written = (written, Inr ())"
| "csv_rows flds (result # results) written =
     (case map_res (\<lambda>field. field_fun field result) flds of
        Inl e \<Rightarrow> (written, Inl e)
      | Inr row \<Rightarrow> csv_rows flds results (written @ csv_row (map cell_text row)))"

definition to_csv :: "'r list \<Rightarrow> 'r table_field list \<Rightarrow> string \<times> unit result" where
  "to_csv results flds = csv_rows flds results (csv_row (map field_name flds))"

text \<open>\<open>int(v)\<close> of a cell.\<close>

fun py_int :: "cell \<Rightarrow> int result" where
  "py_int CellNone = Inl (TypeError ''int'')"
| "py_int (CellStr s) = py_int_str s"
| "py_int (CellInt i) = Inr i"

definition pandas_row :: "'r table_field list \<Rightarrow> 'r \<Rightarrow> cell list result" where
  "pandas_row flds result =
     (case map_res (\<lambda>field. bind_res (field_fun field result) py_int) flds of
        Inr ints \<Rightarrow> Inr (map CellInt ints)
      | Inl e \<Rightarrow> map_res (\<lambda>field. field_fun field result) flds)"

definition to_pandas :: "(cell list list \<Rightarrow> string list \<Rightarrow> (string \<times> string) list \<Rightarrow> 'df result)
    \<Rightarrow> 'r list \<Rightarrow> 'r table_field list \<Rightarrow> 'df result" where
  "to_pandas frame results flds =
     (let columns = map field_name flds;
          dtype = fold (\<lambda>(s, t). AList.update s t) (zip (map field_name flds) (map field_type flds)) []
      in bind_res (map_res (pandas_row flds) results) (\<lambda>data. frame data columns dtype))"

subsection \<open>Paths\<close>

lemma norm_path_no_slash: "CHR ''/'' \<notin> set x \<Longrightarrow> norm_path x = x"
  by (induction x rule: norm_path.induct) auto

lemma norm_path_slash: "CHR ''/'' \<notin> set x \<Longrightarrow> norm_path (CHR ''/'' # x) = CHR ''/'' # x"
  by (cases x) (auto simp: norm_path_no_slash)

lemma norm_path_last:
  "CHR ''/'' \<notin> set x \<Longrightarrow> norm_path (d @ CHR ''/'' # x) = norm_path (d @ ''/'') @ x"
  by (induction d rule: norm_path.induct) (auto simp: norm_path_slash)

lemma norm_path_double: "norm_path (d @ CHR ''/'' # CHR ''/'' # s) = norm_path (d @ CHR ''/'' # s)"
  by (induction d rule: norm_path.induct) auto

lemma norm_path_join:
  assumes "dir \<noteq> []" and "name \<noteq> []" and "CHR ''/'' \<notin> set name"
  shows "norm_path (path_join dir name) = norm_path (dir @ ''/'') @ name"
proof (cases "last dir = CHR ''/''")
  case True
  then obtain d where d: "dir = d @ ''/''" using assms(1) by (metis append_butlast_last_id)
  have "hd name \<noteq> CHR ''/''" using assms(2,3) by (metis hd_in_set)
  with d have "norm_path (path_join dir name) = norm_path (d @ CHR ''/'' # name)"
    by (simp add: path_join_def)
  then show ?thesis using norm_path_double [of d "[]"] by (simp add: d norm_path_last [OF assms(3)])
next
  case False
  have "hd name \<noteq> CHR ''/''" using assms(2,3) by (metis hd_in_set)
  with False assms show ?thesis by (simp add: path_join_def norm_path_last [OF assms(3)])
qed

lemma fs_get_put: "fs_get (fs_put p f fs) q = (if norm_path q = norm_path p then Some f else fs_get fs q)"
  by (simp add: fs_get_def fs_put_def)

lemma fs_put_dirs [simp]: "fs_isdir (fs_put p f fs) = fs_isdir fs" "fs_listdir (fs_put p f fs) = fs_listdir fs"
  by (simp_all add: fs_put_def)

subsection \<open>Dumps\<close>

text \<open>The file cut after each end marker, and the dictionary of one piece.\<close>

definition dump_end :: "string \<Rightarrow> bool" where
  "dump_end l \<longleftrightarrow> py_in ''End Simulation Statistics'' l"

fun dumps :: "string list \<Rightarrow> string list list" where
  "dumps [] = []"
| "dumps (l # ls) =
     (if dump_end l then [l] # dumps ls
      else (case dumps ls of [] \<Rightarrow> [[l]] | d # ds \<Rightarrow> (l # d) # ds))"

definition add_stats :: "(string \<times> string) list \<Rightarrow> stats_dict \<Rightarrow> stats_dict" where
  "add_stats kvs d = fold (\<lambda>(k, v). AList.update k v) kvs d"

definition dump_dict :: "(string \<Rightarrow> (string \<times> string) option) \<Rightarrow> string list \<Rightarrow> stats_dict" where
  "dump_dict rule ls = add_stats (List.map_filter rule ls) []"

lemma add_stats_simps [simp]:
  "add_stats [] d = d" "add_stats (kv # kvs) d = add_stats kvs (AList.update (fst kv) (snd kv) d)"
  by (simp_all add: add_stats_def split_beta)

lemma add_stats_lookup: "map_of (add_stats kvs d) k = (map_of d ++ map_of (rev kvs)) k"
proof (induction kvs arbitrary: d)
  case (Cons kv kvs)
  then show ?case by (simp add: update_conv map_add_def split: option.split)
qed simp

lemma stat_line_new:
  "stat_line rule l (pre, length pre) = stat_line rule l (pre @ [[]], length pre)"
  by (simp add: stat_line_def Let_def)

lemma stat_line_current:
  "stat_line rule l (pre @ [d], length pre) =
     Inr (pre @ [add_stats (List.map_filter rule [l]) d], length pre + (if dump_end l then 1 else 0))"
  by (simp add: stat_line_def py_index_def dump_end_def Let_def List.map_filter_simps split: option.split)

lemma stat_lines_dumps:
  "\<exists>i. stat_lines rule ls (pre, length pre) = Inr (pre @ map (dump_dict rule) (dumps ls), i)"
  "\<exists>i. stat_lines rule ls (pre @ [d], length pre) =
     Inr (pre @ (case dumps ls of [] \<Rightarrow> [d]
                 | b # bs \<Rightarrow> add_stats (List.map_filter rule b) d # map (dump_dict rule) bs), i)"
proof (induction ls arbitrary: pre d)
  case (Cons l ls)
  let ?d = "add_stats (List.map_filter rule [l]) d"
  have step: "\<exists>i. stat_lines rule (l # ls) (pre @ [d], length pre) =
     Inr (pre @ (case dumps (l # ls) of [] \<Rightarrow> [d]
                 | b # bs \<Rightarrow> add_stats (List.map_filter rule b) d # map (dump_dict rule) bs), i)" for pre d
  proof (cases "dump_end l")
    case True
    then show ?thesis using Cons(1) [of "pre @ [add_stats (List.map_filter rule [l]) d]"]
      by (simp add: stat_line_current)
  next
    case False
    then show ?thesis using Cons(2) [of pre "add_stats (List.map_filter rule [l]) d"]
      by (cases "rule l"; cases "dumps ls") (simp_all add: stat_line_current List.map_filter_simps)
  qed
  {
    case 1
    have "dumps (l # ls) \<noteq> []" by (simp split: list.split)
    then obtain b bs where b: "dumps (l # ls) = b # bs" by (meson neq_Nil_conv)
    have "map (dump_dict rule) (b # bs) = add_stats (List.map_filter rule b) [] # map (dump_dict rule) bs"
      by (simp add: dump_dict_def)
    then show ?case using step [of pre "[]"] unfolding b stat_lines.simps stat_line_new by simp
  next
    case 2
    show ?case by (rule step)
  }
qed simp_all

lemma read_stats_text:
  "fs_text fs (path_join dir name) = Some ls \<Longrightarrow>
   read_stats rule fs dir name = Some (map (dump_dict rule) (dumps ls))"
  using stat_lines_dumps(1) [of rule ls "[]"] by (auto simp: read_stats_def)

text \<open>A complete dump: its last line, and no other, is the end marker.\<close>

definition complete_dump :: "string list \<Rightarrow> bool" where
  "complete_dump b \<longleftrightarrow> b \<noteq> [] \<and> dump_end (last b) \<and> list_all (\<lambda>l. \<not> dump_end l) (butlast b)"

lemma dumps_complete: "complete_dump b \<Longrightarrow> dumps (b @ ls) = b # dumps ls"
  by (induction b) (auto simp: complete_dump_def split: if_splits)

lemma dumps_concat: "list_all complete_dump bs \<Longrightarrow> dumps (concat bs) = bs"
  by (induction bs) (auto simp: dumps_complete)

subsection \<open>The state of the cache\<close>

text \<open>
  A result directory over time: the simulator writes the statistics file, the analysis
  looks it up; the clock that stamps the files advances between a lookup and a later write.
\<close>

abbreviation stats_path :: "string \<Rightarrow> string" where
  "stats_path dir \<equiv> dir @ ''/stats.txt''"

inductive cache_reach :: "(string \<Rightarrow> (string \<times> string) option) \<Rightarrow> string \<Rightarrow> nat \<Rightarrow> result_fs \<Rightarrow> bool"
  for rule :: "string \<Rightarrow> (string \<times> string) option" and dir :: string where
  start: "fs_get fs (cache_name dir ''stats.txt'') = None \<Longrightarrow> fs_isdir fs (norm_path dir) \<Longrightarrow>
    fs_get fs (stats_path dir) = None \<Longrightarrow> cache_reach rule dir now fs"
| simulated: "cache_reach rule dir now fs \<Longrightarrow> now < t \<Longrightarrow>
    cache_reach rule dir t (fs_put (stats_path dir) (t, TextFile ls) fs)"
| looked_up: "cache_reach rule dir now fs \<Longrightarrow> now \<le> t \<Longrightarrow>
    find_stats rule t fs dir ''stats.txt'' = Inr (fs', v) \<Longrightarrow> cache_reach rule dir t fs'"

definition cache_ok :: "(string \<Rightarrow> (string \<times> string) option) \<Rightarrow> string \<Rightarrow> nat \<Rightarrow> result_fs \<Rightarrow> bool" where
  "cache_ok rule dir now fs \<longleftrightarrow>
     fs_isdir fs (norm_path dir) \<and>
     (case fs_get fs (stats_path dir) of None \<Rightarrow> True
      | Some (ts, TextFile ls) \<Rightarrow> ts \<le> now
      | Some (ts, PickleFile v) \<Rightarrow> False) \<and>
     (case fs_get fs (cache_name dir ''stats.txt'') of None \<Rightarrow> True
      | Some (tc, TextFile ls) \<Rightarrow> False
      | Some (tc, PickleFile v) \<Rightarrow> tc \<le> now \<and>
          (case fs_get fs (stats_path dir) of
             Some (ts, TextFile ls) \<Rightarrow> ts \<le> tc \<longrightarrow> v = Some (map (dump_dict rule) (dumps ls))
           | _ \<Rightarrow> True))"

lemma cache_name_stats: "cache_name dir ''stats.txt'' = dir @ ''/stat''"
  by (simp add: cache_name_def)

lemma stats_paths:
  "norm_path (stats_path dir) = norm_path (dir @ ''/'') @ ''stats.txt''"
  "norm_path (dir @ ''/stat'') = norm_path (dir @ ''/'') @ ''stat''"
  using norm_path_last [of "''stats.txt''" dir] norm_path_last [of "''stat''" dir] by simp_all

lemma read_stats_found:
  assumes "dir \<noteq> []" and "fs_get fs (stats_path dir) = Some (ts, TextFile ls)"
  shows "read_stats rule fs dir ''stats.txt'' = Some (map (dump_dict rule) (dumps ls))"
  using assms norm_path_join [of dir "''stats.txt''"]
  by (intro read_stats_text) (simp add: fs_text_def fs_get_def stats_paths)

lemma stats_not_cache [simp]: "norm_path (stats_path dir) \<noteq> norm_path (dir' @ ''/stat'')"
proof
  assume "norm_path (stats_path dir) = norm_path (dir' @ ''/stat'')"
  then have "last (norm_path (stats_path dir)) = last (norm_path (dir' @ ''/stat''))"
    "last (butlast (norm_path (stats_path dir))) = last (butlast (norm_path (dir' @ ''/stat'')))" by simp_all
  then show False by (simp add: stats_paths butlast_append)
qed

lemmas cache_not_stats [simp] = stats_not_cache [symmetric]

text \<open>A lookup leaves the directories and the statistics files as they are.\<close>

lemma find_stats_frame:
  assumes "find_stats rule t fs dir ''stats.txt'' = Inr (fs', v)"
  shows "fs_isdir fs' = fs_isdir fs" "fs_listdir fs' = fs_listdir fs"
    "fs_get fs' (stats_path d) = fs_get fs (stats_path d)"
    "norm_path (d @ ''/stat'') \<noteq> norm_path (dir @ ''/stat'') \<Longrightarrow>
     fs_get fs' (d @ ''/stat'') = fs_get fs (d @ ''/stat'')"
  using assms
  by (auto simp: find_stats_def Let_def cache_name_stats fs_get_put bind_res_Inr_iff split: if_splits)

lemma find_stats_refreshes:
  assumes "dir \<noteq> []" and "cache_ok rule dir now fs" and "now \<le> t"
    and "fs_get fs (stats_path dir) = Some (ts, TextFile ls)"
  shows "\<exists>fs'. find_stats rule t fs dir ''stats.txt'' = Inr (fs', Some (map (dump_dict rule) (dumps ls))) \<and>
    cache_ok rule dir t fs'"
  using assms read_stats_found [OF assms(1,4), of rule]
  by (cases "fs_get fs (dir @ ''/stat'')")
     (auto simp: cache_ok_def find_stats_def Let_def cache_name_stats fs_get_put load_pickle_def
       split: content.splits if_splits prod.splits)

lemma find_stats_absent:
  assumes "dir \<noteq> []" and "cache_ok rule dir now fs" and "now \<le> t"
    and "fs_get fs (stats_path dir) = None" and "find_stats rule t fs dir ''stats.txt'' = Inr (fs', v)"
  shows "cache_ok rule dir t fs'"
  using assms
  by (cases "fs_get fs (dir @ ''/stat'')")
     (auto simp: cache_ok_def find_stats_def Let_def cache_name_stats fs_get_put load_pickle_def
       split: content.splits if_splits prod.splits)

lemma cache_reach_ok: "cache_reach rule dir now fs \<Longrightarrow> dir \<noteq> [] \<Longrightarrow> cache_ok rule dir now fs"
proof (induction rule: cache_reach.induct)
  case (start fs now)
  then show ?case by (simp add: cache_ok_def)
next
  case (simulated now fs t ls)
  then show ?case
    by (auto simp: cache_ok_def cache_name_stats fs_get_put split: option.splits content.splits)
next
  case (looked_up now fs t fs' v)
  show ?case
  proof (cases "fs_get fs (stats_path dir)")
    case None
    with looked_up show ?thesis using find_stats_absent by blast
  next
    case (Some f)
    with looked_up obtain ts ls where "fs_get fs (stats_path dir) = Some (ts, TextFile ls)"
      by (cases f; cases "snd f") (auto simp: cache_ok_def)
    from find_stats_refreshes [OF _ _ _ this] looked_up show ?thesis by force
  qed
qed

text \<open>A lookup in one directory keeps the caches of the others in order.\<close>

lemma find_stats_other_ok:
  assumes "find_stats rule t fs dir ''stats.txt'' = Inr (fs', v)" and "cache_ok rule dir t fs'"
    and "cache_ok rule d now fs" and "now \<le> t"
  shows "cache_ok rule d t fs'"
proof (cases "norm_path (d @ ''/stat'') = norm_path (dir @ ''/stat'')")
  case True
  then have "fs_get fs' (d @ ''/stat'') = fs_get fs' (dir @ ''/stat'')"
    "fs_get fs' (stats_path d) = fs_get fs' (stats_path dir)"
    by (simp_all add: fs_get_def stats_paths)
  moreover have "fs_isdir fs' (norm_path d)"
    using assms(3) find_stats_frame(1) [OF assms(1)] by (simp add: cache_ok_def)
  ultimately show ?thesis using assms(2) unfolding cache_ok_def cache_name_stats by (simp only: simp_thms)
next
  case False
  from find_stats_frame(4) [OF assms(1) this] find_stats_frame(1,3) [OF assms(1)] assms(3,4)
  show ?thesis by (auto simp: cache_ok_def cache_name_stats split: option.splits content.splits)
qed

lemma update_new: "k \<notin> fst ` set al \<Longrightarrow> AList.update k v al = al @ [(k, v)]"
  by (induction al) auto

lemma group_loop_reads:
  assumes "result_dir \<noteq> []" and "distinct subdirs" and "now \<le> t"
    and "\<And>s. s \<in> set subdirs \<Longrightarrow> s \<notin> fst ` set grp"
    and "\<And>s. s \<in> set subdirs \<Longrightarrow> cache_ok rule (path_join result_dir s) now fs"
    and "\<And>s. s \<in> set subdirs \<Longrightarrow>
      \<exists>ts. fs_get fs (stats_path (path_join result_dir s)) = Some (ts, TextFile (log s))"
  shows "\<exists>fs'. group_loop rule t result_dir subdirs (fs, grp) =
    Inr (fs', grp @ filter (\<lambda>(s, x). x \<noteq> []) (map (\<lambda>s. (s, map (dump_dict rule) (dumps (log s)))) subdirs))"
  using assms(2-)
proof (induction subdirs arbitrary: fs grp now)
  case (Cons s subdirs)
  let ?d = "path_join result_dir s" and ?x = "map (dump_dict rule) (dumps (log s))"
  have ne: "?d \<noteq> []" using assms(1) by (auto simp: path_join_def)
  from Cons.prems(5) obtain ts where "fs_get fs (stats_path ?d) = Some (ts, TextFile (log s))" by auto
  from find_stats_refreshes [OF ne _ Cons.prems(2) this] Cons.prems(4) obtain fs1 where
    f: "find_stats rule t fs ?d ''stats.txt'' = Inr (fs1, Some ?x)" "cache_ok rule ?d t fs1" by auto
  let ?grp = "if ?x = [] then grp else grp @ [(s, ?x)]"
  have "\<exists>fs'. group_loop rule t result_dir subdirs (fs1, ?grp) =
    Inr (fs', ?grp @ filter (\<lambda>(s, x). x \<noteq> []) (map (\<lambda>s. (s, map (dump_dict rule) (dumps (log s)))) subdirs))"
  proof (rule Cons.IH)
    show "cache_ok rule (path_join result_dir s') t fs1" if "s' \<in> set subdirs" for s'
      using find_stats_other_ok [OF f] Cons.prems(2,4) that by auto
    show "\<exists>ts. fs_get fs1 (stats_path (path_join result_dir s')) = Some (ts, TextFile (log s'))"
      if "s' \<in> set subdirs" for s'
      using find_stats_frame(3) [OF f(1)] Cons.prems(5) that by auto
  qed (use Cons.prems(1-3) in \<open>auto split: if_splits\<close>)
  moreover have "(case Some ?x of None \<Rightarrow> grp | Some [] \<Rightarrow> grp | Some (d # ds) \<Rightarrow> AList.update s (d # ds) grp) = ?grp"
    using Cons.prems(3) by (auto simp: update_new split: list.split)
  ultimately show ?case by (cases "dumps (log s) = []") (simp_all add: f(1))
qed simp

subsection \<open>Reading a table back\<close>

text \<open>A reader for quoted comma-separated rows, one character at a time.\<close>

datatype csv_state = RowStart | CellStart | Quoted | QuoteSeen | CrSeen

fun csv_read :: "csv_state \<Rightarrow> string \<Rightarrow> string list \<Rightarrow> string \<Rightarrow> string list list option" where
  "csv_read q f r [] = (if q = RowStart then Some [] else None)"
| "csv_read RowStart f r (c # s) =
     (if c = CHR 0x22 then csv_read Quoted [] [] s else if c = CHR 0x0D then csv_read CrSeen [] [] s else None)"
| "csv_read CellStart f r (c # s) = (if c = CHR 0x22 then csv_read Quoted [] r s else None)"
| "csv_read Quoted f r (c # s) =
     (if c = CHR 0x22 then csv_read QuoteSeen f r s else csv_read Quoted (f @ [c]) r s)"
| "csv_read QuoteSeen f r (c # s) =
     (if c = CHR 0x22 then csv_read Quoted (f @ [c]) r s
      else if c = CHR '','' then csv_read CellStart [] (r @ [f]) s
      else if c = CHR 0x0D then csv_read CrSeen [] (r @ [f]) s else None)"
| "csv_read CrSeen f r (c # s) =
     (if c = CHR 0x0A then map_option ((#) r) (csv_read RowStart [] [] s) else None)"

lemma csv_read_quoted:
  "csv_read Quoted f r (double_quotes s @ CHR 0x22 # rest) = csv_read QuoteSeen (f @ s) r rest"
  by (induction s arbitrary: f) auto

lemma csv_read_cells:
  "cells \<noteq> [] \<Longrightarrow> csv_read CellStart f r (csv_row cells @ rest) =
     map_option ((#) (r @ cells)) (csv_read RowStart [] [] rest)"
proof (induction cells arbitrary: f r)
  case (Cons c cells)
  then show ?case
    by (cases cells) (simp_all add: csv_row_def csv_cell_def csv_read_quoted)
qed simp

lemma csv_read_row:
  "csv_read RowStart f r (csv_row cells @ rest) = map_option ((#) cells) (csv_read RowStart [] [] rest)"
proof (cases cells)
  case Nil
  then show ?thesis by (simp add: csv_row_def)
next
  case (Cons c cs)
  have "csv_read RowStart f r (csv_row cells @ rest) = csv_read CellStart f [] (csv_row cells @ rest)"
    by (cases cs) (simp_all add: Cons csv_row_def csv_cell_def)
  then show ?thesis using csv_read_cells [of cells f "[]" rest] Cons by simp
qed

lemma csv_read_rows: "csv_read RowStart [] [] (concat (map csv_row rows)) = Some rows"
  by (induction rows) (simp_all add: csv_read_row)

lemma csv_rows_written:
  assumes "map_res (\<lambda>r. map_res (\<lambda>f. field_fun f r) flds) results = Inr rows"
  shows "csv_rows flds (results @ others) written =
    csv_rows flds others (written @ concat (map csv_row (map (map cell_text) rows)))"
    and "csv_rows flds results written = (written @ concat (map csv_row (map (map cell_text) rows)), Inr ())"
  using assms by (induction results arbitrary: rows written) (auto simp: bind_res_Inr_iff)

subsection \<open>Numbers\<close>

lemma map_res_ok: "(\<And>x. x \<in> set xs \<Longrightarrow> f x = Inr (g x)) \<Longrightarrow> map_res f xs = Inr (map g xs)"
  by (induction xs) auto

lemma map_res_Inr_iff: "map_res f xs = Inr ys \<longleftrightarrow> list_all2 (\<lambda>x y. f x = Inr y) xs ys"
  by (induction xs arbitrary: ys) (auto simp: bind_res_Inr_iff list_all2_Cons1)

lemma py_int_show: "py_int (CellStr (show_int i)) = Inr i"
  by simp

lemma pandas_row_whole:
  assumes "map_res (\<lambda>f. field_fun f r) flds = Inr raw"
  shows "pandas_row flds r =
    Inr (if list_all (\<lambda>c. \<not> isl (py_int c)) raw then map (\<lambda>c. CellInt (projr (py_int c))) raw else raw)"
proof -
  let ?f = "\<lambda>f. field_fun f r"
  have raw: "list_all2 (\<lambda>f c. ?f f = Inr c) flds raw" using assms by (simp add: map_res_Inr_iff)
  show ?thesis
  proof (cases "list_all (\<lambda>c. \<not> isl (py_int c)) raw")
    case True
    then have "list_all2 (\<lambda>f i. bind_res (?f f) py_int = Inr i) flds (map (\<lambda>c. projr (py_int c)) raw)"
      using raw by (simp add: list_all2_conv_all_nth list_all_length)
    then show ?thesis using True by (simp add: pandas_row_def map_res_Inr_iff [symmetric])
  next
    case False
    then obtain k where k: "k < length raw" "isl (py_int (raw ! k))" by (auto simp: list_all_length)
    have "map_res (\<lambda>f. bind_res (?f f) py_int) flds \<noteq> Inr ints" for ints
      using raw k by (auto simp: map_res_Inr_iff list_all2_conv_all_nth)
    then obtain e where "map_res (\<lambda>f. bind_res (?f f) py_int) flds = Inl e"
      by (cases "map_res (\<lambda>f. bind_res (?f f) py_int) flds") auto
    then show ?thesis using False assms by (simp add: pandas_row_def)
  qed
qed

subsection \<open>Example data\<close>

definition demo_rule :: "string \<Rightarrow> (string \<times> string) option" where
  "demo_rule l = (if take 6 l = ''ticks '' then Some (''ticks'', drop 6 l) else None)"

definition demo_dump :: "string \<Rightarrow> string list" where
  "demo_dump v = [''---- Begin Simulation Statistics ----'', ''ticks '' @ v, ''---- End Simulation Statistics ----'']"

definition empty_results :: result_fs where
  "empty_results = \<lparr>fs_files = (\<lambda>p. None), fs_isdir = (\<lambda>p. True), fs_listdir = (\<lambda>p. Inr [])\<rparr>"

subsection \<open>Properties\<close>

text \<open>
  C16. Reading a statistics file: a file made of complete dumps, each closed by its end
  marker, gives one dictionary per dump, in order; looking up a key in the \<open>i\<close>-th gives the
  value of the last line of the \<open>i\<close>-th dump that the line rule reads as that key, and nothing
  from another dump.
\<close>

theorem read_stats_dumps:
  assumes "fs_text fs (path_join dir name) = Some (concat bs)" and "list_all complete_dump bs"
  shows "\<exists>stats. read_stats rule fs dir name = Some stats \<and> length stats = length bs \<and>
    (\<forall>i < length bs. \<forall>k. stats_getitem (stats ! i) k = map_of (rev (List.map_filter rule (bs ! i))) k)"
  using read_stats_text [OF assms(1), of rule] dumps_concat [OF assms(2)]
  by (simp add: stats_getitem_def dump_dict_def add_stats_lookup)

theorem read_stats_dumps_witness:
  "stats_getitem (the (read_stats demo_rule
     (fs_put (stats_path ''res'') (1, TextFile (demo_dump ''7'' @ demo_dump ''9'')) empty_results) ''res'' ''stats.txt'') ! 1)
     ''ticks'' = Some ''9''"
proof -
  have "fs_text (fs_put (stats_path ''res'') (1, TextFile (demo_dump ''7'' @ demo_dump ''9'')) empty_results)
      (path_join ''res'' ''stats.txt'') = Some (concat [demo_dump ''7'', demo_dump ''9''])"
    by (simp add: fs_text_def fs_get_put path_join_def)
  moreover have "list_all complete_dump [demo_dump ''7'', demo_dump ''9'']"
    by (simp add: complete_dump_def demo_dump_def dump_end_def)
  ultimately have "\<exists>stats. read_stats demo_rule
      (fs_put (stats_path ''res'') (1, TextFile (demo_dump ''7'' @ demo_dump ''9'')) empty_results) ''res'' ''stats.txt'' =
      Some stats \<and> length stats = length [demo_dump ''7'', demo_dump ''9''] \<and>
    (\<forall>i < length [demo_dump ''7'', demo_dump ''9'']. \<forall>k. stats_getitem (stats ! i) k =
      map_of (rev (List.map_filter demo_rule ([demo_dump ''7'', demo_dump ''9''] ! i))) k)"
    by (rule read_stats_dumps)
  moreover have "List.map_filter demo_rule (demo_dump ''9'') = [(''ticks'', ''9'')]"
    by (simp add: demo_dump_def demo_rule_def List.map_filter_simps)
  ultimately show ?thesis by auto
qed

text \<open>
  C15. The cache never serves old numbers: in every state reached from a directory without
  statistics by simulations that write the file and lookups, with a clock that advances
  before each write, a lookup returns what parsing the present file gives.
\<close>

theorem find_stats_fresh:
  assumes "cache_reach rule dir now fs" and "dir \<noteq> []" and "now \<le> t"
    and "fs_get fs (stats_path dir) = Some (ts, TextFile ls)"
  shows "\<exists>fs'. find_stats rule t fs dir ''stats.txt'' = Inr (fs', read_stats rule fs dir ''stats.txt'')"
  using find_stats_refreshes [OF assms(2) cache_reach_ok [OF assms(1,2)] assms(3,4)]
    read_stats_found [OF assms(2,4), of rule] by auto

theorem find_stats_fresh_witness:
  "\<exists>fs'. find_stats demo_rule 2
     (fs_put (stats_path ''res'') (2, TextFile (demo_dump ''9''))
       (fs_put (''res/stat'') (1, PickleFile (Some [[(''ticks'', ''7'')]]))
         (fs_put (stats_path ''res'') (1, TextFile (demo_dump ''7'')) empty_results))) ''res'' ''stats.txt'' =
   Inr (fs', Some [[(''ticks'', ''9'')]])"
proof -
  let ?fs1 = "fs_put (stats_path ''res'') (1, TextFile (demo_dump ''7'')) empty_results"
  let ?fs2 = "fs_put (''res/stat'') (1, PickleFile (Some [[(''ticks'', ''7'')]])) ?fs1"
  let ?fs3 = "fs_put (stats_path ''res'') (2, TextFile (demo_dump ''9'')) ?fs2"
  have d: "map (dump_dict demo_rule) (dumps (demo_dump ''7'')) = [[(''ticks'', ''7'')]]"
    "map (dump_dict demo_rule) (dumps (demo_dump ''9'')) = [[(''ticks'', ''9'')]]"
    by (simp_all add: demo_dump_def dump_end_def dump_dict_def demo_rule_def List.map_filter_simps)
  have "cache_reach demo_rule ''res'' 0 empty_results"
    by (rule cache_reach.start) (simp_all add: empty_results_def fs_get_def)
  from cache_reach.simulated [OF this, of 1 "demo_dump ''7''"]
  have r: "cache_reach demo_rule ''res'' 1 ?fs1" by simp
  have "read_stats demo_rule ?fs1 ''res'' ''stats.txt'' = Some [[(''ticks'', ''7'')]]"
    by (subst read_stats_found [where ts = 1 and ls = "demo_dump ''7''"]) (simp_all add: fs_get_put d)
  then have "find_stats demo_rule 1 ?fs1 ''res'' ''stats.txt'' = Inr (?fs2, Some [[(''ticks'', ''7'')]])"
    by (simp add: find_stats_def Let_def cache_name_stats fs_get_put load_pickle_def)
      (simp add: empty_results_def fs_get_def fs_put_def)
  from cache_reach.simulated [OF cache_reach.looked_up [OF r _ this], of 2 "demo_dump ''9''"]
  have "cache_reach demo_rule ''res'' 2 ?fs3" by simp
  moreover have "fs_get ?fs3 (stats_path ''res'') = Some (2, TextFile (demo_dump ''9''))" by (simp add: fs_get_put)
  moreover from this have "read_stats demo_rule ?fs3 ''res'' ''stats.txt'' = Some [[(''ticks'', ''9'')]]"
    using read_stats_found [of "''res''" ?fs3 2 "demo_dump ''9''" demo_rule] unfolding d by simp
  ultimately show ?thesis using find_stats_fresh [of demo_rule "''res''" 2 ?fs3 2 2 "demo_dump ''9''"] by simp
qed

text \<open>
  Collecting a result directory: with the caches of its subdirectories in order and a
  statistics file in each, the group holds one entry per subdirectory with at least one
  dump, in sorted order, with the dictionaries of the present files; lookups in one
  subdirectory do not disturb another.
\<close>

theorem find_stats_group_complete:
  assumes "result_dir \<noteq> []" and "fs_listdir fs result_dir = Inr names" and "distinct names" and "now \<le> t"
    and "\<And>s. s \<in> set names \<Longrightarrow> cache_reach rule (path_join result_dir s) now fs"
    and "\<And>s. s \<in> set names \<Longrightarrow>
      \<exists>ts. fs_get fs (stats_path (path_join result_dir s)) = Some (ts, TextFile (log s))"
  shows "\<exists>fs'. find_stats_group rule t fs result_dir =
    Inr (fs', filter (\<lambda>(s, x). x \<noteq> []) (map (\<lambda>s. (s, map (dump_dict rule) (dumps (log s))))
      (sort_key (map (of_char :: char \<Rightarrow> nat))
        (filter (\<lambda>s. fs_isdir fs (norm_path (result_dir @ s))) names))))"
proof -
  have "path_join result_dir s \<noteq> []" for s using assms(1) by (auto simp: path_join_def)
  then have "cache_ok rule (path_join result_dir s) now fs" if "s \<in> set names" for s
    using cache_reach_ok assms(5) that by blast
  then show ?thesis
    using group_loop_reads [OF assms(1) _ assms(4), of "sort_key (map (of_char :: char \<Rightarrow> nat))
        (filter (\<lambda>s. fs_isdir fs (norm_path (result_dir @ s))) names)" "[]" rule fs log]
      assms(2,3,6)
    by (simp add: find_stats_group_def)
qed

theorem find_stats_group_complete_witness:
  "\<exists>fs'. find_stats_group demo_rule 1
     (fs_put (stats_path ''res/aes'') (1, TextFile (demo_dump ''7'')) (empty_results\<lparr>fs_listdir := (\<lambda>d. Inr [''aes''])\<rparr>)) ''res/'' =
   Inr (fs', [(''aes'', [[(''ticks'', ''7'')]])])"
proof -
  let ?none = "empty_results\<lparr>fs_listdir := (\<lambda>d. Inr [''aes''])\<rparr>"
  let ?fs = "fs_put (stats_path ''res/aes'') (1, TextFile (demo_dump ''7'')) ?none"
  have d: "map (dump_dict demo_rule) (dumps (demo_dump ''7'')) = [[(''ticks'', ''7'')]]"
    by (simp add: demo_dump_def dump_end_def dump_dict_def demo_rule_def List.map_filter_simps)
  have "cache_reach demo_rule ''res/aes'' 0 ?none"
    by (rule cache_reach.start) (simp_all add: empty_results_def fs_get_def)
  from cache_reach.simulated [OF this, of 1 "demo_dump ''7''"]
  have "cache_reach demo_rule ''res/aes'' 1 ?fs" by simp
  then have "\<exists>fs'. find_stats_group demo_rule 1 ?fs ''res/'' =
    Inr (fs', filter (\<lambda>(s, x). x \<noteq> []) (map (\<lambda>s. (s, map (dump_dict demo_rule) (dumps (demo_dump ''7''))))
      (sort_key (map (of_char :: char \<Rightarrow> nat))
        (filter (\<lambda>s. fs_isdir ?fs (norm_path (''res/'' @ s))) [''aes'']))))"
    by (intro find_stats_group_complete [where now = 1]) (simp_all add: path_join_def fs_get_put)
  then show ?thesis by (simp add: d empty_results_def)
qed

text \<open>
  C36. The table reads back: \<open>to_csv\<close> writes a header row and one row per result, and a
  reader of quoted rows recovers every cell, quotes, commas and line breaks in the values
  included. When a field function raises for a result, the exception leaves the script and
  the file holds the header and the rows of the results before it.
\<close>

theorem to_csv_roundtrip:
  assumes "map_res (\<lambda>r. map_res (\<lambda>f. field_fun f r) flds) results = Inr rows"
  shows "(\<exists>written. to_csv results flds = (written, Inr ()) \<and>
      csv_read RowStart [] [] written = Some (map field_name flds # map (map cell_text) rows)) \<and>
    (map_res (\<lambda>f. field_fun f bad) flds = Inl e \<longrightarrow>
      (\<exists>written. to_csv (results @ bad # others) flds = (written, Inl e) \<and>
        csv_read RowStart [] [] written = Some (map field_name flds # map (map cell_text) rows)))"
  using csv_read_rows [of "map field_name flds # map (map cell_text) rows"]
  by (simp add: to_csv_def csv_rows_written [OF assms])

theorem to_csv_roundtrip_witness:
  "csv_read RowStart [] [] (fst (to_csv [''a,b'', ''!'']
     [\<lparr>field_name = ''name'', field_fun = (\<lambda>s. if s = ''!'' then Inl (KeyError s) else Inr (CellStr s)), field_type = ''str''\<rparr>])) =
   Some [[''name''], [''a,b'']]"
  using to_csv_roundtrip [of "[\<lparr>field_name = ''name'', field_fun = (\<lambda>s. if s = ''!'' then Inl (KeyError s) else Inr (CellStr s)), field_type = ''str''\<rparr>]"
      "[''a,b'']" "[[CellStr ''a,b'']]" "''!''" "KeyError ''!''" "[]"] by force

text \<open>
  Rows of a data frame are converted as a whole: if every value of the row reads as an
  integer, the row holds these integers; if one does not, the row keeps its values as
  they are. A decimal string always reads as its number.
\<close>

theorem to_pandas_rows:
  assumes "map_res (\<lambda>r. map_res (\<lambda>f. field_fun f r) flds) results = Inr raws"
  shows "\<exists>dt. to_pandas frame results flds =
      frame (map (\<lambda>raw. if list_all (\<lambda>c. \<not> isl (py_int c)) raw
                        then map (\<lambda>c. CellInt (projr (py_int c))) raw else raw) raws)
        (map field_name flds) dt \<and>
    (\<forall>s. map_of dt s = map_of (rev (zip (map field_name flds) (map field_type flds))) s)"
proof -
  let ?conv = "\<lambda>raw. if list_all (\<lambda>c. \<not> isl (py_int c)) raw then map (\<lambda>c. CellInt (projr (py_int c))) raw else raw"
  have "list_all2 (\<lambda>r raw. map_res (\<lambda>f. field_fun f r) flds = Inr raw) results raws"
    using assms by (simp add: map_res_Inr_iff)
  then have "list_all2 (\<lambda>r row. pandas_row flds r = Inr row) results (map ?conv raws)"
    by (simp only: list_all2_map2) (erule list_all2_mono, rule pandas_row_whole)
  then have "map_res (pandas_row flds) results = Inr (map ?conv raws)" by (simp only: map_res_Inr_iff)
  then show ?thesis
    by (intro exI [of _ "add_stats (zip (map field_name flds) (map field_type flds)) []"])
      (simp add: to_pandas_def Let_def add_stats_lookup, simp add: add_stats_def)
qed

theorem to_pandas_rows_witness:
  "to_pandas (\<lambda>d c t. Inr (d, c)) [3, 4::int]
     [\<lparr>field_name = ''cycles'', field_fun = (\<lambda>i. Inr (CellStr (show_int i))), field_type = ''int''\<rparr>] =
   Inr ([[CellInt 3], [CellInt 4]], [''cycles''])"
proof -
  have "map_res (\<lambda>r. map_res (\<lambda>f. field_fun f r)
      [\<lparr>field_name = ''cycles'', field_fun = (\<lambda>i. Inr (CellStr (show_int i))), field_type = ''int''\<rparr>]) [3, 4::int] =
    Inr [[CellStr (show_int 3)], [CellStr (show_int 4)]]" by simp
  from to_pandas_rows [OF this, of "\<lambda>d c t. Inr (d, c)"] show ?thesis by (simp add: py_int_show del: py_int.simps)
qed

text \<open>
  A result directory without a statistics file: \<open>parse_result\<close> does not report it but
  raises a type error, because it iterates over the missing list; \<open>find_stats\<close> on the same
  directory returns nothing and stores that nothing in its cache.
\<close>

theorem missing_stats_file:
  assumes "dir \<noteq> []" and "fs_isdir fs (norm_path dir)"
    and "fs_get fs (stats_path dir) = None" and "fs_get fs (dir @ ''/stat'') = None"
  shows "parse_result json rule fs dir config ''stats.txt'' props = Inl (TypeError ''NoneType'') \<and>
    find_stats rule t fs dir ''stats.txt'' =
      Inr (fs_put (dir @ ''/stat'') (t, PickleFile None) fs, None)"
proof -
  have "read_stats rule fs dir ''stats.txt'' = None"
    using assms norm_path_join [of dir "''stats.txt''"]
    by (simp add: read_stats_def fs_text_def fs_get_def stats_paths)
  with assms show ?thesis
    by (simp add: parse_result_def find_stats_def cache_name_stats Let_def load_pickle_def fs_get_put)
qed

theorem missing_stats_file_witness:
  "parse_result (\<lambda>ls. Some ls) (\<lambda>l. None) empty_results ''res'' ''config.json'' ''stats.txt'' () =
     Inl (TypeError ''NoneType'')"
  using missing_stats_file [of "''res''" empty_results "\<lambda>ls. Some ls" "\<lambda>l. None" "''config.json''" "()"]
  by (simp add: empty_results_def fs_get_def)

end
