(* ===== verification/Analysis_Notebook.thy ===== *)
theory Analysis_Notebook
  imports Gem5_Utils
begin

text \<open>
  The code cells of \<open>analysis/analyze_results.ipynb\<close>, in order: the benchmark list and the
  loop that parses one result directory per benchmark, the fields to extract for the two
  kinds of core model, and the table made from them and saved as CSV. The parameters are
  those of the result library; saving a data frame is the parameter \<open>save\<close>. The plot of the
  last cell is not modelled.
\<close>

subsection \<open>The cells\<close>

definition results_path :: string where
  "results_path = ''../wkdir/results/''"

definition benchmarks :: "string list" where
  "benchmarks = [''fibonacci-go'', ''fibonacci-nodejs'']"

type_synonym 'j nb_result = "('j, (string \<times> string) list) experiment_results"

definition read_raw_data :: "(string list \<Rightarrow> 'j option) \<Rightarrow> (string \<Rightarrow> (string \<times> string) option)
    \<Rightarrow> result_fs \<Rightarrow> string list \<Rightarrow> 'j nb_result list result" where
  "read_raw_data json rule fs bms =
     map_res (\<lambda>benchmark.
       let dir = results_path @ ''/'' @ benchmark
       in parse_result json rule fs dir ''config.json'' ''stats.txt'' [(''benchmark'', benchmark)]) bms"

definition dump_number :: nat where
  "dump_number = 0"

definition prop_field :: "string \<Rightarrow> 'j nb_result \<Rightarrow> cell result" where
  "prop_field k r = (case map_of (res_props r) k of None \<Rightarrow> Inl (KeyError k) | Some v \<Rightarrow> Inr (CellStr v))"

definition dump_field :: "string \<Rightarrow> 'j nb_result \<Rightarrow> cell result" where
  "dump_field k r =
     bind_res (py_index (res_stats r) dump_number) (\<lambda>d.
       Inr (case stats_getitem d k of None \<Rightarrow> CellNone | Some v \<Rightarrow> CellStr v))"

definition core_fields :: "string \<Rightarrow> 'j nb_result table_field list" where
  "core_fields insts =
     [\<lparr>field_name = ''Benchmark'', field_fun = prop_field ''benchmark'', field_type = ''str''\<rparr>,
      \<lparr>field_name = ''Cycles'', field_fun = dump_field ''system.cpu1.numCycles'', field_type = ''int''\<rparr>,
      \<lparr>field_name = ''Instructions'', field_fun = dump_field insts, field_type = ''int''\<rparr>,
      \<lparr>field_name = ''IPC'', field_fun = dump_field ''system.cpu1.ipc'', field_type = ''float''\<rparr>,
      \<lparr>field_name = ''CPI'', field_fun = dump_field ''system.cpu1.cpi'', field_type = ''float''\<rparr>]"

definition stats_per_core_model :: "string \<rightharpoonup> 'j nb_result table_field list" where
  "stats_per_core_model = map_of
     [(''simple'', core_fields ''system.cpu1.exec_context.thread_0.numInsts''),
      (''detailed'', core_fields ''system.cpu1.numInsts'')]"

text \<open>All cells: the data frame, saved below the result directory.\<close>

definition analyze_results :: "(cell list list \<Rightarrow> string list \<Rightarrow> (string \<times> string) list \<Rightarrow> 'df result)
    \<Rightarrow> (string \<Rightarrow> 'df \<Rightarrow> unit result) \<Rightarrow> (string list \<Rightarrow> 'j option)
    \<Rightarrow> (string \<Rightarrow> (string \<times> string) option) \<Rightarrow> result_fs \<Rightarrow> string list \<Rightarrow> string \<Rightarrow> 'df result" where
  "analyze_results frame save json rule fs bms core =
     bind_res (read_raw_data json rule fs bms) (\<lambda>raw_data.
     bind_res (case stats_per_core_model core of None \<Rightarrow> Inl (KeyError core) | Some s \<Rightarrow> Inr s) (\<lambda>stats.
     bind_res (to_pandas frame raw_data stats) (\<lambda>df.
     bind_res (save (results_path @ ''/results.csv'') df) (\<lambda>_. Inr df))))"

definition notebook :: "(cell list list \<Rightarrow> string list \<Rightarrow> (string \<times> string) list \<Rightarrow> 'df result)
    \<Rightarrow> (string \<Rightarrow> 'df \<Rightarrow> unit result) \<Rightarrow> (string list \<Rightarrow> 'j option)
    \<Rightarrow> (string \<Rightarrow> (string \<times> string) option) \<Rightarrow> result_fs \<Rightarrow> 'df result" where
  "notebook frame save json rule fs = analyze_results frame save json rule fs benchmarks ''simple''"

subsection \<open>Lemmas\<close>

definition nb_dir :: "string \<Rightarrow> string" where
  "nb_dir b = results_path @ ''/'' @ b"

text \<open>The row of a benchmark, from the lines of the chosen dump of its statistics file.\<close>

definition dump_cell :: "(string \<Rightarrow> (string \<times> string) option) \<Rightarrow> string list \<Rightarrow> string \<Rightarrow> cell" where
  "dump_cell rule ls k =
     (case map_of (rev (List.map_filter rule ls)) k of None \<Rightarrow> CellNone | Some v \<Rightarrow> CellStr v)"

definition nb_row :: "(string \<Rightarrow> (string \<times> string) option) \<Rightarrow> string \<Rightarrow> string \<Rightarrow> string list \<Rightarrow> cell list" where
  "nb_row rule insts b ls =
     CellStr b # map (dump_cell rule ls)
       [''system.cpu1.numCycles'', insts, ''system.cpu1.ipc'', ''system.cpu1.cpi'']"

definition insts_key :: "string \<Rightarrow> string" where
  "insts_key core =
     (if core = ''simple'' then ''system.cpu1.exec_context.thread_0.numInsts'' else ''system.cpu1.numInsts'')"

lemma core_model_fields:
  "core \<in> {''simple'', ''detailed''} \<Longrightarrow> stats_per_core_model core = Some (core_fields (insts_key core))"
  by (auto simp: stats_per_core_model_def insts_key_def)

lemma core_columns:
  "map field_name (core_fields insts) = [''Benchmark'', ''Cycles'', ''Instructions'', ''IPC'', ''CPI'']"
  "map field_type (core_fields insts) = [''str'', ''int'', ''int'', ''float'', ''float'']"
  by (simp_all add: core_fields_def)

lemma dump_field_row:
  assumes "res_stats r = map (dump_dict rule) (ls # bs)"
  shows "dump_field k r = Inr (dump_cell rule ls k)"
  using assms
  by (simp add: dump_field_def dump_number_def py_index_def stats_getitem_def dump_dict_def add_stats_lookup
      dump_cell_def)

lemma core_row:
  assumes "res_stats r = map (dump_dict rule) (ls # bs)" and "res_props r = [(''benchmark'', b)]"
  shows "map_res (\<lambda>f. field_fun f r) (core_fields insts) = Inr (nb_row rule insts b ls)"
  using assms(2) by (simp add: core_fields_def nb_row_def prop_field_def dump_field_row [OF assms(1)])

text \<open>A benchmark name that is not a number keeps its whole row as it is.\<close>

lemma core_pandas_row:
  assumes "res_stats r = map (dump_dict rule) (ls # bs)" and "res_props r = [(''benchmark'', b)]"
    and "isl (py_int_str b)"
  shows "pandas_row (core_fields insts) r = Inr (nb_row rule insts b ls)"
proof -
  obtain e where "py_int_str b = Inl e" using assms(3) by (auto simp: isl_def)
  then have "map_res (\<lambda>field. bind_res (field_fun field r) py_int) (core_fields insts) = Inl e"
    using assms(2) by (simp add: core_fields_def prop_field_def)
  then show ?thesis by (simp add: pandas_row_def core_row [OF assms(1,2)])
qed

lemma core_row_no_dump:
  assumes "res_stats r = []" and "res_props r = [(''benchmark'', b)]"
  shows "pandas_row (core_fields insts) r = Inl IndexError"
proof -
  have "map_res (\<lambda>f. field_fun f r) (core_fields insts) = Inl IndexError"
    using assms by (simp add: core_fields_def prop_field_def dump_field_def py_index_def)
  moreover have "isl (map_res (\<lambda>field. bind_res (field_fun field r) py_int) (core_fields insts))"
    using assms by (cases "py_int_str b")
      (simp_all add: core_fields_def prop_field_def dump_field_def py_index_def)
  ultimately show ?thesis by (auto simp: pandas_row_def isl_def)
qed

definition nb_result_of :: "(string list \<Rightarrow> 'j option) \<Rightarrow> (string \<Rightarrow> (string \<times> string) option)
    \<Rightarrow> result_fs \<Rightarrow> string list \<Rightarrow> string \<Rightarrow> 'j nb_result" where
  "nb_result_of json rule fs ls b =
     \<lparr>res_configs = read_configs json fs (nb_dir b) ''config.json'',
      res_stats = map (dump_dict rule) (dumps ls), res_props = [(''benchmark'', b)]\<rparr>"

lemma raw_data_read:
  assumes "\<And>b. b \<in> set bms \<Longrightarrow> fs_text fs (path_join (nb_dir b) ''stats.txt'') = Some (txt_of b)"
  shows "read_raw_data json rule fs bms = Inr (map (\<lambda>b. nb_result_of json rule fs (txt_of b) b) bms)"
  unfolding read_raw_data_def Let_def
proof (rule map_res_ok)
  fix b assume "b \<in> set bms"
  from read_stats_text [OF assms [OF this], of rule]
  show "parse_result json rule fs (results_path @ ''/'' @ b) ''config.json'' ''stats.txt'' [(''benchmark'', b)] =
      Inr (nb_result_of json rule fs (txt_of b) b)"
    by (simp add: parse_result_def nb_result_of_def nb_dir_def)
qed

lemma map_res_first_error:
  "(\<And>x. x \<in> set pre \<Longrightarrow> \<not> isl (f x)) \<Longrightarrow> f y = Inl e \<Longrightarrow> map_res f (pre @ y # xs) = Inl e"
  by (induction pre) (auto simp: isl_def bind_res_def split: sum.splits)

lemma map_res_some_error:
  assumes "\<And>x. x \<in> set xs \<Longrightarrow> isl (f x) \<Longrightarrow> f x = Inl e" and "\<exists>x\<in>set xs. isl (f x)"
  shows "map_res f xs = Inl e"
proof -
  from split_list_first_prop [OF assms(2)] obtain pre y ys where
    "xs = pre @ y # ys" "isl (f y)" "\<forall>x\<in>set pre. \<not> isl (f x)" by blast
  then show ?thesis using assms(1) [of y] by (simp add: map_res_first_error)
qed

lemma nb_pandas_row:
  "pandas_row (core_fields insts) (nb_result_of json rule fs ls b) = Inl IndexError \<longleftrightarrow> ls = []"
  "isl (pandas_row (core_fields insts) (nb_result_of json rule fs ls b)) \<longleftrightarrow> ls = []"
proof -
  let ?r = "nb_result_of json rule fs ls b"
  have p: "res_props ?r = [(''benchmark'', b)]" by (simp add: nb_result_of_def)
  have "(pandas_row (core_fields insts) ?r = Inl IndexError \<longleftrightarrow> ls = []) \<and>
    (isl (pandas_row (core_fields insts) ?r) \<longleftrightarrow> ls = [])"
  proof (cases ls)
    case Nil
    then have "res_stats ?r = []" by (simp add: nb_result_of_def)
    from core_row_no_dump [OF this p] Nil show ?thesis by simp
  next
    case (Cons l ls')
    then have "dumps ls \<noteq> []" by (simp split: list.split)
    then obtain d ds where "res_stats ?r = map (dump_dict rule) (d # ds)"
      by (auto simp: nb_result_of_def neq_Nil_conv)
    from pandas_row_whole [OF core_row [OF this p]] Cons show ?thesis by simp
  qed
  then show "pandas_row (core_fields insts) ?r = Inl IndexError \<longleftrightarrow> ls = []"
    "isl (pandas_row (core_fields insts) ?r) \<longleftrightarrow> ls = []" by simp_all
qed

lemma first_dump_table:
  assumes "core \<in> {''simple'', ''detailed''}"
    and "\<And>b. b \<in> set bms \<Longrightarrow> fs_text fs (path_join (nb_dir b) ''stats.txt'') = Some (first_dump b @ later b)"
    and "\<And>b. b \<in> set bms \<Longrightarrow> complete_dump (first_dump b)"
    and "\<And>b. b \<in> set bms \<Longrightarrow> isl (py_int_str b)"
  shows "analyze_results frame save json rule fs bms core =
    bind_res (frame (map (\<lambda>b. nb_row rule (insts_key core) b (first_dump b)) bms)
        [''Benchmark'', ''Cycles'', ''Instructions'', ''IPC'', ''CPI'']
        [(''Benchmark'', ''str''), (''Cycles'', ''int''), (''Instructions'', ''int''),
         (''IPC'', ''float''), (''CPI'', ''float'')]) (\<lambda>df.
      bind_res (save ''../wkdir/results//results.csv'' df) (\<lambda>_. Inr df))"
proof -
  let ?r = "\<lambda>b. nb_result_of json rule fs (first_dump b @ later b) b" and ?f = "core_fields (insts_key core)"
  have raw: "read_raw_data json rule fs bms = Inr (map ?r bms)" by (rule raw_data_read) (rule assms(2))
  have "pandas_row ?f (?r b) = Inr (nb_row rule (insts_key core) b (first_dump b))" if "b \<in> set bms" for b
    using that by (intro core_pandas_row [where bs = "dumps (later b)"])
      (simp_all add: nb_result_of_def dumps_complete assms)
  then have rows: "map_res (pandas_row ?f) (map ?r bms) =
      Inr (map (\<lambda>b. nb_row rule (insts_key core) b (first_dump b)) bms)"
    by (induction bms) simp_all
  show ?thesis
    by (simp add: analyze_results_def raw core_model_fields [OF assms(1)] to_pandas_def rows core_columns
        results_path_def Let_def)
qed

subsection \<open>Example data\<close>

definition nb_demo_rule :: "string \<Rightarrow> (string \<times> string) option" where
  "nb_demo_rule l = (if take 7 l = ''cycles '' then Some (''system.cpu1.numCycles'', drop 7 l) else None)"

definition nb_demo_dump :: "string \<Rightarrow> string list" where
  "nb_demo_dump v = [''---- Begin Simulation Statistics ----'', ''cycles '' @ v, ''---- End Simulation Statistics ----'']"

definition nb_demo_fs :: result_fs where
  "nb_demo_fs = \<lparr>fs_files = (\<lambda>p. Some (1, TextFile (nb_demo_dump ''7'' @ nb_demo_dump ''9''))),
     fs_isdir = (\<lambda>p. True), fs_listdir = (\<lambda>p. Inr [])\<rparr>"

subsection \<open>Properties\<close>

text \<open>
  C21. The table of the notebook: when every benchmark directory holds a statistics file that
  starts with a complete dump, the data frame has one row per benchmark, in the order of
  the list, made of its name and, for cycles, instructions, IPC and CPI, the value the line
  rule reads last for that statistic in the first dump, or nothing when the dump lacks it; no
  value of another benchmark or dump gets in. It is saved as \<open>results.csv\<close>.
\<close>

theorem notebook_table:
  assumes "core \<in> {''simple'', ''detailed''}"
    and "\<And>b. b \<in> set bms \<Longrightarrow> fs_text fs (path_join (nb_dir b) ''stats.txt'') = Some (first_dump b @ later b)"
    and "\<And>b. b \<in> set bms \<Longrightarrow> complete_dump (first_dump b)"
    and "\<And>b. b \<in> set bms \<Longrightarrow> isl (py_int_str b)"
  shows "analyze_results frame save json rule fs bms core =
    bind_res (frame (map (\<lambda>b. nb_row rule (insts_key core) b (first_dump b)) bms)
        [''Benchmark'', ''Cycles'', ''Instructions'', ''IPC'', ''CPI'']
        [(''Benchmark'', ''str''), (''Cycles'', ''int''), (''Instructions'', ''int''),
         (''IPC'', ''float''), (''CPI'', ''float'')]) (\<lambda>df.
      bind_res (save ''../wkdir/results//results.csv'' df) (\<lambda>_. Inr df))"
  using assms by (rule first_dump_table)

theorem notebook_table_witness:
  "notebook (\<lambda>d c t. Inr d) (\<lambda>p df. Inr ()) (\<lambda>ls. Some ls) nb_demo_rule nb_demo_fs =
     Inr [[CellStr ''fibonacci-go'', CellStr ''7'', CellNone, CellNone, CellNone],
          [CellStr ''fibonacci-nodejs'', CellStr ''7'', CellNone, CellNone, CellNone]]"
proof -
  have "fs_text nb_demo_fs (path_join (nb_dir b) ''stats.txt'') = Some (nb_demo_dump ''7'' @ nb_demo_dump ''9'')" for b
    by (simp add: nb_demo_fs_def fs_text_def fs_get_def)
  moreover have "complete_dump (nb_demo_dump ''7'')"
    by (simp add: complete_dump_def nb_demo_dump_def dump_end_def)
  moreover have "isl (py_int_str b)" if "b \<in> set benchmarks" for b
    using that by (auto simp: benchmarks_def py_int_str_def py_strip_def py_space_def is_digit_def)
  ultimately have "analyze_results (\<lambda>d c t. Inr d) (\<lambda>p df. Inr ()) (\<lambda>ls. Some ls) nb_demo_rule nb_demo_fs
      benchmarks ''simple'' = Inr (map (\<lambda>b. nb_row nb_demo_rule (insts_key ''simple'') b (nb_demo_dump ''7'')) benchmarks)"
    using notebook_table [of "''simple''" benchmarks nb_demo_fs "\<lambda>b. nb_demo_dump ''7''" "\<lambda>b. nb_demo_dump ''9''"
      "\<lambda>d c t. Inr d" "\<lambda>p df. Inr ()" "\<lambda>ls. Some ls" nb_demo_rule] by simp
  moreover have "List.map_filter nb_demo_rule (nb_demo_dump ''7'') = [(''system.cpu1.numCycles'', ''7'')]"
    by (simp add: nb_demo_rule_def nb_demo_dump_def List.map_filter_simps)
  ultimately show ?thesis by (simp add: notebook_def benchmarks_def nb_row_def dump_cell_def insts_key_def)
qed

text \<open>
  C37. Where the notebook stops: at the first directory without a statistics file reading raises
  a type error and there is no table, since \<open>parse_result\<close> iterates over the missing list; if
  all files are there and one of them is empty, the table raises an index error for the missing
  first dump. Neither case saves a file.
\<close>

theorem notebook_errors:
  assumes "core \<in> {''simple'', ''detailed''}"
    and "\<And>b. b \<in> set pre \<Longrightarrow> fs_text fs (path_join (nb_dir b) ''stats.txt'') = Some (txt_of b)"
  shows "(fs_text fs (path_join (nb_dir x) ''stats.txt'') = None \<longrightarrow>
      analyze_results frame save json rule fs (pre @ x # bms) core = Inl (TypeError ''NoneType'')) \<and>
    ((\<exists>b \<in> set pre. txt_of b = []) \<longrightarrow>
      analyze_results frame save json rule fs pre core = Inl IndexError)"
proof (intro conjI impI)
  let ?parse = "\<lambda>b. parse_result json rule fs (nb_dir b) ''config.json'' ''stats.txt'' [(''benchmark'', b)]"
  assume "fs_text fs (path_join (nb_dir x) ''stats.txt'') = None"
  then have x: "?parse x = Inl (TypeError ''NoneType'')" by (simp add: parse_result_def read_stats_def)
  have "\<not> isl (?parse b)" if "b \<in> set pre" for b
    using read_stats_text [OF assms(2) [OF that], of rule] by (simp add: parse_result_def)
  from map_res_first_error [of pre ?parse, OF this x]
  have "map_res ?parse (pre @ x # bms) = Inl (TypeError ''NoneType'')" .
  then show "analyze_results frame save json rule fs (pre @ x # bms) core = Inl (TypeError ''NoneType'')"
    by (simp add: analyze_results_def read_raw_data_def nb_dir_def Let_def)
next
  let ?r = "\<lambda>b. nb_result_of json rule fs (txt_of b) b" and ?f = "core_fields (insts_key core)"
  assume "\<exists>b \<in> set pre. txt_of b = []"
  then have "map_res (pandas_row ?f) (map ?r pre) = Inl IndexError"
    by (intro map_res_some_error) (auto simp: nb_pandas_row)
  then show "analyze_results frame save json rule fs pre core = Inl IndexError"
    by (simp add: analyze_results_def raw_data_read [OF assms(2)] core_model_fields [OF assms(1)] to_pandas_def Let_def)
qed

theorem notebook_errors_witness:
  "notebook (\<lambda>d c t. Inr d) (\<lambda>p df. Inr ()) (\<lambda>ls. Some ls) nb_demo_rule empty_results = Inl (TypeError ''NoneType'')"
  using notebook_errors [of "''simple''" "[]" empty_results "\<lambda>b. []" "''fibonacci-go''" "\<lambda>d c t. Inr d" "\<lambda>p df. Inr ()"
    "\<lambda>ls. Some ls" nb_demo_rule "[''fibonacci-nodejs'']"]
  by (simp add: notebook_def benchmarks_def fs_text_def fs_get_def empty_results_def)

end
