(* ===== verification/Workflow.thy ===== *)
theory Workflow
  imports Command_Lines Analysis_Notebook
begin

text \<open>
  The programs one after the other, as \<open>sim_all_functions.sh\<close> and the documentation call them:
  one evaluation per function with the command line of that script, its output in
  \<open>gem5.log\<close> of the result directory of the function; then \<open>check_simulations.py\<close> on all
  results, and the notebook on the statistics files. What gem5 itself writes is a parameter:
  lines around and between those the script prints, and the text of each statistics dump.
\<close>

subsection \<open>The log of the evaluation of a function\<close>

lemma function_paths:
  assumes "function_word fn"
  shows "CHR '' '' \<notin> set (checkpoint_path (sim_function_args fn) (use_checkpoint (sim_function_args fn)))"
    and "CHR '' '' \<notin> set (checkpoint_path (tm_base (tm_workflow_args (sim_function_args fn)))
      (use_checkpoint (tm_base (tm_workflow_args (sim_function_args fn)))))"
    and "CHR 0x0A \<notin> set fn"
proof -
  have sp: "CHR '' '' \<notin> set fn" and nl: "CHR 0x0A \<notin> set fn"
    using assms by (auto simp: function_word_def plain_word_def list_ex_iff shell_special_def)
  show "CHR 0x0A \<notin> set fn" by (rule nl)
  show "CHR '' '' \<notin> set (checkpoint_path (sim_function_args fn) (use_checkpoint (sim_function_args fn)))"
    using sp by (simp add: workflow_checkpoint)
  show "CHR '' '' \<notin> set (checkpoint_path (tm_base (tm_workflow_args (sim_function_args fn)))
      (use_checkpoint (tm_base (tm_workflow_args (sim_function_args fn)))))"
    using sp by (simp add: tm_workflow_args_def checkpoint_path_def sim_function_args_def setup_function_args_def
        run_sim_defaults_def)
qed

lemma single_log_scanned:
  assumes "function_word fn"
    and "run_sim_script env outdir (sim_function_argv fn) (e # after_checkpoint (shell_events (run_text fn))) =
      Inr (sys, st, oc, rest)"
    and "gem5_log cmd (trace st) ls"
  shows "scan_log ls scan_init = \<lparr>scan_cmd = cmd, scan_success = False, scan_count = 20\<rparr>"
proof -
  have pw: "plain_word fn" using assms(1) by (simp add: function_word_def)
  from single_machine_evaluation_flagged [of "sim_function_args fn" 10 9 env outdir e] pw function_paths(1) [OF assms(1)]
    assms(2,3)
  show ?thesis unfolding script_commands [OF assms(1)] sim_args_fields by auto
qed

lemma two_machine_log_scanned:
  assumes "function_word fn"
    and "two_machine_script env outdir (sim_function_argv fn) (e # after_checkpoint (shell_events (drive_text fn))) =
      Inr (root, st, oc, rest)"
    and "gem5_log cmd (trace st) ls"
  shows "scan_log ls scan_init = \<lparr>scan_cmd = cmd, scan_success = True, scan_count = 20\<rparr>"
proof -
  have pw: "plain_word fn" using assms(1) by (simp add: function_word_def)
  from two_machine_evaluation_checked [of "tm_workflow_args (sim_function_args fn)" 10 9 env outdir e] pw
    function_paths(2) [OF assms(1)] assms(2,3)
  show ?thesis unfolding tm_script_commands [OF assms(1)] tm_workflow_fields sim_args_fields by auto
qed

subsection \<open>The check of a results directory\<close>

abbreviation py_sorted :: "string list \<Rightarrow> string list" where
  "py_sorted \<equiv> sort_key (map (of_char :: char \<Rightarrow> nat))"

text \<open>
  A results directory after \<open>sim_all_functions.sh\<close>: its entries are the directories of the
  functions, each with a log.
\<close>

definition results_tree :: "file_tree \<Rightarrow> string \<Rightarrow> string list \<Rightarrow> (string \<Rightarrow> string list) \<Rightarrow> bool" where
  "results_tree ft dir fns logs \<longleftrightarrow>
     ft_listdir ft dir = Inr fns \<and> (dir = [] \<or> hd dir \<noteq> CHR ''-'') \<and> CHR 0x0A \<notin> set dir \<and>
     list_all (\<lambda>fn. function_word fn \<and> ft_isdir ft (dir @ fn) \<and> ft_lines ft (log_name dir fn) = Some (logs fn)) fns"

lemma check_script_dir:
  assumes "dir = [] \<or> hd dir \<noteq> CHR ''-''"
  shows "check_script ft [dir] = check_simulations ft dir"
proof -
  have c: "classify check_parser [dir] = Inr (map Arg [dir])"
    using assms by (intro classify_plain) (simp add: parse_plain)
  have pos: "filter (\<lambda>a. option_strings a = []) check_parser = [str_positional ''dir'']"
    by (simp add: check_parser_def spec_defs)
  show ?thesis using c pos
    by (simp add: check_script_def check_parse_arguments_def parse_args_def store_value_def get_value_def
        str_positional_def ns_str_def)
qed

lemma results_report:
  assumes "results_tree ft dir fns logs"
    and "\<And>fn. fn \<in> set fns \<Longrightarrow> scan_log (logs fn) scan_init = \<lparr>scan_cmd = cmd fn, scan_success = ok, scan_count = n\<rparr>"
    and "\<And>fn. fn \<in> set fns \<Longrightarrow> CHR 0x0A \<notin> set (cmd fn)"
  shows "\<exists>txt. check_script ft [dir] =
      Inr (map (\<lambda>fn. verdict_line fn n (status_text \<lparr>scan_cmd = [], scan_success = ok, scan_count = n\<rparr>)) (py_sorted fns) @
        [WriteFile ''rerun.sh'' txt]) \<and>
    active_lines txt = (if ok then [] else map (\<lambda>fn. '' sudo '' @ rerun_cmd dir fn (cmd fn) @ '' '') (py_sorted fns))"
proof -
  have l: "ft_listdir ft dir = Inr fns" and d: "dir = [] \<or> hd dir \<noteq> CHR ''-''" and n: "CHR 0x0A \<notin> set dir"
    and e: "\<And>fn. fn \<in> set fns \<Longrightarrow> function_word fn \<and> ft_isdir ft (dir @ fn) \<and> ft_lines ft (log_name dir fn) = Some (logs fn)"
    using assms(1) by (simp_all add: results_tree_def list_all_iff)
  let ?st = "\<lambda>fn. \<lparr>scan_cmd = cmd fn, scan_success = ok, scan_count = n\<rparr>"
  have dirs: "filter (\<lambda>s. ft_isdir ft (dir @ s)) fns = fns" using e by (simp add: filter_id_conv)
  have each: "map (\<lambda>s. case ft_lines ft (log_name dir s) of None \<Rightarrow> [] | Some ls \<Rightarrow> [(s, scan_log ls scan_init)]) (py_sorted fns) =
      map (\<lambda>s. [(s, ?st s)]) (py_sorted fns)"
    using e assms(2) by simp
  have scans: "log_scans ft dir fns = map (\<lambda>s. (s, ?st s)) (py_sorted fns)"
    unfolding log_scans_def dirs each by simp
  have one: "CHR 0x0A \<notin> set s \<and> CHR 0x0A \<notin> set (scan_cmd st)" if "(s, st) \<in> set (log_scans ft dir fns)" for s st
    using that assms(3) e function_paths(3) by (auto simp: scans)
  have status: "status_text (?st fn) = status_text \<lparr>scan_cmd = [], scan_success = ok, scan_count = n\<rparr>" for fn
    by (simp add: status_text_def)
  show ?thesis
    unfolding check_script_dir [OF d] report_written [OF l]
  proof (intro exI conjI)
    show "Inr (map (\<lambda>(s, st). verdict_line s (scan_count st) (status_text st)) (log_scans ft dir fns) @
          [WriteFile ''rerun.sh'' (concat (map rerun_line (map (rerun_entry dir) (log_scans ft dir fns))))]) =
        Inr (map (\<lambda>fn. verdict_line fn n (status_text \<lparr>scan_cmd = [], scan_success = ok, scan_count = n\<rparr>)) (py_sorted fns) @
          [WriteFile ''rerun.sh'' (concat (map rerun_line (map (rerun_entry dir) (log_scans ft dir fns))))])"
      by (simp add: scans status)
    show "active_lines (concat (map rerun_line (map (rerun_entry dir) (log_scans ft dir fns)))) =
        (if ok then [] else map (\<lambda>fn. '' sudo '' @ rerun_cmd dir fn (cmd fn) @ '' '') (py_sorted fns))"
      using report_active [OF n one, of "log_scans ft dir fns"]
      by (simp add: scans filter_map comp_def)
  qed
qed

subsection \<open>The statistics of an evaluation\<close>

text \<open>
  The statistics file a run leaves: at each \<open>m5.stats.dump\<close> gem5 appends a dump, whose text depends
  on what happened since the last \<open>m5.stats.reset\<close>; this text is the parameter \<open>dump\<close>, a function of
  the effects of the script since then.
\<close>

fun stats_text :: "(effect list \<Rightarrow> string list) \<Rightarrow> effect list \<Rightarrow> effect list \<Rightarrow> string list" where
  "stats_text dump seg [] = []"
| "stats_text dump seg (StatsReset # es) = stats_text dump [] es"
| "stats_text dump seg (StatsDump # es) = dump seg @ stats_text dump seg es"
| "stats_text dump seg (x # es) = stats_text dump (seg @ [x]) es"

definition no_stats :: "effect list \<Rightarrow> bool" where
  "no_stats es \<longleftrightarrow> StatsReset \<notin> set es \<and> StatsDump \<notin> set es"

lemma stats_text_skip: "no_stats es \<Longrightarrow> stats_text dump seg (es @ es') = stats_text dump (seg @ es) es'"
proof (induction es arbitrary: seg)
  case (Cons x es)
  then show ?case by (cases x) (simp_all add: no_stats_def)
qed simp

lemma marks_no_stats: "no_stats (begin_marks i)" "no_stats (end_marks i)" "no_stats (inv_logs begin_marks end_marks a n)"
  by (auto simp: no_stats_def begin_marks_def end_marks_def prYellow_def inv_logs_def inv_log_def)

lemma preamble_no_stats: "no_stats (evaluation_preamble outdir a)" "no_stats (tm_evaluation_preamble outdir a)"
  by (auto simp: no_stats_def evaluation_preamble_def tm_evaluation_preamble_def mkdir_effects_def script_effects_def
      tm_script_effects_def tm_root_effects_def run_text_written two_machine_writeRunScript_def writeDriveScript_def
      write_script_def prGreen_def Let_def)

text \<open>What the dump of the workflow covers: from the reset in the eleventh invocation to the end of the last.\<close>

definition measured_segment :: "effect list" where
  "measured_segment = end_marks 10 @ inv_logs begin_marks end_marks 11 9 @ [prGreen ''Measuring done'']"

lemma evaluation_stats:
  assumes "no_stats pre" and "no_stats switches" and "no_stats fin"
  shows "stats_text dump [] (pre @ inv_logs begin_marks end_marks 0 10 @
      ready_inv_log begin_marks (switches @ [StatsReset]) end_marks 10 @ inv_logs begin_marks end_marks 11 9 @ measured_log @ fin) =
    dump measured_segment"
proof -
  have f: "stats_text dump seg fin = []" for seg
    using stats_text_skip [OF assms(3), of dump seg "[]"] by simp
  have "stats_text dump [] (pre @ inv_logs begin_marks end_marks 0 10 @
      ready_inv_log begin_marks (switches @ [StatsReset]) end_marks 10 @ inv_logs begin_marks end_marks 11 9 @ measured_log @ fin) =
    stats_text dump (end_marks 10 @ inv_logs begin_marks end_marks 11 9) (measured_log @ fin)"
    unfolding ready_inv_log_def
    by (simp only: append_assoc stats_text_skip assms marks_no_stats append_Cons append_Nil stats_text.simps of_nat_numeral)
  then show ?thesis by (simp add: measured_segment_def prGreen_def f)
qed

lemma single_stats:
  assumes "function_word fn"
    and "run_sim_script env outdir (sim_function_argv fn) (e # after_checkpoint (shell_events (run_text fn))) =
      Inr (sys, st, oc, rest)"
  shows "stats_text dump [] (trace st) = dump measured_segment"
proof -
  let ?sw = "[prGreen ''Warming done'', SwitchCpus ''system'' (atomic_to_main 2)]"
  from workflow_evaluation [OF assms(1), of env outdir e] assms(2)
  have tr: "trace st = evaluation_preamble outdir (sim_function_args fn) @ inv_logs begin_marks end_marks 0 10 @
      ready_inv_log begin_marks (?sw @ [StatsReset]) end_marks 10 @ inv_logs begin_marks end_marks 11 9 @ measured_log @ []"
    by (elim exE conjE) simp
  show ?thesis unfolding tr
    by (rule evaluation_stats) (rule preamble_no_stats, simp_all add: no_stats_def prGreen_def)
qed

lemma two_machine_stats:
  assumes "function_word fn"
    and "two_machine_script env outdir (sim_function_argv fn) (e # after_checkpoint (shell_events (drive_text fn))) =
      Inr (root, st, oc, rest)"
  shows "stats_text dump [] (trace st) = dump measured_segment"
proof -
  let ?sw = "[prGreen ''Warming done'', SwitchCpus ''system'' (atomic_to_main 2), SwitchCpus ''drive_sys'' (atomic_to_main 1)]"
  from tm_workflow_evaluation [OF assms(1), of env outdir e] assms(2)
  have tr: "trace st = tm_evaluation_preamble outdir (tm_base (tm_workflow_args (sim_function_args fn))) @
      inv_logs begin_marks end_marks 0 10 @ ready_inv_log begin_marks (?sw @ [StatsReset]) end_marks 10 @
      inv_logs begin_marks end_marks 11 9 @ measured_log @ [prGreen ''Simulation done.'']"
    by (elim exE conjE) simp
  show ?thesis unfolding tr
    by (rule evaluation_stats) (rule preamble_no_stats, simp_all add: no_stats_def prGreen_def)
qed

subsection \<open>The component-library scripts\<close>

lemma scripts_by_mode:
  assumes "function_word fn" and "plain_arg vmlinux" and "plain_arg img"
    and "script = vswarm_script dflt \<or> script = vswarm_arm_script dflt"
  shows "\<exists>m5cmd board. m5cmd \<in> {m5_x86, m5_arm} \<and>
    (\<forall>mode es. mode \<in> {''setup'', ''evaluation''} \<longrightarrow> script (vswarm_argv mode fn vmlinux img w n) es =
      Inr (board mode, sim_loop (vs_step dflt (usage_args mode fn vmlinux img w n)) es (vs_init (usage_args mode fn vmlinux img w n)))) \<and>
    (\<forall>mode. readfile_contents (board mode) = vswarm_writeRunScript m5cmd fn (int n) (int w)) \<and>
    (\<forall>mode. cpu_type (board mode) = (if mode = ''setup'' then ''KVM'' else ''TIMING'')) \<and>
    (\<forall>mode. restore_from (board mode) = (if mode = ''evaluation'' then Some (''checkpoints//'' @ fn) else None))"
proof -
  let ?u = "\<lambda>mode. usage_args mode fn vmlinux img w n"
  have u: "arg_mode (?u mode) = mode" "arg_function (?u mode) = fn" "num_invocations (?u mode) = int n"
    "atomic_warming (?u mode) = int w" "vs_checkpoint (?u mode) = ''checkpoints//'' @ fn" for mode
    by (simp_all add: usage_args_def vs_checkpoint_def vswarm_defaults_def)
  note r = vswarm_scripts_run [OF _ assms(1-3) refl]
  from assms(4) show ?thesis
  proof
    assume s: "script = vswarm_script dflt"
    show ?thesis
      by (intro exI [of _ m5_x86] exI [of _ "\<lambda>mode. x86_board (?u mode)"]) (simp add: s r x86_board_def u)
  next
    assume s: "script = vswarm_arm_script dflt"
    show ?thesis
      by (intro exI [of _ m5_arm] exI [of _ "\<lambda>mode. vswarm_simple_arm_board (?u mode)"])
        (simp add: s r vswarm_simple_arm_board_def vswarm_arm_writeRunScript_def arm_board_def u)
  qed
qed

text \<open>An evaluation over what the guest sends after the checkpoint.\<close>

lemma evaluation_short:
  assumes "arg_mode a = ''evaluation''" and "num_invocations a = int n" and "plain_word fn"
    and "m5cmd \<in> {m5_x86, m5_arm}" and "0 < w" and "0 < n"
  shows "\<exists>s rest. sim_loop (vs_step dflt a) (after_checkpoint (shell_events (vswarm_writeRunScript m5cmd fn (int n) (int w))))
      (vs_init a) = (s, Break, rest) \<and>
    vs_trace s = (if n = 1 then [Print ''Begin Invocation  1''] else vs_inv_logs 1 (n - 1))"
proof -
  let ?x = "[exit_instr, exit_instr, exit_instr]"
  have ne: "exit_instr \<noteq> fail_event 32" "fail_event 20 \<noteq> fail_event 32" "fail_event 31 \<noteq> fail_event 32"
    by (simp_all add: exit_instr_def fail_event_def)
  have ev: "after_checkpoint (shell_events (vswarm_writeRunScript m5cmd fn (int n) (int w))) = invocations 0 n @ ?x"
    unfolding vswarm_script_shell [OF assms(3,4)] using assms(5) ne
    by (simp add: after_checkpoint_def client_events_def)
  show ?thesis
  proof (cases "n = 1")
    case True
    have i: "invocations 0 n @ ?x = workbegin 100 # workend 100 # ?x"
      by (simp add: True invocations_def invocation_def)
    show ?thesis unfolding ev i using conjunct2 [OF vs_evaluation_run [OF assms(1)]] assms(2) True by fastforce
  next
    case False
    then obtain m where n: "n = m + 2" using assms(6) by (cases n; cases "n - 1") auto
    have i: "invocations 0 n @ ?x = invocations 0 (Suc m) @ invocations (Suc m) 1 @ ?x"
      using invocations_add [of 0 "Suc m" 1] by (simp add: n)
    show ?thesis unfolding ev i using conjunct1 [OF vs_evaluation_run [OF assms(1), of m]] assms(2) n by fastforce
  qed
qed

text \<open>A concrete results directory, with one function and the log of its run behind a banner line.\<close>

definition run_log :: "('s \<times> sim_state \<times> outcome \<times> exit_event list) result \<Rightarrow> string list" where
  "run_log r = ''command line: gem5'' # printed (trace (fst (snd (projr r))))"

definition demo_results :: "string list \<Rightarrow> file_tree" where
  "demo_results ls = \<lparr>ft_listdir = (\<lambda>d. Inr [''aes-go'']), ft_isdir = (\<lambda>p. True), ft_lines = (\<lambda>p. Some ls)\<rparr>"

lemma run_log_gem5: "r = Inr (sys, st, oc, rest) \<Longrightarrow> gem5_log ''gem5'' (trace st) (run_log r)"
  unfolding gem5_log_def run_log_def
  by (intro exI [of _ "[''command line: gem5'']"] exI [of _ "[]"] exI [of _ "printed (trace st)"])
    (simp add: command_of_def List.map_filter_simps py_strip_def py_space_def is_done_def is_end_def)

lemma aes_word: "function_word ''aes-go''"
  by (simp add: function_word_def plain_word_def shell_special_def)

lemma demo_results_tree: "results_tree (demo_results ls) ''results/'' [''aes-go''] (\<lambda>fn. ls)"
  by (simp add: results_tree_def demo_results_def aes_word)

subsection \<open>Properties\<close>

text \<open>
  C5. Two machines: after \<open>sim_all_functions.sh\<close> has evaluated every function of the list on the
  two-machine script, \<open>check_simulations.py\<close> reports each of them, in sorted order, with its 10
  warming and 10 measured invocations as succeeded, and the script it writes re-runs nothing.
  The log of a function is what its run printed, with lines of gem5 before and in between that
  the checker does not react to.
\<close>

theorem two_machine_results_succeed:
  assumes "results_tree ft dir fns logs"
    and "\<And>fn. fn \<in> set fns \<Longrightarrow> CHR 0x0A \<notin> set (cmd fn)"
    and "\<And>fn root st oc rest. fn \<in> set fns \<Longrightarrow>
      two_machine_script env (outdir fn) (sim_function_argv fn) (e # after_checkpoint (shell_events (drive_text fn))) =
        Inr (root, st, oc, rest) \<Longrightarrow> gem5_log (cmd fn) (trace st) (logs fn)"
  shows "\<exists>txt. check_script ft [dir] =
      Inr (map (\<lambda>fn. verdict_line fn 20 (colour ''92'' ''succeed'')) (py_sorted fns) @ [WriteFile ''rerun.sh'' txt]) \<and>
    active_lines txt = []"
proof -
  have scan: "scan_log (logs fn) scan_init = \<lparr>scan_cmd = cmd fn, scan_success = True, scan_count = 20\<rparr>"
    if fn: "fn \<in> set fns" for fn
  proof -
    have w: "function_word fn" using assms(1) fn by (simp add: results_tree_def list_all_iff)
    from tm_workflow_evaluation [OF w, of env "outdir fn" e] obtain root st rest where
      r: "two_machine_script env (outdir fn) (sim_function_argv fn)
        (e # after_checkpoint (shell_events (drive_text fn))) = Inr (root, st, Break, rest)"
      by (elim exE conjE) (rule that)
    show ?thesis by (rule two_machine_log_scanned [OF w r assms(3) [OF fn r]])
  qed
  from results_report [OF assms(1) scan assms(2)] show ?thesis by (simp add: status_text_def)
qed

theorem two_machine_results_succeed_witness:
  "\<exists>txt. check_script (demo_results (run_log (two_machine_script ref_env ''results/aes-go/'' (sim_function_argv ''aes-go'')
       (exit_instr # after_checkpoint (shell_events (drive_text ''aes-go'')))))) [''results/''] =
     Inr [verdict_line ''aes-go'' 20 (colour ''92'' ''succeed''), WriteFile ''rerun.sh'' txt] \<and> active_lines txt = []"
proof -
  let ?run = "\<lambda>fn. two_machine_script ref_env ''results/aes-go/'' (sim_function_argv fn)
       (exit_instr # after_checkpoint (shell_events (drive_text fn)))"
  have "\<exists>txt. check_script (demo_results (run_log (?run ''aes-go''))) [''results/''] =
      Inr (map (\<lambda>fn. verdict_line fn 20 (colour ''92'' ''succeed'')) (py_sorted [''aes-go'']) @ [WriteFile ''rerun.sh'' txt]) \<and>
    active_lines txt = []"
  proof (rule two_machine_results_succeed [OF demo_results_tree, where cmd = "\<lambda>fn. ''gem5''"])
    show "CHR 0x0A \<notin> set ''gem5''" by simp
    show "gem5_log ''gem5'' (trace st) (run_log (?run ''aes-go''))"
      if "fn \<in> set [''aes-go'']" "?run fn = Inr (root, st, oc, rest)" for fn root st oc rest
    proof -
      have "fn = ''aes-go''" using that(1) by simp
      from that(2) [unfolded this] show ?thesis by (rule run_log_gem5)
    qed
  qed
  then show ?thesis by (simp only: sort_key_simps list.map append.simps insort_key.simps)
qed

text \<open>
  C6. One machine: after the same script has evaluated every function on the single-machine
  script, each evaluation having measured its 10 invocations, \<open>check_simulations.py\<close> counts all
  20 invocations of every function but reports each as failed, and the script it writes runs
  every simulation again.
\<close>

theorem single_machine_results_rerun:
  assumes "results_tree ft dir fns logs"
    and "\<And>fn. fn \<in> set fns \<Longrightarrow> CHR 0x0A \<notin> set (cmd fn)"
    and "\<And>fn sys st oc rest. fn \<in> set fns \<Longrightarrow>
      run_sim_script env (outdir fn) (sim_function_argv fn) (e # after_checkpoint (shell_events (run_text fn))) =
        Inr (sys, st, oc, rest) \<Longrightarrow> gem5_log (cmd fn) (trace st) (logs fn)"
  shows "\<exists>txt. check_script ft [dir] =
      Inr (map (\<lambda>fn. verdict_line fn 20 (colour ''91'' ''fail'')) (py_sorted fns) @ [WriteFile ''rerun.sh'' txt]) \<and>
    active_lines txt = map (\<lambda>fn. '' sudo '' @ rerun_cmd dir fn (cmd fn) @ '' '') (py_sorted fns)"
proof -
  have scan: "scan_log (logs fn) scan_init = \<lparr>scan_cmd = cmd fn, scan_success = False, scan_count = 20\<rparr>"
    if fn: "fn \<in> set fns" for fn
  proof -
    have w: "function_word fn" using assms(1) fn by (simp add: results_tree_def list_all_iff)
    from workflow_evaluation [OF w, of env "outdir fn" e] obtain sys st rest where
      r: "run_sim_script env (outdir fn) (sim_function_argv fn)
        (e # after_checkpoint (shell_events (run_text fn))) = Inr (sys, st, Break, rest)"
      by (elim exE conjE) (rule that)
    show ?thesis by (rule single_log_scanned [OF w r assms(3) [OF fn r]])
  qed
  from results_report [OF assms(1) scan assms(2)] show ?thesis by (simp add: status_text_def)
qed

theorem single_machine_results_rerun_witness:
  "\<exists>txt. check_script (demo_results (run_log (run_sim_script ref_env ''results/aes-go/'' (sim_function_argv ''aes-go'')
       (exit_instr # after_checkpoint (shell_events (run_text ''aes-go'')))))) [''results/''] =
     Inr [verdict_line ''aes-go'' 20 (colour ''91'' ''fail''), WriteFile ''rerun.sh'' txt] \<and>
   active_lines txt = ['' sudo '' @ rerun_cmd ''results/'' ''aes-go'' ''gem5'' @ '' '']"
proof -
  let ?run = "\<lambda>fn. run_sim_script ref_env ''results/aes-go/'' (sim_function_argv fn)
       (exit_instr # after_checkpoint (shell_events (run_text fn)))"
  have "\<exists>txt. check_script (demo_results (run_log (?run ''aes-go''))) [''results/''] =
      Inr (map (\<lambda>fn. verdict_line fn 20 (colour ''91'' ''fail'')) (py_sorted [''aes-go'']) @ [WriteFile ''rerun.sh'' txt]) \<and>
    active_lines txt = map (\<lambda>fn. '' sudo '' @ rerun_cmd ''results/'' fn ''gem5'' @ '' '') (py_sorted [''aes-go''])"
  proof (rule single_machine_results_rerun [OF demo_results_tree, where cmd = "\<lambda>fn. ''gem5''"])
    show "CHR 0x0A \<notin> set ''gem5''" by simp
    show "gem5_log ''gem5'' (trace st) (run_log (?run ''aes-go''))"
      if "fn \<in> set [''aes-go'']" "?run fn = Inr (sys, st, oc, rest)" for fn sys st oc rest
    proof -
      have "fn = ''aes-go''" using that(1) by simp
      from that(2) [unfolded this] show ?thesis by (rule run_log_gem5)
    qed
  qed
  then show ?thesis by (simp only: sort_key_simps list.map append.simps insort_key.simps)
qed



text \<open>
  C7. The documented workflow of the component-library scripts, x86 and ARM: the usage command line
  with \<open>--mode setup\<close> and warming boots on the KVM core, stops by itself and takes the checkpoint
  \<open>checkpoints//function\<close>; with \<open>--mode evaluation\<close> the same command line restores this checkpoint on
  the timing core and stops by itself, but after \<open>n - 1\<close> of the \<open>n\<close> requested invocations, since the
  counter starts at 1 and is compared after it was incremented; for one invocation it stops when the
  first begins. Whatever gem5's own reactions are.
\<close>

theorem vswarm_workflow:
  assumes "function_word fn" and "plain_arg vmlinux" and "plain_arg img" and "0 < w" and "0 < n"
    and "script = vswarm_script dflt \<or> script = vswarm_arm_script dflt"
  shows "(\<exists>board s. script (vswarm_argv ''setup'' fn vmlinux img w n) (shell_events (readfile_contents board)) =
        Inr (board, s, Break, []) \<and>
      cpu_type board = ''KVM'' \<and> checkpoints_of (vs_trace s) = [''checkpoints//'' @ fn]) \<and>
    (\<exists>board s rest. script (vswarm_argv ''evaluation'' fn vmlinux img w n)
          (after_checkpoint (shell_events (readfile_contents board))) = Inr (board, s, Break, rest) \<and>
      cpu_type board = ''TIMING'' \<and> restore_from board = Some (''checkpoints//'' @ fn) \<and>
      vs_trace s = (if n = 1 then [Print ''Begin Invocation  1''] else vs_inv_logs 1 (n - 1)))"
proof (intro conjI)
  obtain m5cmd board where m: "m5cmd \<in> {m5_x86, m5_arm}"
    and r: "\<forall>mode es. mode \<in> {''setup'', ''evaluation''} \<longrightarrow> script (vswarm_argv mode fn vmlinux img w n) es =
      Inr (board mode, sim_loop (vs_step dflt (usage_args mode fn vmlinux img w n)) es (vs_init (usage_args mode fn vmlinux img w n)))"
    and b: "\<forall>mode. readfile_contents (board mode) = vswarm_writeRunScript m5cmd fn (int n) (int w)"
      "\<forall>mode. cpu_type (board mode) = (if mode = ''setup'' then ''KVM'' else ''TIMING'')"
      "\<forall>mode. restore_from (board mode) = (if mode = ''evaluation'' then Some (''checkpoints//'' @ fn) else None)"
    using scripts_by_mode [OF assms(1-3,6), where w = w and n = n] by (elim exE conjE) (rule that)
  have pw: "plain_word fn" using assms(1) by (simp add: function_word_def)
  have u: "arg_mode (usage_args md fn vmlinux img w n) = md" "arg_function (usage_args md fn vmlinux img w n) = fn"
    "num_invocations (usage_args md fn vmlinux img w n) = int n" "atomic_warming (usage_args md fn vmlinux img w n) = int w"
    "vs_checkpoint (usage_args md fn vmlinux img w n) = ''checkpoints//'' @ fn" for md
    by (simp_all add: usage_args_def vs_checkpoint_def vswarm_defaults_def)
  from vs_setup_run [of "usage_args ''setup'' fn vmlinux img w n" m5cmd dflt] pw m assms(4)
  obtain s where s: "sim_loop (vs_step dflt (usage_args ''setup'' fn vmlinux img w n))
      (shell_events (vswarm_writeRunScript m5cmd fn (int n) (int w))) (vs_init (usage_args ''setup'' fn vmlinux img w n)) = (s, Break, [])"
    "checkpoints_of (vs_trace s) = [''checkpoints//'' @ fn]" unfolding u by auto
  show "\<exists>board s. script (vswarm_argv ''setup'' fn vmlinux img w n) (shell_events (readfile_contents board)) =
        Inr (board, s, Break, []) \<and>
      cpu_type board = ''KVM'' \<and> checkpoints_of (vs_trace s) = [''checkpoints//'' @ fn]"
    using r b s by (intro exI [of _ "board ''setup''"] exI [of _ s]) simp
  from evaluation_short [of "usage_args ''evaluation'' fn vmlinux img w n", OF u(1) u(3) pw m assms(4,5), of dflt]
  obtain s rest where s: "sim_loop (vs_step dflt (usage_args ''evaluation'' fn vmlinux img w n))
      (after_checkpoint (shell_events (vswarm_writeRunScript m5cmd fn (int n) (int w))))
      (vs_init (usage_args ''evaluation'' fn vmlinux img w n)) = (s, Break, rest)"
    "vs_trace s = (if n = 1 then [Print ''Begin Invocation  1''] else vs_inv_logs 1 (n - 1))"
    by blast
  show "\<exists>board s rest. script (vswarm_argv ''evaluation'' fn vmlinux img w n)
          (after_checkpoint (shell_events (readfile_contents board))) = Inr (board, s, Break, rest) \<and>
      cpu_type board = ''TIMING'' \<and> restore_from board = Some (''checkpoints//'' @ fn) \<and>
      vs_trace s = (if n = 1 then [Print ''Begin Invocation  1''] else vs_inv_logs 1 (n - 1))"
    using r b s by (intro exI [of _ "board ''evaluation''"] exI [of _ s] exI [of _ rest]) simp
qed

theorem vswarm_workflow_witness:
  "\<exists>board s rest. vswarm_script (\<lambda>_. True) (vswarm_argv ''evaluation'' ''aes-go'' ''kernel'' ''disk.img'' 50 20)
      (after_checkpoint (shell_events (readfile_contents board))) = Inr (board, s, Break, rest) \<and>
    vs_trace s = vs_inv_logs 1 19"
proof -
  have "plain_arg ''kernel''" "plain_arg ''disk.img''" by (simp_all add: plain_arg_def)
  note wf = vswarm_workflow [OF aes_word this, of 50 20 "vswarm_script (\<lambda>_. True)" "\<lambda>_. True"]
  have "(0::nat) < 50" "(0::nat) < 20" by simp_all
  from wf [OF this disjI1 [OF refl], THEN conjunct2] show ?thesis
    by (elim exE conjE) (intro exI conjI, assumption, simp)
qed

text \<open>
  C35. Setup run of \<open>run_sim.arm.py\<close> from its usage command line: it takes the checkpoint if warming
  was asked for, but its exit handler yields false every time, so after all six \<open>m5 exit\<close> of the
  script it is still waiting for events, as long as gem5's default for work items does not stop it.
\<close>

theorem arm_setup_never_stops:
  assumes "function_word fn" and "plain_arg vmlinux" and "plain_arg img"
    and "\<And>e. getCause e = ''workbegin'' \<or> getCause e = ''workend'' \<Longrightarrow> \<not> dflt e"
  shows "\<exists>board s. run_sim_arm_script dflt (vswarm_argv ''setup'' fn vmlinux img w n)
        (shell_events (readfile_contents board)) = Inr (board, s, Continue, []) \<and>
    checkpoints_of (vs_trace s) = (if 0 < w then [''checkpoints//'' @ fn] else [])"
proof -
  let ?a = "usage_args ''setup'' fn vmlinux img w n"
  have u: "arg_mode ?a = ''setup''" "arg_function ?a = fn" "num_invocations ?a = int n" "atomic_warming ?a = int w"
    "vs_checkpoint ?a = ''checkpoints//'' @ fn"
    by (simp_all add: usage_args_def vs_checkpoint_def vswarm_defaults_def)
  have pw: "plain_word fn" using assms(1) by (simp add: function_word_def)
  obtain s where s: "sim_loop (arm_step dflt ?a) (shell_events (vswarm_writeRunScript m5_arm fn (int n) (int w)))
      (vs_init ?a) = (s, Continue, [])"
    "checkpoints_of (vs_trace s) = (if 0 < w then [''checkpoints//'' @ fn] else [])"
    using arm_setup_run [of ?a dflt] pw assms(4) unfolding u by auto
  have b: "readfile_contents (run_sim_arm_board ?a) = vswarm_writeRunScript m5_arm fn (int n) (int w)"
    by (simp add: run_sim_arm_board_def run_sim_arm_writeRunScript_def arm_board_def u)
  show ?thesis
    using vswarm_scripts_run(3) [OF _ assms(1-3) refl, of "''setup''" dflt w n] s b
    by (intro exI [of _ "run_sim_arm_board ?a"] exI [of _ s]) simp
qed

theorem arm_setup_never_stops_witness:
  "\<exists>board s. run_sim_arm_script (\<lambda>_. False) (vswarm_argv ''setup'' ''aes-go'' ''kernel'' ''disk.img'' 50 20)
      (shell_events (readfile_contents board)) = Inr (board, s, Continue, []) \<and>
    checkpoints_of (vs_trace s) = [''checkpoints//aes-go'']"
proof -
  have p: "plain_arg ''kernel''" "plain_arg ''disk.img''" by (simp_all add: plain_arg_def)
  have "\<exists>board s. run_sim_arm_script (\<lambda>_. False) (vswarm_argv ''setup'' ''aes-go'' ''kernel'' ''disk.img'' 50 20)
      (shell_events (readfile_contents board)) = Inr (board, s, Continue, []) \<and>
    checkpoints_of (vs_trace s) = (if (0::nat) < 50 then [''checkpoints//'' @ ''aes-go''] else [])"
    by (rule arm_setup_never_stops [OF aes_word p]) simp
  then show ?thesis by (elim exE conjE) (intro exI conjI, assumption, simp)
qed

end
