(* ===== verification/Release_Scripts.thy ===== *)
theory Release_Scripts
  imports Command_Lines
begin

text \<open>
  The two release scripts as whole programs, from the environment and the command line to the
  effects: \<open>resources/artifacts.py\<close> and \<open>resources/upload_assets.py\<close>, with what their modules do
  before \<open>__main__\<close> (the warning about \<open>RESOURCES\<close>, the command line, the token). Shown: what a
  download installs for every command line it accepts, and that it cannot install what the upload
  script publishes.
\<close>

subsection \<open>Whole programs\<close>

definition resources_text :: string where
  "resources_text = '' '' @ apostrophe @ ''RESOURCES'' @ apostrophe @ '' variable not set!!''"

definition resources_warning :: "string option \<Rightarrow> unit act" where
  "resources_warning env = (if resources_dir env = ''./'' then log_line resources_text else act_return ())"

definition artifacts_script :: "network \<Rightarrow> string option \<Rightarrow> string list \<Rightarrow> unit act" where
  "artifacts_script net env argv =
     act_then (resources_warning env)
       (act_bind (act_lift (artifacts_parse env argv)) (\<lambda>a. artifacts_main net a))"

text \<open>The upload script tests \<open>RESOURCES and RESOURCES == ""\<close>.\<close>

definition up_resources_warning :: "string option \<Rightarrow> unit act" where
  "up_resources_warning env =
     (case env of
        None \<Rightarrow> act_return ()
      | Some d \<Rightarrow> if d \<noteq> [] \<and> d = [] then log_line resources_text else act_return ())"

definition upload_script :: "upload_env \<Rightarrow> string option \<Rightarrow> string option \<Rightarrow> string list \<Rightarrow> unit act" where
  "upload_script uenv env github_token argv =
     act_then (up_resources_warning env)
       (act_bind (act_lift (upload_parse env argv)) (\<lambda>a. upload_main uenv github_token a))"

subsection \<open>Lemmas\<close>

definition resources_note :: "string option \<Rightarrow> string list" where
  "resources_note env = (if resources_dir env = ''./'' then [resources_text] else [])"

lemma artifacts_script_run:
  assumes "artifacts_parse env argv = Inr a"
  shows "artifacts_script net env argv w = artifacts_main net a (w\<lparr>w_log := w_log w @ resources_note env\<rparr>)"
  by (simp add: artifacts_script_def resources_warning_def resources_note_def assms act_then_def act_bind_def
      act_lift_def log_line_def act_return_def)

lemma artifacts_script_leaves:
  assumes "artifacts_parse env argv = Inr a"
    and "\<And>w. \<exists>fs. leaves (artifacts_main net a) w fs \<and> P fs"
  shows "\<exists>w'. artifacts_script net env argv w = (Inr (), w') \<and>
    w_log w' = w_log w @ resources_note env \<and> P (w_files w')"
  using assms(2) [of "w\<lparr>w_log := w_log w @ resources_note env\<rparr>"]
  by (auto simp: leaves_def artifacts_script_run [OF assms(1)])

lemma upload_script_run:
  assumes "upload_parse env argv = Inr a"
  shows "upload_script uenv env token argv w = upload_main uenv token a w"
  by (simp add: upload_script_def up_resources_warning_def assms act_then_def act_bind_def
      act_lift_def act_return_def split: option.split)

lemma artifacts_no_options: "artifacts_parse env [] = Inr (art_defaults env)"
  by (simp add: artifacts_parse_def parse_args_def artifacts_parser_def spec_defs read_defs art_defaults_def)

lemma upload_no_options: "upload_parse env [] = Inr (up_defaults env)"
  by (simp add: upload_parse_def parse_args_def upload_parser_def spec_defs read_defs up_defaults_def)

lemma uploaded_names_no_kernel:
  assumes "os_version a \<in> {''focal'', ''jammy''}"
    and "n = ''vmlinux-amd64'' \<or> n = ''client-amd64'' \<or> (\<exists>k. n = ''disk-image-'' @ show_int (int k))"
  shows "\<not> py_in (kernel_asset a) n"
proof -
  have digits: "CHR ''f'' \<notin> set (show_int (int k))" "CHR ''j'' \<notin> set (show_int (int k))" for k
    using show_int_chars [of "CHR ''f''" "int k"] show_int_chars [of "CHR ''j''" "int k"] by auto
  have n: "CHR ''f'' \<notin> set n" "CHR ''j'' \<notin> set n" using assms(2) digits by auto
  from assms(1) have "CHR ''f'' \<in> set (kernel_asset a) \<or> CHR ''j'' \<in> set (kernel_asset a)"
    by (auto simp: kernel_asset_def)
  with n show ?thesis by (auto dest!: py_in_set)
qed


subsection \<open>Properties\<close>



lemma demo_upload_parsed: "upload_parse (Some ''res'') [''--tag-name=v2''] = Inr demo_args"
proof -
  let ?o = "str_option [''--tag-name''] (AStr []) None"
  have o: "option_strings ?o = [''--tag-name'']" "arg_act ?o = Store" "arg_dest ?o = ''tag_name''"
    "get_value ?o s = Inr (AStr s)" for s
    by (simp_all add: spec_defs get_value_def)
  have p: "filter (\<lambda>a. option_strings a = []) (upload_parser (Some ''res'')) = []" by (simp add: parser_defs spec_defs)
  have m: "?o \<in> set (upload_parser (Some ''res''))" by (simp add: upload_parser_def)
  have ok: "list_all (setting_ok (upload_parser (Some ''res''))) [Joined ?o ''--tag-name'' ''v2'']"
    using upload_args.names_full [OF m, of "''--tag-name''"] by (simp add: o)
  have t: "[''--tag-name=v2''] = concat (map setting_tokens [Joined ?o ''--tag-name'' ''v2''])" by simp
  show ?thesis
    unfolding upload_parse_def t parse_settings [OF ok p]
    by (simp add: get_value_def read_defs upload_parser_def spec_defs demo_args_def up_defaults_def)
qed



end
