(* ===== verification/Plotting.thy ===== *)
theory Plotting
  imports Vswarm_Prelude
begin

text \<open>
  The function \<open>generate_plot\<close> of \<open>analysis/gem5_utils.py\<close> as the sequence of its calls into
  seaborn and matplotlib, each with its arguments as they are written. Reading the table and
  drawing the bars depend on data and may raise; they are the parameters \<open>read_csv\<close> and \<open>barplot\<close>.
\<close>

subsection \<open>Calls\<close>

datatype plot_call =
    Library string "(string \<times> string) list"
  | Barplot string string "string option" string
  | Label string string
  | Savefig string bool

definition has_hue :: "string option \<Rightarrow> bool" where
  "has_hue hue \<longleftrightarrow> (case hue of None \<Rightarrow> False | Some h \<Rightarrow> h \<noteq> [])"

definition plot_style :: "plot_call list" where
  "plot_style =
     [Library ''sns.set'' [(''font_scale'', ''1.5'')],
      Library ''sns.set_style'' [(''style'', ''white''), (''legend.frameon'', ''True'')]]"

text \<open>The two branches that save the figure; with a legend it is passed to \<open>savefig\<close>.\<close>

definition plot_save :: "string option \<Rightarrow> string \<Rightarrow> plot_call list" where
  "plot_save hue plot_file_name =
     (if has_hue hue
      then [Library ''ax.legend'' [(''bbox_to_anchor'', ''(1.05, 1)''), (''loc'', ''upper left''), (''borderaxespad'', ''0.'')],
            Label ''legend'' [], Savefig plot_file_name True, Savefig (plot_file_name @ ''.jpg'') True]
      else [Library ''fig.tight_layout'' [], Savefig plot_file_name False, Savefig (plot_file_name @ ''.jpg'') False])"

definition generate_plot :: "(string \<Rightarrow> 'df result) \<Rightarrow> ('df \<Rightarrow> string \<Rightarrow> string \<Rightarrow> string option \<Rightarrow> unit result)
    \<Rightarrow> string \<Rightarrow> string \<Rightarrow> string \<Rightarrow> string \<Rightarrow> string option \<Rightarrow> string \<Rightarrow> int \<Rightarrow> plot_call list \<times> unit result" where
  "generate_plot read_csv barplot csv_file_name plot_file_name x y hue y_title xticklabels_rotation =
     (case read_csv csv_file_name of
        Inl e \<Rightarrow> (plot_style, Inl e)
      | Inr df \<Rightarrow>
          (case barplot df x y hue of
             Inl e \<Rightarrow> (plot_style @ [Barplot x y hue ''Paired''], Inl e)
           | Inr ax \<Rightarrow>
               (plot_style @ [Barplot x y hue ''Paired'', Label ''x'' [], Label ''y'' y_title,
                  Library ''ax.set_xticklabels'' [(''rotation'', show_int xticklabels_rotation)]] @
                plot_save hue plot_file_name @
                [Library ''plt.clf'' [], Library ''plt.close'' [(''all'', [])]], Inr ())))"

subsection \<open>Lemmas\<close>

fun saved :: "plot_call list \<Rightarrow> string list" where
  "saved [] = []"
| "saved (Savefig f legend # cs) = f # saved cs"
| "saved (c # cs) = saved cs"

lemma saved_append [simp]: "saved (xs @ ys) = saved xs @ saved ys"
  by (induction xs rule: saved.induct) auto

text \<open>
  A plot is saved twice, under the given name and with \<open>.jpg\<close> appended, and the figure is closed;
  with a legend in the picture exactly if there is a hue. When the table cannot be read or drawn,
  nothing is saved, but the figure is not closed either.
\<close>

theorem generate_plot_saves:
  "case generate_plot read_csv barplot csv f x y hue t r of (calls, res) \<Rightarrow>
     saved calls = (case res of Inl e \<Rightarrow> [] | Inr u \<Rightarrow> [f, f @ ''.jpg'']) \<and>
     (Savefig f True \<in> set calls \<longleftrightarrow> \<not> isl res \<and> has_hue hue) \<and>
     (Library ''plt.clf'' [] \<in> set calls \<longleftrightarrow> \<not> isl res)"
  by (auto simp: generate_plot_def plot_style_def plot_save_def split: sum.split)

end
