(* ===== verification/Spec2Isabelle.thy ===== *)
theory Spec2Isabelle
  imports Skylake_Core Workflow Release_Scripts Plotting
begin

text \<open>
  vSwarm-u runs serverless functions in the gem5 simulator. Python configuration scripts
  build a simulated machine, hand a generated bash script to the guest and react to the
  exit events of the simulation; further scripts check and evaluate the results and
  publish or download kernel, disk image and client. This development models the Python
  code under \<open>src/\<close> and proves what makes it correct, or where it is not.

  \<^bold>\<open>Parts and theories.\<close> Names of definitions are the names of the source where possible.

  \<^item> \<open>Vswarm_Prelude\<close>: Python strings, indexing, exceptions (\<open>py_error\<close>, \<open>'a result\<close>) and
    truth values.
  \<^item> \<open>M5_Objects\<close>, \<open>X86_Fs\<close>, \<open>Caches\<close>, \<open>Systems\<close>: \<open>gem5utils/systems/{simple,skylake,drive}\<close>.
    A system is one record; a port assignment is an entry of its list of bindings. \<open>X86_Fs\<close>
    has \<open>initFS\<close> (E820 map, MP and ACPI tables), \<open>Caches\<close> the cache classes, \<open>Systems\<close> the
    constructors and methods of the system classes. Shown: memory map order and contents,
    interrupt routing, cache geometry, complete wiring of every CPU to memory (through the
    locale \<open>cpu_wiring\<close>, interpreted on each wiring method), memory modes, interleaving.
  \<^item> \<open>Skylake_Core\<close>: \<open>skylake/core.py\<close>, the out-of-order core, its ports and predictors.
  \<^item> \<open>M5_Sim\<close>: exit events, effects and the loop all simulation scripts share; the locale
    \<open>work_handler\<close> is the contract of a work-item handler, with the counting theorems.
  \<^item> \<open>Run_Scripts\<close>: the generated bash scripts, character by character, and the events the
    guest produces when it executes them.
  \<^item> \<open>Run_Sim\<close>, \<open>Two_Machine\<close>: \<open>run_sim.tmpl.py\<close> and \<open>run_sim_two_machine.tmpl.py\<close>. The state
    is the record of the module globals with a trace of effects. Shown: the exact trace of
    setup and evaluation runs driven by the generated scripts, for two machines under
    every interleaving of the guests; CPU switches are always legal; the loop ends.
  \<^item> \<open>Vswarm_Simple\<close>: \<open>vswarm_simple.tmpl.py\<close>, \<open>vswarm_simple_arm.tmpl.py\<close>, \<open>run_sim.arm.tmpl.py\<close>;
    the Python generators are state machines.
  \<^item> \<open>Run_Sim_Test\<close>: \<open>test/run_sim_test.py\<close>.
  \<^item> \<open>Check_Sims\<close>: \<open>analysis/check_simulations.py\<close>, and what it says about the logs of the
    simulation scripts above.
  \<^item> \<open>Gem5_Utils\<close>: \<open>analysis/gem5_utils.py\<close>. Shown: splitting into dumps, freshness of the
    cache over all histories of writes and lookups (rule induction), the collection of a
    directory, the CSV round trip and what is left of the file when a field raises.
  \<^item> \<open>Plotting\<close>: \<open>generate_plot\<close> of the same file, as the sequence of its library calls.
  \<^item> \<open>Analysis_Notebook\<close>: the code cells of \<open>analysis/analyze_results.ipynb\<close>. Shown: the table it
    saves, row by row, and where it stops with an error.
  \<^item> \<open>Release_Data\<close>, \<open>Artifacts\<close>, \<open>Upload_Assets\<close>: \<open>resources/artifacts.py\<close> and
    \<open>resources/upload_assets.py\<close> as actions on a working directory that may raise. The locale
    \<open>release_search\<close> is the contract of their search loops and is interpreted on both. The
    loops that wait for child processes (\<open>wait_loop\<close>) end at the first poll that finds one ended.
  \<^item> \<open>Argparse\<close>, \<open>Command_Lines\<close>: the part of Python's \<open>argparse\<close> that the scripts use, with the
    locale \<open>arg_parser\<close> for what a well-formed parser guarantees, and the nine parsers of the
    repository, on which it is interpreted. Shown: choices are enforced for every command line,
    so the fatal branches behind them are dead; arguments survive the round trip through a
    command line; and the workflow of \<open>setup_function.sh\<close> and \<open>sim_function.sh\<close>, from
    these command lines to the trace of effects, on one and on two machines.
  \<^item> \<open>Workflow\<close>: the programs one after the other. The evaluations of \<open>sim_all_functions.sh\<close>, their
    logs through \<open>check_simulations.py\<close> (all succeed on two machines, all are run again on one) and
    their statistics through the notebook (the table shows the measured invocations only); the
    setup and evaluation of the component-library scripts from their usage command line.
  \<^item> \<open>Release_Scripts\<close>: \<open>artifacts.py\<close> and \<open>upload_assets.py\<close> as whole programs, from environment and
    command line; what a download installs, and that it cannot install what an upload publishes.
  \<^item> This theory: the release searches of the two scripts agree.

  \<^bold>\<open>Parameters.\<close> gem5, its component library, GitHub, pyparsing, pandas, JSON reading, and the
  external programs are arguments of the definitions, with what is used of them stated as
  hypotheses: the lines gem5 adds to a log and the text of a statistics dump (\<open>Workflow\<close>), the record \<open>m5_env\<close>, the list of exit events, the default reaction of gem5's
  \<open>Simulator\<close>, \<open>file_tree\<close>, the line rule of the statistics parser, \<open>network\<close>, \<open>upload_env\<close>.

  \<^bold>\<open>Bounds.\<close> All functions are total. A loop over exit events consumes a list; a loop that has
  used up its list is still waiting and returns \<open>Continue\<close>, so a statement that a run ends
  says \<open>Break\<close>. A waiting loop on child processes consumes the answers of the polls; a list that
  ends while they run is the point where the user interrupts the script (\<open>KeyboardInterrupt\<close>),
  and a statement that the script returns has the hypothesis that a poll finds one ended. The
  recursion over command-line tokens ends because every round takes at least one. Integers are unbounded, as in Python; \<open>ilog2\<close> is exact
  where the code takes the floor of a floating-point logarithm.

  \<^bold>\<open>Not modelled.\<close> The plot of the notebook (one call into a library), import
  lines, the help texts of the parsers and the messages of usage errors, console output of the
  system constructors, the messages of exceptions that are caught and printed, and what is not
  Python: Makefiles, the remaining shell scripts, the Go client (only the events it produces),
  kernel and disk configuration.
\<close>

subsection \<open>The two release searches\<close>

lemma search_by_tag:
  assumes "tag \<noteq> []"
  shows "search_release releases [] tag is = find_release releases tag is"
proof (rule id_search.search_determined)
  have "(\<lambda>r. release_matches r [] tag) = tag_test tag"
    using assms by (auto simp: release_matches_def tag_test_def)
  then show "release_search (\<lambda>j is. find_release j tag is) (\<lambda>r. release_matches r [] tag)"
    using tag_search.release_search_axioms by simp
qed

subsection \<open>Properties\<close>

text \<open>
  C25. Both release scripts find the same release: given the same answer of the web
  interface and a tag other than \<open>latest\<close>, the search of the upload script without a release
  identifier returns what the search of the download script returns, errors included.
\<close>

theorem release_lookup_agrees:
  assumes "tag \<noteq> []" and "tag \<noteq> ''latest''" and "releases_get env = api_get net releases_api"
  shows "fst (up_get_release env tag [] w) = fst (get_release net tag w')"
proof -
  have *: "search_release releases [] tag is = find_release releases tag is" for releases "is"
    by (rule search_by_tag [OF assms(1)])
  show ?thesis
  proof (cases "api_get net releases_api")
    case (Inr sa)
    obtain st ans where sa: "sa = (st, ans)" by fastforce
    show ?thesis using assms(2,3) Inr sa
      by (cases ans) (auto simp: up_get_release_def get_release_def * split: sum.split option.split)
  qed (use assms(2,3) in \<open>simp add: up_get_release_def get_release_def\<close>)
qed

theorem release_lookup_agrees_witness:
  "fst (up_get_release (demo_env\<lparr>releases_get := api_get (demo_net []) releases_api\<rparr>) ''v2'' [] empty_world) =
     Inr (mk_release ''v2'' [])"
proof -
  have "fst (get_release (demo_net []) ''v2'' empty_world) = Inr (mk_release ''v2'' [])"
    by (simp add: get_release_def demo_net_def py_index_def mk_release_def upt_rec)
  with release_lookup_agrees [of "''v2''" "demo_env\<lparr>releases_get := api_get (demo_net []) releases_api\<rparr>" "demo_net []" empty_world empty_world]
  show ?thesis by simp
qed

end
